(* ===== verification/Prelude.thy ===== *)
theory Prelude
  imports Main "HOL-Library.Word" "HOL-Library.Numeral_Type" "HOL-Library.Finite_Map"
    "HOL-Library.Sublist"
begin

text \<open>
  The shared vocabulary of the development: Rust's machine integers, byte strings and fixed-size
  arrays, the result types every fallible operation returns, the \<open>HashMap\<close> and
  \<open>VecDeque\<close> operations of the standard library that the sources call, and traces of
  labelled steps.  Nothing here is specific to the IPC protocol.
\<close>

unbundle bit_operations_syntax

named_theorems result_simps \<open>computation rules of the result combinators\<close>
named_theorems byte_simps \<open>facts about bytes, strings and fixed-size arrays\<close>

section \<open>Machine integers, bytes and strings\<close>

type_synonym u8 = "8 word"
type_synonym u16 = "16 word"
type_synonym u64 = "64 word"

text \<open>
  A Rust \<open>String\<close> or \<open>&str\<close> is a sequence of UTF-8 bytes.  It is modelled by a HOL
  \<open>string\<close> whose characters are those bytes, so \<open>length\<close> is Rust's \<open>len()\<close> (a byte
  count) and \<open>str_bytes\<close> is \<open>as_bytes()\<close>.
\<close>

definition byte_of_char :: "char \<Rightarrow> u8" where
  "byte_of_char c = of_nat (of_char c)"

definition char_of_byte :: "u8 \<Rightarrow> char" where
  "char_of_byte b = char_of (unat b)"

definition str_bytes :: "string \<Rightarrow> u8 list" where
  "str_bytes s = map byte_of_char s"

definition bytes_str :: "u8 list \<Rightarrow> string" where
  "bytes_str bs = map char_of_byte bs"

lemma char_of_byte_of_char [simp]: "char_of_byte (byte_of_char c) = c"
  by (simp add: char_of_byte_def byte_of_char_def unat_of_nat)

lemma byte_of_char_of_byte [simp]: "byte_of_char (char_of_byte b) = b"
proof -
  have "unat b < 256" using unsigned_less [of b, where ?'a = nat] by simp
  then have "(of_char (char_of (unat b)) :: nat) = unat b" by (simp add: of_char_of)
  then show ?thesis by (simp add: char_of_byte_def byte_of_char_def)
qed

lemma byte_of_char_eq_iff [simp]: "byte_of_char c = byte_of_char d \<longleftrightarrow> c = d"
  by (metis char_of_byte_of_char)

lemma length_str_bytes [simp]: "length (str_bytes s) = length s"
  by (simp add: str_bytes_def)

lemma bytes_str_bytes [simp]: "bytes_str (str_bytes s) = s"
  by (simp add: str_bytes_def bytes_str_def comp_def)

lemma str_bytes_str [simp]: "str_bytes (bytes_str bs) = bs"
  by (simp add: str_bytes_def bytes_str_def comp_def)

lemma length_bytes_str [simp]: "length (bytes_str bs) = length bs"
  by (simp add: bytes_str_def)

lemma str_bytes_eq_iff [simp]: "str_bytes s = str_bytes t \<longleftrightarrow> s = t"
  by (metis bytes_str_bytes)

lemma bytes_str_eq_iff [simp]: "bytes_str a = bytes_str b \<longleftrightarrow> a = b"
  by (metis str_bytes_str)

text \<open>\<open>u16::try_from(n)\<close> on a \<open>usize\<close>, and \<open>u16::to_be_bytes\<close>.\<close>

definition u16_try_from :: "nat \<Rightarrow> u16 option" where
  "u16_try_from n = (if n \<le> 65535 then Some (of_nat n) else None)"

definition u16_to_be_bytes :: "u16 \<Rightarrow> u8 list" where
  "u16_to_be_bytes w = [ucast (drop_bit 8 w), ucast w]"

lemma length_u16_to_be_bytes [simp]: "length (u16_to_be_bytes w) = 2"
  by (simp add: u16_to_be_bytes_def)

lemma u16_to_be_bytes_inj [simp]: "u16_to_be_bytes v = u16_to_be_bytes w \<longleftrightarrow> v = w"
proof
  assume eq: "u16_to_be_bytes v = u16_to_be_bytes w"
  have "bit v n = bit w n" if "n < 16" for n
  proof (cases "n < 8")
    case True
    from eq have "bit (ucast v :: u8) n = bit (ucast w :: u8) n"
      by (simp add: u16_to_be_bytes_def)
    with True show ?thesis by (simp add: bit_simps)
  next
    case False
    from eq have "bit (ucast (drop_bit 8 v) :: u8) (n - 8) = bit (ucast (drop_bit 8 w) :: u8) (n - 8)"
      by (simp add: u16_to_be_bytes_def)
    with False that show ?thesis by (auto simp: bit_simps)
  qed
  then show "v = w" by (intro bit_word_eqI) simp
qed simp

lemma u16_of_nat_eq_iff:
  assumes "m \<le> 65535" and "n \<le> 65535"
  shows "(of_nat m :: u16) = of_nat n \<longleftrightarrow> m = n"
proof
  assume "(of_nat m :: u16) = of_nat n"
  then have "unat (of_nat m :: u16) = unat (of_nat n :: u16)" by simp
  with assms show "m = n" by (simp add: unat_of_nat)
qed simp

lemma u16_to_be_bytes_of_nat:
  assumes "n \<le> 65535"
  shows "u16_to_be_bytes (of_nat n) = [of_nat (n div 256), of_nat n]"
proof -
  have "unat (ucast (drop_bit 8 (of_nat n :: u16)) :: u8) = unat (of_nat (n div 256) :: u8)"
    using assms by (simp add: unsigned_ucast_eq unsigned_drop_bit_eq unsigned_of_nat take_bit_eq_mod)
      (simp add: drop_bit_eq_div)
  moreover have "unat (ucast (of_nat n :: u16) :: u8) = unat (of_nat n :: u8)"
    using assms by (simp add: unsigned_ucast_eq unsigned_of_nat take_bit_eq_mod)
  ultimately show ?thesis by (simp add: u16_to_be_bytes_def word_unat_eq_iff)
qed

lemma u16_be_value:
  assumes "n \<le> 65535"
  shows "256 * unat (of_nat (n div 256) :: u8) + unat (of_nat n :: u8) = n"
  using assms by (simp add: unsigned_of_nat take_bit_eq_mod)

lemma u16_be_value_inverse:
  "u16_to_be_bytes (of_nat (256 * unat (a :: u8) + unat (b :: u8))) = [a, b]"
proof -
  have a: "unat a < 256" and b: "unat b < 256"
    using unsigned_less [of a, where ?'a = nat] unsigned_less [of b, where ?'a = nat] by simp_all
  then have n: "256 * unat a + unat b \<le> 65535" by simp
  have "(256 * unat a + unat b) div 256 = unat a"
    using b by simp
  moreover have "(of_nat (256 * unat a + unat b) :: u8) = b"
    using b by (simp only: word_unat_eq_iff unsigned_of_nat) (simp add: take_bit_eq_mod)
  ultimately show ?thesis
    by (simp only: u16_to_be_bytes_of_nat [OF n]) simp
qed

lemma u16_try_from_eq_Some:
  "u16_try_from n = Some w \<longleftrightarrow> n \<le> 65535 \<and> w = of_nat n"
  by (auto simp: u16_try_from_def)

section \<open>Fixed-size arrays\<close>

text \<open>
  Rust's \<open>[u8; N]\<close> is a type of its own here, indexed by the numeral type: \<open>48 bytes\<close> is
  \<open>[u8; 48]\<close>.  \<open>array_bytes\<close> reads the array as a slice, \<open>try_into_array\<close> is the
  fallible conversion \<open>Vec<u8>.try_into()\<close> and \<open>array_of\<close> the repeat expression
  \<open>[b; N]\<close>.
\<close>

typedef (overloaded) 'n bytes = "{bs :: u8 list. length bs = LENGTH('n :: len)}"
  morphisms array_bytes Array
  by (rule exI [of _ "replicate LENGTH('n) 0"]) simp

lemma length_array_bytes [simp]: "length (array_bytes (a :: ('n :: len) bytes)) = LENGTH('n)"
  using array_bytes [of a] by simp

lemma array_bytes_eq_iff [simp]: "array_bytes a = array_bytes b \<longleftrightarrow> a = b"
  by (rule array_bytes_inject)

lemma array_abs [code abstype]: "Array (array_bytes a) = a"
  by (rule array_bytes_inverse)

definition array_of :: "u8 \<Rightarrow> ('n :: len) bytes" where
  "array_of b = Array (replicate LENGTH('n) b)"

definition try_into_array :: "u8 list \<Rightarrow> ('n :: len) bytes option" where
  "try_into_array bs = (if length bs = LENGTH('n) then Some (Array bs) else None)"

instantiation bytes :: (len) equal
begin

definition equal_bytes :: "'a bytes \<Rightarrow> 'a bytes \<Rightarrow> bool" where
  "equal_bytes a b \<longleftrightarrow> array_bytes a = array_bytes b"

instance
  by standard (simp add: equal_bytes_def)

end

lemma array_bytes_Array: "length bs = LENGTH('n) \<Longrightarrow> array_bytes (Array bs :: ('n :: len) bytes) = bs"
  by (simp add: Array_inverse)

lemma array_bytes_array_of [simp, code abstract]:
  "array_bytes (array_of b :: ('n :: len) bytes) = replicate LENGTH('n) b"
  by (simp add: array_of_def array_bytes_Array)

lemma array_of_eq_iff [simp]: "array_of a = (array_of b :: ('n :: len) bytes) \<longleftrightarrow> a = b"
proof
  assume "array_of a = (array_of b :: 'n bytes)"
  then have "replicate LENGTH('n) a = replicate LENGTH('n) b"
    by (simp flip: array_bytes_array_of)
  then show "a = b" by (simp add: replicate_eq_replicate)
qed simp

lemma try_into_array_eq_Some:
  "try_into_array bs = Some (a :: ('n :: len) bytes) \<longleftrightarrow> array_bytes a = bs"
  by (auto simp: try_into_array_def array_bytes_Array array_abs)

lemma try_into_array_eq_None:
  "try_into_array bs = (None :: ('n :: len) bytes option) \<longleftrightarrow> length bs \<noteq> LENGTH('n)"
  by (simp add: try_into_array_def)

lemma try_into_array_bytes [simp]: "try_into_array (array_bytes a) = Some a"
  by (simp add: try_into_array_eq_Some)

section \<open>Results, errors and panics\<close>

text \<open>
  A fallible Rust operation that runs on mutable state is a function from the state to a pair of a
  result and the new state.  The result is \<open>Inl\<close> of a failure or \<open>Inr\<close> of a value; a
  failure is the \<open>Err\<close> of the operation's error type, or a panic.  \<open>try_then\<close> is the
  question-mark operator: it passes a failure on together with the state reached so far.
\<close>

datatype 'e failure = Err 'e | Panic

definition try_then :: "('e + 'a) \<times> 's \<Rightarrow> ('a \<Rightarrow> 's \<Rightarrow> ('e + 'b) \<times> 's) \<Rightarrow> ('e + 'b) \<times> 's" where
  "try_then r k = (case r of (Inl e, s) \<Rightarrow> (Inl e, s) | (Inr a, s) \<Rightarrow> k a s)"

definition map_err :: "('x \<Rightarrow> 'e) \<Rightarrow> 'x + 'a \<Rightarrow> 'e failure + 'a" where
  "map_err f r = (case r of Inl x \<Rightarrow> Inl (Err (f x)) | Inr a \<Rightarrow> Inr a)"

definition ok_or :: "'e \<Rightarrow> 'a option \<Rightarrow> 'e failure + 'a" where
  "ok_or e r = (case r of None \<Rightarrow> Inl (Err e) | Some a \<Rightarrow> Inr a)"

lemma try_then_simps [simp, result_simps]:
  "try_then (Inl e, s) k = (Inl e, s)"
  "try_then (Inr a, s) k = k a s"
  by (simp_all add: try_then_def)

lemma try_then_weak_cong: "r = r' \<Longrightarrow> try_then r k = try_then r' k"
  by simp

lemma map_err_simps [simp, result_simps]:
  "map_err f (Inl x) = Inl (Err (f x))"
  "map_err f (Inr a) = Inr a"
  by (simp_all add: map_err_def)

lemma ok_or_simps [simp, result_simps]:
  "ok_or e None = Inl (Err e)"
  "ok_or e (Some a) = Inr a"
  by (simp_all add: ok_or_def)

lemma try_then_Inr_iff:
  "try_then r k = (Inr b, s') \<longleftrightarrow> (\<exists>a s. r = (Inr a, s) \<and> k a s = (Inr b, s'))"
  by (cases r; cases "fst r") auto

lemma try_then_split:
  "P (try_then r k) \<longleftrightarrow>
    (\<forall>e s. r = (Inl e, s) \<longrightarrow> P (Inl e, s)) \<and> (\<forall>a s. r = (Inr a, s) \<longrightarrow> P (k a s))"
  by (cases r; cases "fst r") auto

lemma map_err_Inr_iff [simp]: "map_err f r = Inr a \<longleftrightarrow> r = Inr a"
  by (cases r) auto

lemma map_sum_Pair_iff [simp]: "map_sum id (Pair a) r = Inr (b, x) \<longleftrightarrow> b = a \<and> r = Inr x"
  by (cases r) auto

lemma ok_or_Inr_iff [simp]: "ok_or e r = Inr a \<longleftrightarrow> r = Some a"
  by (cases r) auto

text \<open>An \<open>unwrap\<close> and an \<open>unwrap_err\<close> in a test, which fails on the other outcome.\<close>

definition unwrap :: "('err + 'a) \<times> 'st \<Rightarrow> ('a \<Rightarrow> 'st \<Rightarrow> bool) \<Rightarrow> bool" where
  "unwrap m k = (case m of (Inl _, _) \<Rightarrow> False | (Inr a, s) \<Rightarrow> k a s)"

definition unwrap_err :: "('err failure + 'a) \<times> 'st \<Rightarrow> ('err \<Rightarrow> 'st \<Rightarrow> bool) \<Rightarrow> bool" where
  "unwrap_err m k = (case m of (Inl (Err e), s) \<Rightarrow> k e s | _ \<Rightarrow> False)"

lemma unwrap_simps [simp]:
  "unwrap (Inr a, s) k = k a s" "unwrap (Inl e, s) k = False"
  "unwrap_err (Inl (Err x), s) k' = k' x s" "unwrap_err (Inr b, s) k' = False"
  by (simp_all add: unwrap_def unwrap_err_def)

section \<open>Keyed stores\<close>

text \<open>
  What the sources rely on in a \<open>HashMap\<close>: a lookup sees the latest insertion or removal of
  its key and nothing else, and \<open>len()\<close> counts the keys present.  The locale states it once
  for the standard map and for the session tables built on it.
\<close>

locale keyed_store =
  fixes get :: "'s \<Rightarrow> 'k \<Rightarrow> 'v option"
    and put :: "'k \<Rightarrow> 'v \<Rightarrow> 's \<Rightarrow> 's"
    and del :: "'k \<Rightarrow> 's \<Rightarrow> 's"
    and count :: "'s \<Rightarrow> nat"
  assumes get_put: "get (put k v s) k' = (if k' = k then Some v else get s k')"
    and get_del: "get (del k s) k' = (if k' = k then None else get s k')"
    and finite_keys: "finite (dom (get s))"
    and count_keys: "count s = card (dom (get s))"
begin

lemma keys_put: "dom (get (put k v s)) = insert k (dom (get s))"
  by (auto simp: get_put split: if_splits)

lemma keys_del: "dom (get (del k s)) = dom (get s) - {k}"
  by (auto simp: get_del split: if_splits)

lemma count_put: "count (put k v s) = (if get s k = None then Suc (count s) else count s)"
  by (auto simp: count_keys keys_put card_insert_if finite_keys domIff)

lemma count_del: "count (del k s) = (if get s k = None then count s else count s - 1)"
  by (auto simp: count_keys keys_del card_Diff_singleton_if domIff)

lemma count_pos: "get s k = Some v \<Longrightarrow> 0 < count s"
  using finite_keys [of s] by (auto simp: count_keys card_gt_0_iff dom_def)

lemma count_del_le: "count (del k s) \<le> count s"
  by (simp add: count_del)

end

text \<open>The standard \<open>HashMap\<close>: a finite map.\<close>

type_synonym ('k, 'v) hash_map = "('k, 'v) fmap"

abbreviation hm_new :: "('k, 'v) hash_map" where
  "hm_new \<equiv> fmempty"

abbreviation hm_get :: "('k, 'v) hash_map \<Rightarrow> 'k \<Rightarrow> 'v option" where
  "hm_get \<equiv> fmlookup"

abbreviation hm_insert :: "'k \<Rightarrow> 'v \<Rightarrow> ('k, 'v) hash_map \<Rightarrow> ('k, 'v) hash_map" where
  "hm_insert \<equiv> fmupd"

abbreviation hm_remove :: "'k \<Rightarrow> ('k, 'v) hash_map \<Rightarrow> ('k, 'v) hash_map" where
  "hm_remove \<equiv> fmdrop"

definition hm_len :: "('k, 'v) hash_map \<Rightarrow> nat" where
  "hm_len m = fcard (fmdom m)"

lemma hm_len_new [simp]: "hm_len hm_new = 0"
  by (simp add: hm_len_def)

lemma hm_remove_absent: "hm_get m k = None \<Longrightarrow> hm_remove k m = m"
  by (rule fmap_ext) auto

interpretation hm: keyed_store hm_get hm_insert hm_remove hm_len
proof unfold_locales
  fix m :: "('k, 'v) hash_map"
  have keys: "dom (hm_get m) = fset (fmdom m)"
    by (simp add: fmdom.rep_eq)
  show "finite (dom (hm_get m))" by simp
  show "hm_len m = card (dom (hm_get m))" by (simp only: keys hm_len_def fcard.rep_eq)
qed auto

section \<open>Double-ended queues\<close>

text \<open>
  \<open>VecDeque\<close> as a list, oldest element first: \<open>iter().position(p)\<close> and
  \<open>remove(index)\<close>, which ignores an index out of range.
\<close>

fun deque_position :: "('a \<Rightarrow> bool) \<Rightarrow> 'a list \<Rightarrow> nat option" where
  "deque_position p [] = None"
| "deque_position p (x # xs) = (if p x then Some 0 else map_option Suc (deque_position p xs))"

definition deque_remove :: "nat \<Rightarrow> 'a list \<Rightarrow> 'a list" where
  "deque_remove i xs = take i xs @ drop (Suc i) xs"

lemma deque_position_takeWhile:
  "deque_position p xs =
     (if \<exists>x \<in> set xs. p x then Some (length (takeWhile (\<lambda>x. \<not> p x) xs)) else None)"
  by (induction xs) auto

lemma deque_position_less: "deque_position p xs = Some i \<Longrightarrow> i < length xs"
  by (induction xs arbitrary: i) (auto split: if_splits)

lemma deque_position_take:
  "deque_position p xs = Some i \<Longrightarrow> take i xs = takeWhile (\<lambda>x. \<not> p x) xs"
  by (induction xs arbitrary: i) (auto split: if_splits)

lemma deque_remove_position:
  "(case deque_position (\<lambda>c. c = x) xs of None \<Rightarrow> xs | Some i \<Rightarrow> deque_remove i xs) = remove1 x xs"
  by (induction xs) (auto simp: deque_remove_def split: option.splits)

section \<open>Traces of labelled steps\<close>

text \<open>
  The executions of a component: lists of events, oldest first, each a step from the state before.
  The locale is the induction principle for properties that relate the state to its history.
\<close>

inductive trace :: "('s \<Rightarrow> 'e \<Rightarrow> 's \<Rightarrow> bool) \<Rightarrow> 's \<Rightarrow> 'e list \<Rightarrow> 's \<Rightarrow> bool"
  for step :: "'s \<Rightarrow> 'e \<Rightarrow> 's \<Rightarrow> bool" and start :: 's where
  trace_start: "trace step start [] start"
| trace_step: "trace step start es s \<Longrightarrow> step s e s' \<Longrightarrow> trace step start (es @ [e]) s'"

inductive_cases trace_snocE: "trace step start (es @ [e]) s"

lemma trace_prefix:
  assumes "trace step start (es @ fs) s"
  obtains s0 where "trace step start es s0"
  using assms
proof (induction fs arbitrary: s thesis rule: rev_induct)
  case (snoc f fs)
  from snoc.prems(2) have "trace step start ((es @ fs) @ [f]) s" by simp
  then obtain s0 where "trace step start (es @ fs) s0" by (rule trace_snocE)
  with snoc show ?case by blast
qed simp

text \<open>What a list of events was issued: an item issued once comes from one event.\<close>

lemma issued_once:
  "distinct (concat (map f es)) \<Longrightarrow> a \<in> set es \<Longrightarrow> b \<in> set es \<Longrightarrow> x \<in> set (f a) \<Longrightarrow> x \<in> set (f b) \<Longrightarrow> a = b"
  by (induction es) auto

lemma distinct_count_list: "distinct xs \<longleftrightarrow> (\<forall>x. count_list xs x \<le> 1)"
proof (induction xs)
  case (Cons y ys)
  have "y \<notin> set ys \<longleftrightarrow> count_list ys y = 0" by (simp add: count_list_0_iff)
  with Cons show ?case by (auto simp: le_Suc_eq)
qed simp

lemma count_list_map_filter:
  "(\<And>x. P x \<Longrightarrow> f x = c \<Longrightarrow> Q x) \<Longrightarrow> count_list (map f (filter P xs)) c \<le> length (filter Q xs)"
  by (induction xs) (auto simp: le_SucI)

locale trace_invariant =
  fixes step :: "'s \<Rightarrow> 'e \<Rightarrow> 's \<Rightarrow> bool" and start :: 's and inv :: "'e list \<Rightarrow> 's \<Rightarrow> bool"
  assumes inv_start: "inv [] start"
    and inv_step: "inv es s \<Longrightarrow> step s e s' \<Longrightarrow> inv (es @ [e]) s'"
begin

lemma inv_trace: "trace step start es s \<Longrightarrow> inv es s"
  by (induction rule: trace.induct) (auto intro: inv_start inv_step)

end

text \<open>
  One system implements another if a function of its state turns each of its steps into a step of the
  other with the same event; then it turns executions into executions.
\<close>

locale forward_simulation =
  fixes cstep :: "'c \<Rightarrow> 'e \<Rightarrow> 'c \<Rightarrow> bool" and cstart :: 'c
    and astep :: "'a \<Rightarrow> 'e \<Rightarrow> 'a \<Rightarrow> bool" and astart :: 'a
    and abstract :: "'c \<Rightarrow> 'a"
  assumes start_simulated: "abstract cstart = astart"
    and step_simulated: "cstep c e c' \<Longrightarrow> astep (abstract c) e (abstract c')"
begin

lemma trace_simulated: "trace cstep cstart es c \<Longrightarrow> trace astep astart es (abstract c)"
  by (induction rule: trace.induct)
    (auto simp: start_simulated intro: trace_start trace_step step_simulated)

end

end
