(* ===== verification/Bounds.thy ===== *)
theory Bounds
  imports Prelude
begin

text \<open>
  The frame and resource bounds of \<open>src/bounds.rs\<close> and the engine's advertised capabilities.
  \<open>u64\<close> and \<open>usize\<close> limits are natural numbers: no operation comes near their width.
\<close>

definition MAX_FRAME_BYTES :: nat where
  "MAX_FRAME_BYTES = 1024 * 1024"

definition MAX_INTERLEAVED_CALLBACKS :: nat where
  "MAX_INTERLEAVED_CALLBACKS = 64"

definition MAX_PENDING_CANDIDATES :: nat where
  "MAX_PENDING_CANDIDATES = 256"

definition ENGINE_CAPABILITIES :: "string list" where
  "ENGINE_CAPABILITIES = [''content.serve'', ''content.fetch'', ''sync'', ''subscribe'']"

lemma MAX_PENDING_CANDIDATES_pos [simp]: "0 < MAX_PENDING_CANDIDATES"
  by (simp add: MAX_PENDING_CANDIDATES_def)

lemma MAX_FRAME_BYTES_pos [simp]: "0 < MAX_FRAME_BYTES"
  by (simp add: MAX_FRAME_BYTES_def)

end
