(* ===== verification/Domain.thy ===== *)
theory Domain
  imports Prelude
begin

text \<open>
  The signed-message contract of \<open>src/domain.rs\<close>: the three purpose tags, the byte-exact
  message builders, the key and signature newtypes, and signature verification.  The BLS primitives
  of \<open>chia-bls\<close> and the \<open>hex\<close> codec are parameters.  The locales \<open>purpose\<close> and
  \<open>separated_purposes\<close> state what the contract asks of a builder and of two builders with
  different tags; each of the three builders, and each pair of them, is an interpretation.
\<close>

section \<open>Constants\<close>

definition SIGNING_KEY_LEN :: nat where
  "SIGNING_KEY_LEN = 48"

definition SIGNATURE_LEN :: nat where
  "SIGNATURE_LEN = 96"

definition NONCE_LEN :: nat where
  "NONCE_LEN = 32"

definition SESSION_CHALLENGE_DOMAIN :: "u8 list" where
  "SESSION_CHALLENGE_DOMAIN = str_bytes ''DIGNET-SESSION-v1''"

definition SIGN_CALLBACK_DOMAIN :: "u8 list" where
  "SIGN_CALLBACK_DOMAIN = str_bytes ''DIGNET-SIGN-v1''"

definition USER_SIGN_DOMAIN :: "u8 list" where
  "USER_SIGN_DOMAIN = str_bytes ''DIGNET-USER-SIGN-v1''"

section \<open>Keys and signatures\<close>

text \<open>The codec of the \<open>hex\<close> crate: \<open>hex::encode\<close> and \<open>hex::decode\<close>.\<close>

record hex_crate =
  hex_encode :: "u8 list \<Rightarrow> string"
  hex_decode :: "string \<Rightarrow> u8 list option"

definition hex_round_trip :: "hex_crate \<Rightarrow> bool" where
  "hex_round_trip H \<longleftrightarrow> (\<forall>bs. hex_decode H (hex_encode H bs) = Some bs)"

datatype signing_public_key = SigningPublicKey "48 bytes"

fun key_as_bytes :: "signing_public_key \<Rightarrow> 48 bytes" where
  "key_as_bytes (SigningPublicKey bs) = bs"

definition key_to_hex :: "hex_crate \<Rightarrow> signing_public_key \<Rightarrow> string" where
  "key_to_hex H k = hex_encode H (array_bytes (key_as_bytes k))"

definition key_from_hex :: "hex_crate \<Rightarrow> string \<Rightarrow> signing_public_key option" where
  "key_from_hex H hex_str =
     (case hex_decode H hex_str of
        None \<Rightarrow> None
      | Some bs \<Rightarrow> (case try_into_array bs of
            None \<Rightarrow> None
          | Some arr \<Rightarrow> Some (SigningPublicKey arr)))"

datatype signature = Signature "96 bytes"

fun sig_as_bytes :: "signature \<Rightarrow> 96 bytes" where
  "sig_as_bytes (Signature bs) = bs"

lemma key_hex_inverse:
  assumes "hex_round_trip H"
  shows "key_from_hex H (key_to_hex H k) = Some k"
  using assms by (cases k) (simp add: key_from_hex_def key_to_hex_def hex_round_trip_def)

section \<open>Message builders\<close>

definition challenge_message :: "u8 list \<Rightarrow> string \<Rightarrow> u8 list" where
  "challenge_message nonce profile_did =
     SESSION_CHALLENGE_DOMAIN @ nonce @ str_bytes profile_did"

definition sign_callback_message :: "string \<Rightarrow> u8 list \<Rightarrow> u8 list option" where
  "sign_callback_message payload_type payload =
     (case u16_try_from (length payload_type) of
        None \<Rightarrow> None
      | Some type_len \<Rightarrow>
          Some (SIGN_CALLBACK_DOMAIN @ u16_to_be_bytes type_len @ str_bytes payload_type @ payload))"

definition user_sign_message :: "u8 list \<Rightarrow> u8 list" where
  "user_sign_message message = USER_SIGN_DOMAIN @ message"

section \<open>Verification\<close>

text \<open>
  The primitives of \<open>chia-bls\<close> the verifier calls: parsing of a compressed G1 key and G2
  signature (\<open>None\<close> where \<open>from_bytes\<close> fails) and AugScheme verification.
\<close>

record ('pk, 'sg) chia_bls =
  pk_from_bytes :: "48 bytes \<Rightarrow> 'pk option"
  sg_from_bytes :: "96 bytes \<Rightarrow> 'sg option"
  bls_verify :: "'sg \<Rightarrow> 'pk \<Rightarrow> u8 list \<Rightarrow> bool"

definition verify_signature ::
  "('pk, 'sg) chia_bls \<Rightarrow> signing_public_key \<Rightarrow> u8 list \<Rightarrow> signature \<Rightarrow> bool" where
  "verify_signature B signing_public_key message sig =
     (case (pk_from_bytes B (key_as_bytes signing_public_key), sg_from_bytes B (sig_as_bytes sig)) of
        (Some public_key, Some sg) \<Rightarrow> bls_verify B sg public_key message
      | _ \<Rightarrow> False)"

lemmas domain_tags =
  SESSION_CHALLENGE_DOMAIN_def SIGN_CALLBACK_DOMAIN_def USER_SIGN_DOMAIN_def

section \<open>The contract of a purpose, and of two purposes\<close>

text \<open>
  A signing purpose: every message of it starts with its tag, and two accepted inputs with the same
  message are the same input.
\<close>

locale purpose =
  fixes tag :: "u8 list" and accepted :: "'a \<Rightarrow> bool" and build :: "'a \<Rightarrow> u8 list"
  assumes tagged: "prefix tag (build x)"
    and unambiguous: "accepted x \<Longrightarrow> accepted y \<Longrightarrow> build x = build y \<Longrightarrow> x = y"
begin

lemma starts_with_tag: "take (length tag) (build x) = tag"
  using tagged [of x] by (auto simp: prefix_def)

lemma distinct_inputs: "accepted x \<Longrightarrow> accepted y \<Longrightarrow> x \<noteq> y \<Longrightarrow> build x \<noteq> build y"
  using unambiguous by blast

end

locale separated_purposes =
  p: purpose tag1 accepted1 build1 + q: purpose tag2 accepted2 build2
  for tag1 :: "u8 list" and accepted1 :: "'a \<Rightarrow> bool" and build1
    and tag2 :: "u8 list" and accepted2 :: "'b \<Rightarrow> bool" and build2 +
  assumes tags_clash: "\<not> prefix tag1 tag2" "\<not> prefix tag2 tag1"
begin

lemma not_tagged_as_other: "\<not> prefix tag2 (build1 x)" "\<not> prefix tag1 (build2 y)"
  using p.tagged [of x] q.tagged [of y] tags_clash by (auto dest: prefix_same_cases)

lemma separated: "build1 x \<noteq> build2 y"
  using not_tagged_as_other(1) [of x] q.tagged [of y] by auto

end

section \<open>The three purposes of the identity key\<close>

text \<open>The callback message as a total function of its input pair.\<close>

definition callback_bytes :: "string \<times> u8 list \<Rightarrow> u8 list" where
  "callback_bytes x =
     SIGN_CALLBACK_DOMAIN @ u16_to_be_bytes (of_nat (length (fst x))) @ str_bytes (fst x) @ snd x"

lemma sign_callback_message_bytes:
  "sign_callback_message t p = (if length t \<le> 65535 then Some (callback_bytes (t, p)) else None)"
  by (simp add: sign_callback_message_def callback_bytes_def u16_try_from_def)

lemma sign_callback_message_eq_Some:
  "sign_callback_message t p = Some m \<longleftrightarrow> length t \<le> 65535 \<and> m = callback_bytes (t, p)"
  by (auto simp: sign_callback_message_bytes)

lemma callback_bytes_inj:
  assumes "length t \<le> 65535" and "length t' \<le> 65535"
    and "callback_bytes (t, p) = callback_bytes (t', p')"
  shows "t = t' \<and> p = p'"
proof -
  from assms(3) have "u16_to_be_bytes (of_nat (length t)) @ str_bytes t @ p
      = u16_to_be_bytes (of_nat (length t')) @ str_bytes t' @ p'"
    by (simp add: callback_bytes_def)
  then have len: "(of_nat (length t) :: u16) = of_nat (length t')"
    and rest: "str_bytes t @ p = str_bytes t' @ p'"
    by (simp_all add: append_eq_append_conv)
  from len assms(1,2) have "length t = length t'" by (simp add: u16_of_nat_eq_iff)
  with rest show ?thesis by (simp add: append_eq_append_conv)
qed

interpretation attach: purpose SESSION_CHALLENGE_DOMAIN
  "\<lambda>x. length (fst x) = NONCE_LEN" "\<lambda>x. challenge_message (fst x) (snd x)"
  by unfold_locales (auto simp: challenge_message_def append_eq_append_conv)

interpretation callback: purpose SIGN_CALLBACK_DOMAIN "\<lambda>x. length (fst x) \<le> 65535" callback_bytes
proof unfold_locales
  fix x show "prefix SIGN_CALLBACK_DOMAIN (callback_bytes x)"
    by (simp add: callback_bytes_def)
next
  fix x y :: "string \<times> u8 list"
  assume "length (fst x) \<le> 65535" "length (fst y) \<le> 65535" "callback_bytes x = callback_bytes y"
  then show "x = y"
    using callback_bytes_inj [of "fst x" "fst y" "snd x" "snd y"] by (simp add: prod_eq_iff)
qed

interpretation user: purpose USER_SIGN_DOMAIN "\<lambda>_. True" user_sign_message
  by unfold_locales (auto simp: user_sign_message_def)

lemma tags_incomparable:
  "\<not> prefix SESSION_CHALLENGE_DOMAIN SIGN_CALLBACK_DOMAIN"
  "\<not> prefix SIGN_CALLBACK_DOMAIN SESSION_CHALLENGE_DOMAIN"
  "\<not> prefix SESSION_CHALLENGE_DOMAIN USER_SIGN_DOMAIN"
  "\<not> prefix USER_SIGN_DOMAIN SESSION_CHALLENGE_DOMAIN"
  "\<not> prefix SIGN_CALLBACK_DOMAIN USER_SIGN_DOMAIN"
  "\<not> prefix USER_SIGN_DOMAIN SIGN_CALLBACK_DOMAIN"
  by (simp_all add: domain_tags str_bytes_def)

interpretation attach_callback: separated_purposes
  SESSION_CHALLENGE_DOMAIN "\<lambda>x. length (fst x) = NONCE_LEN" "\<lambda>x. challenge_message (fst x) (snd x)"
  SIGN_CALLBACK_DOMAIN "\<lambda>x. length (fst x) \<le> 65535" callback_bytes
  by unfold_locales (rule tags_incomparable)+

interpretation attach_user: separated_purposes
  SESSION_CHALLENGE_DOMAIN "\<lambda>x. length (fst x) = NONCE_LEN" "\<lambda>x. challenge_message (fst x) (snd x)"
  USER_SIGN_DOMAIN "\<lambda>_. True" user_sign_message
  by unfold_locales (rule tags_incomparable)+

interpretation callback_user: separated_purposes
  SIGN_CALLBACK_DOMAIN "\<lambda>x. length (fst x) \<le> 65535" callback_bytes
  USER_SIGN_DOMAIN "\<lambda>_. True" user_sign_message
  by unfold_locales (rule tags_incomparable)+

lemma challenge_not_callback [simp]: "sign_callback_message t p \<noteq> Some (challenge_message n d)"
  using attach_callback.separated [of "(n, d)" "(t, p)"] by (auto simp: sign_callback_message_eq_Some)

lemma user_not_callback [simp]: "sign_callback_message t p \<noteq> Some (user_sign_message m)"
  using callback_user.separated [of "(t, p)" m] by (auto simp: sign_callback_message_eq_Some)

lemma challenge_not_user [simp]: "challenge_message n d \<noteq> user_sign_message m"
  using attach_user.separated [of "(n, d)" m] by simp

section \<open>A parser for callback messages\<close>

text \<open>
  The reference reading of a callback message, as an independent verifier would write it: strip the
  tag, read the two length bytes, split the rest.
\<close>

definition parse_callback :: "u8 list \<Rightarrow> (string \<times> u8 list) option" where
  "parse_callback m =
     (let t = length SIGN_CALLBACK_DOMAIN;
          n = 256 * unat (m ! t) + unat (m ! (t + 1));
          body = drop (t + 2) m
      in if take t m \<noteq> SIGN_CALLBACK_DOMAIN \<or> length m < t + 2 \<or> length body < n then None
         else Some (bytes_str (take n body), drop n body))"

lemma parse_callback_bytes:
  assumes "length t \<le> 65535"
  shows "parse_callback (callback_bytes (t, p)) = Some (t, p)"
  using assms u16_be_value [OF assms]
  by (simp add: parse_callback_def callback_bytes_def u16_to_be_bytes_of_nat nth_append Let_def)

lemma parse_callback_sound:
  assumes "parse_callback m = Some (t, p)"
  shows "length t \<le> 65535 \<and> m = callback_bytes (t, p)"
proof -
  let ?k = "length SIGN_CALLBACK_DOMAIN"
  let ?a = "m ! ?k" and ?b = "m ! (?k + 1)"
  let ?n = "256 * unat ?a + unat ?b"
  from assms have tag: "take ?k m = SIGN_CALLBACK_DOMAIN" and len: "?k + 2 \<le> length m"
    and body: "?n \<le> length (drop (?k + 2) m)"
    and t: "t = bytes_str (take ?n (drop (?k + 2) m))" and p: "p = drop ?n (drop (?k + 2) m)"
    by (auto simp: parse_callback_def Let_def split: if_splits)
  have "unat ?a < 256" "unat ?b < 256"
    using unsigned_less [of ?a, where ?'a = nat] unsigned_less [of ?b, where ?'a = nat] by simp_all
  then have n: "?n \<le> 65535" by simp
  have lt: "length t = ?n" using body by (simp add: t)
  have "drop ?k m = ?a # ?b # drop (?k + 2) m"
    using len by (simp add: Cons_nth_drop_Suc)
  then have "m = SIGN_CALLBACK_DOMAIN @ [?a, ?b] @ drop (?k + 2) m"
    using tag append_take_drop_id [of ?k m] by simp
  also have "drop (?k + 2) m = str_bytes t @ p"
    by (simp only: t p str_bytes_str append_take_drop_id)
  finally have "m = SIGN_CALLBACK_DOMAIN @ [?a, ?b] @ str_bytes t @ p" .
  moreover have "callback_bytes (t, p) = SIGN_CALLBACK_DOMAIN @ [?a, ?b] @ str_bytes t @ p"
    by (simp only: callback_bytes_def lt u16_be_value_inverse fst_conv snd_conv)
  ultimately have "m = callback_bytes (t, p)" by (rule trans [OF _ sym])
  with n lt show ?thesis by simp
qed

section \<open>Sample primitives\<close>

text \<open>
  Concrete stand-ins for the parameters, used only where a theorem is applied to a concrete input: a
  codec that writes each byte as one character, and a verifier that accepts every signature.
\<close>

definition sample_hex :: hex_crate where
  "sample_hex = \<lparr>hex_encode = bytes_str, hex_decode = (\<lambda>s. Some (str_bytes s))\<rparr>"

definition accept_all_bls :: "(unit, unit) chia_bls" where
  "accept_all_bls =
     \<lparr>pk_from_bytes = (\<lambda>_. Some ()), sg_from_bytes = (\<lambda>_. Some ()), bls_verify = (\<lambda>_ _ _. True)\<rparr>"

lemma sample_hex_round_trip: "hex_round_trip sample_hex"
  by (simp add: hex_round_trip_def sample_hex_def)

section \<open>Properties\<close>

text \<open>
  C5. Domain separation.  For all inputs, the messages of the three purposes are pairwise
  different, and no message of one purpose starts with the tag of another, whatever the engine,
  the app or the user chooses as nonce, DID, payload type, payload or message.
\<close>

theorem purposes_never_collide:
  "challenge_message n d \<noteq> user_sign_message u
   \<and> \<not> prefix SIGN_CALLBACK_DOMAIN (challenge_message n d)
   \<and> \<not> prefix USER_SIGN_DOMAIN (challenge_message n d)
   \<and> \<not> prefix SESSION_CHALLENGE_DOMAIN (user_sign_message u)
   \<and> \<not> prefix SIGN_CALLBACK_DOMAIN (user_sign_message u)
   \<and> (case sign_callback_message t p of
        None \<Rightarrow> 65535 < length t
      | Some m \<Rightarrow> m \<noteq> challenge_message n d \<and> m \<noteq> user_sign_message u
          \<and> prefix SIGN_CALLBACK_DOMAIN m
          \<and> \<not> prefix SESSION_CHALLENGE_DOMAIN m \<and> \<not> prefix USER_SIGN_DOMAIN m)"
  using attach_callback.not_tagged_as_other(1) [of "(n, d)"] attach_user.not_tagged_as_other(1) [of "(n, d)"]
    attach_user.not_tagged_as_other(2) callback_user.not_tagged_as_other
    attach_callback.not_tagged_as_other(2) [of "(t, p)"] callback.tagged [of "(t, p)"]
    attach_callback.separated [of "(n, d)" "(t, p)"] callback_user.separated [of "(t, p)" u]
  by (auto simp: sign_callback_message_bytes)

text \<open>
  A signature accepted for two messages of different purposes: what a cross-protocol signing oracle
  would have to produce.  The reduction below turns it into two different byte strings that the BLS
  verifier accepts under one signature and key, that is, into a break of the signature scheme.
\<close>

datatype purpose_kind = Attach | Callback | User_Sign

fun message_for :: "purpose_kind \<Rightarrow> u8 list \<Rightarrow> bool" where
  "message_for Attach m = (\<exists>n d. m = challenge_message n d)"
| "message_for Callback m = (\<exists>t p. sign_callback_message t p = Some m)"
| "message_for User_Sign m = (\<exists>u. m = user_sign_message u)"

definition signature_reused :: "('pk, 'sg) chia_bls \<Rightarrow> signing_public_key \<Rightarrow> signature \<Rightarrow> bool" where
  "signature_reused B k \<sigma> \<longleftrightarrow>
     (\<exists>pk sg m m'. pk_from_bytes B (key_as_bytes k) = Some pk \<and> sg_from_bytes B (sig_as_bytes \<sigma>) = Some sg
        \<and> m \<noteq> m' \<and> bls_verify B sg pk m \<and> bls_verify B sg pk m')"

lemma message_for_unique: "message_for a m \<Longrightarrow> message_for b m \<Longrightarrow> a = b"
  by (cases a; cases b) (auto dest: sym)

lemma verify_signature_iff:
  "verify_signature B k m \<sigma> \<longleftrightarrow>
     (\<exists>pk sg. pk_from_bytes B (key_as_bytes k) = Some pk \<and> sg_from_bytes B (sig_as_bytes \<sigma>) = Some sg
        \<and> bls_verify B sg pk m)"
  by (auto simp: verify_signature_def split: option.splits)

text \<open>
  No cross-protocol oracle.  A signature that verifies under one key for messages of two
  different purposes (an engine callback replayed as a session attach, a user signature replayed as
  a callback, and so on) makes the BLS verifier accept two different messages.
\<close>

lemma cross_purpose_signature_breaks_bls:
  assumes "message_for a m" and "message_for b m'" and "a \<noteq> b"
    and "verify_signature B k m \<sigma>" and "verify_signature B k m' \<sigma>"
  shows "signature_reused B k \<sigma>"
proof -
  from assms(1-3) have "m \<noteq> m'" using message_for_unique by blast
  moreover from assms(4) obtain pk sg where "pk_from_bytes B (key_as_bytes k) = Some pk"
    and "sg_from_bytes B (sig_as_bytes \<sigma>) = Some sg" and "bls_verify B sg pk m"
    by (auto simp: verify_signature_iff)
  moreover from this assms(5) have "bls_verify B sg pk m'"
    by (simp add: verify_signature_iff)
  ultimately show ?thesis unfolding signature_reused_def by blast
qed

lemma cross_purpose_signature_breaks_bls_witness:
  "signature_reused accept_all_bls (SigningPublicKey (array_of 1)) (Signature (array_of 0))"
proof (rule cross_purpose_signature_breaks_bls)
  show "message_for Attach (challenge_message [] [])" by auto
  show "message_for User_Sign (user_sign_message [])" by auto
qed (simp_all add: verify_signature_def accept_all_bls_def)

text \<open>
  C34. The callback builder and the reference parser are inverse to each other: a byte string parses
  to a payload type and a payload exactly if the builder makes it from them.
\<close>

theorem callback_message_round_trip:
  "parse_callback m = Some (t, p) \<longleftrightarrow> sign_callback_message t p = Some m"
  using parse_callback_sound [of m t p] parse_callback_bytes [of t p]
  by (auto simp: sign_callback_message_eq_Some)

text \<open>
  With nonces of the contract's length, an attach challenge determines its nonce and its DID.
\<close>

lemma challenge_message_unambiguous:
  assumes "length n = NONCE_LEN" and "length n' = NONCE_LEN"
    and "challenge_message n d = challenge_message n' d'"
  shows "n = n' \<and> d = d'"
  using attach.unambiguous [of "(n, d)" "(n', d')"] assms by simp

lemma challenge_message_unambiguous_witness:
  "replicate 32 (7 :: u8) = replicate 32 7 \<and> ''did:chia:x'' = ''did:chia:x''"
  by (rule challenge_message_unambiguous) (simp_all add: NONCE_LEN_def)

text \<open>
  Why the length check is needed: bytes may be moved from the front of the DID to the end of
  the nonce, or back, without changing the challenge.
\<close>

lemma challenge_message_shifts:
  "challenge_message (n @ str_bytes s) d = challenge_message n (s @ d)"
  by (simp add: challenge_message_def str_bytes_def)

text \<open>
  The hex form of a key reads back as the key, and \<open>from_hex\<close> accepts a string exactly if
  it decodes to 48 bytes.
\<close>

lemma key_hex_round_trip:
  assumes "hex_round_trip H"
  shows "key_from_hex H (key_to_hex H k) = Some k
    \<and> (\<forall>s. key_from_hex H s \<noteq> None \<longleftrightarrow> (\<exists>bs. hex_decode H s = Some bs \<and> length bs = SIGNING_KEY_LEN))"
  using assms
  by (cases k) (auto simp: key_from_hex_def key_to_hex_def hex_round_trip_def SIGNING_KEY_LEN_def
      try_into_array_eq_None try_into_array_def array_abs split: option.splits)

lemma key_hex_round_trip_witness:
  "key_from_hex sample_hex (key_to_hex sample_hex (SigningPublicKey (array_of 7)))
     = Some (SigningPublicKey (array_of 7))"
  using key_hex_round_trip [of sample_hex, OF sample_hex_round_trip] by blast

end
