(* ===== verification/Hex_Codec.thy ===== *)
theory Hex_Codec
  imports Domain
begin

text \<open>
  A codec with the behaviour the \<open>hex\<close> crate documents: it writes two lower-case digits per byte and
  reads texts of pairs of digits in either case.  The crate is a parameter of the model; this is the
  reference its golden texts are compared with, and the instance at which the theorems are applied.
\<close>

definition nibble :: "nat \<Rightarrow> char" where
  "nibble n = ''0123456789abcdef'' ! n"

definition lower_hex :: "u8 list \<Rightarrow> string" where
  "lower_hex bs = concat (map (\<lambda>b. [nibble (unat b div 16), nibble (unat b mod 16)]) bs)"

lemma lower_hex_simps [simp]:
  "lower_hex [] = []"
  "lower_hex (b # bs) = nibble (unat b div 16) # nibble (unat b mod 16) # lower_hex bs"
  "lower_hex (xs @ ys) = lower_hex xs @ lower_hex ys"
  by (simp_all add: lower_hex_def)

definition is_hex_digit :: "char \<Rightarrow> bool" where
  "is_hex_digit c \<longleftrightarrow> c \<in> set ''0123456789abcdefABCDEF''"

definition hex_digit :: "char \<Rightarrow> u8" where
  "hex_digit c = (let n = of_char c in if n < 58 then n - 48 else if n < 71 then n - 55 else n - 87)"

fun unhex :: "string \<Rightarrow> u8 list" where
  "unhex (a # b # s) = (16 * hex_digit a + hex_digit b) # unhex s"
| "unhex _ = []"

definition hex_codec :: hex_crate where
  "hex_codec = \<lparr>hex_encode = lower_hex,
     hex_decode = (\<lambda>s. if list_all is_hex_digit s \<and> even (length s) then Some (unhex s) else None)\<rparr>"

text \<open>What a reader of hex accepts: pairs of digits, a byte for each.\<close>

definition reads_hex :: "hex_crate \<Rightarrow> bool" where
  "reads_hex H \<longleftrightarrow> hex_round_trip H
     \<and> (\<forall>s bs. hex_decode H s = Some bs \<longrightarrow> list_all is_hex_digit s \<and> length s = 2 * length bs)"

lemma nibbles:
  assumes "n < 16"
  shows "hex_digit (nibble n) = of_nat n" and "is_hex_digit (nibble n)"
proof -
  have "list_all (\<lambda>n. hex_digit (nibble n) = of_nat n \<and> is_hex_digit (nibble n)) [0..<16]" by code_simp
  with assms show "hex_digit (nibble n) = of_nat n" "is_hex_digit (nibble n)" by (simp_all add: list_all_iff)
qed

lemma unat_u8: "unat (b :: u8) < 256"
  using unsigned_less [of b] by simp

lemma unhex_lower_hex: "unhex (lower_hex bs) = bs"
proof (induction bs)
  case (Cons b bs)
  have "16 * hex_digit (nibble (unat b div 16)) + hex_digit (nibble (unat b mod 16))
      = of_nat (16 * (unat b div 16) + unat b mod 16)"
    using unat_u8 [of b] by (simp only: of_nat_add of_nat_mult) (simp add: nibbles(1))
  also have "\<dots> = b" by (simp add: mult_div_mod_eq)
  finally show ?case using Cons by simp
qed simp

lemma lower_hex_digits: "list_all is_hex_digit (lower_hex bs) \<and> even (length (lower_hex bs))"
proof (induction bs)
  case (Cons b bs)
  then show ?case using unat_u8 [of b] by (simp add: nibbles(2))
qed simp

lemma length_unhex: "even (length s) \<Longrightarrow> length s = 2 * length (unhex s)"
  by (induction s rule: unhex.induct) auto

lemma hex_codec_reads: "reads_hex hex_codec"
  using lower_hex_digits
  by (auto simp: reads_hex_def hex_round_trip_def hex_codec_def unhex_lower_hex simp flip: length_unhex
      split: if_splits)

end
