(* ===== verification/Wire.thy ===== *)
theory Wire
  imports Prelude
begin

text \<open>
  The wire contract of \<open>src/wire.rs\<close>: method names, the parameter and result shapes, the
  JSON-RPC envelope and the APP-SIGN error taxonomy.  A struct is a record whose fields carry the
  struct's initials where the bare field name would be declared twice.  The type variable
  \<open>'v\<close> is \<open>serde_json::Value\<close>, whose operations are parameters of the client.
\<close>

section \<open>Method names\<close>

definition JSONRPC_VERSION :: string where
  "JSONRPC_VERSION = ''2.0''"

definition METHOD_BEGIN :: string where
  "METHOD_BEGIN = ''control.session.begin''"

definition METHOD_ATTACH :: string where
  "METHOD_ATTACH = ''control.session.attach''"

definition METHOD_DETACH :: string where
  "METHOD_DETACH = ''control.session.detach''"

definition METHOD_SIGN :: string where
  "METHOD_SIGN = ''sign''"

section \<open>Base64\<close>

text \<open>
  The \<open>STANDARD\<close> engine of the \<open>base64\<close> crate, a parameter: encoding of bytes to a string and
  decoding of the bytes of a string.
\<close>

record base64_crate =
  b64_encode :: "u8 list \<Rightarrow> string"
  b64_decode :: "u8 list \<Rightarrow> u8 list option"

definition b64_round_trip :: "base64_crate \<Rightarrow> bool" where
  "b64_round_trip B \<longleftrightarrow> (\<forall>bs. b64_decode B (str_bytes (b64_encode B bs)) = Some bs)"

definition sample_b64 :: base64_crate where
  "sample_b64 = \<lparr>b64_encode = bytes_str, b64_decode = Some\<rparr>"

lemma sample_b64_round_trip: "b64_round_trip sample_b64"
  by (simp add: b64_round_trip_def sample_b64_def)

section \<open>Handshake parameters and results\<close>

record begin_params =
  bp_profile_did :: string
  signing_pubkey_hex :: string

record begin_result =
  nonce_b64 :: string
  br_session_candidate :: string

record profile_attachment =
  did :: string
  subscriptions :: "string list"
  config_digest :: string

abbreviation sample_profile :: profile_attachment where
  "sample_profile \<equiv> \<lparr>did = ''did:chia:alice'', subscriptions = [], config_digest = ''''\<rparr>"

record attach_params =
  ap_session_candidate :: string
  ap_signature_b64 :: string
  profile :: profile_attachment

record attach_result =
  ar_session_id :: string
  ar_engine_capabilities :: "string list"

record detach_params =
  dp_session_id :: string

datatype detach_result = DetachResult

section \<open>The sign callback\<close>

record 'v sign_callback_params =
  scp_session_id :: string
  scp_op_id :: string
  scp_payload_type :: string
  scp_payload_b64 :: string
  scp_context :: "'v option"

record sign_callback_result =
  scr_signature_b64 :: string
  scr_pubkey_hex :: string

section \<open>The JSON-RPC envelope\<close>

record 'p rpc_request =
  rq_jsonrpc :: string
  rq_id :: u64
  rq_method :: string
  rq_params :: 'p

record ('v, 'r) rpc_result =
  rs_jsonrpc :: string
  rs_id :: 'v
  rs_result :: 'r

record rpc_error =
  re_code :: int
  re_message :: string

record 'v rpc_error_reply =
  rp_jsonrpc :: string
  rp_id :: 'v
  rp_error :: rpc_error

record 'v incoming_frame =
  if_id :: "'v option"
  if_method :: "string option"
  if_params :: "'v option"
  if_result :: "'v option"
  if_error :: "rpc_error option"

section \<open>The error taxonomy\<close>

datatype sign_error_code =
    AuthRequired | BadMac | Replay | PairDenied | ConnectRequired | SignDenied | NoConfirmer | Locked

fun error_symbol :: "sign_error_code \<Rightarrow> string" where
  "error_symbol AuthRequired = ''AUTH_REQUIRED''"
| "error_symbol BadMac = ''BAD_MAC''"
| "error_symbol Replay = ''REPLAY''"
| "error_symbol PairDenied = ''PAIR_DENIED''"
| "error_symbol ConnectRequired = ''CONNECT_REQUIRED''"
| "error_symbol SignDenied = ''SIGN_DENIED''"
| "error_symbol NoConfirmer = ''NO_CONFIRMER''"
| "error_symbol Locked = ''LOCKED''"

fun error_number :: "sign_error_code \<Rightarrow> int" where
  "error_number AuthRequired = -33001"
| "error_number BadMac = -33002"
| "error_number Replay = -33003"
| "error_number PairDenied = -33010"
| "error_number ConnectRequired = -33020"
| "error_number SignDenied = -33030"
| "error_number NoConfirmer = -33034"
| "error_number Locked = -33040"

definition to_rpc_error :: "sign_error_code \<Rightarrow> rpc_error" where
  "to_rpc_error c = \<lparr>re_code = error_number c, re_message = error_symbol c\<rparr>"

text \<open>
  The JSON-RPC error codes reserved by the protocol, \<open>-32768\<close> to \<open>-32000\<close>.
\<close>

definition jsonrpc_reserved :: "int \<Rightarrow> bool" where
  "jsonrpc_reserved n \<longleftrightarrow> -32768 \<le> n \<and> n \<le> -32000"

lemma error_number_eq_iff [simp]: "error_number a = error_number b \<longleftrightarrow> a = b"
  by (cases a; cases b) simp_all

lemma error_symbol_eq_iff [simp]: "error_symbol a = error_symbol b \<longleftrightarrow> a = b"
  by (cases a; cases b) simp_all

section \<open>Properties\<close>

text \<open>
  C40. The error taxonomy is one to one on the wire: the number alone and the symbol alone identify
  the error, so two entries with the same JSON-RPC error are the same entry, and no number lies in
  the band JSON-RPC reserves.
\<close>

theorem error_taxonomy_one_to_one:
  "(re_code (to_rpc_error a) = re_code (to_rpc_error b) \<longleftrightarrow> a = b)
   \<and> (re_message (to_rpc_error a) = re_message (to_rpc_error b) \<longleftrightarrow> a = b)
   \<and> \<not> jsonrpc_reserved (re_code (to_rpc_error a))"
proof -
  have "\<not> jsonrpc_reserved (error_number a)"
    by (cases a) (simp_all add: jsonrpc_reserved_def)
  then show ?thesis by (simp add: to_rpc_error_def)
qed

end
