(* ===== verification/Wire_Json.thy ===== *)
theory Wire_Json
  imports Wire "HOL-Library.Finite_Map" "HOL-Library.Monad_Syntax"
begin

text \<open>
  What the \<open>derive\<close> attributes of \<open>src/wire.rs\<close> say of the wire: the JSON value of each shape, and
  which JSON values are read as one.  \<open>serde\<close> documents both.  A struct is written as an object with one
  member per field, in the names of the fields; it is read from an object whose further members are
  ignored, or from an array of its fields in order, and a field that is absent is an error unless the
  source marks it \<open>#[serde(default)]\<close>.  An \<open>Option\<close> is \<open>null\<close> or its content.  The text form of a
  value is left to \<open>serde_json\<close>.
\<close>

section \<open>JSON values\<close>

text \<open>
  \<open>serde_json::Value\<close>.  Numbers that are not integers are never looked at; they are values of the
  type variable \<open>'f\<close>.  The members of an object are a map, so a text that repeats a member is not
  told from one that does not.
\<close>

datatype 'f json_number = J_Int int | J_Float 'f

datatype 'f json =
    J_Null
  | J_Bool bool
  | J_Number "'f json_number"
  | J_String string
  | J_Array "'f json list"
  | J_Object "(string, 'f json) fmap"

definition json_object :: "(string \<times> 'f json) list \<Rightarrow> 'f json" where
  "json_object members = J_Object (fmap_of_list members)"

definition json_strings :: "string list \<Rightarrow> 'f json" where
  "json_strings xs = J_Array (map J_String xs)"

definition json_u64 :: "u64 \<Rightarrow> 'f json" where
  "json_u64 n = J_Number (J_Int (uint n))"

definition json_optional :: "'f json option \<Rightarrow> 'f json" where
  "json_optional v = (case v of None \<Rightarrow> J_Null | Some j \<Rightarrow> j)"

text \<open>The fields of a struct as they are found in a value: \<open>None\<close> where one is absent.\<close>

definition struct_fields :: "string list \<Rightarrow> 'f json \<Rightarrow> 'f json option list option" where
  "struct_fields names j =
     (case j of
        J_Object m \<Rightarrow> Some (map (fmlookup m) names)
      | J_Array xs \<Rightarrow>
          if length xs \<le> length names then Some (map Some xs @ replicate (length names - length xs) None)
          else None
      | _ \<Rightarrow> None)"

definition required :: "('f json \<Rightarrow> 'a option) \<Rightarrow> 'f json option \<Rightarrow> 'a option" where
  "required f field = (case field of None \<Rightarrow> None | Some j \<Rightarrow> f j)"

definition defaulted :: "'a \<Rightarrow> ('f json \<Rightarrow> 'a option) \<Rightarrow> 'f json option \<Rightarrow> 'a option" where
  "defaulted d f field = (case field of None \<Rightarrow> Some d | Some j \<Rightarrow> f j)"

definition string_of_json :: "'f json \<Rightarrow> string option" where
  "string_of_json j = (case j of J_String s \<Rightarrow> Some s | _ \<Rightarrow> None)"

definition strings_of_json :: "'f json \<Rightarrow> string list option" where
  "strings_of_json j = (case j of J_Array xs \<Rightarrow> those (map string_of_json xs) | _ \<Rightarrow> None)"

definition i64_of_json :: "'f json \<Rightarrow> int option" where
  "i64_of_json j =
     (case j of J_Number (J_Int n) \<Rightarrow> if - (2 ^ 63) \<le> n \<and> n < 2 ^ 63 then Some n else None | _ \<Rightarrow> None)"

definition u64_of_json :: "'f json \<Rightarrow> u64 option" where
  "u64_of_json j =
     (case j of J_Number (J_Int n) \<Rightarrow> if 0 \<le> n \<and> n < 2 ^ 64 then Some (of_int n) else None | _ \<Rightarrow> None)"

definition option_of_json :: "('f json \<Rightarrow> 'a option) \<Rightarrow> 'f json \<Rightarrow> 'a option option" where
  "option_of_json f j = (if j = J_Null then Some None else map_option Some (f j))"

section \<open>Handshake parameters and results\<close>

definition json_of_begin_params :: "begin_params \<Rightarrow> 'f json" where
  "json_of_begin_params p = json_object
     [(''profile_did'', J_String (bp_profile_did p)), (''signing_pubkey_hex'', J_String (signing_pubkey_hex p))]"

definition begin_params_of_json :: "'f json \<Rightarrow> begin_params option" where
  "begin_params_of_json j = do {
     fs \<leftarrow> struct_fields [''profile_did'', ''signing_pubkey_hex''] j;
     d \<leftarrow> required string_of_json (fs ! 0);
     k \<leftarrow> required string_of_json (fs ! 1);
     Some \<lparr>bp_profile_did = d, signing_pubkey_hex = k\<rparr> }"

definition json_of_begin_result :: "begin_result \<Rightarrow> 'f json" where
  "json_of_begin_result r = json_object
     [(''nonce_b64'', J_String (nonce_b64 r)), (''session_candidate'', J_String (br_session_candidate r))]"

definition begin_result_of_json :: "'f json \<Rightarrow> begin_result option" where
  "begin_result_of_json j = do {
     fs \<leftarrow> struct_fields [''nonce_b64'', ''session_candidate''] j;
     n \<leftarrow> required string_of_json (fs ! 0);
     c \<leftarrow> required string_of_json (fs ! 1);
     Some \<lparr>nonce_b64 = n, br_session_candidate = c\<rparr> }"

definition json_of_profile :: "profile_attachment \<Rightarrow> 'f json" where
  "json_of_profile p = json_object
     [(''did'', J_String (did p)), (''subscriptions'', json_strings (subscriptions p)),
      (''config_digest'', J_String (config_digest p))]"

definition profile_of_json :: "'f json \<Rightarrow> profile_attachment option" where
  "profile_of_json j = do {
     fs \<leftarrow> struct_fields [''did'', ''subscriptions'', ''config_digest''] j;
     d \<leftarrow> required string_of_json (fs ! 0);
     s \<leftarrow> required strings_of_json (fs ! 1);
     c \<leftarrow> required string_of_json (fs ! 2);
     Some \<lparr>did = d, subscriptions = s, config_digest = c\<rparr> }"

definition json_of_attach_params :: "attach_params \<Rightarrow> 'f json" where
  "json_of_attach_params p = json_object
     [(''session_candidate'', J_String (ap_session_candidate p)),
      (''signature_b64'', J_String (ap_signature_b64 p)), (''profile'', json_of_profile (profile p))]"

definition attach_params_of_json :: "'f json \<Rightarrow> attach_params option" where
  "attach_params_of_json j = do {
     fs \<leftarrow> struct_fields [''session_candidate'', ''signature_b64'', ''profile''] j;
     c \<leftarrow> required string_of_json (fs ! 0);
     s \<leftarrow> required string_of_json (fs ! 1);
     p \<leftarrow> required profile_of_json (fs ! 2);
     Some \<lparr>ap_session_candidate = c, ap_signature_b64 = s, profile = p\<rparr> }"

definition json_of_attach_result :: "attach_result \<Rightarrow> 'f json" where
  "json_of_attach_result r = json_object
     [(''session_id'', J_String (ar_session_id r)),
      (''engine_capabilities'', json_strings (ar_engine_capabilities r))]"

definition attach_result_of_json :: "'f json \<Rightarrow> attach_result option" where
  "attach_result_of_json j = do {
     fs \<leftarrow> struct_fields [''session_id'', ''engine_capabilities''] j;
     s \<leftarrow> required string_of_json (fs ! 0);
     c \<leftarrow> defaulted [] strings_of_json (fs ! 1);
     Some \<lparr>ar_session_id = s, ar_engine_capabilities = c\<rparr> }"

definition json_of_detach_params :: "detach_params \<Rightarrow> 'f json" where
  "json_of_detach_params p = json_object [(''session_id'', J_String (dp_session_id p))]"

definition detach_params_of_json :: "'f json \<Rightarrow> detach_params option" where
  "detach_params_of_json j = do {
     fs \<leftarrow> struct_fields [''session_id''] j;
     s \<leftarrow> required string_of_json (fs ! 0);
     Some \<lparr>dp_session_id = s\<rparr> }"

definition json_of_detach_result :: "detach_result \<Rightarrow> 'f json" where
  "json_of_detach_result r = json_object []"

definition detach_result_of_json :: "'f json \<Rightarrow> detach_result option" where
  "detach_result_of_json j = do { fs \<leftarrow> struct_fields [] j; Some DetachResult }"

section \<open>The sign callback\<close>

definition json_of_sign_params :: "'f json sign_callback_params \<Rightarrow> 'f json" where
  "json_of_sign_params p = json_object
     [(''session_id'', J_String (scp_session_id p)), (''op_id'', J_String (scp_op_id p)),
      (''payload_type'', J_String (scp_payload_type p)), (''payload_b64'', J_String (scp_payload_b64 p)),
      (''context'', json_optional (scp_context p))]"

definition sign_params_of_json :: "'f json \<Rightarrow> 'f json sign_callback_params option" where
  "sign_params_of_json j = do {
     fs \<leftarrow> struct_fields [''session_id'', ''op_id'', ''payload_type'', ''payload_b64'', ''context''] j;
     s \<leftarrow> required string_of_json (fs ! 0);
     i \<leftarrow> required string_of_json (fs ! 1);
     t \<leftarrow> required string_of_json (fs ! 2);
     p \<leftarrow> required string_of_json (fs ! 3);
     c \<leftarrow> defaulted None (option_of_json Some) (fs ! 4);
     Some \<lparr>scp_session_id = s, scp_op_id = i, scp_payload_type = t, scp_payload_b64 = p, scp_context = c\<rparr> }"

definition json_of_sign_result :: "sign_callback_result \<Rightarrow> 'f json" where
  "json_of_sign_result r = json_object
     [(''signature_b64'', J_String (scr_signature_b64 r)), (''pubkey_hex'', J_String (scr_pubkey_hex r))]"

definition sign_result_of_json :: "'f json \<Rightarrow> sign_callback_result option" where
  "sign_result_of_json j = do {
     fs \<leftarrow> struct_fields [''signature_b64'', ''pubkey_hex''] j;
     s \<leftarrow> required string_of_json (fs ! 0);
     k \<leftarrow> required string_of_json (fs ! 1);
     Some \<lparr>scr_signature_b64 = s, scr_pubkey_hex = k\<rparr> }"

section \<open>The envelope\<close>

definition json_of_rpc_request :: "('p \<Rightarrow> 'f json) \<Rightarrow> 'p rpc_request \<Rightarrow> 'f json" where
  "json_of_rpc_request write r = json_object
     [(''jsonrpc'', J_String (rq_jsonrpc r)), (''id'', json_u64 (rq_id r)),
      (''method'', J_String (rq_method r)), (''params'', write (rq_params r))]"

definition json_of_rpc_result :: "('r \<Rightarrow> 'f json) \<Rightarrow> ('f json, 'r) rpc_result \<Rightarrow> 'f json" where
  "json_of_rpc_result write r = json_object
     [(''jsonrpc'', J_String (rs_jsonrpc r)), (''id'', rs_id r), (''result'', write (rs_result r))]"

definition json_of_rpc_error :: "rpc_error \<Rightarrow> 'f json" where
  "json_of_rpc_error e = json_object
     [(''code'', J_Number (J_Int (re_code e))), (''message'', J_String (re_message e))]"

definition rpc_error_of_json :: "'f json \<Rightarrow> rpc_error option" where
  "rpc_error_of_json j = do {
     fs \<leftarrow> struct_fields [''code'', ''message''] j;
     c \<leftarrow> required i64_of_json (fs ! 0);
     m \<leftarrow> required string_of_json (fs ! 1);
     Some \<lparr>re_code = c, re_message = m\<rparr> }"

definition json_of_rpc_error_reply :: "'f json rpc_error_reply \<Rightarrow> 'f json" where
  "json_of_rpc_error_reply r = json_object
     [(''jsonrpc'', J_String (rp_jsonrpc r)), (''id'', rp_id r), (''error'', json_of_rpc_error (rp_error r))]"

definition incoming_frame_of_json :: "'f json \<Rightarrow> 'f json incoming_frame option" where
  "incoming_frame_of_json j = do {
     fs \<leftarrow> struct_fields [''id'', ''method'', ''params'', ''result'', ''error''] j;
     i \<leftarrow> defaulted None (option_of_json Some) (fs ! 0);
     m \<leftarrow> defaulted None (option_of_json string_of_json) (fs ! 1);
     p \<leftarrow> defaulted None (option_of_json Some) (fs ! 2);
     r \<leftarrow> defaulted None (option_of_json Some) (fs ! 3);
     e \<leftarrow> defaulted None (option_of_json rpc_error_of_json) (fs ! 4);
     Some \<lparr>if_id = i, if_method = m, if_params = p, if_result = r, if_error = e\<rparr> }"

section \<open>Texts\<close>

text \<open>
  The text form of JSON values, \<open>serde_json\<close>'s part.  \<open>serde_json::from_str\<close> reads the value of a text
  and then the shape of the value, as the attributes of \<open>wire.rs\<close> say.
\<close>

record 'f json_text =
  text_of_json :: "'f json \<Rightarrow> string"
  json_of_text :: "string \<Rightarrow> 'f json option"

definition read_from_str :: "'f json_text \<Rightarrow> ('f json \<Rightarrow> 'a option) \<Rightarrow> string \<Rightarrow> 'a option" where
  "read_from_str J shape s = Option.bind (json_of_text J s) shape"

section \<open>Reading what was written\<close>

lemma fields_of_object:
  "struct_fields names (json_object members) = Some (map (map_of members) names)"
  by (simp add: struct_fields_def json_object_def fmlookup_of_list)

lemma fields_of_array:
  "struct_fields names (J_Array xs) =
     (if length xs \<le> length names then Some (map Some xs @ replicate (length names - length xs) None) else None)"
  by (simp add: struct_fields_def)

lemma field_simps:
  "required f (Some j) = f j" "required f None = None"
  "defaulted d f (Some j) = f j" "defaulted d f None = Some d"
  "string_of_json (J_String s) = Some s"
  by (simp_all add: required_def defaulted_def string_of_json_def)

lemma strings_of_json_strings: "strings_of_json (json_strings xs) = Some xs"
proof -
  have "those (map (string_of_json \<circ> J_String) xs) = Some xs"
    by (induction xs) (simp_all add: field_simps)
  then show ?thesis by (simp add: strings_of_json_def json_strings_def)
qed

lemma option_of_json_simps:
  "option_of_json f J_Null = Some None"
  "j \<noteq> J_Null \<Longrightarrow> option_of_json f j = map_option Some (f j)"
  "option_of_json f (J_String s) = map_option Some (f (J_String s))"
  "option_of_json f (json_object ms) = map_option Some (f (json_object ms))"
  "option_of_json f (json_u64 n) = map_option Some (f (json_u64 n))"
  by (simp_all add: option_of_json_def json_object_def json_u64_def)

lemma option_of_optional:
  "option_of_json Some j = Some (if j = J_Null then None else Some j)"
  "option_of_json Some (json_optional c) = Some (if c = Some J_Null then None else c)"
  by (simp_all add: option_of_json_def json_optional_def split: option.split)

lemma u64_of_json_u64: "u64_of_json (json_u64 n) = Some n"
  using unsigned_less [of n] by (simp add: u64_of_json_def json_u64_def)

lemmas reading_simps = fields_of_object fields_of_array field_simps strings_of_json_strings

lemmas shape_defs = json_of_begin_params_def begin_params_of_json_def json_of_begin_result_def begin_result_of_json_def
  json_of_attach_params_def attach_params_of_json_def json_of_profile_def profile_of_json_def
  json_of_attach_result_def attach_result_of_json_def json_of_detach_params_def detach_params_of_json_def
  json_of_detach_result_def detach_result_of_json_def json_of_sign_params_def sign_params_of_json_def
  json_of_sign_result_def sign_result_of_json_def json_of_rpc_error_def rpc_error_of_json_def i64_of_json_def

lemma begin_round_trip:
  "begin_params_of_json (json_of_begin_params bp) = Some bp" "begin_result_of_json (json_of_begin_result br) = Some br"
  by (simp_all add: shape_defs reading_simps)

lemma profile_round_trip: "profile_of_json (json_of_profile p) = Some p"
  by (simp add: shape_defs reading_simps)

lemma attach_round_trip:
  "attach_params_of_json (json_of_attach_params ap) = Some ap" "attach_result_of_json (json_of_attach_result ar) = Some ar"
  by (simp_all add: json_of_attach_params_def attach_params_of_json_def json_of_attach_result_def
      attach_result_of_json_def reading_simps profile_round_trip)

lemma detach_round_trip:
  "detach_params_of_json (json_of_detach_params dp) = Some dp" "detach_result_of_json (json_of_detach_result dr) = Some dr"
  by (cases dr; simp add: shape_defs reading_simps)+

lemma sign_round_trip:
  "sign_params_of_json (json_of_sign_params sp) =
     Some (sp\<lparr>scp_context := (if scp_context sp = Some J_Null then None else scp_context sp)\<rparr>)"
  "sign_result_of_json (json_of_sign_result sr) = Some sr"
  by (simp_all add: shape_defs reading_simps option_of_optional(2))

lemma rpc_error_round_trip:
  "rpc_error_of_json (json_of_rpc_error e) =
     (if - (2 ^ 63) \<le> re_code e \<and> re_code e < 2 ^ 63 then Some e else None)"
  by (simp add: shape_defs reading_simps)

lemma option_of_taxonomy_error:
  "option_of_json rpc_error_of_json (json_of_rpc_error (to_rpc_error c)) = Some (Some (to_rpc_error c))"
proof -
  have "- (2 ^ 63) \<le> error_number c \<and> error_number c < 2 ^ 63" by (cases c) simp_all
  then show ?thesis
    by (simp add: option_of_json_def rpc_error_round_trip to_rpc_error_def)
      (simp add: json_of_rpc_error_def json_object_def)
qed

section \<open>Properties\<close>

text \<open>
  C21. The shapes of the wire contract are read back as they were written, in both directions of every
  shape one half writes and the other reads.  The one exception is a callback whose context is the JSON
  \<open>null\<close>: it is read as no context.  An attach result without capabilities, from an engine
  that does not send them, is read with none, and so is one written as the array of its fields.
\<close>

theorem wire_shapes_round_trip:
  "begin_params_of_json (json_of_begin_params bp :: 'f json) = Some bp
   \<and> begin_result_of_json (json_of_begin_result br :: 'f json) = Some br
   \<and> attach_params_of_json (json_of_attach_params ap :: 'f json) = Some ap
   \<and> attach_result_of_json (json_of_attach_result ar :: 'f json) = Some ar
   \<and> detach_params_of_json (json_of_detach_params dp :: 'f json) = Some dp
   \<and> detach_result_of_json (json_of_detach_result dr :: 'f json) = Some dr
   \<and> sign_params_of_json (json_of_sign_params sp :: 'f json) =
       Some (sp\<lparr>scp_context := (if scp_context sp = Some J_Null then None else scp_context sp)\<rparr>)
   \<and> sign_result_of_json (json_of_sign_result sr :: 'f json) = Some sr
   \<and> attach_result_of_json (json_object [(''session_id'', J_String s)] :: 'f json)
       = Some \<lparr>ar_session_id = s, ar_engine_capabilities = []\<rparr>
   \<and> attach_result_of_json (J_Array [J_String s] :: 'f json) = Some \<lparr>ar_session_id = s, ar_engine_capabilities = []\<rparr>
   \<and> attach_result_of_json (json_object [(''engine_capabilities'', json_strings cs)] :: 'f json) = None"
  by (simp add: begin_round_trip attach_round_trip detach_round_trip sign_round_trip)
    (simp add: attach_result_of_json_def reading_simps)


end
