(* ===== verification/Signer.thy ===== *)
theory Signer
  imports Domain
begin

text \<open>
  The signing seams of \<open>src/signer.rs\<close>.  A trait is a record of operations on the state of its
  implementor: the traits take \<open>&self\<close>, but an implementor may keep its state in a cell, a
  lock or outside the process (a profile that gets locked, a confirmation prompt, a cached
  resolver), so each operation returns the state after it.  The provided methods of
  \<open>SessionSigner\<close> are the functions \<open>default_try_sign\<close> and
  \<open>default_signing_public_key_hex\<close>, which an implementor that does not override them uses.
\<close>

section \<open>SessionSigner\<close>

record 's session_signer =
  signing_public_key :: "'s \<Rightarrow> signing_public_key \<times> 's"
  sign :: "'s \<Rightarrow> u8 list \<Rightarrow> signature \<times> 's"
  try_sign :: "'s \<Rightarrow> u8 list \<Rightarrow> signature option \<times> 's"
  signing_public_key_hex :: "'s \<Rightarrow> string \<times> 's"

definition default_try_sign ::
  "('s \<Rightarrow> u8 list \<Rightarrow> signature \<times> 's) \<Rightarrow> 's \<Rightarrow> u8 list \<Rightarrow> signature option \<times> 's" where
  "default_try_sign sg s message = (case sg s message of (sig, s') \<Rightarrow> (Some sig, s'))"

definition default_signing_public_key_hex ::
  "hex_crate \<Rightarrow> ('s \<Rightarrow> signing_public_key \<times> 's) \<Rightarrow> 's \<Rightarrow> string \<times> 's" where
  "default_signing_public_key_hex H pk s = (case pk s of (k, s') \<Rightarrow> (key_to_hex H k, s'))"

section \<open>DidSigningKeyResolver\<close>

type_synonym 'r did_signing_key_resolver = "'r \<Rightarrow> string \<Rightarrow> signing_public_key option \<times> 'r"

section \<open>SignPolicy\<close>

record 'v sign_request =
  sq_session_id :: string
  sq_op_id :: string
  sq_payload_type :: string
  sq_payload :: "u8 list"
  sq_context :: "'v option"

datatype sign_decision = Allow | Deny string

type_synonym ('v, 'p) sign_policy = "'p \<Rightarrow> 'v sign_request \<Rightarrow> sign_decision \<times> 'p"

datatype allow_all_sign_policy = AllowAllSignPolicy

fun allow_all_authorize :: "(('v, allow_all_sign_policy) sign_policy)" where
  "allow_all_authorize p request = (Allow, p)"

datatype deny_all_sign_policy = DenyAllSignPolicy

fun deny_all_authorize :: "(('v, deny_all_sign_policy) sign_policy)" where
  "deny_all_authorize p request = (Deny ''signing is disabled by policy'', p)"

section \<open>The contract of a signer\<close>

text \<open>
  What the trait's documentation asks of an implementor: the public key does not depend on the lock
  state and reading it changes nothing, the hex form is that of the key, and \<open>try_sign\<close> answers
  with the signature \<open>sign\<close> would make or with nothing.
\<close>

locale signer_contract =
  fixes H :: hex_crate and S :: "'s session_signer" and identity :: "'s \<Rightarrow> signing_public_key"
  assumes public_key: "signing_public_key S s = (identity s, s)"
    and public_key_hex: "signing_public_key_hex S s = (key_to_hex H (identity s), s)"
    and try_sign_agrees: "try_sign S s m = (Some sig, s') \<Longrightarrow> sign S s m = (sig, s')"
    and identity_kept: "try_sign S s m = (r, s') \<Longrightarrow> identity s' = identity s"
begin

lemma hex_of_public_key:
  "fst (signing_public_key_hex S s) = key_to_hex H (fst (signing_public_key S s))"
  by (simp add: public_key public_key_hex)

lemma hex_stable: "fst (signing_public_key_hex S (snd (try_sign S s m))) = fst (signing_public_key_hex S s)"
  using identity_kept [of s m "fst (try_sign S s m)" "snd (try_sign S s m)"]
  by (simp add: public_key_hex)

end

end
