(* ===== verification/Transport.thy ===== *)
theory Transport
  imports Bounds
begin

text \<open>
  The transport and entropy seams of \<open>src/transport.rs\<close>: the \<open>FrameTransport\<close> trait, the
  newline-delimited \<open>LineTransport\<close> with the standard library's buffered reader under it, and the
  nonce sources.  The locale \<open>logged_transport\<close> is what the client's proofs use of a transport.
\<close>

section \<open>I/O errors\<close>

datatype io_error_kind = UnexpectedEof | InvalidData | Interrupted | OtherKind nat

datatype io_error = SimpleError io_error_kind | CustomError io_error_kind string

fun io_kind :: "io_error \<Rightarrow> io_error_kind" where
  "io_kind (SimpleError k) = k"
| "io_kind (CustomError k m) = k"

section \<open>FrameTransport\<close>

record 't frame_transport =
  send_frame :: "'t \<Rightarrow> string \<Rightarrow> (io_error + unit) \<times> 't"
  recv_frame :: "'t \<Rightarrow> (io_error + string) \<times> 't"

text \<open>
  A transport seen through a log of the frames it has sent: a frame that is sent is appended, and
  nothing else changes the log.
\<close>

locale logged_transport =
  fixes T :: "'t frame_transport" and log :: "'t \<Rightarrow> 'l" and entry :: "string \<Rightarrow> 'l \<Rightarrow> 'l"
  assumes send_log: "send_frame T t f = (Inr (), t') \<Longrightarrow> log t' = entry f (log t)"
    and send_error_log: "send_frame T t f = (Inl e, t') \<Longrightarrow> log t' = log t"
    and recv_log: "recv_frame T t = (r, t') \<Longrightarrow> log t' = log t"

section \<open>The buffered reader\<close>

text \<open>
  A \<open>Read\<close> implementor is the list of results its \<open>read\<close> calls return, in order: an error or
  a chunk of bytes, an empty chunk meaning that the stream has ended for now; after the list every
  call returns no bytes.  \<open>BufReader\<close> is that list with the bytes read but not yet consumed.
\<close>

record buf_reader =
  buffered :: "u8 list"
  source :: "(io_error + u8 list) list"

definition buf_reader_new :: "(io_error + u8 list) list \<Rightarrow> buf_reader" where
  "buf_reader_new reads = \<lparr>buffered = [], source = reads\<rparr>"

definition newline :: u8 where
  "newline = 10"

text \<open>
  \<open>(&mut reader).take(limit).read_until(b'\n', &mut buf)\<close>: the loop of \<open>read_until\<close> over
  \<open>Take\<close> over \<open>BufReader\<close>.  It retries an interrupted read, stops at the newline, at the end
  of the stream or when the limit is used up, and returns the bytes appended to \<open>buf\<close>.
\<close>

function read_until :: "nat \<Rightarrow> u8 list \<Rightarrow> u8 list \<Rightarrow> (io_error + u8 list) list \<Rightarrow>
    (io_error + u8 list) \<times> u8 list \<times> (io_error + u8 list) list" where
  "read_until limit buf buffer src =
     (if limit = 0 then (Inr buf, buffer, src)
      else if buffer = [] then
        (case src of
           [] \<Rightarrow> (Inr buf, [], [])
         | Inl e # rest \<Rightarrow>
             if io_kind e = Interrupted then read_until limit buf [] rest else (Inl e, [], rest)
         | Inr chunk # rest \<Rightarrow>
             if chunk = [] then (Inr buf, [], rest) else read_until limit buf chunk rest)
      else
        (let available = take limit buffer in
         case deque_position (\<lambda>b. b = newline) available of
           Some i \<Rightarrow> (Inr (buf @ take (Suc i) available), drop (Suc i) buffer, src)
         | None \<Rightarrow> read_until (limit - length available) (buf @ available)
             (drop (length available) buffer) src))"
  by pat_completeness auto
termination
  by (relation "measures [\<lambda>(limit, buf, buffer, src). length src, \<lambda>(limit, buf, buffer, src). length buffer]")
    auto

declare read_until.simps [simp del]

section \<open>UTF-8\<close>

text \<open>
  The well-formed byte sequences of the Unicode standard (its table 3-7), which
  \<open>String::from_utf8\<close> accepts: the first byte says how many bytes follow and in which range the
  second byte lies; every later byte is a continuation byte.
\<close>

definition utf8_cont :: "u8 \<Rightarrow> bool" where
  "utf8_cont b \<longleftrightarrow> 0x80 \<le> b \<and> b \<le> 0xBF"

definition utf8_following :: "u8 \<Rightarrow> nat option" where
  "utf8_following a =
     (if a < 0x80 then Some 0
      else if 0xC2 \<le> a \<and> a \<le> 0xDF then Some 1
      else if 0xE0 \<le> a \<and> a \<le> 0xEF then Some 2
      else if 0xF0 \<le> a \<and> a \<le> 0xF4 then Some 3
      else None)"

definition utf8_second :: "u8 \<Rightarrow> u8 \<Rightarrow> bool" where
  "utf8_second a b \<longleftrightarrow>
     (if a = 0xE0 then 0xA0 \<le> b \<and> b \<le> 0xBF
      else if a = 0xED then 0x80 \<le> b \<and> b \<le> 0x9F
      else if a = 0xF0 then 0x90 \<le> b \<and> b \<le> 0xBF
      else if a = 0xF4 then 0x80 \<le> b \<and> b \<le> 0x8F
      else utf8_cont b)"

definition utf8_rest :: "u8 \<Rightarrow> u8 list \<Rightarrow> nat option" where
  "utf8_rest a bs =
     (case utf8_following a of
        None \<Rightarrow> None
      | Some k \<Rightarrow>
          if k = 0 \<or> k \<le> length bs \<and> utf8_second a (bs ! 0) \<and> list_all utf8_cont (take (k - 1) (tl bs))
          then Some k else None)"

fun utf8_valid :: "u8 list \<Rightarrow> bool" where
  "utf8_valid [] = True"
| "utf8_valid (a # bs) =
     (case utf8_rest a bs of None \<Rightarrow> False | Some k \<Rightarrow> utf8_valid (drop k bs))"

definition string_from_utf8 :: "u8 list \<Rightarrow> string option" where
  "string_from_utf8 buf = (if utf8_valid buf then Some (bytes_str buf) else None)"

definition trim_end_newlines :: "string \<Rightarrow> string" where
  "trim_end_newlines s = rev (dropWhile (\<lambda>c. c = CHR 0x0A \<or> c = CHR 0x0D) (rev s))"

section \<open>LineTransport\<close>

text \<open>The \<open>Write\<close> operations the transport calls, on the state of a writer.\<close>

record 'w writer_ops =
  write_all :: "'w \<Rightarrow> u8 list \<Rightarrow> (io_error + unit) \<times> 'w"
  flush :: "'w \<Rightarrow> (io_error + unit) \<times> 'w"

definition vec_writer :: "u8 list writer_ops" where
  "vec_writer = \<lparr>write_all = (\<lambda>w bs. (Inr (), w @ bs)), flush = (\<lambda>w. (Inr (), w))\<rparr>"

record 'w line_transport =
  reader :: buf_reader
  writer :: 'w

definition line_transport_new :: "(io_error + u8 list) list \<Rightarrow> 'w \<Rightarrow> 'w line_transport" where
  "line_transport_new r w = \<lparr>reader = buf_reader_new r, writer = w\<rparr>"

definition line_send_frame ::
  "'w writer_ops \<Rightarrow> 'w line_transport \<Rightarrow> string \<Rightarrow> (io_error + unit) \<times> 'w line_transport" where
  "line_send_frame W t frame =
     (case try_then (write_all W (writer t) (str_bytes frame)) (\<lambda>_ w.
           try_then (write_all W w [newline]) (\<lambda>_ w. flush W w)) of
        (r, w) \<Rightarrow> (r, t\<lparr>writer := w\<rparr>))"

definition line_recv_frame :: "'w line_transport \<Rightarrow> (io_error + string) \<times> 'w line_transport" where
  "line_recv_frame t =
     (case read_until MAX_FRAME_BYTES [] (buffered (reader t)) (source (reader t)) of
        (r, buffer, src) \<Rightarrow>
          ((case r of
              Inl e \<Rightarrow> Inl e
            | Inr buf \<Rightarrow>
                if length buf = 0 then Inl (SimpleError UnexpectedEof)
                else if last buf \<noteq> newline \<and> MAX_FRAME_BYTES \<le> length buf
                then Inl (CustomError InvalidData ''peer frame exceeds the maximum size'')
                else (case string_from_utf8 buf of
                    None \<Rightarrow> Inl (CustomError InvalidData ''peer frame is not UTF-8'')
                  | Some text \<Rightarrow> Inr (trim_end_newlines text))),
           t\<lparr>reader := \<lparr>buffered = buffer, source = src\<rparr>\<rparr>))"

definition line_transport_ops :: "'w writer_ops \<Rightarrow> 'w line_transport frame_transport" where
  "line_transport_ops W = \<lparr>send_frame = line_send_frame W, recv_frame = line_recv_frame\<rparr>"

interpretation vec_line: logged_transport "line_transport_ops vec_writer" writer
  "\<lambda>f l. l @ str_bytes f @ [newline]"
  by unfold_locales
    (auto simp: line_transport_ops_def line_send_frame_def line_recv_frame_def vec_writer_def
      split: prod.splits)

section \<open>SessionEntropy\<close>

text \<open>
  A nonce source draws a fresh array from its state, or panics (\<open>None\<close>).  \<open>getrandom\<close> fills
  the buffer it is given or fails.
\<close>

type_synonym 'e session_entropy = "'e \<Rightarrow> 32 bytes option \<times> 'e"

type_synonym 'o getrandom = "32 bytes \<Rightarrow> 'o \<Rightarrow> (string + 32 bytes) \<times> 'o"

definition os_fill_nonce :: "'o getrandom \<Rightarrow> 'o session_entropy" where
  "os_fill_nonce getrandom os =
     (case getrandom (array_of 0) os of
        (Inl _, os') \<Rightarrow> (None, os')
      | (Inr nonce, os') \<Rightarrow> (Some nonce, os'))"

section \<open>Reading from a byte stream\<close>

text \<open>
  The reader delivers a stream of bytes in chunks whose boundaries the protocol must not depend on.
  \<open>stream_of\<close> is that stream for a reader that makes progress without errors, and
  \<open>line_bytes\<close> is what one call of \<open>read_until\<close> takes from it: the bytes up to and with the
  first newline, but at most \<open>limit\<close> of them.
\<close>

definition progressing :: "(io_error + u8 list) list \<Rightarrow> bool" where
  "progressing src \<longleftrightarrow> (\<forall>r \<in> set src. \<exists>b bs. r = Inr (b # bs))"

definition stream_of :: "u8 list \<Rightarrow> (io_error + u8 list) list \<Rightarrow> u8 list" where
  "stream_of buffer src = buffer @ concat (map (case_sum (\<lambda>_. []) (\<lambda>c. c)) src)"

definition line_bytes :: "nat \<Rightarrow> u8 list \<Rightarrow> u8 list" where
  "line_bytes limit s =
     (let w = takeWhile (\<lambda>b. b \<noteq> newline) (take limit s)
      in if length w < length (take limit s) then w @ [newline] else take limit s)"

lemma line_bytes_0 [simp]: "line_bytes 0 s = []"
  by (simp add: line_bytes_def)

lemma line_bytes_Nil [simp]: "line_bytes limit [] = []"
  by (simp add: line_bytes_def)

lemma line_bytes_Cons:
  "line_bytes (Suc limit) (b # s) = (if b = newline then [newline] else b # line_bytes limit s)"
  by (simp add: line_bytes_def Let_def)

lemma line_bytes_no_newline:
  "newline \<notin> set xs \<Longrightarrow> length xs \<le> limit \<Longrightarrow>
     line_bytes limit (xs @ s) = xs @ line_bytes (limit - length xs) s"
proof (induction xs arbitrary: limit)
  case (Cons x xs)
  then show ?case by (cases limit) (auto simp: line_bytes_Cons)
qed simp

lemma line_bytes_newline:
  assumes "newline \<notin> set xs" and "length xs < limit"
  shows "line_bytes limit (xs @ newline # s) = xs @ [newline]"
proof -
  obtain k where "limit - length xs = Suc k" using assms(2) by (metis Suc_diff_Suc)
  with assms show ?thesis by (simp add: line_bytes_no_newline line_bytes_Cons)
qed

lemma length_line_bytes: "length (line_bytes limit s) \<le> limit"
proof (induction s arbitrary: limit)
  case (Cons b s)
  then show ?case by (cases limit) (auto simp: line_bytes_Cons)
qed simp

lemma line_bytes_empty_iff: "line_bytes limit s = [] \<longleftrightarrow> limit = 0 \<or> s = []"
  by (cases limit; cases s) (auto simp: line_bytes_Cons)

text \<open>One round of the loop that consumes the buffered bytes, in terms of the stream.\<close>

lemma line_bytes_available:
  assumes "buffer \<noteq> []" and "0 < limit"
  shows "line_bytes limit (buffer @ s) =
    (case deque_position (\<lambda>b. b = newline) (take limit buffer) of
       Some i \<Rightarrow> take (Suc i) (take limit buffer)
     | None \<Rightarrow> take limit buffer @
         line_bytes (limit - length (take limit buffer)) (drop (length (take limit buffer)) buffer @ s))"
proof (cases "newline \<in> set (take limit buffer)")
  case True
  then obtain xs ys where split: "take limit buffer = xs @ newline # ys" and xs: "newline \<notin> set xs"
    by (meson split_list_first)
  then have len: "length xs < limit"
    by (metis length_append length_Cons length_take less_add_Suc1 min.strict_boundedE min_less_iff_conj add_Suc_right)
  have "buffer @ s = xs @ newline # ys @ drop limit buffer @ s"
    using split append_take_drop_id [of limit buffer] by (metis append.assoc append_Cons)
  then have "line_bytes limit (buffer @ s) = xs @ [newline]"
    by (simp only: line_bytes_newline [OF xs len])
  moreover have "takeWhile (\<lambda>b. b \<noteq> newline) (xs @ newline # ys) = xs"
    using xs by (induction xs) auto
  ultimately show ?thesis
    unfolding split by (simp add: deque_position_takeWhile)
next
  case False
  have "buffer @ s = take limit buffer @ drop (length (take limit buffer)) buffer @ s"
    by (simp add: min_def)
  then have "line_bytes limit (buffer @ s)
      = take limit buffer @ line_bytes (limit - length (take limit buffer))
          (drop (length (take limit buffer)) buffer @ s)"
    using line_bytes_no_newline [OF False, of limit] by (metis length_take min.cobounded2)
  moreover have "deque_position (\<lambda>b. b = newline) (take limit buffer) = None"
    using False by (auto simp: deque_position_takeWhile)
  ultimately show ?thesis by simp
qed

lemma progressing_simps [simp]:
  "progressing []"
  "progressing (Inl e # src) = False"
  "progressing (Inr c # src) \<longleftrightarrow> c \<noteq> [] \<and> progressing src"
  by (auto simp: progressing_def neq_Nil_conv)

lemma stream_of_simps [simp]:
  "stream_of buffer [] = buffer"
  "stream_of [] (Inr c # src) = stream_of c src"
  by (simp_all add: stream_of_def)

lemma stream_of_append: "stream_of (xs @ ys) src = xs @ stream_of ys src"
  by (simp add: stream_of_def)

lemma read_until_stream:
  assumes "progressing src"
  shows "\<exists>buffer' src'. read_until limit buf buffer src =
      (Inr (buf @ line_bytes limit (stream_of buffer src)), buffer', src')
    \<and> progressing src'
    \<and> stream_of buffer' src'
        = drop (length (line_bytes limit (stream_of buffer src))) (stream_of buffer src)"
  using assms
proof (induction limit buf buffer src rule: read_until.induct)
  case (1 limit buf buffer src)
  note unfold = read_until.simps [of limit buf buffer src]
  consider (full) "limit = 0" | (empty) "0 < limit" "buffer = []" "src = []"
    | (chunk) c rest where "0 < limit" "buffer = []" "src = Inr c # rest" "c \<noteq> []"
    | (data) "0 < limit" "buffer \<noteq> []"
    using "1.prems" by (cases src; cases "hd src") auto
  then show ?case
  proof cases
    case full
    with "1.prems" show ?thesis by (subst unfold) simp
  next
    case empty
    then show ?thesis by (subst unfold) simp
  next
    case chunk
    with "1.prems" have "progressing rest" by simp
    with chunk "1.IH"(2) [of "Inr c" rest c] show ?thesis by (subst unfold) simp
  next
    case data
    let ?a = "take limit buffer"
    have stream: "stream_of buffer src = buffer @ stream_of [] src"
      by (simp add: stream_of_def)
    show ?thesis
    proof (cases "deque_position (\<lambda>b. b = newline) ?a")
      case None
      let ?buffer = "drop (length ?a) buffer"
      have line: "line_bytes limit (stream_of buffer src)
          = ?a @ line_bytes (limit - length ?a) (stream_of ?buffer src)"
        unfolding stream using line_bytes_available [OF data(2,1)] None by (simp add: stream_of_def)
      have split: "stream_of buffer src = ?a @ stream_of ?buffer src"
        by (simp add: min_def flip: stream_of_append)
      from data None have "read_until limit buf buffer src
          = read_until (limit - length ?a) (buf @ ?a) ?buffer src"
        by (subst unfold) (simp add: Let_def)
      moreover have "drop (length (line_bytes limit (stream_of buffer src))) (stream_of buffer src)
          = drop (length (line_bytes (limit - length ?a) (stream_of ?buffer src))) (stream_of ?buffer src)"
        unfolding line by (subst split) simp
      ultimately show ?thesis
        using "1.IH"(3) [OF _ _ refl None] data "1.prems" by (simp add: line)
    next
      case (Some i)
      have i: "i < length ?a"
        using Some by (rule deque_position_less)
      have line: "line_bytes limit (stream_of buffer src) = take (Suc i) ?a"
        unfolding stream using line_bytes_available [OF data(2,1)] Some by simp
      have "length (take (Suc i) ?a) = Suc i" using i by simp
      moreover have "drop (Suc i) (stream_of buffer src) = stream_of (drop (Suc i) buffer) src"
        using i by (simp add: stream_of_def)
      moreover have "read_until limit buf buffer src
          = (Inr (buf @ take (Suc i) ?a), drop (Suc i) buffer, src)"
        using data Some by (subst unfold) (simp add: Let_def)
      ultimately show ?thesis using "1.prems" by (simp add: line)
    qed
  qed
qed

section \<open>Receiving and sending frames\<close>

text \<open>What one \<open>recv_frame\<close> makes of the bytes it read.\<close>

definition frame_of_bytes :: "u8 list \<Rightarrow> io_error + string" where
  "frame_of_bytes buf =
     (if length buf = 0 then Inl (SimpleError UnexpectedEof)
      else if last buf \<noteq> newline \<and> MAX_FRAME_BYTES \<le> length buf
      then Inl (CustomError InvalidData ''peer frame exceeds the maximum size'')
      else (case string_from_utf8 buf of
          None \<Rightarrow> Inl (CustomError InvalidData ''peer frame is not UTF-8'')
        | Some text \<Rightarrow> Inr (trim_end_newlines text)))"

definition transport_stream :: "'w line_transport \<Rightarrow> u8 list" where
  "transport_stream t = stream_of (buffered (reader t)) (source (reader t))"

definition transport_progressing :: "'w line_transport \<Rightarrow> bool" where
  "transport_progressing t \<longleftrightarrow> progressing (source (reader t))"

lemma line_recv_frame_stream:
  assumes "transport_progressing t"
  shows "\<exists>t'. line_recv_frame t = (frame_of_bytes (line_bytes MAX_FRAME_BYTES (transport_stream t)), t')
    \<and> transport_progressing t' \<and> writer t' = writer t
    \<and> transport_stream t' = drop (length (line_bytes MAX_FRAME_BYTES (transport_stream t))) (transport_stream t)"
proof -
  let ?l = "line_bytes MAX_FRAME_BYTES (transport_stream t)"
  obtain buffer' src' where
    "read_until MAX_FRAME_BYTES [] (buffered (reader t)) (source (reader t)) = (Inr ?l, buffer', src')"
    and "progressing src'" and "stream_of buffer' src' = drop (length ?l) (transport_stream t)"
    using read_until_stream [of "source (reader t)" MAX_FRAME_BYTES "[]" "buffered (reader t)"] assms
    by (auto simp: transport_progressing_def transport_stream_def)
  then show ?thesis
    by (auto simp: line_recv_frame_def frame_of_bytes_def transport_progressing_def transport_stream_def)
qed

text \<open>A frame that survives the line framing: valid UTF-8, no newline, no trailing carriage return.\<close>

definition sendable :: "string \<Rightarrow> bool" where
  "sendable f \<longleftrightarrow> utf8_valid (str_bytes f) \<and> CHR 0x0A \<notin> set f \<and> (f \<noteq> [] \<longrightarrow> last f \<noteq> CHR 0x0D)
     \<and> length f < MAX_FRAME_BYTES"

lemma newline_byte: "byte_of_char c = newline \<longleftrightarrow> c = CHR 0x0A"
proof -
  have "newline = byte_of_char CHR 0x0A" by (simp add: newline_def byte_of_char_def)
  then show ?thesis by (metis byte_of_char_eq_iff)
qed

lemma newline_in_str_bytes: "newline \<in> set (str_bytes f) \<longleftrightarrow> CHR 0x0A \<in> set f"
  unfolding str_bytes_def set_map image_iff by (metis newline_byte)

lemma utf8_rest_append:
  assumes "utf8_rest a xs = Some k"
  shows "utf8_rest a (xs @ ys) = Some k \<and> k \<le> length xs"
proof (cases "k = 0")
  case True
  with assms show ?thesis by (auto simp: utf8_rest_def split: option.splits if_splits)
next
  case False
  with assms have "utf8_following a = Some k" "k \<le> length xs" "utf8_second a (xs ! 0)"
    "list_all utf8_cont (take (k - 1) (tl xs))"
    by (auto simp: utf8_rest_def split: option.splits if_splits)
  moreover from this False have "xs \<noteq> []" by auto
  ultimately show ?thesis by (simp add: utf8_rest_def nth_append tl_append2)
qed

lemma utf8_valid_append: "utf8_valid xs \<Longrightarrow> utf8_valid ys \<Longrightarrow> utf8_valid (xs @ ys)"
proof (induction xs rule: utf8_valid.induct)
  case (2 a bs)
  then obtain k where k: "utf8_rest a bs = Some k" and valid: "utf8_valid (drop k bs)"
    by (auto split: option.splits)
  with "2.IH" "2.prems" have "utf8_valid (drop k bs @ ys)" by blast
  with utf8_rest_append [OF k, of ys] show ?case by simp
qed simp

lemma utf8_valid_newline: "utf8_valid [newline]"
  by (simp add: utf8_rest_def utf8_following_def newline_def)

lemma trim_end_newlines_newline: "trim_end_newlines (s @ [CHR 0x0A]) = trim_end_newlines s"
  by (simp add: trim_end_newlines_def)

lemma trim_end_newlines_id:
  "(s \<noteq> [] \<longrightarrow> last s \<noteq> CHR 0x0A \<and> last s \<noteq> CHR 0x0D) \<Longrightarrow> trim_end_newlines s = s"
  by (cases s rule: rev_cases) (auto simp: trim_end_newlines_def)

lemma frame_of_line:
  assumes "sendable f"
  shows "frame_of_bytes (str_bytes f @ [newline]) = Inr f"
proof -
  have "utf8_valid (str_bytes f @ [newline])"
    using assms by (intro utf8_valid_append utf8_valid_newline) (simp add: sendable_def)
  moreover have "bytes_str (str_bytes f @ [newline]) = f @ [CHR 0x0A]"
    by (metis bytes_str_bytes list.simps(8,9) map_append newline_byte str_bytes_def)
  moreover have "trim_end_newlines (f @ [CHR 0x0A]) = f"
    using assms
    by (simp only: trim_end_newlines_newline, intro trim_end_newlines_id)
      (auto simp: sendable_def dest: last_in_set)
  ultimately show ?thesis by (simp add: frame_of_bytes_def string_from_utf8_def)
qed

lemma line_bytes_of_frame:
  assumes "sendable f"
  shows "line_bytes MAX_FRAME_BYTES (str_bytes f @ newline # s) = str_bytes f @ [newline]"
  using assms by (intro line_bytes_newline) (auto simp: sendable_def newline_in_str_bytes)

text \<open>\<open>send_frame\<close> and \<open>recv_frame\<close> over lists of frames, in order.\<close>

fun send_all :: "'w writer_ops \<Rightarrow> 'w line_transport \<Rightarrow> string list \<Rightarrow> (io_error + unit) \<times> 'w line_transport" where
  "send_all W t [] = (Inr (), t)"
| "send_all W t (f # fs) = try_then (line_send_frame W t f) (\<lambda>_ t. send_all W t fs)"

fun recv_many :: "nat \<Rightarrow> 'w line_transport \<Rightarrow> (io_error + string) list \<times> 'w line_transport" where
  "recv_many 0 t = ([], t)"
| "recv_many (Suc n) t =
     (case line_recv_frame t of (r, t) \<Rightarrow> (case recv_many n t of (rs, t) \<Rightarrow> (r # rs, t)))"

definition lines_of :: "string list \<Rightarrow> u8 list" where
  "lines_of fs = concat (map (\<lambda>f. str_bytes f @ [newline]) fs)"

lemma send_all_vec:
  "send_all vec_writer t fs = (Inr (), t\<lparr>writer := writer t @ lines_of fs\<rparr>)"
  by (induction fs arbitrary: t) (simp_all add: lines_of_def line_send_frame_def vec_writer_def)

lemma recv_many_lines:
  assumes "transport_progressing t" and "transport_stream t = lines_of fs" and "\<forall>f \<in> set fs. sendable f"
  shows "fst (recv_many (Suc (length fs)) t) = map Inr fs @ [Inl (SimpleError UnexpectedEof)]"
  using assms
proof (induction fs arbitrary: t)
  case Nil
  then obtain t' where "line_recv_frame t = (frame_of_bytes [], t')"
    using line_recv_frame_stream [of t] by (auto simp: lines_of_def)
  then show ?case by (simp add: frame_of_bytes_def)
next
  case (Cons f fs)
  have stream: "transport_stream t = str_bytes f @ newline # lines_of fs"
    using Cons.prems(2) by (simp add: lines_of_def)
  have f: "sendable f" using Cons.prems(3) by simp
  obtain t' where t': "line_recv_frame t = (Inr f, t')" "transport_progressing t'"
    "transport_stream t' = lines_of fs"
    using line_recv_frame_stream [OF Cons.prems(1)]
    unfolding stream line_bytes_of_frame [OF f] frame_of_line [OF f] by auto
  then have "fst (recv_many (Suc (length fs)) t') = map Inr fs @ [Inl (SimpleError UnexpectedEof)]"
    using Cons by simp
  with t'(1) show ?case
    by (cases "recv_many (Suc (length fs)) t'") (simp del: recv_many.simps(2)
        add: recv_many.simps(2) [of "Suc (length fs)"])
qed

text \<open>Whatever the reader does, one call takes at most \<open>limit\<close> bytes and ends at the first newline.\<close>

lemma read_until_bounded:
  assumes "read_until limit buf buffer src = (Inr buf', buffer', src')"
  shows "\<exists>got. buf' = buf @ got \<and> length got \<le> limit \<and> newline \<notin> set (butlast got)"
  using assms
proof (induction limit buf buffer src rule: read_until.induct)
  case (1 limit buf buffer src)
  note unfold = read_until.simps [of limit buf buffer src]
  let ?a = "take limit buffer"
  consider (stop) "limit = 0 \<or> buffer = [] \<and> (case src of [] \<Rightarrow> True | Inr c # _ \<Rightarrow> c = [] | _ \<Rightarrow> False)"
    | (interrupt) e rest where "0 < limit" "buffer = []" "src = Inl e # rest" "io_kind e = Interrupted"
    | (error) e rest where "0 < limit" "buffer = []" "src = Inl e # rest" "io_kind e \<noteq> Interrupted"
    | (chunk) c rest where "0 < limit" "buffer = []" "src = Inr c # rest" "c \<noteq> []"
    | (data) "0 < limit" "buffer \<noteq> []"
    by (cases src; cases "hd src") auto
  then show ?case
  proof cases
    case stop
    with "1.prems" have "buf' = buf" by (subst (asm) unfold) (auto split: if_splits list.splits sum.splits)
    then show ?thesis by simp
  next
    case interrupt
    with "1.prems" have "read_until limit buf [] rest = (Inr buf', buffer', src')"
      by (subst (asm) unfold) simp
    with interrupt "1.IH"(1) [of "Inl e" rest e] show ?thesis by simp
  next
    case error
    with "1.prems" show ?thesis by (subst (asm) unfold) simp
  next
    case chunk
    with "1.prems" have "read_until limit buf c rest = (Inr buf', buffer', src')"
      by (subst (asm) unfold) simp
    with chunk "1.IH"(2) [of "Inr c" rest c] show ?thesis by simp
  next
    case data
    show ?thesis
    proof (cases "deque_position (\<lambda>b. b = newline) ?a")
      case None
      then have a: "newline \<notin> set ?a" by (auto simp: deque_position_takeWhile split: if_splits)
      from data None "1.prems" have "read_until (limit - length ?a) (buf @ ?a) (drop (length ?a) buffer) src
          = (Inr buf', buffer', src')"
        by (subst (asm) unfold) (simp add: Let_def)
      with "1.IH"(3) [OF _ _ refl None] data obtain got
        where "buf' = (buf @ ?a) @ got" "length got \<le> limit - length ?a" "newline \<notin> set (butlast got)"
        by auto
      with a show ?thesis
        by (intro exI [of _ "?a @ got"]) (auto simp: butlast_append dest: in_set_butlastD)
    next
      case (Some i)
      then have i: "i < length ?a" by (rule deque_position_less)
      from data Some "1.prems" have "buf' = buf @ take (Suc i) ?a"
        by (subst (asm) unfold) (simp add: Let_def)
      moreover have "take i ?a = takeWhile (\<lambda>b. b \<noteq> newline) ?a"
        using Some by (rule deque_position_take)
      then have "newline \<notin> set (take i ?a)" by (auto dest: set_takeWhileD)
      ultimately show ?thesis using i
        by (intro exI [of _ "take (Suc i) ?a"]) (simp add: take_Suc_conv_app_nth butlast_append)
    qed
  qed
qed

lemma newline_notin_bytes_str: "newline \<notin> set bs \<Longrightarrow> CHR 0x0A \<notin> set (bytes_str bs)"
  using newline_in_str_bytes [of "bytes_str bs"] by simp

lemma set_trim_end_subset: "set (trim_end_newlines s) \<subseteq> set s"
proof
  fix c assume "c \<in> set (trim_end_newlines s)"
  then have "c \<in> set (dropWhile (\<lambda>c. c = CHR 0x0A \<or> c = CHR 0x0D) (rev s))"
    by (simp add: trim_end_newlines_def)
  then have "c \<in> set (rev s)" by (rule set_dropWhileD)
  then show "c \<in> set s" by simp
qed

lemma set_trim_end: "set (trim_end_newlines s) \<subseteq> set (butlast s)
    \<or> trim_end_newlines s = s \<and> (s = [] \<or> last s \<noteq> CHR 0x0A)"
proof (cases s rule: rev_cases)
  case Nil
  then show ?thesis by (simp add: trim_end_newlines_def)
next
  case (snoc ys y)
  then show ?thesis
    using set_trim_end_subset [of ys] by (auto simp: trim_end_newlines_def)
qed

lemma length_trim_end: "length (trim_end_newlines s) \<le> length s"
  unfolding trim_end_newlines_def by (metis length_dropWhile_le length_rev)

lemma frame_of_bytes_bounded:
  assumes "frame_of_bytes buf = Inr f" and "newline \<notin> set (butlast buf)"
  shows "length f \<le> length buf \<and> CHR 0x0A \<notin> set f"
proof -
  have f: "f = trim_end_newlines (bytes_str buf)"
    using assms(1) by (auto simp: frame_of_bytes_def string_from_utf8_def split: if_splits)
  have "CHR 0x0A \<notin> set (butlast (bytes_str buf))"
    using newline_notin_bytes_str [OF assms(2)] by (simp add: bytes_str_def map_butlast)
  moreover from this have "CHR 0x0A \<notin> set (bytes_str buf)"
    if "bytes_str buf = [] \<or> last (bytes_str buf) \<noteq> CHR 0x0A"
    using that by (cases "bytes_str buf" rule: rev_cases) auto
  ultimately have "CHR 0x0A \<notin> set f"
    using set_trim_end [of "bytes_str buf"] unfolding f by auto
  moreover have "length f \<le> length buf"
    using length_trim_end [of "bytes_str buf"] by (simp add: f)
  ultimately show ?thesis by simp
qed

lemma recv_oversized:
  assumes "transport_progressing t" and "MAX_FRAME_BYTES \<le> length (transport_stream t)"
    and "newline \<notin> set (take MAX_FRAME_BYTES (transport_stream t))"
  shows "fst (line_recv_frame t) = Inl (CustomError InvalidData ''peer frame exceeds the maximum size'')
    \<and> transport_stream (snd (line_recv_frame t)) = drop MAX_FRAME_BYTES (transport_stream t)"
proof -
  let ?s = "transport_stream t" and ?b = "take MAX_FRAME_BYTES (transport_stream t)"
  have "line_bytes MAX_FRAME_BYTES (?b @ drop MAX_FRAME_BYTES ?s) = ?b"
    using assms(2,3) by (subst line_bytes_no_newline) auto
  then have line: "line_bytes MAX_FRAME_BYTES ?s = ?b" by simp
  have "?b \<noteq> []" using assms(2) MAX_FRAME_BYTES_pos by (auto simp del: MAX_FRAME_BYTES_pos)
  then have "last ?b \<noteq> newline" using assms(3) last_in_set by metis
  with \<open>?b \<noteq> []\<close> assms(2) line_recv_frame_stream [OF assms(1)] show ?thesis
    by (auto simp: line frame_of_bytes_def)
qed

section \<open>Properties\<close>

text \<open>
  C19. Framing round trip.  Frames that are valid UTF-8, hold no newline, do not end in a carriage
  return and are shorter than the bound are received exactly as they were sent, in order, however
  the reader cuts the byte stream into chunks; after the last one the channel reports
  \<open>UnexpectedEof\<close>.
\<close>

theorem framing_round_trip:
  assumes "\<forall>f \<in> set fs. sendable f"
    and "send_all vec_writer (line_transport_new [] []) fs = (Inr (), sender)"
    and "progressing src" and "stream_of [] src = writer sender"
  shows "fst (recv_many (Suc (length fs)) (line_transport_new src w))
    = map Inr fs @ [Inl (SimpleError UnexpectedEof)]"
  using assms by (intro recv_many_lines)
    (auto simp: send_all_vec line_transport_new_def buf_reader_new_def transport_progressing_def
      transport_stream_def)

lemma sample_sendable: "sendable ''ab''"
  by (simp add: sendable_def str_bytes_def byte_of_char_def utf8_rest_def utf8_following_def
      MAX_FRAME_BYTES_def)

theorem framing_round_trip_witness:
  "fst (recv_many 2 (line_transport_new [Inr (str_bytes ''a''), Inr (str_bytes ''b'' @ [newline])] ()))
     = [Inr ''ab'', Inl (SimpleError UnexpectedEof)]"
proof -
  have "fst (recv_many (Suc (length [''ab'']))
      (line_transport_new [Inr (str_bytes ''a''), Inr (str_bytes ''b'' @ [newline])] ()))
      = map Inr [''ab''] @ [Inl (SimpleError UnexpectedEof)]"
    by (rule framing_round_trip [where sender = "line_transport_new [] (lines_of [''ab''])"])
      (simp_all add: sample_sendable send_all_vec line_transport_new_def lines_of_def str_bytes_def
        stream_of_def del: send_all.simps)
  then show ?thesis by (simp add: eval_nat_numeral)
qed

text \<open>
  C30. Chunking is irrelevant.  On a reader that makes progress, the result of \<open>recv_frame\<close> and
  the bytes left to read depend only on the byte stream, not on where the reader cut it.
\<close>

theorem recv_frame_chunking_irrelevant:
  assumes "transport_progressing t" and "transport_progressing u"
    and "transport_stream t = transport_stream u"
  shows "fst (line_recv_frame t) = fst (line_recv_frame u)
    \<and> transport_stream (snd (line_recv_frame t)) = transport_stream (snd (line_recv_frame u))"
  using line_recv_frame_stream [OF assms(1)] line_recv_frame_stream [OF assms(2)] assms(3) by auto

theorem recv_frame_chunking_irrelevant_witness:
  "fst (line_recv_frame (line_transport_new [Inr (str_bytes ''a''), Inr [newline]] ()))
     = fst (line_recv_frame (line_transport_new [Inr (str_bytes ''a'' @ [newline])] ()))"
  using recv_frame_chunking_irrelevant [of "line_transport_new [Inr (str_bytes ''a''), Inr [newline]] ()"
      "line_transport_new [Inr (str_bytes ''a'' @ [newline])] ()"]
  by (simp add: transport_progressing_def transport_stream_def line_transport_new_def buf_reader_new_def
      str_bytes_def stream_of_def)

text \<open>
  C28. Received frames are bounded.  Whatever the peer and the reader do (errors, interruptions, any
  chunks), a frame that \<open>recv_frame\<close> returns has at most \<open>MAX_FRAME_BYTES\<close> bytes and holds no
  newline.
\<close>

theorem recv_frame_bounded:
  assumes "line_recv_frame t = (Inr f, t')"
  shows "length f \<le> MAX_FRAME_BYTES \<and> CHR 0x0A \<notin> set f"
proof -
  obtain buf buffer' src' where
    read: "read_until MAX_FRAME_BYTES [] (buffered (reader t)) (source (reader t)) = (Inr buf, buffer', src')"
    and f: "frame_of_bytes buf = Inr f"
    using assms by (auto simp: line_recv_frame_def frame_of_bytes_def split: prod.splits sum.splits)
  with read_until_bounded [OF read] frame_of_bytes_bounded [of buf f] show ?thesis by auto
qed

theorem recv_frame_bounded_witness:
  "\<exists>f. fst (line_recv_frame (line_transport_new [Inr (str_bytes ''ab'' @ [newline])] ())) = Inr f
     \<and> length f \<le> MAX_FRAME_BYTES"
proof -
  let ?t = "line_transport_new [Inr (str_bytes ''ab'' @ [newline])] ()"
  have "line_bytes MAX_FRAME_BYTES (transport_stream ?t) = str_bytes ''ab'' @ [newline]"
    using line_bytes_of_frame [OF sample_sendable, of "[]"]
    by (simp add: transport_stream_def line_transport_new_def buf_reader_new_def str_bytes_def)
  then obtain t' where t': "line_recv_frame ?t = (Inr ''ab'', t')"
    using line_recv_frame_stream [of ?t] frame_of_line [OF sample_sendable]
    by (auto simp: transport_progressing_def line_transport_new_def buf_reader_new_def str_bytes_def)
  from recv_frame_bounded [OF this] t' show ?thesis by simp
qed

text \<open>
  C29. Oversized frames are refused.  If the first \<open>MAX_FRAME_BYTES\<close> bytes of the stream hold no
  newline, \<open>recv_frame\<close> fails with \<open>InvalidData\<close> after taking exactly that many bytes.
\<close>

theorem oversized_frame_rejected:
  assumes "transport_progressing t" and "MAX_FRAME_BYTES \<le> length (transport_stream t)"
    and "newline \<notin> set (take MAX_FRAME_BYTES (transport_stream t))"
  shows "fst (line_recv_frame t) = Inl (CustomError InvalidData ''peer frame exceeds the maximum size'')
    \<and> transport_stream (snd (line_recv_frame t)) = drop MAX_FRAME_BYTES (transport_stream t)"
  using assms by (rule recv_oversized)

theorem oversized_frame_rejected_witness:
  "fst (line_recv_frame (line_transport_new [Inr (replicate MAX_FRAME_BYTES 65), Inr [newline]] ()))
     = Inl (CustomError InvalidData ''peer frame exceeds the maximum size'')"
proof -
  let ?t = "line_transport_new [Inr (replicate MAX_FRAME_BYTES 65), Inr [newline]] ()"
  have "transport_stream ?t = replicate MAX_FRAME_BYTES 65 @ [newline]" "transport_progressing ?t"
    by (simp_all add: transport_stream_def transport_progressing_def line_transport_new_def
        buf_reader_new_def stream_of_def)
  then show ?thesis
    using oversized_frame_rejected [of ?t] by (simp add: newline_def)
qed

end
