(* ===== verification/Test_Support.thy ===== *)
theory Test_Support
  imports Signer Transport Wire
begin

text \<open>
  The deterministic implementations of the seams in \<open>src/test_support.rs\<close>: signers over a BLS
  secret key, a resolver that knows one DID, a counter-based nonce source and the scripted transport.
  They provide the contracts of \<open>Signer\<close> and \<open>Transport\<close>, and they are the instances at which
  the theorems about the role-halves are applied.
\<close>

section \<open>Signers\<close>

text \<open>
  The key operations of \<open>chia-bls\<close> and \<open>rand_chacha\<close>: the bytes a seeded generator fills, key
  derivation from a seed, the compressed public key and the compressed AugScheme signature.
\<close>

record 'sk bls_keys =
  chacha_fill :: "u64 \<Rightarrow> 32 bytes"
  secret_from_seed :: "32 bytes \<Rightarrow> 'sk"
  public_key_bytes :: "'sk \<Rightarrow> 48 bytes"
  sign_bytes :: "'sk \<Rightarrow> u8 list \<Rightarrow> 96 bytes"

record 'sk test_signer =
  secret_key :: 'sk

definition test_signer_seeded :: "'sk bls_keys \<Rightarrow> u64 \<Rightarrow> 'sk test_signer" where
  "test_signer_seeded K seed = \<lparr>secret_key = secret_from_seed K (chacha_fill K seed)\<rparr>"

definition test_signer_public :: "'sk bls_keys \<Rightarrow> 'sk test_signer \<Rightarrow> signing_public_key" where
  "test_signer_public K s = SigningPublicKey (public_key_bytes K (secret_key s))"

definition test_signer_sign :: "'sk bls_keys \<Rightarrow> 'sk test_signer \<Rightarrow> u8 list \<Rightarrow> signature" where
  "test_signer_sign K s message = Signature (sign_bytes K (secret_key s) message)"

definition test_signer_ops :: "hex_crate \<Rightarrow> 'sk bls_keys \<Rightarrow> 'sk test_signer session_signer" where
  "test_signer_ops H K =
     \<lparr>signing_public_key = (\<lambda>s. (test_signer_public K s, s)),
      sign = (\<lambda>s m. (test_signer_sign K s m, s)),
      try_sign = default_try_sign (\<lambda>s m. (test_signer_sign K s m, s)),
      signing_public_key_hex = default_signing_public_key_hex H (\<lambda>s. (test_signer_public K s, s))\<rparr>"

record 'sk lockable_signer =
  inner :: "'sk test_signer"
  locked :: bool

definition lockable_signer_seeded :: "'sk bls_keys \<Rightarrow> u64 \<Rightarrow> bool \<Rightarrow> 'sk lockable_signer" where
  "lockable_signer_seeded K seed l = \<lparr>inner = test_signer_seeded K seed, locked = l\<rparr>"

definition lockable_try_sign :: "'sk bls_keys \<Rightarrow> 'sk lockable_signer \<Rightarrow> u8 list \<Rightarrow> signature option" where
  "lockable_try_sign K s message =
     (if locked s then None else Some (test_signer_sign K (inner s) message))"

definition lockable_sign :: "'sk bls_keys \<Rightarrow> 'sk lockable_signer \<Rightarrow> u8 list \<Rightarrow> signature" where
  "lockable_sign K s message =
     (case lockable_try_sign K s message of
        Some signature \<Rightarrow> signature
      | None \<Rightarrow> Signature (array_of 0))"

definition lockable_signer_ops :: "hex_crate \<Rightarrow> 'sk bls_keys \<Rightarrow> 'sk lockable_signer session_signer" where
  "lockable_signer_ops H K =
     \<lparr>signing_public_key = (\<lambda>s. (test_signer_public K (inner s), s)),
      sign = (\<lambda>s m. (lockable_sign K s m, s)),
      try_sign = (\<lambda>s m. (lockable_try_sign K s m, s)),
      signing_public_key_hex =
        default_signing_public_key_hex H (\<lambda>s. (test_signer_public K (inner s), s))\<rparr>"

interpretation test_signer: signer_contract H "test_signer_ops H K" "test_signer_public K"
  for H and K :: "'sk bls_keys"
  by unfold_locales
    (auto simp: test_signer_ops_def default_try_sign_def default_signing_public_key_hex_def)

interpretation lockable_signer: signer_contract H "lockable_signer_ops H K"
  "\<lambda>s. test_signer_public K (inner s)" for H and K :: "'sk bls_keys"
  by unfold_locales
    (auto simp: lockable_signer_ops_def lockable_sign_def default_signing_public_key_hex_def)

section \<open>Resolver and entropy\<close>

record stub_resolver =
  stub_did :: string
  stub_key :: signing_public_key

definition stub_resolve :: "stub_resolver did_signing_key_resolver" where
  "stub_resolve r profile_did = (if profile_did = stub_did r then Some (stub_key r) else None, r)"

record seq_entropy =
  counter :: u64
  seed :: "u8 list"

definition seq_entropy_new :: "u8 list \<Rightarrow> seq_entropy" where
  "seq_entropy_new s = \<lparr>counter = 0, seed = s\<rparr>"

definition u64_to_be_bytes :: "u64 \<Rightarrow> u8 list" where
  "u64_to_be_bytes w = map (\<lambda>i. ucast (drop_bit (8 * i) w)) [7, 6, 5, 4, 3, 2, 1, 0]"

text \<open>
  \<open>sha256\<close> is a parameter.  The counter is incremented with the overflow check of a test build.
\<close>

definition seq_fill_nonce :: "(u8 list \<Rightarrow> 32 bytes) \<Rightarrow> seq_entropy session_entropy" where
  "seq_fill_nonce sha256 e =
     (let n = counter e in
      if n = - 1 then (None, e)
      else (Some (sha256 (seed e @ u64_to_be_bytes n)), e\<lparr>counter := n + 1\<rparr>))"

section \<open>The scripted transport\<close>

record fake_transport =
  incoming :: "string list"
  outgoing :: "string list"

definition fake_scripted :: "string list \<Rightarrow> fake_transport" where
  "fake_scripted frames = \<lparr>incoming = frames, outgoing = []\<rparr>"

definition fake_send_frame :: "fake_transport \<Rightarrow> string \<Rightarrow> (io_error + unit) \<times> fake_transport" where
  "fake_send_frame t frame = (Inr (), t\<lparr>outgoing := outgoing t @ [frame]\<rparr>)"

definition fake_recv_frame :: "fake_transport \<Rightarrow> (io_error + string) \<times> fake_transport" where
  "fake_recv_frame t =
     (case incoming t of
        [] \<Rightarrow> (Inl (SimpleError UnexpectedEof), t)
      | f # fs \<Rightarrow> (Inr f, t\<lparr>incoming := fs\<rparr>))"

definition fake_transport_ops :: "fake_transport frame_transport" where
  "fake_transport_ops = \<lparr>send_frame = fake_send_frame, recv_frame = fake_recv_frame\<rparr>"

interpretation fake: logged_transport fake_transport_ops outgoing "\<lambda>f l. l @ [f]"
  by unfold_locales
    (auto simp: fake_transport_ops_def fake_send_frame_def fake_recv_frame_def split: list.splits)


section \<open>Correct keys, and sample keys\<close>

text \<open>What the BLS library promises: a signature of a key verifies under its public key.\<close>

definition bls_correct :: "('pk, 'sg) chia_bls \<Rightarrow> 'sk bls_keys \<Rightarrow> bool" where
  "bls_correct B K \<longleftrightarrow>
     (\<forall>sk m. verify_signature B (SigningPublicKey (public_key_bytes K sk)) m (Signature (sign_bytes K sk m)))"

lemma own_signature_verifies:
  "bls_correct L K \<Longrightarrow> verify_signature L (test_signer_public K s) m (test_signer_sign K s m)"
  by (simp add: bls_correct_def test_signer_public_def test_signer_sign_def)

lemma sample_bls_correct: "bls_correct accept_all_bls K"
  by (simp add: bls_correct_def verify_signature_def accept_all_bls_def)

text \<open>Keys at which the theorems are applied; nothing here models code.\<close>

definition sample_keys :: "unit bls_keys" where
  "sample_keys =
     \<lparr>chacha_fill = (\<lambda>_. array_of 1), secret_from_seed = (\<lambda>_. ()),
      public_key_bytes = (\<lambda>_. array_of 2),
      sign_bytes = (\<lambda>_ m. array_of (if m = [] then 0 else hd m))\<rparr>"

text \<open>Codecs that refuse strings without their tag; nothing here models code.\<close>

definition tagged_hex :: hex_crate where
  "tagged_hex = \<lparr>hex_encode = (\<lambda>bs. CHR ''h'' # bytes_str bs),
     hex_decode = (\<lambda>s. if s \<noteq> [] \<and> hd s = CHR ''h'' then Some (str_bytes (tl s)) else None)\<rparr>"

definition tagged_b64 :: base64_crate where
  "tagged_b64 = \<lparr>b64_encode = (\<lambda>bs. CHR ''b'' # bytes_str bs),
     b64_decode = (\<lambda>bs. if bs \<noteq> [] \<and> hd bs = byte_of_char CHR ''b'' then Some (tl bs) else None)\<rparr>"

lemma tagged_round_trips: "hex_round_trip tagged_hex" "b64_round_trip tagged_b64"
  by (simp_all add: hex_round_trip_def b64_round_trip_def tagged_hex_def tagged_b64_def str_bytes_def
      bytes_str_def comp_def)

text \<open>Keys whose signatures carry the key's number and the length of the message.\<close>

definition length_keys :: "u8 bls_keys" where
  "length_keys =
     \<lparr>chacha_fill = (\<lambda>n. array_of (ucast n)), secret_from_seed = (\<lambda>a. hd (array_bytes a)),
      public_key_bytes = array_of,
      sign_bytes = (\<lambda>sk m. Array (sk # of_nat (length m) # replicate 94 0))\<rparr>"

definition length_bls :: "(u8, u8 list) chia_bls" where
  "length_bls =
     \<lparr>pk_from_bytes = (\<lambda>a. Some (hd (array_bytes a))), sg_from_bytes = (\<lambda>a. Some (array_bytes a)),
      bls_verify = (\<lambda>sg pk m. hd sg = pk \<and> sg ! 1 = of_nat (length m))\<rparr>"

lemma length_keys_verify:
  "verify_signature length_bls (test_signer_public length_keys s) m (test_signer_sign length_keys s' m')
     \<longleftrightarrow> secret_key s' = secret_key s \<and> (of_nat (length m') :: u8) = of_nat (length m)"
proof -
  have "array_bytes (Array (sk # n # replicate 94 0) :: 96 bytes) = sk # n # replicate 94 0" for sk n
    by (simp add: array_bytes_Array)
  then show ?thesis
    by (simp add: verify_signature_def length_bls_def length_keys_def test_signer_public_def test_signer_sign_def)
qed

lemma length_keys_correct: "bls_correct length_bls length_keys"
  using length_keys_verify [of "\<lparr>secret_key = sk\<rparr>" _ "\<lparr>secret_key = sk\<rparr>" for sk]
  by (simp add: bls_correct_def test_signer_public_def test_signer_sign_def)

text \<open>A text that carries a list of strings, each after its length in unary.\<close>

definition pack :: "string list \<Rightarrow> string" where
  "pack xs = concat (map (\<lambda>x. replicate (length x) CHR ''1'' @ CHR ''0'' # x) xs)"

fun unpack :: "nat \<Rightarrow> string \<Rightarrow> string list" where
  "unpack 0 s = []"
| "unpack (Suc n) s =
     (let k = length (takeWhile (\<lambda>c. c = CHR ''1'') s); r = drop (Suc k) s
      in take k r # unpack n (drop k r))"

lemma takeWhile_ones: "takeWhile (\<lambda>c. c = CHR ''1'') (replicate n CHR ''1'' @ CHR ''0'' # s) = replicate n CHR ''1''"
  by (induction n) auto

lemma unpack_pack: "unpack (length xs) (pack xs) = xs"
proof (induction xs)
  case (Cons x xs)
  have "pack (x # xs) = replicate (length x) CHR ''1'' @ CHR ''0'' # x @ pack xs" by (simp add: pack_def)
  with Cons show ?case by (simp add: takeWhile_ones Let_def)
qed simp

lemma unpack_some [simp]:
  "unpack (Suc 0) (pack [a]) = [a]" "unpack 2 (pack [a, b]) = [a, b]" "unpack 3 (pack [a, b, c]) = [a, b, c]"
  using unpack_pack [of "[a]"] unpack_pack [of "[a, b]"] unpack_pack [of "[a, b, c]"]
  by (simp_all add: eval_nat_numeral del: unpack.simps)

end
