(* ===== verification/Engine.thy ===== *)
theory Engine
  imports Bounds Domain Wire Signer Transport
begin

text \<open>
  The engine role-half of \<open>src/engine.rs\<close>: \<open>EngineSessionRegistry\<close> with \<open>begin\<close>,
  \<open>attach\<close>, \<open>detach\<close> and their helpers, as functions from the registry to a result and the
  registry after the call.  The \<open>SessionEntropy\<close> and \<open>DidSigningKeyResolver\<close> of the engine,
  the BLS primitives and the hex and base64 codecs are the fields of \<open>engine_env\<close>.
\<close>

section \<open>Attach errors\<close>

datatype attach_error =
    UnknownCandidate | UnknownDid | KeyMismatch | BadSignature | Malformed string

fun attach_error_code :: "attach_error \<Rightarrow> sign_error_code" where
  "attach_error_code UnknownCandidate = AuthRequired"
| "attach_error_code UnknownDid = AuthRequired"
| "attach_error_code (Malformed _) = AuthRequired"
| "attach_error_code KeyMismatch = BadMac"
| "attach_error_code BadSignature = BadMac"

definition attach_to_rpc_error :: "attach_error \<Rightarrow> rpc_error" where
  "attach_to_rpc_error e = to_rpc_error (attach_error_code e)"

section \<open>State\<close>

record pending_candidate =
  nonce :: "32 bytes"
  advertised_key :: signing_public_key
  pc_profile_did :: string

record ('e, 'r) engine =
  entropy :: 'e
  resolver :: 'r
  pending :: "(string, pending_candidate) hash_map"
  candidate_order :: "string list"
  sessions :: "(string, profile_attachment) hash_map"

record ('pk, 'sg, 'e, 'r) engine_env =
  eng_hex :: hex_crate
  eng_b64 :: base64_crate
  eng_bls :: "('pk, 'sg) chia_bls"
  fill_nonce :: "'e session_entropy"
  resolve_signing_key :: "'r did_signing_key_resolver"

definition engine_new :: "'e \<Rightarrow> 'r \<Rightarrow> ('e, 'r) engine" where
  "engine_new e r =
     \<lparr>entropy = e, resolver = r, pending = hm_new, candidate_order = [], sessions = hm_new\<rparr>"

section \<open>Helpers\<close>

text \<open>A call of \<open>self.entropy.fill_nonce()\<close>, which may panic.\<close>

definition engine_fill_nonce ::
  "('pk, 'sg, 'e, 'r) engine_env \<Rightarrow> ('e, 'r) engine \<Rightarrow> (attach_error failure + 32 bytes) \<times> ('e, 'r) engine" where
  "engine_fill_nonce X g =
     (case fill_nonce X (entropy g) of
        (None, e) \<Rightarrow> (Inl Panic, g\<lparr>entropy := e\<rparr>)
      | (Some n, e) \<Rightarrow> (Inr n, g\<lparr>entropy := e\<rparr>))"

text \<open>
  \<open>take_candidate\<close>: remove the candidate from the map and, if it was there, its first occurrence
  from the order queue.
\<close>

definition take_candidate ::
  "string \<Rightarrow> ('e, 'r) engine \<Rightarrow> pending_candidate option \<times> ('e, 'r) engine" where
  "take_candidate token g =
     (case hm_get (pending g) token of
        None \<Rightarrow> (None, g)
      | Some p \<Rightarrow>
          (Some p,
           g\<lparr>pending := hm_remove token (pending g),
             candidate_order :=
               (case deque_position (\<lambda>c. c = token) (candidate_order g) of
                  None \<Rightarrow> candidate_order g
                | Some pos \<Rightarrow> deque_remove pos (candidate_order g))\<rparr>))"

text \<open>
  The loop of \<open>evict_if_full\<close> on the map and the queue: while the map is at capacity, pop the
  oldest token and remove it, and stop when the queue is empty.
\<close>

fun evict_loop ::
  "(string, pending_candidate) hash_map \<Rightarrow> string list \<Rightarrow>
     (string, pending_candidate) hash_map \<times> string list" where
  "evict_loop m [] = (m, [])"
| "evict_loop m (oldest # rest) =
     (if MAX_PENDING_CANDIDATES \<le> hm_len m then evict_loop (hm_remove oldest m) rest
      else (m, oldest # rest))"

definition evict_if_full :: "('e, 'r) engine \<Rightarrow> ('e, 'r) engine" where
  "evict_if_full g =
     (case evict_loop (pending g) (candidate_order g) of
        (m, ord) \<Rightarrow> g\<lparr>pending := m, candidate_order := ord\<rparr>)"

definition decode_signature :: "base64_crate \<Rightarrow> string \<Rightarrow> attach_error failure + signature" where
  "decode_signature B signature_b64 =
     (case b64_decode B (str_bytes signature_b64) of
        None \<Rightarrow> Inl (Err (Malformed ''signature_b64 is not base64''))
      | Some bs \<Rightarrow> (case try_into_array bs of
            None \<Rightarrow> Inl (Err (Malformed ''signature is not 96 bytes''))
          | Some arr \<Rightarrow> Inr (Signature arr)))"

section \<open>The three requests\<close>

definition engine_begin ::
  "('pk, 'sg, 'e, 'r) engine_env \<Rightarrow> begin_params \<Rightarrow> ('e, 'r) engine \<Rightarrow>
     (attach_error failure + begin_result) \<times> ('e, 'r) engine" where
  "engine_begin X params g =
     (case key_from_hex (eng_hex X) (signing_pubkey_hex params) of
        None \<Rightarrow> (Inl (Err (Malformed ''signing_pubkey_hex'')), g)
      | Some key \<Rightarrow>
          try_then (engine_fill_nonce X g) (\<lambda>n g.
          try_then (engine_fill_nonce X g) (\<lambda>token g.
            let candidate = hex_encode (eng_hex X) (array_bytes token);
                g = evict_if_full g;
                g = g\<lparr>candidate_order := candidate_order g @ [candidate]\<rparr>;
                g = g\<lparr>pending := hm_insert candidate
                      \<lparr>nonce = n, advertised_key = key, pc_profile_did = bp_profile_did params\<rparr>
                      (pending g)\<rparr>
            in (Inr \<lparr>nonce_b64 = b64_encode (eng_b64 X) (array_bytes n),
                     br_session_candidate = candidate\<rparr>, g))))"

definition engine_attach ::
  "('pk, 'sg, 'e, 'r) engine_env \<Rightarrow> attach_params \<Rightarrow> ('e, 'r) engine \<Rightarrow>
     (attach_error failure + attach_result) \<times> ('e, 'r) engine" where
  "engine_attach X params g =
     (case take_candidate (ap_session_candidate params) g of
        (None, g) \<Rightarrow> (Inl (Err UnknownCandidate), g)
      | (Some cand, g) \<Rightarrow>
          if pc_profile_did cand \<noteq> did (profile params) then (Inl (Err KeyMismatch), g)
          else (case resolve_signing_key X (resolver g) (did (profile params)) of (found, r) \<Rightarrow>
            let g = g\<lparr>resolver := r\<rparr> in
            case found of
              None \<Rightarrow> (Inl (Err UnknownDid), g)
            | Some published \<Rightarrow>
                if published \<noteq> advertised_key cand then (Inl (Err KeyMismatch), g)
                else (case decode_signature (eng_b64 X) (ap_signature_b64 params) of
                    Inl e \<Rightarrow> (Inl e, g)
                  | Inr sig \<Rightarrow>
                      let message = challenge_message (array_bytes (nonce cand)) (did (profile params)) in
                      if \<not> verify_signature (eng_bls X) (advertised_key cand) message sig
                      then (Inl (Err BadSignature), g)
                      else try_then (engine_fill_nonce X g) (\<lambda>n g.
                        let session_id = hex_encode (eng_hex X) (array_bytes n) in
                        (Inr \<lparr>ar_session_id = session_id, ar_engine_capabilities = ENGINE_CAPABILITIES\<rparr>,
                         g\<lparr>sessions := hm_insert session_id (profile params) (sessions g)\<rparr>)))))"

definition engine_detach :: "string \<Rightarrow> ('e, 'r) engine \<Rightarrow> bool \<times> ('e, 'r) engine" where
  "engine_detach session_id g =
     (hm_get (sessions g) session_id \<noteq> None, g\<lparr>sessions := hm_remove session_id (sessions g)\<rparr>)"

definition engine_session :: "('e, 'r) engine \<Rightarrow> string \<Rightarrow> profile_attachment option" where
  "engine_session g session_id = hm_get (sessions g) session_id"

definition open_sessions :: "('e, 'r) engine \<Rightarrow> nat" where
  "open_sessions g = hm_len (sessions g)"

definition pending_candidates :: "('e, 'r) engine \<Rightarrow> nat" where
  "pending_candidates g = hm_len (pending g)"

section \<open>The session table\<close>

definition open_session :: "string \<Rightarrow> profile_attachment \<Rightarrow> ('e, 'r) engine \<Rightarrow> ('e, 'r) engine" where
  "open_session sid prof g = g\<lparr>sessions := hm_insert sid prof (sessions g)\<rparr>"

lemma session_simps [simp]:
  "engine_session (open_session sid prof g) sid' = (if sid' = sid then Some prof else engine_session g sid')"
  "engine_session (snd (engine_detach sid g)) sid' = (if sid' = sid then None else engine_session g sid')"
  by (auto simp: engine_session_def open_session_def engine_detach_def)

interpretation session_table: keyed_store engine_session open_session
  "\<lambda>sid g. snd (engine_detach sid g)" open_sessions
proof unfold_locales
  fix g :: "('a, 'b) engine"
  have "engine_session g = hm_get (sessions g)" by (simp add: engine_session_def fun_eq_iff)
  then show "finite (dom (engine_session g))" "open_sessions g = card (dom (engine_session g))"
    using hm.finite_keys hm.count_keys by (simp_all add: open_sessions_def)
qed simp_all

section \<open>Helper operations\<close>

lemma engine_fill_nonce_cases:
  obtains (panic) e where "fill_nonce X (entropy g) = (None, e)"
      "engine_fill_nonce X g = (Inl Panic, g\<lparr>entropy := e\<rparr>)"
  | (nonce) n e where "fill_nonce X (entropy g) = (Some n, e)"
      "engine_fill_nonce X g = (Inr n, g\<lparr>entropy := e\<rparr>)"
  by (cases "fill_nonce X (entropy g)"; cases "fst (fill_nonce X (entropy g))")
    (auto simp: engine_fill_nonce_def)

lemma engine_fill_nonce_frame:
  assumes "engine_fill_nonce X g = (r, g')"
  shows "pending g' = pending g \<and> candidate_order g' = candidate_order g \<and> sessions g' = sessions g
    \<and> resolver g' = resolver g"
  using assms by (auto simp: engine_fill_nonce_def split: prod.splits option.splits)

lemma take_candidate_alt:
  "take_candidate token g =
     (case hm_get (pending g) token of
        None \<Rightarrow> (None, g)
      | Some p \<Rightarrow> (Some p, g\<lparr>pending := hm_remove token (pending g),
                           candidate_order := remove1 token (candidate_order g)\<rparr>))"
  by (simp add: take_candidate_def deque_remove_position split: option.splits)

text \<open>The eviction loop drops a prefix of the queue and exactly those tokens from the map.\<close>

lemma evict_loop_drops:
  "\<exists>k. evict_loop m ord = (fold hm_remove (take k ord) m, drop k ord)
     \<and> (\<forall>i < k. MAX_PENDING_CANDIDATES \<le> hm_len (fold hm_remove (take i ord) m))
     \<and> (k < length ord \<longrightarrow> hm_len (fold hm_remove (take k ord) m) < MAX_PENDING_CANDIDATES)
     \<and> k \<le> length ord"
proof (induction m ord rule: evict_loop.induct)
  case (2 m oldest rest)
  show ?case
  proof (cases "MAX_PENDING_CANDIDATES \<le> hm_len m")
    case True
    with 2 obtain k where k: "evict_loop (hm_remove oldest m) rest
          = (fold hm_remove (take k rest) (hm_remove oldest m), drop k rest)"
      "\<forall>i < k. MAX_PENDING_CANDIDATES \<le> hm_len (fold hm_remove (take i rest) (hm_remove oldest m))"
      "k < length rest \<longrightarrow> hm_len (fold hm_remove (take k rest) (hm_remove oldest m)) < MAX_PENDING_CANDIDATES"
      "k \<le> length rest"
      by blast
    have "\<forall>i < Suc k. MAX_PENDING_CANDIDATES \<le> hm_len (fold hm_remove (take i (oldest # rest)) m)"
      using True k(2) by (auto simp: less_Suc_eq_0_disj)
    with True k show ?thesis by (intro exI [of _ "Suc k"]) simp
  next
    case False
    then show ?thesis by (intro exI [of _ 0]) simp
  qed
qed (intro exI [of _ 0], simp)

lemma lookup_fold_remove:
  "hm_get (fold hm_remove cs m) c = (if c \<in> set cs then None else hm_get m c)"
  by (induction cs arbitrary: m) auto

lemma evict_loop_lookup:
  "hm_get (fst (evict_loop m ord)) c = None \<or> hm_get (fst (evict_loop m ord)) c = hm_get m c"
proof -
  obtain k where "evict_loop m ord = (fold hm_remove (take k ord) m, drop k ord)"
    using evict_loop_drops by blast
  then show ?thesis by (simp add: lookup_fold_remove)
qed

section \<open>What the requests do\<close>

lemma engine_begin_success:
  assumes "engine_begin X p g = (Inr br, g')"
  obtains key n t e1 e2 where
    "key_from_hex (eng_hex X) (signing_pubkey_hex p) = Some key"
    "fill_nonce X (entropy g) = (Some n, e1)" "fill_nonce X e1 = (Some t, e2)"
    "br = \<lparr>nonce_b64 = b64_encode (eng_b64 X) (array_bytes n),
           br_session_candidate = hex_encode (eng_hex X) (array_bytes t)\<rparr>"
    "pending g' = hm_insert (br_session_candidate br)
       \<lparr>nonce = n, advertised_key = key, pc_profile_did = bp_profile_did p\<rparr>
       (fst (evict_loop (pending g) (candidate_order g)))"
    "candidate_order g' = snd (evict_loop (pending g) (candidate_order g)) @ [br_session_candidate br]"
    "sessions g' = sessions g" "resolver g' = resolver g" "entropy g' = e2"
  using assms
  by (auto simp: engine_begin_def engine_fill_nonce_def evict_if_full_def Let_def try_then_def
      split: option.splits prod.splits)

lemma engine_begin_failure:
  assumes "engine_begin X p g = (Inl e, g')"
  shows "pending g' = pending g \<and> candidate_order g' = candidate_order g \<and> sessions g' = sessions g"
  using assms
  by (auto simp: engine_begin_def engine_fill_nonce_def Let_def try_then_def
      split: option.splits prod.splits)

lemma engine_attach_effect:
  assumes "engine_attach X ap g = (r, g')"
  shows "pending g' = hm_remove (ap_session_candidate ap) (pending g)
    \<and> candidate_order g' = (if hm_get (pending g) (ap_session_candidate ap) = None then candidate_order g
        else remove1 (ap_session_candidate ap) (candidate_order g))
    \<and> sessions g' = (case r of
          Inl _ \<Rightarrow> sessions g
        | Inr ar \<Rightarrow> hm_insert (ar_session_id ar) (profile ap) (sessions g))"
  using assms
  by (auto simp: engine_attach_def take_candidate_alt engine_fill_nonce_def Let_def try_then_def
      hm_remove_absent split: option.splits prod.splits if_splits sum.splits)

text \<open>
  What a successful attach has established: \<open>authenticated\<close> holds of the pending handshake, the
  request and the key the resolver gave for the DID.
\<close>

definition authenticated ::
  "('pk, 'sg, 'e, 'r) engine_env \<Rightarrow> pending_candidate \<Rightarrow> attach_params \<Rightarrow> signing_public_key option \<Rightarrow> bool" where
  "authenticated X cand ap found \<longleftrightarrow>
     pc_profile_did cand = did (profile ap)
     \<and> found = Some (advertised_key cand)
     \<and> (case decode_signature (eng_b64 X) (ap_signature_b64 ap) of
          Inl _ \<Rightarrow> False
        | Inr sig \<Rightarrow> verify_signature (eng_bls X) (advertised_key cand)
            (challenge_message (array_bytes (nonce cand)) (did (profile ap))) sig)"

lemma engine_attach_success:
  assumes "engine_attach X ap g = (Inr ar, g')"
  obtains cand n where
    "hm_get (pending g) (ap_session_candidate ap) = Some cand"
    "authenticated X cand ap (fst (resolve_signing_key X (resolver g) (did (profile ap))))"
    "fst (fill_nonce X (entropy g)) = Some n"
    "ar = \<lparr>ar_session_id = hex_encode (eng_hex X) (array_bytes n), ar_engine_capabilities = ENGINE_CAPABILITIES\<rparr>"
  using assms
  by (auto simp: engine_attach_def take_candidate_alt engine_fill_nonce_def authenticated_def Let_def
      try_then_def split: option.splits prod.splits if_splits sum.splits)

lemma engine_attach_accepts:
  assumes "hm_get (pending g) (ap_session_candidate ap) = Some cand"
    and "authenticated X cand ap (fst (resolve_signing_key X (resolver g) (did (profile ap))))"
    and "fst (fill_nonce X (entropy g)) = Some n"
  shows "fst (engine_attach X ap g) =
    Inr \<lparr>ar_session_id = hex_encode (eng_hex X) (array_bytes n), ar_engine_capabilities = ENGINE_CAPABILITIES\<rparr>"
  using assms
  by (auto simp: engine_attach_def take_candidate_alt engine_fill_nonce_def authenticated_def Let_def
      try_then_def split: option.splits prod.splits sum.splits)

end
