(* ===== verification/Engine_Samples.thy ===== *)
theory Engine_Samples
  imports Engine Test_Support
begin

text \<open>
  A concrete engine at which the engine's theorems are applied: the deterministic nonce source and the
  stub resolver of \<open>Test_Support\<close>, and one handshake run on it.  Nothing here models code.
\<close>

section \<open>The engine and its begin\<close>

definition sample_engine :: "(unit, unit, seq_entropy, stub_resolver) engine_env" where
  "sample_engine =
     \<lparr>eng_hex = sample_hex, eng_b64 = sample_b64, eng_bls = accept_all_bls,
      fill_nonce = seq_fill_nonce (\<lambda>bs. array_of (last bs)), resolve_signing_key = stub_resolve\<rparr>"

abbreviation sample_engine_start :: "(seq_entropy, stub_resolver) engine" where
  "sample_engine_start \<equiv> engine_new (seq_entropy_new [])
     \<lparr>stub_did = ''did:chia:alice'', stub_key = test_signer_public sample_keys \<lparr>secret_key = ()\<rparr>\<rparr>"

abbreviation sample_begin_params :: begin_params where
  "sample_begin_params \<equiv> \<lparr>bp_profile_did = did sample_profile,
     signing_pubkey_hex = key_to_hex (eng_hex sample_engine) (test_signer_public sample_keys \<lparr>secret_key = ()\<rparr>)\<rparr>"

definition sample_begun :: "(seq_entropy, stub_resolver) engine" where
  "sample_begun = snd (engine_begin sample_engine sample_begin_params sample_engine_start)"

definition sample_begin_result :: begin_result where
  "sample_begin_result =
     \<lparr>nonce_b64 = bytes_str (replicate 32 0), br_session_candidate = bytes_str (replicate 32 1)\<rparr>"

lemma sample_nonces:
  "seq_fill_nonce (\<lambda>bs. array_of (last bs)) (seq_entropy_new [])
     = (Some (array_of 0), \<lparr>counter = 1, seed = []\<rparr>)"
  "seq_fill_nonce (\<lambda>bs. array_of (last bs)) \<lparr>counter = 1, seed = []\<rparr>
     = (Some (array_of 1), \<lparr>counter = 2, seed = []\<rparr>)"
  "seq_fill_nonce (\<lambda>bs. array_of (last bs)) \<lparr>counter = 2, seed = []\<rparr>
     = (Some (array_of 2), \<lparr>counter = 3, seed = []\<rparr>)"
  by (simp_all add: seq_fill_nonce_def seq_entropy_new_def u64_to_be_bytes_def Let_def)

lemma sample_engine_begin:
  "engine_begin sample_engine sample_begin_params sample_engine_start = (Inr sample_begin_result, sample_begun)"
proof -
  have "key_from_hex sample_hex (key_to_hex sample_hex k) = Some k" for k
    by (rule key_hex_inverse [OF sample_hex_round_trip])
  then have "fst (engine_begin sample_engine sample_begin_params sample_engine_start) = Inr sample_begin_result"
    by (simp add: engine_begin_def engine_fill_nonce_def sample_engine_def engine_new_def sample_nonces
        sample_begin_result_def sample_b64_def sample_hex_def Let_def)
  then show ?thesis by (simp add: sample_begun_def prod_eq_iff)
qed


section \<open>Its attach\<close>

definition sample_attach_params :: attach_params where
  "sample_attach_params =
     \<lparr>ap_session_candidate = br_session_candidate sample_begin_result,
      ap_signature_b64 = bytes_str (replicate 96 0), profile = sample_profile\<rparr>"

definition sample_attach_result :: attach_result where
  "sample_attach_result =
     \<lparr>ar_session_id = bytes_str (replicate 32 2), ar_engine_capabilities = ENGINE_CAPABILITIES\<rparr>"

definition sample_attached :: "(seq_entropy, stub_resolver) engine" where
  "sample_attached = snd (engine_attach sample_engine sample_attach_params sample_begun)"

lemma sample_begun_fields:
  "entropy sample_begun = \<lparr>counter = 2, seed = []\<rparr>"
  "resolver sample_begun = resolver sample_engine_start"
  "candidate_order sample_begun = [br_session_candidate sample_begin_result]"
  "hm_get (pending sample_begun) (br_session_candidate sample_begin_result) =
     Some \<lparr>nonce = array_of 0, advertised_key = test_signer_public sample_keys \<lparr>secret_key = ()\<rparr>,
           pc_profile_did = ''did:chia:alice''\<rparr>"
  using sample_engine_begin
  by (auto elim!: engine_begin_success simp: sample_engine_def engine_new_def sample_nonces
      key_hex_inverse [OF sample_hex_round_trip])

lemma sample_engine_attach:
  "engine_attach sample_engine sample_attach_params sample_begun = (Inr sample_attach_result, sample_attached)"
proof -
  have "fst (engine_attach sample_engine sample_attach_params sample_begun)
      = Inr \<lparr>ar_session_id = hex_encode (eng_hex sample_engine) (array_bytes (array_of 2 :: 32 bytes)),
             ar_engine_capabilities = ENGINE_CAPABILITIES\<rparr>"
  proof (rule engine_attach_accepts)
    show "hm_get (pending sample_begun) (ap_session_candidate sample_attach_params) = Some
        \<lparr>nonce = array_of 0, advertised_key = test_signer_public sample_keys \<lparr>secret_key = ()\<rparr>,
         pc_profile_did = ''did:chia:alice''\<rparr>"
      by (simp add: sample_attach_params_def sample_begun_fields)
  qed (simp_all add: sample_begun_fields sample_engine_def sample_nonces authenticated_def
      sample_attach_params_def engine_new_def stub_resolve_def decode_signature_def sample_b64_def
      try_into_array_def verify_signature_def accept_all_bls_def)
  then show ?thesis
    by (simp add: sample_attached_def prod_eq_iff sample_attach_result_def sample_engine_def sample_hex_def)
qed

end
