(* ===== verification/Engine_Trace.thy ===== *)
theory Engine_Trace
  imports Engine Engine_Samples
begin

text \<open>
  The executions of the engine: sequences of \<open>begin\<close>, \<open>attach\<close> and \<open>detach\<close> requests with
  their answers, between which the world may change the entropy source and what the DID resolver
  knows.  The invariants that relate the registry to its history, and the properties of the engine.
\<close>

section \<open>Events and steps\<close>

datatype engine_event =
    Begin begin_params "attach_error failure + begin_result"
  | Attach_Request attach_params "attach_error failure + attach_result"
  | Detach string bool
  | World

inductive engine_step ::
  "('pk, 'sg, 'e, 'r) engine_env \<Rightarrow> ('e, 'r) engine \<Rightarrow> engine_event \<Rightarrow> ('e, 'r) engine \<Rightarrow> bool"
  for X :: "('pk, 'sg, 'e, 'r) engine_env" where
  step_begin: "engine_begin X p g = (r, g') \<Longrightarrow> engine_step X g (Begin p r) g'"
| step_attach: "engine_attach X ap g = (r, g') \<Longrightarrow> engine_step X g (Attach_Request ap r) g'"
| step_detach: "engine_detach sid g = (b, g') \<Longrightarrow> engine_step X g (Detach sid b) g'"
| step_world: "engine_step X g World (g\<lparr>entropy := e, resolver := r\<rparr>)"

inductive_cases engine_step_cases [elim]:
  "engine_step X g (Begin p r) g'"
  "engine_step X g (Attach_Request ap r) g'"
  "engine_step X g (Detach sid b) g'"
  "engine_step X g World g'"

inductive_simps engine_step_simps:
  "engine_step X g (Begin p r) g'"
  "engine_step X g (Attach_Request ap r) g'"
  "engine_step X g (Detach sid b) g'"

lemma engine_detach_frame:
  assumes "engine_detach sid g = (b, g')"
  shows "pending g' = pending g \<and> candidate_order g' = candidate_order g
    \<and> sessions g' = hm_remove sid (sessions g)"
  using assms by (auto simp: engine_detach_def)

text \<open>Two executions of the sample engine.\<close>

lemma sample_trace_begin:
  "trace (engine_step sample_engine) sample_engine_start
     [Begin sample_begin_params (Inr sample_begin_result)] sample_begun"
  using trace_step [OF trace_start, of "engine_step sample_engine", OF step_begin, OF sample_engine_begin]
  by simp

lemma sample_trace_attach:
  "trace (engine_step sample_engine) sample_engine_start
     ([Begin sample_begin_params (Inr sample_begin_result)]
      @ [Attach_Request sample_attach_params (Inr sample_attach_result)]) sample_attached"
  by (rule trace_step [OF sample_trace_begin step_attach [OF sample_engine_attach]])

section \<open>The pending table is bounded and indexed by the queue\<close>

definition queue_covers :: "('e, 'r) engine \<Rightarrow> bool" where
  "queue_covers g \<longleftrightarrow> (\<forall>c p. hm_get (pending g) c = Some p \<longrightarrow> c \<in> set (candidate_order g))"

definition pending_bounded :: "engine_event list \<Rightarrow> ('e, 'r) engine \<Rightarrow> bool" where
  "pending_bounded es g \<longleftrightarrow> queue_covers g \<and> pending_candidates g \<le> MAX_PENDING_CANDIDATES"

lemma evict_loop_makes_room:
  assumes "\<forall>c p. hm_get m c = Some p \<longrightarrow> c \<in> set ord"
  shows "hm_len (fst (evict_loop m ord)) < MAX_PENDING_CANDIDATES
    \<and> (\<forall>c p. hm_get (fst (evict_loop m ord)) c = Some p \<longrightarrow> c \<in> set (snd (evict_loop m ord)))"
proof -
  obtain k where k: "evict_loop m ord = (fold hm_remove (take k ord) m, drop k ord)"
    "k < length ord \<longrightarrow> hm_len (fold hm_remove (take k ord) m) < MAX_PENDING_CANDIDATES"
    "k \<le> length ord"
    using evict_loop_drops by blast
  have covered: "c \<in> set (drop k ord)" if "hm_get (fold hm_remove (take k ord) m) c = Some p" for c p
    using that assms append_take_drop_id [of k ord]
    by (metis (no_types) Un_iff lookup_fold_remove option.distinct(1) set_append)
  moreover have "hm_len (fold hm_remove (take k ord) m) < MAX_PENDING_CANDIDATES"
  proof (cases "k < length ord")
    case False
    with k(3) have "hm_get (fold hm_remove (take k ord) m) c = None" for c
      using covered [of c] by (cases "hm_get (fold hm_remove (take k ord) m) c") auto
    then have "dom (hm_get (fold hm_remove (take k ord) m)) = {}" by (simp only: dom_def) simp
    then show ?thesis by (simp add: hm.count_keys)
  qed (use k(2) in simp)
  ultimately show ?thesis by (simp add: k(1))
qed

lemma pending_bounded_begin:
  assumes "pending_bounded es g" and "engine_begin X p g = (r, g')"
  shows "pending_bounded es' g'"
proof (cases r)
  case (Inl e)
  with assms engine_begin_failure [of X p g e g'] show ?thesis
    by (simp add: pending_bounded_def queue_covers_def pending_candidates_def)
next
  case (Inr br)
  let ?m = "fst (evict_loop (pending g) (candidate_order g))"
  from assms(1) have room: "hm_len ?m < MAX_PENDING_CANDIDATES"
    "\<forall>c p. hm_get ?m c = Some p \<longrightarrow> c \<in> set (snd (evict_loop (pending g) (candidate_order g)))"
    using evict_loop_makes_room [of "pending g" "candidate_order g"]
    by (auto simp: pending_bounded_def queue_covers_def)
  from assms(2) Inr have "engine_begin X p g = (Inr br, g')" by simp
  then show ?thesis
    by (rule engine_begin_success)
      (use room in \<open>auto simp: pending_bounded_def queue_covers_def pending_candidates_def hm.count_put\<close>)
qed

lemma pending_bounded_attach:
  assumes "pending_bounded es g" and "engine_attach X ap g = (r, g')"
  shows "pending_bounded es' g'"
  using engine_attach_effect [OF assms(2)] assms(1) hm.count_del_le [of "ap_session_candidate ap" "pending g"]
  by (auto simp: pending_bounded_def queue_covers_def pending_candidates_def in_set_remove1
      split: if_splits)

interpretation bounded: trace_invariant "engine_step X" "engine_new e r" pending_bounded
  for X :: "('pk, 'sg, 'e, 'r) engine_env" and e r
proof unfold_locales
  show "pending_bounded [] (engine_new e r)"
    by (simp add: pending_bounded_def queue_covers_def engine_new_def pending_candidates_def)
next
  fix es and g g' :: "('e, 'r) engine" and ev
  assume inv: "pending_bounded es g" and "engine_step X g ev g'"
  from this(2) show "pending_bounded (es @ [ev]) g'"
  proof cases
    case step_begin
    with inv show ?thesis by (blast intro: pending_bounded_begin)
  next
    case step_attach
    with inv show ?thesis by (blast intro: pending_bounded_attach)
  next
    case (step_detach sid b)
    with inv engine_detach_frame [OF step_detach(2)] show ?thesis
      by (simp add: pending_bounded_def queue_covers_def pending_candidates_def)
  next
    case step_world
    with inv show ?thesis by (simp add: pending_bounded_def queue_covers_def pending_candidates_def)
  qed
qed

text \<open>
  C15. Bounded engine state.  In every execution, whatever requests arrive and whatever the entropy
  source returns (repeated values included), at most \<open>MAX_PENDING_CANDIDATES\<close> handshakes are
  outstanding.
\<close>

theorem pending_never_exceeds_bound:
  assumes "trace (engine_step X) (engine_new e r) es g"
  shows "pending_candidates g \<le> MAX_PENDING_CANDIDATES"
  using bounded.inv_trace [OF assms] by (simp add: pending_bounded_def)

theorem pending_never_exceeds_bound_witness:
  "pending_candidates sample_begun \<le> MAX_PENDING_CANDIDATES"
  by (rule pending_never_exceeds_bound [OF sample_trace_begin])

section \<open>Candidates issued and accepted\<close>

fun issued_by :: "engine_event \<Rightarrow> string list" where
  "issued_by (Begin p (Inr br)) = [br_session_candidate br]"
| "issued_by _ = []"

definition issued :: "engine_event list \<Rightarrow> string list" where
  "issued es = concat (map issued_by es)"

fun accepts :: "string \<Rightarrow> engine_event \<Rightarrow> bool" where
  "accepts c (Attach_Request ap (Inr ar)) = (ap_session_candidate ap = c)"
| "accepts c _ = False"

definition accepted_count :: "string \<Rightarrow> engine_event list \<Rightarrow> nat" where
  "accepted_count c es = length (filter (accepts c) es)"

lemma issued_simps [simp]:
  "issued [] = []"
  "issued (es @ fs) = issued es @ issued fs"
  "issued (ev # es) = issued_by ev @ issued es"
  by (simp_all add: issued_def)

lemma accepted_count_snoc [simp]:
  "accepted_count c [] = 0"
  "accepted_count c (es @ [ev]) = accepted_count c es + (if accepts c ev then 1 else 0)"
  by (simp_all add: accepted_count_def)

definition single_use :: "engine_event list \<Rightarrow> ('e, 'r) engine \<Rightarrow> bool" where
  "single_use es g \<longleftrightarrow>
     (\<forall>c. accepted_count c es + (if hm_get (pending g) c = None then 0 else 1) \<le> count_list (issued es) c)"

lemma single_use_begin:
  assumes inv: "single_use es g" and step: "engine_begin X p g = (r, g')"
  shows "single_use (es @ [Begin p r]) g'"
proof (cases r)
  case (Inl e)
  with inv step engine_begin_failure [of X p g e g'] show ?thesis by (simp add: single_use_def)
next
  case (Inr br)
  let ?m = "fst (evict_loop (pending g) (candidate_order g))"
  from step Inr have "engine_begin X p g = (Inr br, g')" by simp
  then obtain pc where m: "pending g' = hm_insert (br_session_candidate br) pc ?m"
    by (rule engine_begin_success) blast
  show ?thesis unfolding single_use_def
  proof
    fix c
    have "accepted_count c es + (if hm_get (pending g) c = None then 0 else 1) \<le> count_list (issued es) c"
      using inv by (simp add: single_use_def)
    moreover have "hm_get ?m c = None \<or> hm_get ?m c = hm_get (pending g) c"
      by (rule evict_loop_lookup)
    ultimately show "accepted_count c (es @ [Begin p r])
        + (if hm_get (pending g') c = None then 0 else 1) \<le> count_list (issued (es @ [Begin p r])) c"
      by (auto simp: Inr m split: if_splits)
  qed
qed

lemma single_use_attach:
  assumes inv: "single_use es g" and step: "engine_attach X ap g = (r, g')"
  shows "single_use (es @ [Attach_Request ap r]) g'"
proof -
  have "hm_get (pending g) (ap_session_candidate ap) \<noteq> None" if "accepts c (Attach_Request ap r)" for c
  proof -
    from that obtain ar where "r = Inr ar" by (cases r) auto
    with step show ?thesis by (auto elim: engine_attach_success)
  qed
  then have had: "accepts c (Attach_Request ap r) \<Longrightarrow>
      c = ap_session_candidate ap \<and> hm_get (pending g) c \<noteq> None" for c
    by (cases r) auto
  have new: "hm_get (pending g') c = (if c = ap_session_candidate ap then None else hm_get (pending g) c)" for c
    using engine_attach_effect [OF step] by simp
  show ?thesis unfolding single_use_def
  proof
    fix c
    have "accepted_count c es + (if hm_get (pending g) c = None then 0 else 1) \<le> count_list (issued es) c"
      using inv by (simp add: single_use_def)
    moreover have "(if accepts c (Attach_Request ap r) then 1 else 0) + (if hm_get (pending g') c = None then 0 else 1)
        \<le> (if hm_get (pending g) c = None then 0 else (1 :: nat))"
    proof (cases "accepts c (Attach_Request ap r)")
      case True
      from had [OF True] show ?thesis by (auto simp: new)
    next
      case False
      then show ?thesis by (simp add: new)
    qed
    ultimately show "accepted_count c (es @ [Attach_Request ap r])
        + (if hm_get (pending g') c = None then 0 else 1) \<le> count_list (issued (es @ [Attach_Request ap r])) c"
      by simp
  qed
qed

interpretation single: trace_invariant "engine_step X" "engine_new e r" single_use
  for X :: "('pk, 'sg, 'e, 'r) engine_env" and e r
proof unfold_locales
  show "single_use [] (engine_new e r)"
    by (simp add: single_use_def engine_new_def)
next
  fix es and g g' :: "('e, 'r) engine" and ev
  assume inv: "single_use es g" and "engine_step X g ev g'"
  from this(2) show "single_use (es @ [ev]) g'"
  proof cases
    case (step_begin p r)
    with single_use_begin [OF inv step_begin(2)] show ?thesis by simp
  next
    case (step_attach ap r)
    with single_use_attach [OF inv step_attach(2)] show ?thesis by simp
  next
    case (step_detach sid b)
    with inv engine_detach_frame [OF step_detach(2)] show ?thesis by (simp add: single_use_def)
  next
    case step_world
    with inv show ?thesis by (simp add: single_use_def)
  qed
qed

text \<open>
  C6. Injective agreement.  In every execution a candidate is accepted by \<open>attach\<close> at most as
  often as \<open>begin\<close> issued it; a token issued once opens at most one session, whatever is replayed.
\<close>

theorem candidate_accepted_at_most_as_often_as_issued:
  assumes "trace (engine_step X) (engine_new e r) es g"
  shows "accepted_count c es \<le> count_list (issued es) c"
proof -
  have "accepted_count c es + (if hm_get (pending g) c = None then 0 else 1) \<le> count_list (issued es) c"
    using single.inv_trace [OF assms] by (simp add: single_use_def)
  then show ?thesis by simp
qed

theorem candidate_accepted_at_most_as_often_as_issued_witness:
  "accepted_count (br_session_candidate sample_begin_result)
     ([Begin sample_begin_params (Inr sample_begin_result)]
      @ [Attach_Request sample_attach_params (Inr sample_attach_result)])
   \<le> count_list (issued ([Begin sample_begin_params (Inr sample_begin_result)]
      @ [Attach_Request sample_attach_params (Inr sample_attach_result)]))
       (br_session_candidate sample_begin_result)"
  by (rule candidate_accepted_at_most_as_often_as_issued [OF sample_trace_attach])

text \<open>
  Single use.  After an \<open>attach\<close>, successful or refused or panicking, every further
  \<open>attach\<close> with the same candidate is refused as \<open>UnknownCandidate\<close> and changes nothing.
\<close>

lemma attach_consumes_candidate:
  assumes "engine_attach X ap g = (r, g1)" and "ap_session_candidate ap' = ap_session_candidate ap"
  shows "engine_attach X ap' g1 = (Inl (Err UnknownCandidate), g1)"
  using engine_attach_effect [OF assms(1)] assms(2)
  by (simp add: engine_attach_def take_candidate_def)

lemma attach_consumes_candidate_witness:
  "engine_attach sample_engine sample_attach_params sample_attached
     = (Inl (Err UnknownCandidate), sample_attached)"
  by (rule attach_consumes_candidate [OF sample_engine_attach refl])

section \<open>Where pending handshakes and sessions come from\<close>

text \<open>The \<open>begin\<close> that issued a pending handshake.\<close>

definition handshake_origin ::
  "('pk, 'sg, 'e, 'r) engine_env \<Rightarrow> engine_event list \<Rightarrow> string \<Rightarrow> pending_candidate \<Rightarrow> bool" where
  "handshake_origin X es c cand \<longleftrightarrow>
     (\<exists>p br. Begin p (Inr br) \<in> set es \<and> br_session_candidate br = c
        \<and> nonce_b64 br = b64_encode (eng_b64 X) (array_bytes (nonce cand))
        \<and> key_from_hex (eng_hex X) (signing_pubkey_hex p) = Some (advertised_key cand)
        \<and> bp_profile_did p = pc_profile_did cand)"

text \<open>The attach that opened a session that has not been detached since.\<close>

definition session_origin :: "engine_event list \<Rightarrow> string \<Rightarrow> profile_attachment \<Rightarrow> bool" where
  "session_origin es sid prof \<longleftrightarrow>
     (\<exists>before after ap ar. es = before @ Attach_Request ap (Inr ar) # after
        \<and> ar_session_id ar = sid \<and> profile ap = prof \<and> (\<forall>b. Detach sid b \<notin> set after))"

definition originated ::
  "('pk, 'sg, 'e, 'r) engine_env \<Rightarrow> engine_event list \<Rightarrow> ('e, 'r) engine \<Rightarrow> bool" where
  "originated X es g \<longleftrightarrow>
     (\<forall>c cand. hm_get (pending g) c = Some cand \<longrightarrow> handshake_origin X es c cand)
     \<and> (\<forall>sid prof. hm_get (sessions g) sid = Some prof \<longrightarrow> session_origin es sid prof)"

lemma handshake_origin_mono: "handshake_origin X es c cand \<Longrightarrow> handshake_origin X (es @ fs) c cand"
  by (auto simp: handshake_origin_def)

lemma session_origin_snoc:
  assumes "session_origin es sid prof" and "\<forall>b. ev \<noteq> Detach sid b"
  shows "session_origin (es @ [ev]) sid prof"
proof -
  from assms(1) obtain before after ap ar where
    "es = before @ Attach_Request ap (Inr ar) # after" "ar_session_id ar = sid" "profile ap = prof"
    "\<forall>b. Detach sid b \<notin> set after"
    by (auto simp: session_origin_def)
  with assms(2) show ?thesis
    unfolding session_origin_def
    by (intro exI [of _ before] exI [of _ "after @ [ev]"] exI [of _ ap] exI [of _ ar]) auto
qed

lemma session_origin_new: "session_origin (es @ [Attach_Request ap (Inr ar)]) (ar_session_id ar) (profile ap)"
  unfolding session_origin_def
  by (intro exI [of _ es] exI [of _ "[]"] exI [of _ ap] exI [of _ ar]) simp

lemma originated_begin:
  assumes inv: "originated X es g" and step: "engine_begin X p g = (r, g')"
  shows "originated X (es @ [Begin p r]) g'"
proof (cases r)
  case (Inl e)
  with inv step engine_begin_failure [of X p g e g'] show ?thesis
    by (auto simp: originated_def handshake_origin_mono session_origin_snoc)
next
  case (Inr br)
  let ?m = "fst (evict_loop (pending g) (candidate_order g))"
  from step Inr have "engine_begin X p g = (Inr br, g')" by simp
  then show ?thesis
  proof (rule engine_begin_success)
    fix key n t e1 e2
    assume key: "key_from_hex (eng_hex X) (signing_pubkey_hex p) = Some key"
      and br: "br = \<lparr>nonce_b64 = b64_encode (eng_b64 X) (array_bytes n),
           br_session_candidate = hex_encode (eng_hex X) (array_bytes t)\<rparr>"
      and m: "pending g' = hm_insert (br_session_candidate br)
         \<lparr>nonce = n, advertised_key = key, pc_profile_did = bp_profile_did p\<rparr> ?m"
      and s: "sessions g' = sessions g"
    have "handshake_origin X (es @ [Begin p r]) c cand" if "hm_get (pending g') c = Some cand" for c cand
    proof (cases "c = br_session_candidate br")
      case True
      with that have "cand = \<lparr>nonce = n, advertised_key = key, pc_profile_did = bp_profile_did p\<rparr>"
        by (simp add: m)
      with True key br Inr show ?thesis
        unfolding handshake_origin_def by (intro exI [of _ p] exI [of _ br]) simp
    next
      case False
      with that evict_loop_lookup [of "pending g" "candidate_order g" c]
      have "hm_get (pending g) c = Some cand" by (auto simp: m)
      with inv show ?thesis by (simp add: originated_def handshake_origin_mono)
    qed
    with inv s show ?thesis by (simp add: originated_def session_origin_snoc)
  qed
qed

lemma originated_attach:
  assumes inv: "originated X es g" and step: "engine_attach X ap g = (r, g')"
  shows "originated X (es @ [Attach_Request ap r]) g'"
  using inv engine_attach_effect [OF step]
  by (cases r) (auto simp: originated_def handshake_origin_mono session_origin_snoc session_origin_new)

interpretation origin: trace_invariant "engine_step X" "engine_new e r" "originated X"
  for X :: "('pk, 'sg, 'e, 'r) engine_env" and e r
proof unfold_locales
  show "originated X [] (engine_new e r)"
    by (simp add: originated_def engine_new_def)
next
  fix es and g g' :: "('e, 'r) engine" and ev
  assume inv: "originated X es g" and "engine_step X g ev g'"
  from this(2) show "originated X (es @ [ev]) g'"
  proof cases
    case (step_begin p r)
    with originated_begin [OF inv step_begin(2)] show ?thesis by simp
  next
    case (step_attach ap r)
    with originated_attach [OF inv step_attach(2)] show ?thesis by simp
  next
    case (step_detach sid b)
    with inv engine_detach_frame [OF step_detach(2)] show ?thesis
      by (auto simp: originated_def handshake_origin_mono session_origin_snoc)
  next
    case step_world
    with inv show ?thesis by (simp add: originated_def handshake_origin_mono session_origin_snoc)
  qed
qed

text \<open>
  C2. Authentication.  Whenever, after any execution, the engine accepts an \<open>attach\<close>, an earlier
  \<open>begin\<close> of that execution issued the candidate with a nonce and for a DID and key; the attach
  names that DID, the resolver publishes exactly that key for it in the very state in which the attach
  is answered, and the request carries a 96-byte signature that verifies under the key for the
  challenge of that nonce and DID.
\<close>

theorem accepted_attach_is_authenticated:
  assumes "trace (engine_step X) (engine_new e r) es g" and "engine_attach X ap g = (Inr ar, g')"
  shows "\<exists>cand. handshake_origin X es (ap_session_candidate ap) cand
    \<and> authenticated X cand ap (fst (resolve_signing_key X (resolver g) (did (profile ap))))"
  using origin.inv_trace [OF assms(1)] assms(2) by (auto simp: originated_def elim!: engine_attach_success)

theorem accepted_attach_is_authenticated_witness:
  "\<exists>cand. handshake_origin sample_engine [Begin sample_begin_params (Inr sample_begin_result)]
       (ap_session_candidate sample_attach_params) cand
     \<and> authenticated sample_engine cand sample_attach_params
         (fst (resolve_signing_key sample_engine (resolver sample_begun) (did (profile sample_attach_params))))"
  by (rule accepted_attach_is_authenticated [OF sample_trace_begin sample_engine_attach])

text \<open>
  The session table.  Every open session was opened by an accepted \<open>attach\<close> that returned
  its identifier and carried its profile, and no \<open>detach\<close> named it since.
\<close>

lemma open_sessions_come_from_accepted_attaches:
  assumes "trace (engine_step X) (engine_new e r) es g" and "engine_session g sid = Some prof"
  shows "session_origin es sid prof"
  using origin.inv_trace [OF assms(1)] assms(2) by (simp add: originated_def engine_session_def)

lemma open_sessions_come_from_accepted_attaches_witness:
  "session_origin ([Begin sample_begin_params (Inr sample_begin_result)]
      @ [Attach_Request sample_attach_params (Inr sample_attach_result)])
     (ar_session_id sample_attach_result) sample_profile"
proof (rule open_sessions_come_from_accepted_attaches [OF sample_trace_attach])
  show "engine_session sample_attached (ar_session_id sample_attach_result) = Some sample_profile"
    using engine_attach_effect [OF sample_engine_attach]
    by (simp add: engine_session_def sample_attach_params_def)
qed

end
