(* ===== verification/Engine_Queue.thy ===== *)
theory Engine_Queue
  imports Engine_Trace
begin

text \<open>
  The order queue of pending candidates in executions where the entropy source never repeats a token:
  it mirrors the pending table exactly, eviction is first in first out, and a handshake survives the
  next 255 \<open>begin\<close>s.
\<close>

section \<open>Mirroring\<close>

definition mirrored :: "(string, pending_candidate) hash_map \<Rightarrow> string list \<Rightarrow> bool" where
  "mirrored m ord \<longleftrightarrow> distinct ord \<and> set ord = dom (hm_get m)"

lemma mirrored_length: "mirrored m ord \<Longrightarrow> hm_len m = length ord"
  by (simp add: mirrored_def hm.count_keys flip: distinct_card)

lemma mirrored_remove1: "mirrored m ord \<Longrightarrow> mirrored (hm_remove c m) (remove1 c ord)"
  by (auto simp: mirrored_def hm.keys_del)

lemma subseq_remove1: "subseq (remove1 c xs) xs"
  by (induction xs) auto

lemma mirrored_snoc: "mirrored m ord \<Longrightarrow> c \<notin> set ord \<Longrightarrow> mirrored (hm_insert c p m) (ord @ [c])"
  by (auto simp: mirrored_def)

lemma mirrored_tl: "mirrored m (c # ord) \<Longrightarrow> mirrored (hm_remove c m) ord"
  using mirrored_remove1 [of m "c # ord" c] by simp

text \<open>On a mirrored table within the bound, eviction drops the oldest candidate if the table is full.\<close>

lemma evict_loop_mirrored:
  assumes "mirrored m ord" and "length ord \<le> MAX_PENDING_CANDIDATES"
  shows "evict_loop m ord =
    (if length ord = MAX_PENDING_CANDIDATES then (hm_remove (hd ord) m, tl ord) else (m, ord))"
proof (cases ord)
  case Nil
  then show ?thesis using MAX_PENDING_CANDIDATES_pos by (auto simp del: MAX_PENDING_CANDIDATES_pos)
next
  case (Cons c rest)
  have stop: "evict_loop m' rest = (m', rest)" if "hm_len m' < MAX_PENDING_CANDIDATES" for m'
    using that by (cases rest) auto
  have "hm_len (hm_remove c m) = length rest"
    using mirrored_length [OF mirrored_tl] assms(1) Cons by simp
  with Cons assms mirrored_length [OF assms(1)] stop show ?thesis by auto
qed

section \<open>The invariant\<close>

fun attempts :: "string \<Rightarrow> engine_event \<Rightarrow> bool" where
  "attempts c (Attach_Request ap r) = (ap_session_candidate ap = c)"
| "attempts c _ = False"

definition survivors :: "engine_event list \<Rightarrow> ('e, 'r) engine \<Rightarrow> bool" where
  "survivors es g \<longleftrightarrow>
     (\<forall>es1 p br es2. es = es1 @ Begin p (Inr br) # es2
        \<longrightarrow> length (issued es2) < MAX_PENDING_CANDIDATES
        \<longrightarrow> (\<forall>ev \<in> set es2. \<not> attempts (br_session_candidate br) ev)
        \<longrightarrow> br_session_candidate br \<in> set (candidate_order g))"

definition fresh_queue :: "engine_event list \<Rightarrow> ('e, 'r) engine \<Rightarrow> bool" where
  "fresh_queue es g \<longleftrightarrow>
     pending_bounded es g
     \<and> (distinct (issued es) \<longrightarrow>
          mirrored (pending g) (candidate_order g)
          \<and> subseq (candidate_order g) (issued es)
          \<and> survivors es g)"

lemma survivorsD:
  assumes "survivors es g" and "es = es1 @ Begin p (Inr br) # es2"
    and "length (issued es2) < MAX_PENDING_CANDIDATES"
    and "\<And>ev. ev \<in> set es2 \<Longrightarrow> \<not> attempts (br_session_candidate br) ev"
  shows "br_session_candidate br \<in> set (candidate_order g)"
  using assms by (auto simp: survivors_def)

text \<open>Events that neither issue nor attempt a candidate of the queue keep the survivors.\<close>

lemma survivors_snoc:
  assumes "survivors es g" and "issued_by ev = []"
    and "\<And>c. c \<in> set (candidate_order g) \<Longrightarrow> \<not> attempts c ev \<Longrightarrow> c \<in> set (candidate_order g')"
  shows "survivors (es @ [ev]) g'"
  unfolding survivors_def
proof (intro allI impI)
  fix es1 p br es2
  assume split: "es @ [ev] = es1 @ Begin p (Inr br) # es2"
    and few: "length (issued es2) < MAX_PENDING_CANDIDATES"
    and idle: "\<forall>ev \<in> set es2. \<not> attempts (br_session_candidate br) ev"
  from split assms(2) obtain es2' where es2: "es2 = es2' @ [ev]"
    by (cases es2 rule: rev_cases) auto
  with split have "es = es1 @ Begin p (Inr br) # es2'" by simp
  with survivorsD [OF assms(1) this] few idle es2 assms(3)
  show "br_session_candidate br \<in> set (candidate_order g')" by simp
qed

lemma subseq_after:
  assumes "subseq (c # ord) (xs @ c # ys)" and "distinct (xs @ c # ys)"
  shows "length ord \<le> length ys"
proof -
  from assms(1) obtain us vs where split: "xs @ c # ys = us @ c # vs" and sub: "subseq ord vs"
    by (auto dest!: list_emb_ConsD)
  with assms(2) have "vs = ys"
    by (metis append_Cons_eq_iff distinct_append distinct.simps(2) disjoint_insert(1) list.simps(15))
  with sub show ?thesis by (auto dest: list_emb_length)
qed

text \<open>A \<open>begin\<close> drops the oldest candidate of a full queue and appends the new one.\<close>

lemma begin_queue:
  assumes inv: "fresh_queue es g" and fresh: "distinct (issued es)"
    and step: "engine_begin X p g = (Inr br, g')"
  obtains cand where
    "candidate_order g' = (if length (candidate_order g) = MAX_PENDING_CANDIDATES
        then tl (candidate_order g) else candidate_order g) @ [br_session_candidate br]"
    "pending g' = hm_insert (br_session_candidate br) cand
        (if length (candidate_order g) = MAX_PENDING_CANDIDATES
         then hm_remove (hd (candidate_order g)) (pending g) else pending g)"
proof -
  from inv fresh have m: "mirrored (pending g) (candidate_order g)"
    and "length (candidate_order g) \<le> MAX_PENDING_CANDIDATES"
    using mirrored_length [of "pending g" "candidate_order g"]
    by (auto simp: fresh_queue_def pending_bounded_def pending_candidates_def)
  then have evict: "evict_loop (pending g) (candidate_order g) =
      (if length (candidate_order g) = MAX_PENDING_CANDIDATES
       then (hm_remove (hd (candidate_order g)) (pending g), tl (candidate_order g))
       else (pending g, candidate_order g))"
    by (rule evict_loop_mirrored)
  from step show ?thesis
  proof (rule engine_begin_success)
    fix key n t e1 e2
    assume "pending g' = hm_insert (br_session_candidate br)
       \<lparr>nonce = n, advertised_key = key, pc_profile_did = bp_profile_did p\<rparr>
       (fst (evict_loop (pending g) (candidate_order g)))"
      and "candidate_order g' = snd (evict_loop (pending g) (candidate_order g)) @ [br_session_candidate br]"
    then show ?thesis
      by (intro that [of "\<lparr>nonce = n, advertised_key = key, pc_profile_did = bp_profile_did p\<rparr>"])
        (simp_all add: evict)
  qed
qed

lemma fresh_queue_begin_success:
  assumes inv: "fresh_queue es g" and step: "engine_begin X p g = (Inr br, g')"
  shows "fresh_queue (es @ [Begin p (Inr br)]) g'"
proof -
  let ?c = "br_session_candidate br" and ?es = "es @ [Begin p (Inr br)]"
  have bounded: "pending_bounded ?es g'"
    using inv step pending_bounded_begin by (auto simp: fresh_queue_def)
  have "mirrored (pending g') (candidate_order g') \<and> subseq (candidate_order g') (issued ?es)
      \<and> survivors ?es g'" if dist: "distinct (issued ?es)"
  proof -
    let ?o = "candidate_order g"
    let ?o' = "if length ?o = MAX_PENDING_CANDIDATES then tl ?o else ?o"
    from dist have fresh: "distinct (issued es)" and new: "?c \<notin> set (issued es)" by auto
    with inv have m: "mirrored (pending g) ?o" and sub: "subseq ?o (issued es)" and surv: "survivors es g"
      by (auto simp: fresh_queue_def)
    obtain cand where ord: "candidate_order g' = ?o' @ [?c]"
      and pend: "pending g' = hm_insert ?c cand
        (if length ?o = MAX_PENDING_CANDIDATES then hm_remove (hd ?o) (pending g) else pending g)"
      by (rule begin_queue [OF inv fresh step]) blast
    have sub': "subseq ?o' (issued es)"
      using sub by (cases ?o) (auto dest: subseq_Cons')
    with new have "?c \<notin> set ?o'" by (auto dest: list_emb_set)
    moreover have "mirrored (if length ?o = MAX_PENDING_CANDIDATES then hm_remove (hd ?o) (pending g)
        else pending g) ?o'"
      using m mirrored_tl [of "pending g" "hd ?o" "tl ?o"] MAX_PENDING_CANDIDATES_pos
      by (cases ?o) (auto simp del: MAX_PENDING_CANDIDATES_pos)
    ultimately have 1: "mirrored (pending g') (candidate_order g')"
      unfolding ord pend by (intro mirrored_snoc)
    have 2: "subseq (candidate_order g') (issued ?es)"
      using sub' by (simp add: ord)
    have 3: "survivors ?es g'" unfolding survivors_def
    proof (intro allI impI)
      fix es1 p0 br0 es2
      assume split: "?es = es1 @ Begin p0 (Inr br0) # es2"
        and few: "length (issued es2) < MAX_PENDING_CANDIDATES"
        and idle: "\<forall>ev \<in> set es2. \<not> attempts (br_session_candidate br0) ev"
      show "br_session_candidate br0 \<in> set (candidate_order g')"
      proof (cases es2 rule: rev_cases)
        case Nil
        with split show ?thesis by (simp add: ord)
      next
        case (snoc es2' ev)
        with split have es: "es = es1 @ Begin p0 (Inr br0) # es2'" and ev: "ev = Begin p (Inr br)" by auto
        have few': "Suc (length (issued es2')) < MAX_PENDING_CANDIDATES" using few by (simp add: snoc ev)
        with survivorsD [OF surv es] idle snoc have kept: "br_session_candidate br0 \<in> set ?o" by auto
        have "br_session_candidate br0 \<in> set ?o'"
        proof (rule ccontr)
          assume gone: "br_session_candidate br0 \<notin> set ?o'"
          with kept have o: "?o = br_session_candidate br0 # tl ?o" and full: "length ?o = MAX_PENDING_CANDIDATES"
            by (cases ?o; auto split: if_splits)+
          have "length (tl ?o) \<le> length (issued es2')"
            using subseq_after [of "br_session_candidate br0" "tl ?o" "issued es1" "issued es2'"] sub fresh o
            by (simp add: es)
          with full few' show False by simp
        qed
        then show ?thesis by (simp add: ord)
      qed
    qed
    from 1 2 3 show ?thesis by blast
  qed
  with bounded show ?thesis by (simp add: fresh_queue_def)
qed

lemma fresh_queue_idle:
  assumes "fresh_queue es g" and "issued_by ev = []"
    and "pending_bounded (es @ [ev]) g'"
    and "pending g' = pending g" and "candidate_order g' = candidate_order g"
  shows "fresh_queue (es @ [ev]) g'"
  using assms by (auto simp: fresh_queue_def intro: survivors_snoc)

lemma fresh_queue_attach:
  assumes inv: "fresh_queue es g" and step: "engine_attach X ap g = (r, g')"
  shows "fresh_queue (es @ [Attach_Request ap r]) g'"
proof -
  let ?c = "ap_session_candidate ap"
  have bounded: "pending_bounded (es @ [Attach_Request ap r]) g'"
    using inv step by (auto simp: fresh_queue_def intro: pending_bounded_attach)
  have "mirrored (pending g') (candidate_order g') \<and> subseq (candidate_order g') (issued es)
      \<and> survivors (es @ [Attach_Request ap r]) g'" if "distinct (issued es)"
  proof -
    from inv that have m: "mirrored (pending g) (candidate_order g)"
      and sub: "subseq (candidate_order g) (issued es)" and surv: "survivors es g"
      by (auto simp: fresh_queue_def)
    have "?c \<notin> set (candidate_order g)" if "hm_get (pending g) ?c = None"
      using m that by (simp add: mirrored_def fmlookup_dom'_iff)
    then have ord: "candidate_order g' = remove1 ?c (candidate_order g)"
      using engine_attach_effect [OF step] by (auto simp: remove1_idem)
    have "mirrored (pending g') (candidate_order g')"
      using mirrored_remove1 [OF m] engine_attach_effect [OF step] by (simp add: ord)
    moreover have "subseq (candidate_order g') (issued es)"
      using sub subseq_order.order_trans [OF subseq_remove1 sub] by (simp add: ord)
    moreover have "survivors (es @ [Attach_Request ap r]) g'"
      using surv by (rule survivors_snoc) (auto simp: ord in_set_remove1)
    ultimately show ?thesis by blast
  qed
  with bounded show ?thesis by (simp add: fresh_queue_def)
qed

interpretation queue: trace_invariant "engine_step X" "engine_new e r" fresh_queue
  for X :: "('pk, 'sg, 'e, 'r) engine_env" and e r
proof unfold_locales
  show "fresh_queue [] (engine_new e r)"
    using bounded.inv_start
    by (auto simp: fresh_queue_def mirrored_def survivors_def engine_new_def)
next
  fix es and g g' :: "('e, 'r) engine" and ev
  assume inv: "fresh_queue es g" and step: "engine_step X g ev g'"
  then have bounded: "pending_bounded (es @ [ev]) g'"
    by (auto simp: fresh_queue_def intro: bounded.inv_step)
  from step show "fresh_queue (es @ [ev]) g'"
  proof cases
    case (step_begin p r)
    show ?thesis
    proof (cases r)
      case (Inl e)
      with step_begin engine_begin_failure [of X p g e g'] inv bounded show ?thesis
        by (intro fresh_queue_idle) auto
    next
      case (Inr br)
      with step_begin fresh_queue_begin_success [OF inv] show ?thesis by simp
    qed
  next
    case (step_attach ap r)
    with fresh_queue_attach [OF inv step_attach(2)] show ?thesis by simp
  next
    case (step_detach sid b)
    with engine_detach_frame [OF step_detach(2)] inv bounded show ?thesis
      by (intro fresh_queue_idle) auto
  next
    case step_world
    with inv bounded show ?thesis by (intro fresh_queue_idle) auto
  qed
qed

section \<open>Properties\<close>

text \<open>
  C24. The queue mirrors the table.  In every execution whose issued tokens are distinct, the order
  queue holds exactly the outstanding candidates, each once and in the order they were issued, so the
  queue is bounded too.
\<close>

theorem queue_mirrors_pending:
  assumes "trace (engine_step X) (engine_new e r) es g" and "distinct (issued es)"
  shows "distinct (candidate_order g) \<and> set (candidate_order g) = dom (hm_get (pending g))
    \<and> subseq (candidate_order g) (issued es) \<and> length (candidate_order g) \<le> MAX_PENDING_CANDIDATES"
proof -
  have inv: "fresh_queue es g" using assms(1) by (rule queue.inv_trace)
  with assms(2) have "mirrored (pending g) (candidate_order g)" "subseq (candidate_order g) (issued es)"
    by (auto simp: fresh_queue_def)
  moreover from inv this(1) have "length (candidate_order g) \<le> MAX_PENDING_CANDIDATES"
    by (simp add: fresh_queue_def pending_bounded_def pending_candidates_def mirrored_length)
  ultimately show ?thesis by (simp add: mirrored_def)
qed

theorem queue_mirrors_pending_witness:
  "set (candidate_order sample_begun) = dom (hm_get (pending sample_begun))"
  using queue_mirrors_pending [OF sample_trace_begin] by simp

text \<open>
  A handshake survives.  In such an execution a candidate that was issued, that no \<open>attach\<close>
  has named since, and after which fewer than \<open>MAX_PENDING_CANDIDATES\<close> further candidates were
  issued is still outstanding.
\<close>

lemma candidate_survives_later_begins:
  assumes "trace (engine_step X) (engine_new e r) (es1 @ Begin p (Inr br) # es2) g"
    and "distinct (issued (es1 @ Begin p (Inr br) # es2))"
    and "length (issued es2) < MAX_PENDING_CANDIDATES"
    and "\<forall>ev \<in> set es2. \<not> attempts (br_session_candidate br) ev"
  shows "br_session_candidate br \<in> dom (hm_get (pending g))"
proof -
  from assms(1) have "fresh_queue (es1 @ Begin p (Inr br) # es2) g" by (rule queue.inv_trace)
  with assms(2) have m: "mirrored (pending g) (candidate_order g)"
    and "survivors (es1 @ Begin p (Inr br) # es2) g"
    by (auto simp: fresh_queue_def)
  with assms(3,4) have "br_session_candidate br \<in> set (candidate_order g)"
    by (auto intro: survivorsD)
  with m show ?thesis by (simp add: mirrored_def)
qed

text \<open>The begin that issued the \<open>i\<close>-th candidate, and how many were issued after it.\<close>

lemma issued_split:
  "i < length (issued es) \<Longrightarrow>
     \<exists>es1 p br es2. es = es1 @ Begin p (Inr br) # es2 \<and> br_session_candidate br = issued es ! i
       \<and> length (issued es2) = length (issued es) - Suc i"
proof (induction es arbitrary: i)
  case (Cons ev es)
  show ?case
  proof (cases "issued_by ev = []")
    case True
    with Cons.prems have "i < length (issued es)" by simp
    from Cons.IH [OF this] obtain es1 p br es2 where "es = es1 @ Begin p (Inr br) # es2"
      "br_session_candidate br = issued es ! i" "length (issued es2) = length (issued es) - Suc i"
      by blast
    with True show ?thesis by (intro exI [of _ "ev # es1"]) auto
  next
    case False
    then obtain p br where ev: "ev = Begin p (Inr br)" by (cases ev rule: issued_by.cases) auto
    show ?thesis
    proof (cases i)
      case 0
      with ev show ?thesis by (intro exI [of _ "[]"]) auto
    next
      case (Suc j)
      with Cons.prems ev have "j < length (issued es)" by simp
      from Cons.IH [OF this] obtain es1 q br' es2 where "es = es1 @ Begin q (Inr br') # es2"
        "br_session_candidate br' = issued es ! j" "length (issued es2) = length (issued es) - Suc j"
        by blast
      with Suc ev show ?thesis by (intro exI [of _ "ev # es1"]) auto
    qed
  qed
qed simp



end
