(* ===== verification/Engine_Errors.thy ===== *)
theory Engine_Errors
  imports Engine
begin

text \<open>
  What the app is told when the engine refuses an \<open>attach\<close>: the outcomes of the handler, check by
  check, and their classification by the JSON-RPC error of \<open>AttachError::to_rpc_error\<close>.
\<close>

section \<open>The outcomes of an attach\<close>

text \<open>The key the resolver gives for the DID of the request, as the handler asks for it.\<close>

definition published_key ::
  "('pk, 'sg, 'e, 'r) engine_env \<Rightarrow> ('e, 'r) engine \<Rightarrow> attach_params \<Rightarrow> signing_public_key option" where
  "published_key X g ap = fst (resolve_signing_key X (resolver g) (did (profile ap)))"

definition answers_challenge ::
  "('pk, 'sg, 'e, 'r) engine_env \<Rightarrow> pending_candidate \<Rightarrow> string \<Rightarrow> signature \<Rightarrow> bool" where
  "answers_challenge X cand d sig \<longleftrightarrow>
     verify_signature (eng_bls X) (advertised_key cand) (challenge_message (array_bytes (nonce cand)) d) sig"

lemma engine_attach_outcomes:
  obtains
    (unknown) "hm_get (pending g) (ap_session_candidate ap) = None"
      "fst (engine_attach X ap g) = Inl (Err UnknownCandidate)"
  | (other_did) cand where "hm_get (pending g) (ap_session_candidate ap) = Some cand"
      "pc_profile_did cand \<noteq> did (profile ap)" "fst (engine_attach X ap g) = Inl (Err KeyMismatch)"
  | (no_key) cand where "hm_get (pending g) (ap_session_candidate ap) = Some cand"
      "pc_profile_did cand = did (profile ap)" "published_key X g ap = None"
      "fst (engine_attach X ap g) = Inl (Err UnknownDid)"
  | (other_key) cand key where "hm_get (pending g) (ap_session_candidate ap) = Some cand"
      "pc_profile_did cand = did (profile ap)" "published_key X g ap = Some key" "key \<noteq> advertised_key cand"
      "fst (engine_attach X ap g) = Inl (Err KeyMismatch)"
  | (malformed) cand why where "hm_get (pending g) (ap_session_candidate ap) = Some cand"
      "pc_profile_did cand = did (profile ap)" "published_key X g ap = Some (advertised_key cand)"
      "decode_signature (eng_b64 X) (ap_signature_b64 ap) = Inl (Err (Malformed why))"
      "fst (engine_attach X ap g) = Inl (Err (Malformed why))"
  | (forged) cand sig where "hm_get (pending g) (ap_session_candidate ap) = Some cand"
      "pc_profile_did cand = did (profile ap)" "published_key X g ap = Some (advertised_key cand)"
      "decode_signature (eng_b64 X) (ap_signature_b64 ap) = Inr sig"
      "\<not> answers_challenge X cand (did (profile ap)) sig"
      "fst (engine_attach X ap g) = Inl (Err BadSignature)"
  | (genuine) cand sig where "hm_get (pending g) (ap_session_candidate ap) = Some cand"
      "pc_profile_did cand = did (profile ap)" "published_key X g ap = Some (advertised_key cand)"
      "decode_signature (eng_b64 X) (ap_signature_b64 ap) = Inr sig"
      "answers_challenge X cand (did (profile ap)) sig"
      "fst (engine_attach X ap g) = (case fst (fill_nonce X (entropy g)) of
         None \<Rightarrow> Inl Panic
       | Some n \<Rightarrow> Inr \<lparr>ar_session_id = hex_encode (eng_hex X) (array_bytes n),
                        ar_engine_capabilities = ENGINE_CAPABILITIES\<rparr>)"
proof (cases "hm_get (pending g) (ap_session_candidate ap)")
  case None
  then show ?thesis by (intro unknown) (simp_all add: engine_attach_def take_candidate_alt)
next
  case cand: (Some cand)
  note eval = engine_attach_def take_candidate_alt published_key_def answers_challenge_def Let_def
  obtain found r where res: "resolve_signing_key X (resolver g) (did (profile ap)) = (found, r)"
    by (cases "resolve_signing_key X (resolver g) (did (profile ap))")
  have bad: "\<exists>why. decode_signature (eng_b64 X) (ap_signature_b64 ap) = Inl (Err (Malformed why))"
    if "decode_signature (eng_b64 X) (ap_signature_b64 ap) = Inl x" for x
    using that by (auto simp: decode_signature_def split: option.splits)
  consider (a) "pc_profile_did cand \<noteq> did (profile ap)"
    | (b) "pc_profile_did cand = did (profile ap)" "found = None"
    | (c) key where "pc_profile_did cand = did (profile ap)" "found = Some key" "key \<noteq> advertised_key cand"
    | (d) "pc_profile_did cand = did (profile ap)" "found = Some (advertised_key cand)"
    by (cases found) auto
  then show ?thesis
  proof cases
    case d
    show ?thesis
    proof (cases "decode_signature (eng_b64 X) (ap_signature_b64 ap)")
      case (Inl x)
      with bad obtain why where "decode_signature (eng_b64 X) (ap_signature_b64 ap) = Inl (Err (Malformed why))"
        by blast
      with cand d res show ?thesis by (intro malformed [of cand why]) (simp_all add: eval)
    next
      case sig: (Inr sig)
      show ?thesis
      proof (cases "answers_challenge X cand (did (profile ap)) sig")
        case False
        with cand d res sig show ?thesis by (intro forged [of cand sig]) (simp_all add: eval)
      next
        case True
        with cand d res sig show ?thesis
          by (intro genuine [of cand sig])
            (simp_all add: eval engine_fill_nonce_def split: prod.split option.split)
      qed
    qed
  qed (use cand res other_did no_key other_key in \<open>auto simp: eval\<close>)
qed

section \<open>Property\<close>

text \<open>
  Evidence that the request is not from the identity that began the handshake: another DID, another
  published key, or a well-formed signature that does not answer the challenge.
\<close>

definition impostor ::
  "('pk, 'sg, 'e, 'r) engine_env \<Rightarrow> ('e, 'r) engine \<Rightarrow> attach_params \<Rightarrow> pending_candidate \<Rightarrow> bool" where
  "impostor X g ap cand \<longleftrightarrow>
     (if pc_profile_did cand \<noteq> did (profile ap) then True
      else case published_key X g ap of
          None \<Rightarrow> False
        | Some key \<Rightarrow>
            if key \<noteq> advertised_key cand then True
            else case decode_signature (eng_b64 X) (ap_signature_b64 ap) of
                Inl _ \<Rightarrow> False
              | Inr sig \<Rightarrow> \<not> answers_challenge X cand (did (profile ap)) sig)"

definition suspects :: "('pk, 'sg, 'e, 'r) engine_env \<Rightarrow> ('e, 'r) engine \<Rightarrow> attach_params \<Rightarrow> bool" where
  "suspects X g ap \<longleftrightarrow>
     (case hm_get (pending g) (ap_session_candidate ap) of None \<Rightarrow> False | Some cand \<Rightarrow> impostor X g ap cand)"

definition entitled :: "('pk, 'sg, 'e, 'r) engine_env \<Rightarrow> ('e, 'r) engine \<Rightarrow> attach_params \<Rightarrow> bool" where
  "entitled X g ap \<longleftrightarrow>
     (case hm_get (pending g) (ap_session_candidate ap) of
        None \<Rightarrow> False
      | Some cand \<Rightarrow> authenticated X cand ap (published_key X g ap))"

lemma attach_entitled:
  "case fst (engine_attach X ap g) of
     Inr _ \<Rightarrow> entitled X g ap
   | Inl Panic \<Rightarrow> entitled X g ap
   | Inl (Err _) \<Rightarrow> \<not> entitled X g ap"
  by (cases rule: engine_attach_outcomes [of g ap X])
    (auto simp: entitled_def authenticated_def answers_challenge_def split: option.splits)

text \<open>
  C17. Every outcome of an attach.  The request is accepted exactly when it is entitled and the
  entropy source delivers, and panics only with the entropy source; otherwise the JSON-RPC error is
  \<open>BAD_MAC\<close> exactly when the outstanding handshake shows an impostor, and \<open>AUTH_REQUIRED\<close> in
  every other case (no outstanding handshake, no published key, a malformed signature).
\<close>

theorem attach_outcome_is_classified:
  "case fst (engine_attach X ap g) of
     Inr ar \<Rightarrow> entitled X g ap \<and> ar_engine_capabilities ar = ENGINE_CAPABILITIES
   | Inl Panic \<Rightarrow> entitled X g ap \<and> fst (fill_nonce X (entropy g)) = None
   | Inl (Err e) \<Rightarrow> \<not> entitled X g ap
       \<and> attach_to_rpc_error e =
           (if suspects X g ap then \<lparr>re_code = -33002, re_message = ''BAD_MAC''\<rparr>
            else \<lparr>re_code = -33001, re_message = ''AUTH_REQUIRED''\<rparr>)"
  by (cases rule: engine_attach_outcomes [of g ap X])
    (auto simp: entitled_def suspects_def impostor_def authenticated_def answers_challenge_def
      attach_to_rpc_error_def to_rpc_error_def split: option.splits)

end
