(* ===== verification/Engine_Spec.thy ===== *)
theory Engine_Spec
  imports Engine_Trace Engine_Errors
begin

text \<open>
  The abstract specification of the engine: a table of outstanding handshakes that may forget once it is
  full, a table of live sessions, and the directory of published keys, which only the world and a look-up
  change.  It says nothing of the order queue, of eviction, of the entropy source or of how messages
  are checked step by step.  The engine implements it.
\<close>

section \<open>The specification\<close>

record 'r engine_spec =
  outstanding :: "string \<rightharpoonup> pending_candidate"
  live_sessions :: "string \<rightharpoonup> profile_attachment"
  directory :: 'r

definition spec_empty :: "'r \<Rightarrow> 'r engine_spec" where
  "spec_empty r = \<lparr>outstanding = Map.empty, live_sessions = Map.empty, directory = r\<rparr>"

text \<open>The key published for the DID of a request, and the directory after the look-up.\<close>

definition spec_lookup ::
  "('pk, 'sg, 'e, 'r) engine_env \<Rightarrow> 'r engine_spec \<Rightarrow> attach_params \<Rightarrow> signing_public_key option \<times> 'r" where
  "spec_lookup X a ap = resolve_signing_key X (directory a) (did (profile ap))"

text \<open>The request answers an outstanding handshake with the key published now.\<close>

definition spec_entitled :: "('pk, 'sg, 'e, 'r) engine_env \<Rightarrow> 'r engine_spec \<Rightarrow> attach_params \<Rightarrow> bool" where
  "spec_entitled X a ap \<longleftrightarrow>
     (case outstanding a (ap_session_candidate ap) of
        None \<Rightarrow> False
      | Some h \<Rightarrow> authenticated X h ap (fst (spec_lookup X a ap)))"

text \<open>The handshake a begin request and its response describe.\<close>

definition describes ::
  "('pk, 'sg, 'e, 'r) engine_env \<Rightarrow> begin_params \<Rightarrow> begin_result \<Rightarrow> pending_candidate \<Rightarrow> bool" where
  "describes X p br h \<longleftrightarrow>
     key_from_hex (eng_hex X) (signing_pubkey_hex p) = Some (advertised_key h)
     \<and> nonce_b64 br = b64_encode (eng_b64 X) (array_bytes (nonce h))
     \<and> pc_profile_did h = bp_profile_did p"

inductive spec_step ::
  "('pk, 'sg, 'e, 'r) engine_env \<Rightarrow> 'r engine_spec \<Rightarrow> engine_event \<Rightarrow> 'r engine_spec \<Rightarrow> bool"
  for X :: "('pk, 'sg, 'e, 'r) engine_env" where
  spec_begin: "describes X p br h \<Longrightarrow> m \<subseteq>\<^sub>m outstanding a \<Longrightarrow>
    (card (dom (outstanding a)) < MAX_PENDING_CANDIDATES \<Longrightarrow> m = outstanding a) \<Longrightarrow>
    spec_step X a (Begin p (Inr br)) (a\<lparr>outstanding := m(br_session_candidate br \<mapsto> h)\<rparr>)"
| spec_begin_refused: "(case e of
      Panic \<Rightarrow> key_from_hex (eng_hex X) (signing_pubkey_hex p) \<noteq> None
    | Err _ \<Rightarrow> key_from_hex (eng_hex X) (signing_pubkey_hex p) = None) \<Longrightarrow>
    spec_step X a (Begin p (Inl e)) a"
| spec_attach: "spec_entitled X a ap \<Longrightarrow>
    spec_step X a (Attach_Request ap (Inr ar))
      (a\<lparr>outstanding := (outstanding a)(ap_session_candidate ap := None),
         live_sessions := (live_sessions a)(ar_session_id ar \<mapsto> profile ap),
         directory := snd (spec_lookup X a ap)\<rparr>)"
| spec_attach_refused: "(case e of Panic \<Rightarrow> spec_entitled X a ap | Err _ \<Rightarrow> \<not> spec_entitled X a ap) \<Longrightarrow>
    d = directory a \<or> d = snd (spec_lookup X a ap) \<Longrightarrow>
    spec_step X a (Attach_Request ap (Inl e))
      (a\<lparr>outstanding := (outstanding a)(ap_session_candidate ap := None), directory := d\<rparr>)"
| spec_detach: "b = (live_sessions a sid \<noteq> None) \<Longrightarrow>
    spec_step X a (Detach sid b) (a\<lparr>live_sessions := (live_sessions a)(sid := None)\<rparr>)"
| spec_world: "spec_step X a World (a\<lparr>directory := d\<rparr>)"

section \<open>The engine implements it\<close>

definition abstract_engine :: "('e, 'r) engine \<Rightarrow> 'r engine_spec" where
  "abstract_engine g =
     \<lparr>outstanding = hm_get (pending g), live_sessions = hm_get (sessions g), directory = resolver g\<rparr>"

lemma begin_refused:
  assumes "engine_begin X p g = (Inl e, g')"
  shows "abstract_engine g' = abstract_engine g \<and> (case e of
      Panic \<Rightarrow> key_from_hex (eng_hex X) (signing_pubkey_hex p) \<noteq> None
    | Err _ \<Rightarrow> key_from_hex (eng_hex X) (signing_pubkey_hex p) = None)"
  using assms
  by (auto simp: abstract_engine_def engine_begin_def engine_fill_nonce_def Let_def try_then_def
      split: option.splits prod.splits)

lemma attach_resolver:
  assumes "engine_attach X ap g = (r, g')"
  shows "case r of
      Inr _ \<Rightarrow> resolver g' = snd (resolve_signing_key X (resolver g) (did (profile ap)))
    | Inl _ \<Rightarrow> resolver g' = resolver g \<or> resolver g' = snd (resolve_signing_key X (resolver g) (did (profile ap)))"
  using assms
  by (auto simp: engine_attach_def take_candidate_alt engine_fill_nonce_def Let_def try_then_def
      split: option.splits prod.splits if_splits sum.splits)

lemma spec_entitled_abstract: "spec_entitled X (abstract_engine g) ap \<longleftrightarrow> entitled X g ap"
  by (simp add: spec_entitled_def entitled_def spec_lookup_def published_key_def abstract_engine_def
      cong: option.case_cong)

lemma evict_loop_forgets: "hm_get (fst (evict_loop m ord)) \<subseteq>\<^sub>m hm_get m"
proof (unfold map_le_def, rule ballI)
  fix c
  assume "c \<in> dom (hm_get (fst (evict_loop m ord)))"
  with evict_loop_lookup [of m ord c] show "hm_get (fst (evict_loop m ord)) c = hm_get m c"
    by (auto simp: dom_def)
qed

lemma evict_loop_idle: "hm_len m < MAX_PENDING_CANDIDATES \<Longrightarrow> evict_loop m ord = (m, ord)"
  by (cases ord) simp_all

lemma begin_simulated:
  assumes "engine_begin X p g = (r, g')"
  shows "spec_step X (abstract_engine g) (Begin p r) (abstract_engine g')"
proof (cases r)
  case (Inl e)
  with assms begin_refused [of X p g e g'] show ?thesis by (simp add: spec_begin_refused)
next
  case (Inr br)
  with assms have "engine_begin X p g = (Inr br, g')" by simp
  then show ?thesis
  proof (rule engine_begin_success)
    fix key n t e1 e2
    let ?h = "\<lparr>nonce = n, advertised_key = key, pc_profile_did = bp_profile_did p\<rparr>"
      and ?m = "fst (evict_loop (pending g) (candidate_order g))"
    assume key: "key_from_hex (eng_hex X) (signing_pubkey_hex p) = Some key"
      and br: "br = \<lparr>nonce_b64 = b64_encode (eng_b64 X) (array_bytes n),
           br_session_candidate = hex_encode (eng_hex X) (array_bytes t)\<rparr>"
      and m: "pending g' = hm_insert (br_session_candidate br) ?h ?m"
      and s: "sessions g' = sessions g" "resolver g' = resolver g"
    have h: "describes X p br ?h" using key br by (simp add: describes_def)
    have m': "hm_get ?m \<subseteq>\<^sub>m outstanding (abstract_engine g)"
      by (simp add: abstract_engine_def evict_loop_forgets)
    have room: "hm_get ?m = outstanding (abstract_engine g)"
      if "card (dom (outstanding (abstract_engine g))) < MAX_PENDING_CANDIDATES"
    proof -
      have "hm_len (pending g) < MAX_PENDING_CANDIDATES"
        using that by (simp add: abstract_engine_def hm.count_keys)
      then show ?thesis by (simp add: abstract_engine_def evict_loop_idle)
    qed
    have "abstract_engine g' = (abstract_engine g)\<lparr>outstanding := (hm_get ?m)(br_session_candidate br \<mapsto> ?h)\<rparr>"
      by (simp add: abstract_engine_def m s fun_upd_def fun_eq_iff)
    with spec_begin [OF h m' room] Inr show ?thesis by simp
  qed
qed

lemma attach_simulated:
  assumes "engine_attach X ap g = (r, g')"
  shows "spec_step X (abstract_engine g) (Attach_Request ap r) (abstract_engine g')"
proof (cases r)
  case (Inl e)
  let ?a = "abstract_engine g"
  have "case e of Panic \<Rightarrow> spec_entitled X ?a ap | Err _ \<Rightarrow> \<not> spec_entitled X ?a ap"
    using attach_entitled [where X = X and g = g and ap = ap] by (simp add: assms Inl spec_entitled_abstract cong: failure.case_cong)
  moreover have "resolver g' = directory ?a \<or> resolver g' = snd (spec_lookup X ?a ap)"
    using attach_resolver [OF assms] by (simp add: Inl abstract_engine_def spec_lookup_def)
  moreover from engine_attach_effect [OF assms] Inl have "abstract_engine g' = ?a\<lparr>outstanding :=
      (outstanding ?a)(ap_session_candidate ap := None), directory := resolver g'\<rparr>"
    by (simp add: abstract_engine_def fun_eq_iff)
  ultimately show ?thesis unfolding Inl by (simp only: spec_attach_refused)
next
  case (Inr ar)
  let ?a = "abstract_engine g"
  have "spec_entitled X ?a ap"
    using attach_entitled [where X = X and g = g and ap = ap] by (simp add: assms Inr spec_entitled_abstract)
  moreover from engine_attach_effect [OF assms] attach_resolver [OF assms] Inr
  have "abstract_engine g' = ?a\<lparr>outstanding := (outstanding ?a)(ap_session_candidate ap := None),
      live_sessions := (live_sessions ?a)(ar_session_id ar \<mapsto> profile ap),
      directory := snd (spec_lookup X ?a ap)\<rparr>"
    by (simp add: abstract_engine_def spec_lookup_def fun_eq_iff)
  ultimately show ?thesis unfolding Inr by (simp only: spec_attach)
qed

interpretation implements: forward_simulation "engine_step X" "engine_new e r" "spec_step X" "spec_empty r"
  abstract_engine
  for X :: "('pk, 'sg, 'e, 'r) engine_env" and e r
proof unfold_locales
  show "abstract_engine (engine_new e r) = spec_empty r"
    by (simp add: abstract_engine_def engine_new_def spec_empty_def fun_eq_iff)
next
  fix g g' :: "('e, 'r) engine" and ev
  assume "engine_step X g ev g'"
  then show "spec_step X (abstract_engine g) ev (abstract_engine g')"
  proof cases
    case (step_begin p r)
    then show ?thesis by (simp add: begin_simulated)
  next
    case (step_attach ap r)
    then show ?thesis by (simp add: attach_simulated)
  next
    case (step_detach sid b)
    then have "abstract_engine g' = (abstract_engine g)\<lparr>live_sessions :=
        (live_sessions (abstract_engine g))(sid := None)\<rparr>"
      and "b = (live_sessions (abstract_engine g) sid \<noteq> None)"
      by (auto simp: abstract_engine_def engine_detach_def fun_eq_iff)
    with step_detach(1) show ?thesis by (metis spec_detach)
  next
    case (step_world d w)
    then have "abstract_engine g' = (abstract_engine g)\<lparr>directory := d\<rparr>" by (simp add: abstract_engine_def)
    with step_world(1) spec_world show ?thesis by simp
  qed
qed

section \<open>Property\<close>

text \<open>
  C13. Refinement.  Every step of the engine is a step of the specification between the abstractions of
  its states, so every execution is one, with the same requests, answers and published keys: a begin
  is refused exactly for a malformed key, records the handshake it describes and forgets others only
  when the table is full; an attach forgets its candidate and, if the handshake was outstanding and
  authenticated with the key published at that very step, opens a session or panics, and is refused
  otherwise; a detach removes its session and says whether there was one; nothing else changes the tables.
\<close>

theorem engine_refines_specification:
  assumes "trace (engine_step X) (engine_new e r) es g"
  shows "trace (spec_step X) (spec_empty r) es (abstract_engine g)
    \<and> (\<forall>ev g'. engine_step X g ev g' \<longrightarrow> spec_step X (abstract_engine g) ev (abstract_engine g'))"
  using implements.trace_simulated [OF assms] by (auto intro: implements.step_simulated)

theorem engine_refines_specification_witness:
  "trace (spec_step sample_engine) (spec_empty (resolver sample_engine_start))
     ([Begin sample_begin_params (Inr sample_begin_result)]
      @ [Attach_Request sample_attach_params (Inr sample_attach_result)]) (abstract_engine sample_attached)"
  using engine_refines_specification [OF sample_trace_attach] by (simp add: engine_new_def)

end
