(* ===== verification/Engine_Sessions.thy ===== *)
theory Engine_Sessions
  imports Engine_Trace
begin

text \<open>
  The session table of the engine as a function of the requests it answered: the counterpart of
  \<open>Client_Registry\<close> for \<open>EngineSessionRegistry\<close>.
\<close>

section \<open>The session of a history\<close>

text \<open>The profile a session identifier is open for, newest event first.\<close>

fun open_for :: "engine_event list \<Rightarrow> string \<Rightarrow> profile_attachment option" where
  "open_for [] sid = None"
| "open_for (Attach_Request ap (Inr ar) # es) sid =
     (if sid = ar_session_id ar then Some (profile ap) else open_for es sid)"
| "open_for (Detach d b # es) sid = (if sid = d then None else open_for es sid)"
| "open_for (_ # es) sid = open_for es sid"

definition table_of_history :: "engine_event list \<Rightarrow> ('e, 'r) engine \<Rightarrow> bool" where
  "table_of_history es g \<longleftrightarrow> engine_session g = open_for (rev es)"

lemma open_for_step:
  assumes "engine_step X g ev g'"
  shows "engine_session g' sid =
    (case ev of
       Attach_Request ap (Inr ar) \<Rightarrow> if sid = ar_session_id ar then Some (profile ap) else engine_session g sid
     | Detach d b \<Rightarrow> if sid = d then None else engine_session g sid
     | _ \<Rightarrow> engine_session g sid)"
  using assms
proof cases
  case (step_begin p r)
  then show ?thesis
    by (cases r) (auto simp: engine_session_def dest!: engine_begin_failure elim!: engine_begin_success)
next
  case (step_attach ap r)
  with engine_attach_effect [OF step_attach(2)] show ?thesis
    by (cases r) (auto simp: engine_session_def)
next
  case (step_detach d b)
  with engine_detach_frame [OF step_detach(2)] show ?thesis by (auto simp: engine_session_def)
next
  case step_world
  then show ?thesis by (simp add: engine_session_def)
qed

lemma open_for_cons:
  "open_for (ev # es) sid =
    (case ev of
       Attach_Request ap (Inr ar) \<Rightarrow> if sid = ar_session_id ar then Some (profile ap) else open_for es sid
     | Detach d b \<Rightarrow> if sid = d then None else open_for es sid
     | _ \<Rightarrow> open_for es sid)"
  by (auto split: engine_event.split sum.split)

text \<open>What others do leaves a session open: only a reuse of its identifier touches it.\<close>

fun touches :: "string \<Rightarrow> engine_event \<Rightarrow> bool" where
  "touches sid (Attach_Request ap (Inr ar)) = (ar_session_id ar = sid)"
| "touches sid (Detach d b) = (d = sid)"
| "touches sid _ = False"

lemma session_kept:
  assumes "trace (engine_step X) g es g'" and "list_all (\<lambda>ev. \<not> touches sid ev) es"
  shows "engine_session g' sid = engine_session g sid"
  using assms
  by (induction rule: trace.induct)
    (auto dest!: open_for_step [of X _ _ _ sid] split: engine_event.splits sum.splits)

interpretation table: trace_invariant "engine_step X" "engine_new e r" table_of_history
  for X :: "('pk, 'sg, 'e, 'r) engine_env" and e r
proof unfold_locales
  show "table_of_history [] (engine_new e r)"
    by (simp add: table_of_history_def engine_session_def engine_new_def fun_eq_iff)
next
  fix es and g g' :: "('e, 'r) engine" and ev
  assume "table_of_history es g" and "engine_step X g ev g'"
  then show "table_of_history (es @ [ev]) g'"
    by (simp add: table_of_history_def fun_eq_iff open_for_step open_for_cons
        split: engine_event.split sum.split)
qed

section \<open>Property\<close>

text \<open>
  C27. The session table is its history.  After any execution a session identifier is open for the
  profile of the last accepted \<open>attach\<close> that returned it, unless a \<open>detach\<close> named it since, and
  for no other; the number of open sessions counts those identifiers, and a \<open>detach\<close> reports
  whether its identifier is one of them and closes only that one.
\<close>

theorem session_table_is_its_history:
  assumes "trace (engine_step X) (engine_new e r) es g"
  shows "engine_session g sid = open_for (rev es) sid
    \<and> open_sessions g = card (dom (open_for (rev es)))
    \<and> fst (engine_detach sid g) = (open_for (rev es) sid \<noteq> None)
    \<and> engine_session (snd (engine_detach sid g)) = (open_for (rev es))(sid := None)"
proof -
  have "engine_session g = open_for (rev es)"
    using table.inv_trace [OF assms] by (simp add: table_of_history_def)
  moreover have "fst (engine_detach sid g) = (engine_session g sid \<noteq> None)"
    by (simp add: engine_detach_def engine_session_def)
  moreover have "engine_session (snd (engine_detach sid g)) = (engine_session g)(sid := None)"
    by (simp add: fun_eq_iff)
  ultimately show ?thesis using session_table.count_keys [of g] by simp
qed

theorem session_table_is_its_history_witness:
  "engine_session sample_attached (ar_session_id sample_attach_result) = Some sample_profile
   \<and> open_sessions sample_attached = 1"
proof -
  have "open_for (rev ([Begin sample_begin_params (Inr sample_begin_result)]
      @ [Attach_Request sample_attach_params (Inr sample_attach_result)]))
    = [ar_session_id sample_attach_result \<mapsto> sample_profile]"
    by (auto simp: fun_eq_iff sample_attach_params_def)
  then show ?thesis using session_table_is_its_history [OF sample_trace_attach] by simp
qed

end
