(* ===== verification/Engine_Fresh.thy ===== *)
theory Engine_Fresh
  imports Engine_Trace
begin

text \<open>
  Distinct tokens are not only an assumption: an engine over the counter-based nonce source of
  \<open>src/test_support.rs\<close> issues them, as long as the hash does not collide on the counter.
\<close>

section \<open>The tokens of a counter\<close>

definition seq_token :: "hex_crate \<Rightarrow> (u8 list \<Rightarrow> 32 bytes) \<Rightarrow> u8 list \<Rightarrow> u64 \<Rightarrow> string" where
  "seq_token H sha256 s n = hex_encode H (array_bytes (sha256 (s @ u64_to_be_bytes n)))"

text \<open>The engine's source is the counter over the hash.\<close>

definition over_counter :: "('pk, 'sg, seq_entropy, 'r) engine_env \<Rightarrow> (u8 list \<Rightarrow> 32 bytes) \<Rightarrow> bool" where
  "over_counter X sha256 \<longleftrightarrow> fill_nonce X = seq_fill_nonce sha256"

text \<open>
  The tokens issued so far come from numbers below the counter, each from its own; a change of the
  world would reset the counter, so the claim is about histories without one.
\<close>

definition counted_tokens ::
  "('pk, 'sg, seq_entropy, 'r) engine_env \<Rightarrow> (u8 list \<Rightarrow> 32 bytes) \<Rightarrow> u8 list \<Rightarrow> engine_event list \<Rightarrow>
     (seq_entropy, 'r) engine \<Rightarrow> bool" where
  "counted_tokens X sha256 s es g \<longleftrightarrow>
     (World \<notin> set es \<longrightarrow>
        seed (entropy g) = s
        \<and> (\<exists>ns. issued es = map (seq_token (eng_hex X) sha256 s) ns
            \<and> sorted_wrt (<) ns \<and> (\<forall>n \<in> set ns. n < counter (entropy g))))"

lemma counter_grows: "n \<noteq> - 1 \<Longrightarrow> n < n + 1" for n :: u64
proof -
  assume "n \<noteq> - 1"
  then have "1 + n \<noteq> 0" by (simp add: add.commute add_eq_0_iff)
  then show "n < n + 1" by (simp add: word_less_nat_alt unatSuc add.commute)
qed

lemma seq_fill_nonce_step:
  assumes "seq_fill_nonce sha256 e = (r, e')"
  shows "seed e' = seed e \<and> counter e \<le> counter e'
    \<and> (\<forall>n. r = Some n \<longrightarrow> n = sha256 (seed e @ u64_to_be_bytes (counter e)) \<and> counter e < counter e')"
  using assms counter_grows [of "counter e"]
  by (auto simp: seq_fill_nonce_def Let_def split: if_splits)

lemma begin_entropy:
  assumes "over_counter X sha256" and "engine_begin X p g = (r, g')"
  shows "seed (entropy g') = seed (entropy g) \<and> counter (entropy g) \<le> counter (entropy g')
    \<and> (\<forall>br. r = Inr br \<longrightarrow> (\<exists>n. counter (entropy g) \<le> n \<and> n < counter (entropy g')
        \<and> br_session_candidate br = seq_token (eng_hex X) sha256 (seed (entropy g)) n))"
proof (cases r)
  case (Inl e)
  with assms show ?thesis
    by (auto simp: over_counter_def engine_begin_def engine_fill_nonce_def try_then_def Let_def
        dest!: seq_fill_nonce_step split: option.splits prod.splits)
next
  case (Inr br)
  with assms(2) have "engine_begin X p g = (Inr br, g')" by simp
  then show ?thesis
  proof (rule engine_begin_success)
    fix n t e1 e2
    assume "fill_nonce X (entropy g) = (Some n, e1)" "fill_nonce X e1 = (Some t, e2)" "entropy g' = e2"
      and br: "br = \<lparr>nonce_b64 = b64_encode (eng_b64 X) (array_bytes n),
           br_session_candidate = hex_encode (eng_hex X) (array_bytes t)\<rparr>"
    with assms(1) have e1: "seed e1 = seed (entropy g)" "counter (entropy g) < counter e1"
      and e2: "seed e2 = seed e1" "counter e1 < counter e2"
        "t = sha256 (seed e1 @ u64_to_be_bytes (counter e1))"
      by (auto simp: over_counter_def dest!: seq_fill_nonce_step)
    with \<open>entropy g' = e2\<close> br Inr show ?thesis
      by (auto simp: seq_token_def intro!: exI [of _ "counter e1"])
  qed
qed

lemma attach_draws_once:
  assumes "engine_attach X ap g = (r, g')"
  shows "entropy g' = entropy g \<or> entropy g' = snd (fill_nonce X (entropy g))"
  using assms
  by (auto simp: engine_attach_def take_candidate_alt engine_fill_nonce_def try_then_def Let_def
      split: option.splits prod.splits if_splits sum.splits)

lemma attach_entropy:
  assumes "over_counter X sha256" and "engine_attach X ap g = (r, g')"
  shows "seed (entropy g') = seed (entropy g) \<and> counter (entropy g) \<le> counter (entropy g')"
  using attach_draws_once [OF assms(2)] assms(1)
    seq_fill_nonce_step [of sha256 "entropy g" "fst (fill_nonce X (entropy g))" "snd (fill_nonce X (entropy g))"]
  by (auto simp: over_counter_def)

lemma counted_tokens_idle:
  assumes "counted_tokens X sha256 s es g" and "issued_by ev = []"
    and "ev \<noteq> World \<Longrightarrow> seed (entropy g') = seed (entropy g) \<and> counter (entropy g) \<le> counter (entropy g')"
  shows "counted_tokens X sha256 s (es @ [ev]) g'"
  unfolding counted_tokens_def
proof (intro impI)
  assume world: "World \<notin> set (es @ [ev])"
  with assms(1) obtain ns where ns: "seed (entropy g) = s" "issued es = map (seq_token (eng_hex X) sha256 s) ns"
    "sorted_wrt (<) ns" "\<forall>n \<in> set ns. n < counter (entropy g)"
    by (auto simp: counted_tokens_def)
  from world assms(3) have e: "seed (entropy g') = seed (entropy g)" "counter (entropy g) \<le> counter (entropy g')"
    by auto
  from ns(4) e(2) have "\<forall>n \<in> set ns. n < counter (entropy g')" by (auto intro: order_less_le_trans)
  with ns e(1) assms(2) show "seed (entropy g') = s \<and> (\<exists>ns. issued (es @ [ev])
      = map (seq_token (eng_hex X) sha256 s) ns \<and> sorted_wrt (<) ns \<and> (\<forall>n \<in> set ns. n < counter (entropy g')))"
    by auto
qed

lemma counted_tokens_begin:
  assumes "over_counter X sha256" and inv: "counted_tokens X sha256 s es g"
    and step: "engine_begin X p g = (Inr br, g')"
  shows "counted_tokens X sha256 s (es @ [Begin p (Inr br)]) g'"
  unfolding counted_tokens_def
proof (intro impI)
  assume "World \<notin> set (es @ [Begin p (Inr br)])"
  with inv obtain ns where ns: "seed (entropy g) = s" "issued es = map (seq_token (eng_hex X) sha256 s) ns"
    "sorted_wrt (<) ns" "\<forall>n \<in> set ns. n < counter (entropy g)"
    by (auto simp: counted_tokens_def)
  from begin_entropy [OF assms(1) step] ns(1) obtain n where n: "seed (entropy g') = s"
    "counter (entropy g) \<le> n" "n < counter (entropy g')"
    "br_session_candidate br = seq_token (eng_hex X) sha256 s n"
    by auto
  from ns(4) n(2) have "\<forall>k \<in> set ns. k < n" by (auto intro: order_less_le_trans)
  with ns n have "issued (es @ [Begin p (Inr br)]) = map (seq_token (eng_hex X) sha256 s) (ns @ [n])"
    "sorted_wrt (<) (ns @ [n])" "\<forall>k \<in> set (ns @ [n]). k < counter (entropy g')"
    by (auto simp: sorted_wrt_append intro: order_less_trans)
  with n(1) show "seed (entropy g') = s \<and> (\<exists>ns. issued (es @ [Begin p (Inr br)])
      = map (seq_token (eng_hex X) sha256 s) ns \<and> sorted_wrt (<) ns \<and> (\<forall>n \<in> set ns. n < counter (entropy g')))"
    by blast
qed

interpretation counted: trace_invariant "engine_step (X\<lparr>fill_nonce := seq_fill_nonce sha256\<rparr>)"
  "engine_new (seq_entropy_new s) r" "counted_tokens (X\<lparr>fill_nonce := seq_fill_nonce sha256\<rparr>) sha256 s"
  for X :: "('pk, 'sg, seq_entropy, 'r) engine_env" and sha256 s r
proof unfold_locales
  show "counted_tokens (X\<lparr>fill_nonce := seq_fill_nonce sha256\<rparr>) sha256 s [] (engine_new (seq_entropy_new s) r)"
    by (simp add: counted_tokens_def engine_new_def seq_entropy_new_def)
next
  fix es and g g' :: "(seq_entropy, 'r) engine" and ev
  let ?X = "X\<lparr>fill_nonce := seq_fill_nonce sha256\<rparr>"
  have counter: "over_counter ?X sha256" by (simp add: over_counter_def)
  assume inv: "counted_tokens ?X sha256 s es g" and "engine_step ?X g ev g'"
  from this(2) show "counted_tokens ?X sha256 s (es @ [ev]) g'"
  proof cases
    case (step_begin p r)
    show ?thesis
    proof (cases r)
      case (Inl e)
      with step_begin begin_entropy [OF counter step_begin(2)] inv show ?thesis
        by (intro counted_tokens_idle) auto
    next
      case (Inr br)
      with step_begin counted_tokens_begin [OF counter inv] show ?thesis by simp
    qed
  next
    case (step_attach ap r)
    with attach_entropy [OF counter step_attach(2)] inv show ?thesis by (intro counted_tokens_idle) auto
  next
    case (step_detach sid b)
    with inv show ?thesis by (intro counted_tokens_idle) (auto simp: engine_detach_def)
  next
    case step_world
    with inv show ?thesis by (intro counted_tokens_idle) auto
  qed
qed

section \<open>Property\<close>

text \<open>
  C39. Fresh tokens.  In every execution of an engine over the counter-based nonce source in which the
  source is not replaced, the issued candidate tokens are distinct, provided the hash with the hex
  codec does not map two of the counters used so far to one token.  The counter never wraps: at its
  end the source panics.
\<close>

theorem counter_tokens_are_distinct:
  assumes "trace (engine_step X) (engine_new (seq_entropy_new s) r) es g"
    and "fill_nonce X = seq_fill_nonce sha256" and "World \<notin> set es"
    and inj: "inj_on (\<lambda>n. hex_encode (eng_hex X) (array_bytes (sha256 (s @ u64_to_be_bytes n))))
      {n. n < counter (entropy g)}"
  shows "distinct (issued es)"
proof -
  have "X\<lparr>fill_nonce := seq_fill_nonce sha256\<rparr> = X" using assms(2) by simp
  with counted.inv_trace [of sha256 X s r es g] assms(1,3) obtain ns where
    ns: "issued es = map (seq_token (eng_hex X) sha256 s) ns" "sorted_wrt (<) ns"
    "\<forall>n \<in> set ns. n < counter (entropy g)"
    by (auto simp: counted_tokens_def)
  from ns(2) have "distinct ns" by (simp add: strict_sorted_iff)
  moreover have "inj_on (seq_token (eng_hex X) sha256 s) {n. n < counter (entropy g)}"
    using inj by (simp add: seq_token_def [abs_def])
  then have "inj_on (seq_token (eng_hex X) sha256 s) (set ns)"
    by (rule inj_on_subset) (use ns(3) in auto)
  ultimately show ?thesis using ns(1) by (simp add: distinct_map)
qed

theorem counter_tokens_are_distinct_witness:
  "distinct (issued [Begin sample_begin_params (Inr sample_begin_result)])"
proof (rule counter_tokens_are_distinct [OF sample_trace_begin])
  show "fill_nonce sample_engine = seq_fill_nonce (\<lambda>bs. array_of (last bs))"
    by (simp add: sample_engine_def)
  have "n = 0 \<or> n = 1" if "n < 2" for n :: u64
    using that by (auto simp: word_less_nat_alt less_2_cases_iff word_unat_eq_iff)
  then have "{n :: u64. n < 2} \<subseteq> {0, 1}" by blast
  moreover have "inj_on (ucast :: u64 \<Rightarrow> u8) {0, 1}" by (simp add: inj_on_def)
  ultimately have "inj_on (ucast :: u64 \<Rightarrow> u8) {n. n < 2}" by (rule inj_on_subset [rotated])
  then show "inj_on (\<lambda>n. hex_encode (eng_hex sample_engine)
      (array_bytes (array_of (last ([] @ u64_to_be_bytes n)) :: 32 bytes)))
      {n. n < counter (entropy sample_begun)}"
    by (simp add: inj_on_def sample_begun_fields sample_engine_def sample_hex_def u64_to_be_bytes_def)
qed simp

end
