(* ===== verification/Client.thy ===== *)
theory Client
  imports Bounds Domain Wire Signer Transport
begin

text \<open>
  The app role-half of \<open>src/client.rs\<close>: \<open>SessionClient\<close> with the handshake, the servicing
  of \<open>sign\<close> callbacks, \<open>detach\<close> and \<open>reattach\<close>, and the \<open>SessionRegistry\<close>.  The
  transport, the signer, the policy and the JSON library are the fields of \<open>client_env\<close>; the
  client's own state is the record \<open>client\<close>.
\<close>

section \<open>Sessions and errors\<close>

record session =
  session_id :: string
  engine_capabilities :: "string list"
  profile_did :: string

datatype session_error =
    Io io_error
  | Frame string
  | Engine int string
  | IdMismatch
  | MalformedResponse
  | InvalidNonceLength nat nat
  | NotASignCallback
  | TooManyCallbacks
  | Locked_Signer

section \<open>The JSON library\<close>

text \<open>
  The calls of \<open>serde_json\<close> the client makes, one field per type it serialises or parses; a
  string stands for a \<open>serde_json::Error\<close>.
\<close>

record 'v serde_json =
  value_null :: 'v
  as_u64 :: "'v \<Rightarrow> u64 option"
  begin_request_to_string :: "begin_params rpc_request \<Rightarrow> string + string"
  attach_request_to_string :: "attach_params rpc_request \<Rightarrow> string + string"
  detach_request_to_string :: "detach_params rpc_request \<Rightarrow> string + string"
  sign_result_to_string :: "('v, sign_callback_result) rpc_result \<Rightarrow> string + string"
  error_reply_to_string :: "'v rpc_error_reply \<Rightarrow> string + string"
  incoming_frame_from_str :: "string \<Rightarrow> string + 'v incoming_frame"
  begin_result_from_value :: "'v \<Rightarrow> string + begin_result"
  attach_result_from_value :: "'v \<Rightarrow> string + attach_result"
  detach_result_from_value :: "'v \<Rightarrow> string + detach_result"
  sign_params_from_value :: "'v \<Rightarrow> string + 'v sign_callback_params"

section \<open>State\<close>

text \<open>
  \<open>debug_build\<close> says whether debug assertions and overflow checks are compiled in: with them a
  failed \<open>debug_assert_eq!\<close> and an overflow of the request counter panic.
\<close>

record ('v, 't, 's, 'p) client_env =
  cl_json :: "'v serde_json"
  cl_b64 :: base64_crate
  cl_transport :: "'t frame_transport"
  cl_signer :: "'s session_signer"
  cl_policy :: "('v, 'p) sign_policy"
  debug_build :: bool

record ('t, 's, 'p) client =
  transport :: 't
  signer :: 's
  policy :: 'p
  next_id :: u64

type_synonym ('a, 't, 's, 'p) client_result = "(session_error failure + 'a) \<times> ('t, 's, 'p) client"

definition client_new :: "'t \<Rightarrow> 's \<Rightarrow> 'p \<Rightarrow> ('t, 's, 'p) client" where
  "client_new t s p = \<lparr>transport = t, signer = s, policy = p, next_id = 1\<rparr>"

section \<open>Calls into the seams\<close>

definition client_send ::
  "('v, 't, 's, 'p) client_env \<Rightarrow> string \<Rightarrow> ('t, 's, 'p) client \<Rightarrow> (unit, 't, 's, 'p) client_result" where
  "client_send E frame c =
     (case send_frame (cl_transport E) (transport c) frame of
        (r, t) \<Rightarrow> (map_err Io r, c\<lparr>transport := t\<rparr>))"

definition client_recv ::
  "('v, 't, 's, 'p) client_env \<Rightarrow> ('t, 's, 'p) client \<Rightarrow> (string, 't, 's, 'p) client_result" where
  "client_recv E c =
     (case recv_frame (cl_transport E) (transport c) of
        (r, t) \<Rightarrow> (map_err Io r, c\<lparr>transport := t\<rparr>))"

definition client_pubkey_hex ::
  "('v, 't, 's, 'p) client_env \<Rightarrow> ('t, 's, 'p) client \<Rightarrow> string \<times> ('t, 's, 'p) client" where
  "client_pubkey_hex E c =
     (case signing_public_key_hex (cl_signer E) (signer c) of (h, s) \<Rightarrow> (h, c\<lparr>signer := s\<rparr>))"

definition client_try_sign ::
  "('v, 't, 's, 'p) client_env \<Rightarrow> u8 list \<Rightarrow> ('t, 's, 'p) client \<Rightarrow> signature option \<times> ('t, 's, 'p) client" where
  "client_try_sign E m c =
     (case try_sign (cl_signer E) (signer c) m of (r, s) \<Rightarrow> (r, c\<lparr>signer := s\<rparr>))"

definition client_authorize ::
  "('v, 't, 's, 'p) client_env \<Rightarrow> 'v sign_request \<Rightarrow> ('t, 's, 'p) client \<Rightarrow> sign_decision \<times> ('t, 's, 'p) client" where
  "client_authorize E q c =
     (case cl_policy E (policy c) q of (d, p) \<Rightarrow> (d, c\<lparr>policy := p\<rparr>))"

section \<open>Replies to the engine\<close>

definition send_result ::
  "('v, 't, 's, 'p) client_env \<Rightarrow> 'v \<Rightarrow> sign_callback_result \<Rightarrow> ('t, 's, 'p) client \<Rightarrow>
     (unit, 't, 's, 'p) client_result" where
  "send_result E rid res c =
     (case sign_result_to_string (cl_json E)
         \<lparr>rs_jsonrpc = JSONRPC_VERSION, rs_id = rid, rs_result = res\<rparr> of
        Inl e \<Rightarrow> (Inl (Err (Frame e)), c)
      | Inr frame \<Rightarrow> client_send E frame c)"

definition send_error ::
  "('v, 't, 's, 'p) client_env \<Rightarrow> 'v \<Rightarrow> int \<Rightarrow> string \<Rightarrow> ('t, 's, 'p) client \<Rightarrow>
     (unit, 't, 's, 'p) client_result" where
  "send_error E rid code message c =
     (case error_reply_to_string (cl_json E)
         \<lparr>rp_jsonrpc = JSONRPC_VERSION, rp_id = rid,
          rp_error = \<lparr>re_code = code, re_message = message\<rparr>\<rparr> of
        Inl e \<Rightarrow> (Inl (Err (Frame e)), c)
      | Inr frame \<Rightarrow> client_send E frame c)"

section \<open>Servicing a sign callback\<close>

definition service_sign_callback ::
  "('v, 't, 's, 'p) client_env \<Rightarrow> 'v incoming_frame \<Rightarrow> ('t, 's, 'p) client \<Rightarrow>
     (sign_decision, 't, 's, 'p) client_result" where
  "service_sign_callback E frame c =
     (let rid = (case if_id frame of None \<Rightarrow> value_null (cl_json E) | Some v \<Rightarrow> v) in
      case sign_params_from_value (cl_json E)
          (case if_params frame of None \<Rightarrow> value_null (cl_json E) | Some v \<Rightarrow> v) of
        Inl e \<Rightarrow> (Inl (Err (Frame e)), c)
      | Inr params \<Rightarrow>
        (case b64_decode (cl_b64 E) (str_bytes (scp_payload_b64 params)) of
           None \<Rightarrow>
             try_then (send_error E rid (error_number SignDenied) ''sign payload is not valid base64'' c)
               (\<lambda>_ c. (Inr (Deny ''invalid base64 payload''), c))
         | Some payload \<Rightarrow>
             (case client_authorize E
                 \<lparr>sq_session_id = scp_session_id params, sq_op_id = scp_op_id params,
                  sq_payload_type = scp_payload_type params, sq_payload = payload,
                  sq_context = scp_context params\<rparr> c of
                (Allow, c) \<Rightarrow>
                  (case sign_callback_message (scp_payload_type params) payload of
                     Some message \<Rightarrow>
                       (case client_try_sign E message c of
                          (Some sig, c) \<Rightarrow>
                            (case client_pubkey_hex E c of (pubkey, c) \<Rightarrow>
                               try_then (send_result E rid
                                   \<lparr>scr_signature_b64 =
                                      b64_encode (cl_b64 E) (array_bytes (sig_as_bytes sig)),
                                    scr_pubkey_hex = pubkey\<rparr> c)
                                 (\<lambda>_ c. (Inr Allow, c)))
                        | (None, c) \<Rightarrow>
                            try_then (send_error E rid (error_number Locked)
                                ''active profile is locked; no key to sign with'' c)
                              (\<lambda>_ c. (Inr (Deny ''active profile is locked''), c)))
                   | None \<Rightarrow>
                       try_then (send_error E rid (error_number SignDenied)
                           ''sign payload_type exceeds the maximum length'' c)
                         (\<lambda>_ c. (Inr (Deny ''payload_type too long''), c)))
              | (Deny reason, c) \<Rightarrow>
                  try_then (send_error E rid (error_number SignDenied) reason c)
                    (\<lambda>_ c. (Inr (Deny reason), c)))))"

section \<open>Requests and responses\<close>

text \<open>
  \<open>read_response\<close>: the loop, with the number of callbacks serviced so far.  A \<open>sign\<close> frame
  is serviced and the loop goes round; every other frame ends it.  The counter bounds the rounds.
\<close>

function read_response ::
  "('v, 't, 's, 'p) client_env \<Rightarrow> ('v \<Rightarrow> string + 'r) \<Rightarrow> u64 \<Rightarrow> nat \<Rightarrow> ('t, 's, 'p) client \<Rightarrow>
     ('r, 't, 's, 'p) client_result" where
  "read_response E from_value awaited_id callbacks_serviced c =
     (case client_recv E c of
        (Inl e, c) \<Rightarrow> (Inl e, c)
      | (Inr raw, c) \<Rightarrow>
        (case incoming_frame_from_str (cl_json E) raw of
           Inl e \<Rightarrow> (Inl (Err (Frame e)), c)
         | Inr frame \<Rightarrow>
             if if_method frame = Some METHOD_SIGN then
               (if MAX_INTERLEAVED_CALLBACKS < Suc callbacks_serviced then (Inl (Err TooManyCallbacks), c)
                else (case service_sign_callback E frame c of
                    (Inl e, c) \<Rightarrow> (Inl e, c)
                  | (Inr _, c) \<Rightarrow> read_response E from_value awaited_id (Suc callbacks_serviced) c))
             else if Option.bind (if_id frame) (as_u64 (cl_json E)) \<noteq> Some awaited_id
             then (Inl (Err IdMismatch), c)
             else (case if_error frame of
                 Some er \<Rightarrow> (Inl (Err (Engine (re_code er) (re_message er))), c)
               | None \<Rightarrow> (case if_result frame of
                     None \<Rightarrow> (Inl (Err MalformedResponse), c)
                   | Some v \<Rightarrow> (map_err Frame (from_value v), c)))))"
  by pat_completeness auto
termination
  by (relation "measure (\<lambda>(E, from_value, awaited_id, n, c). Suc MAX_INTERLEAVED_CALLBACKS - n)") auto

declare read_response.simps [simp del]

text \<open>
  \<open>call\<close>: take the next request id, send the request and read its response.  The serialiser of
  the request and the parser of the result are the trait bounds \<open>Q: Serialize\<close> and
  \<open>R: Deserialize\<close>.
\<close>

definition client_call ::
  "('v, 't, 's, 'p) client_env \<Rightarrow> ('q rpc_request \<Rightarrow> string + string) \<Rightarrow> ('v \<Rightarrow> string + 'r) \<Rightarrow>
     string \<Rightarrow> 'q \<Rightarrow> ('t, 's, 'p) client \<Rightarrow> ('r, 't, 's, 'p) client_result" where
  "client_call E to_str from_value meth params c =
     (let rid = next_id c in
      if debug_build E \<and> rid = - 1 then (Inl Panic, c)
      else
        let c = c\<lparr>next_id := rid + 1\<rparr> in
        case to_str \<lparr>rq_jsonrpc = JSONRPC_VERSION, rq_id = rid, rq_method = meth, rq_params = params\<rparr> of
          Inl e \<Rightarrow> (Inl (Err (Frame e)), c)
        | Inr request \<Rightarrow>
            try_then (client_send E request c) (\<lambda>_ c. read_response E from_value rid 0 c))"

section \<open>The public operations\<close>

definition begin_and_attach ::
  "('v, 't, 's, 'p) client_env \<Rightarrow> profile_attachment \<Rightarrow> ('t, 's, 'p) client \<Rightarrow>
     (session, 't, 's, 'p) client_result" where
  "begin_and_attach E prof c =
     (case client_pubkey_hex E c of (begin_pubkey_hex, c) \<Rightarrow>
      try_then (client_call E (begin_request_to_string (cl_json E)) (begin_result_from_value (cl_json E))
          METHOD_BEGIN \<lparr>bp_profile_did = did prof, signing_pubkey_hex = begin_pubkey_hex\<rparr> c)
        (\<lambda>begin c.
          case b64_decode (cl_b64 E) (str_bytes (nonce_b64 begin)) of
            None \<Rightarrow> (Inl (Err MalformedResponse), c)
          | Some nonce \<Rightarrow>
              if length nonce \<noteq> NONCE_LEN
              then (Inl (Err (InvalidNonceLength NONCE_LEN (length nonce))), c)
              else (case (if debug_build E then client_pubkey_hex E c else (begin_pubkey_hex, c)) of
                  (pubkey_hex, c) \<Rightarrow>
                    if pubkey_hex \<noteq> begin_pubkey_hex then (Inl Panic, c)
                    else (case client_try_sign E (challenge_message nonce (did prof)) c of
                        (None, c) \<Rightarrow> (Inl (Err Locked_Signer), c)
                      | (Some sig, c) \<Rightarrow>
                          try_then (client_call E (attach_request_to_string (cl_json E))
                              (attach_result_from_value (cl_json E)) METHOD_ATTACH
                              \<lparr>ap_session_candidate = br_session_candidate begin,
                               ap_signature_b64 = b64_encode (cl_b64 E) (array_bytes (sig_as_bytes sig)),
                               profile = prof\<rparr> c)
                            (\<lambda>att c. (Inr \<lparr>session_id = ar_session_id att,
                                engine_capabilities = ar_engine_capabilities att,
                                profile_did = did prof\<rparr>, c))))))"

definition client_detach ::
  "('v, 't, 's, 'p) client_env \<Rightarrow> session \<Rightarrow> ('t, 's, 'p) client \<Rightarrow> (unit, 't, 's, 'p) client_result" where
  "client_detach E sess c =
     try_then (client_call E (detach_request_to_string (cl_json E)) (detach_result_from_value (cl_json E))
         METHOD_DETACH \<lparr>dp_session_id = session_id sess\<rparr> c)
       (\<lambda>_ c. (Inr (), c))"

definition reattach ::
  "('v, 't, 's, 'p) client_env \<Rightarrow> 't \<Rightarrow> profile_attachment \<Rightarrow> ('t, 's, 'p) client \<Rightarrow>
     (session, 't, 's, 'p) client_result" where
  "reattach E t prof c = begin_and_attach E prof (c\<lparr>transport := t, next_id := 1\<rparr>)"

definition handle_next_sign_callback ::
  "('v, 't, 's, 'p) client_env \<Rightarrow> ('t, 's, 'p) client \<Rightarrow> (sign_decision, 't, 's, 'p) client_result" where
  "handle_next_sign_callback E c =
     try_then (client_recv E c) (\<lambda>raw c.
       case incoming_frame_from_str (cl_json E) raw of
         Inl e \<Rightarrow> (Inl (Err (Frame e)), c)
       | Inr frame \<Rightarrow>
           if if_method frame = Some METHOD_SIGN then service_sign_callback E frame c
           else (Inl (Err NotASignCallback), c))"

section \<open>The session registry\<close>

record session_registry =
  by_did :: "(string, session) hash_map"

definition registry_new :: session_registry where
  "registry_new = \<lparr>by_did = hm_new\<rparr>"

definition registry_insert :: "session \<Rightarrow> session_registry \<Rightarrow> session_registry" where
  "registry_insert s r = r\<lparr>by_did := hm_insert (profile_did s) s (by_did r)\<rparr>"

definition registry_get :: "session_registry \<Rightarrow> string \<Rightarrow> session option" where
  "registry_get r d = hm_get (by_did r) d"

definition registry_remove :: "string \<Rightarrow> session_registry \<Rightarrow> session option \<times> session_registry" where
  "registry_remove d r = (hm_get (by_did r) d, r\<lparr>by_did := hm_remove d (by_did r)\<rparr>)"

definition registry_len :: "session_registry \<Rightarrow> nat" where
  "registry_len r = hm_len (by_did r)"

definition registry_is_empty :: "session_registry \<Rightarrow> bool" where
  "registry_is_empty r \<longleftrightarrow> hm_len (by_did r) = 0"

end
