(* ===== verification/Samples.thy ===== *)
theory Samples
  imports Client Test_Support
begin

text \<open>
  Concrete instances of the client's parameters, at which its theorems are applied: a JSON library
  that knows a handful of frames by name, and environments over the scripted transport of \<open>Test_Support\<close>.  Nothing here models code.
\<close>

section \<open>A small JSON library\<close>

datatype sample_value =
    Sample_Null
  | Sample_Num u64
  | Sample_Begin string string
  | Sample_Attach string
  | Sample_Detached
  | Sample_Sign string string

definition sample_frame :: "sample_value incoming_frame" where
  "sample_frame = \<lparr>if_id = None, if_method = None, if_params = None, if_result = None, if_error = None\<rparr>"

definition sign_frame :: "string \<Rightarrow> string \<Rightarrow> sample_value incoming_frame" where
  "sign_frame ty payload = sample_frame\<lparr>if_id := Some (Sample_Num 7), if_method := Some METHOD_SIGN,
     if_params := Some (Sample_Sign ty payload)\<rparr>"

definition result_frame :: "u64 \<Rightarrow> sample_value \<Rightarrow> sample_value incoming_frame" where
  "result_frame rid v = sample_frame\<lparr>if_id := Some (Sample_Num rid), if_result := Some v\<rparr>"

definition sample_parse :: "string \<Rightarrow> string + sample_value incoming_frame" where
  "sample_parse s =
     (if s = ''sign'' then Inr (sign_frame ''spend'' ''bundle'')
      else if s = ''bare-sign'' then Inr (sample_frame\<lparr>if_method := Some METHOD_SIGN\<rparr>)
      else if s = ''begin-ok'' then Inr (result_frame 1 (Sample_Begin (replicate 32 CHR ''n'') ''candidate''))
      else if s = ''begin-short'' then Inr (result_frame 1 (Sample_Begin ''short'' ''candidate''))
      else if s = ''attach-ok'' then Inr (result_frame 2 (Sample_Attach ''session''))
      else if s = ''detach-ok'' then Inr (result_frame 1 Sample_Detached)
      else if s = ''stray'' then Inr (result_frame 9 Sample_Null)
      else Inl ''expected value'')"

fun sample_u64 :: "sample_value \<Rightarrow> u64 option" where
  "sample_u64 (Sample_Num n) = Some n"
| "sample_u64 _ = None"

fun sample_begin :: "sample_value \<Rightarrow> string + begin_result" where
  "sample_begin (Sample_Begin n c) = Inr \<lparr>nonce_b64 = n, br_session_candidate = c\<rparr>"
| "sample_begin _ = Inl ''missing field''"

fun sample_attach :: "sample_value \<Rightarrow> string + attach_result" where
  "sample_attach (Sample_Attach s) = Inr \<lparr>ar_session_id = s, ar_engine_capabilities = [''sign'']\<rparr>"
| "sample_attach _ = Inl ''missing field''"

fun sample_detached :: "sample_value \<Rightarrow> string + detach_result" where
  "sample_detached Sample_Detached = Inr DetachResult"
| "sample_detached _ = Inl ''missing field''"

fun sample_sign_params :: "sample_value \<Rightarrow> string + sample_value sign_callback_params" where
  "sample_sign_params (Sample_Sign ty payload) =
     Inr \<lparr>scp_session_id = ''session'', scp_op_id = ''op'', scp_payload_type = ty,
          scp_payload_b64 = payload, scp_context = None\<rparr>"
| "sample_sign_params _ = Inl ''missing field''"

definition sample_json :: "sample_value serde_json" where
  "sample_json =
     \<lparr>value_null = Sample_Null, as_u64 = sample_u64,
      begin_request_to_string = (\<lambda>r. Inr (''begin '' @ signing_pubkey_hex (rq_params r))),
      attach_request_to_string = (\<lambda>r. Inr (''attach '' @ ap_signature_b64 (rq_params r))),
      detach_request_to_string = (\<lambda>r. Inr (''detach '' @ dp_session_id (rq_params r))),
      sign_result_to_string = (\<lambda>r. Inr (''signed '' @ scr_signature_b64 (rs_result r))),
      error_reply_to_string = (\<lambda>r. Inr (''error '' @ re_message (rp_error r))),
      incoming_frame_from_str = sample_parse,
      begin_result_from_value = sample_begin, attach_result_from_value = sample_attach,
      detach_result_from_value = sample_detached, sign_params_from_value = sample_sign_params\<rparr>"

section \<open>Environments\<close>

definition sample_env ::
  "'t frame_transport \<Rightarrow> 's session_signer \<Rightarrow> (sample_value, 'p) sign_policy \<Rightarrow>
     (sample_value, 't, 's, 'p) client_env" where
  "sample_env T S P =
     \<lparr>cl_json = sample_json, cl_b64 = sample_b64, cl_transport = T, cl_signer = S, cl_policy = P,
      debug_build = True\<rparr>"

abbreviation sample_signer_env ::
  "(sample_value, 'p) sign_policy \<Rightarrow> (sample_value, fake_transport, unit test_signer, 'p) client_env" where
  "sample_signer_env P \<equiv> sample_env fake_transport_ops (test_signer_ops sample_hex sample_keys) P"

abbreviation sample_lockable_env ::
  "(sample_value, 'p) sign_policy \<Rightarrow> (sample_value, fake_transport, unit lockable_signer, 'p) client_env" where
  "sample_lockable_env P \<equiv> sample_env fake_transport_ops (lockable_signer_ops sample_hex sample_keys) P"

lemma sample_env_simps [simp]:
  "cl_json (sample_env T S P) = sample_json" "cl_b64 (sample_env T S P) = sample_b64"
  "cl_transport (sample_env T S P) = T" "cl_signer (sample_env T S P) = S"
  "cl_policy (sample_env T S P) = P" "debug_build (sample_env T S P)"
  by (simp_all add: sample_env_def)

lemmas sample_defs = sample_json_def sample_parse_def sample_frame_def sign_frame_def result_frame_def
  sample_b64_def sample_hex_def sample_keys_def test_signer_ops_def lockable_signer_ops_def
  fake_transport_ops_def fake_send_frame_def fake_recv_frame_def fake_scripted_def

text \<open>Evaluation of a client operation at a sample environment.\<close>

lemmas client_eval = handle_next_sign_callback_def client_recv_def service_sign_callback_def
  client_authorize_def sign_callback_message_bytes client_try_sign_def client_pubkey_hex_def
  default_try_sign_def default_signing_public_key_hex_def send_result_def send_error_def
  client_send_def client_new_def sample_defs

end
