(* ===== verification/Client_Callbacks.thy ===== *)
theory Client_Callbacks
  imports Client Test_Support Samples
begin

text \<open>
  What \<open>service_sign_callback\<close> does on each of its branches: the case rule every later proof
  about callbacks uses, and the properties of a single callback over the scripted transport of
  \<open>src/test_support.rs\<close>.
\<close>

section \<open>The parts of a callback frame\<close>

definition callback_id :: "('v, 't, 's, 'p) client_env \<Rightarrow> 'v incoming_frame \<Rightarrow> 'v" where
  "callback_id E frame = (case if_id frame of None \<Rightarrow> value_null (cl_json E) | Some v \<Rightarrow> v)"

definition callback_params ::
  "('v, 't, 's, 'p) client_env \<Rightarrow> 'v incoming_frame \<Rightarrow> string + 'v sign_callback_params" where
  "callback_params E frame = sign_params_from_value (cl_json E)
     (case if_params frame of None \<Rightarrow> value_null (cl_json E) | Some v \<Rightarrow> v)"

definition callback_payload ::
  "('v, 't, 's, 'p) client_env \<Rightarrow> 'v sign_callback_params \<Rightarrow> u8 list option" where
  "callback_payload E params = b64_decode (cl_b64 E) (str_bytes (scp_payload_b64 params))"

definition callback_request :: "'v sign_callback_params \<Rightarrow> u8 list \<Rightarrow> 'v sign_request" where
  "callback_request params payload =
     \<lparr>sq_session_id = scp_session_id params, sq_op_id = scp_op_id params,
      sq_payload_type = scp_payload_type params, sq_payload = payload,
      sq_context = scp_context params\<rparr>"

definition signed_result ::
  "('v, 't, 's, 'p) client_env \<Rightarrow> signature \<Rightarrow> string \<Rightarrow> sign_callback_result" where
  "signed_result E sig pubkey =
     \<lparr>scr_signature_b64 = b64_encode (cl_b64 E) (array_bytes (sig_as_bytes sig)),
      scr_pubkey_hex = pubkey\<rparr>"

lemma callback_request_simps [simp]:
  "sq_payload_type (callback_request params payload) = scp_payload_type params"
  "sq_payload (callback_request params payload) = payload"
  by (simp_all add: callback_request_def)

section \<open>The seams change one field each\<close>

lemma client_send_frame:
  assumes "client_send E f c = (r, c')"
  shows "signer c' = signer c \<and> policy c' = policy c \<and> next_id c' = next_id c"
  using assms by (auto simp: client_send_def split: prod.splits)

lemma client_recv_frame:
  assumes "client_recv E c = (r, c')"
  shows "signer c' = signer c \<and> policy c' = policy c \<and> next_id c' = next_id c"
  using assms by (auto simp: client_recv_def split: prod.splits)

lemma client_pubkey_frame:
  assumes "client_pubkey_hex E c = (h, c')"
  shows "transport c' = transport c \<and> policy c' = policy c \<and> next_id c' = next_id c"
  using assms by (auto simp: client_pubkey_hex_def split: prod.splits)

lemma client_try_sign_frame:
  assumes "client_try_sign E m c = (r, c')"
  shows "transport c' = transport c \<and> policy c' = policy c \<and> next_id c' = next_id c"
  using assms by (auto simp: client_try_sign_def split: prod.splits)

lemma client_authorize_frame:
  assumes "client_authorize E q c = (d, c')"
  shows "transport c' = transport c \<and> signer c' = signer c \<and> next_id c' = next_id c"
  using assms by (auto simp: client_authorize_def split: prod.splits)

lemma send_error_frame:
  assumes "send_error E rid code msg c = (r, c')"
  shows "signer c' = signer c \<and> policy c' = policy c \<and> next_id c' = next_id c"
  using assms by (auto simp: send_error_def dest: client_send_frame split: sum.splits)

lemma send_result_frame:
  assumes "send_result E rid res c = (r, c')"
  shows "signer c' = signer c \<and> policy c' = policy c \<and> next_id c' = next_id c"
  using assms by (auto simp: send_result_def dest: client_send_frame split: sum.splits)

lemmas seam_frames = client_send_frame client_recv_frame client_pubkey_frame client_try_sign_frame
  client_authorize_frame send_error_frame send_result_frame

section \<open>Decide, then reply\<close>

text \<open>
  The specification of a callback in two stages: a decision that consults the policy and the signer
  and touches no transport, and at most one reply.  \<open>Unanswerable\<close> is a frame whose parameters do
  not parse.
\<close>

datatype verdict =
    Unanswerable string
  | Refuse sign_error_code string string
  | Signed sign_callback_result

definition decide_signature ::
  "('v, 't, 's, 'p) client_env \<Rightarrow> string \<Rightarrow> u8 list \<Rightarrow> ('t, 's, 'p) client \<Rightarrow>
     verdict \<times> ('t, 's, 'p) client" where
  "decide_signature E payload_type payload c =
     (case sign_callback_message payload_type payload of
        None \<Rightarrow> (Refuse SignDenied ''sign payload_type exceeds the maximum length'' ''payload_type too long'', c)
      | Some message \<Rightarrow>
          (case client_try_sign E message c of
             (None, c) \<Rightarrow>
               (Refuse Locked ''active profile is locked; no key to sign with'' ''active profile is locked'', c)
           | (Some sig, c) \<Rightarrow>
               (case client_pubkey_hex E c of (pubkey, c) \<Rightarrow> (Signed (signed_result E sig pubkey), c))))"

definition decide_callback ::
  "('v, 't, 's, 'p) client_env \<Rightarrow> 'v incoming_frame \<Rightarrow> ('t, 's, 'p) client \<Rightarrow>
     verdict \<times> ('t, 's, 'p) client" where
  "decide_callback E frame c =
     (case callback_params E frame of
        Inl e \<Rightarrow> (Unanswerable e, c)
      | Inr params \<Rightarrow>
          (case callback_payload E params of
             None \<Rightarrow> (Refuse SignDenied ''sign payload is not valid base64'' ''invalid base64 payload'', c)
           | Some payload \<Rightarrow>
               (case client_authorize E (callback_request params payload) c of
                  (Deny reason, c) \<Rightarrow> (Refuse SignDenied reason reason, c)
                | (Allow, c) \<Rightarrow> decide_signature E (scp_payload_type params) payload c)))"

definition reply_verdict ::
  "('v, 't, 's, 'p) client_env \<Rightarrow> 'v \<Rightarrow> verdict \<Rightarrow> ('t, 's, 'p) client \<Rightarrow>
     (sign_decision, 't, 's, 'p) client_result" where
  "reply_verdict E rid v c =
     (case v of
        Unanswerable e \<Rightarrow> (Inl (Err (Frame e)), c)
      | Refuse code msg reason \<Rightarrow>
          try_then (send_error E rid (error_number code) msg c) (\<lambda>_ c. (Inr (Deny reason), c))
      | Signed res \<Rightarrow> try_then (send_result E rid res c) (\<lambda>_ c. (Inr Allow, c)))"

lemma service_decides_then_replies:
  "service_sign_callback E frame c =
     (case decide_callback E frame c of (v, c) \<Rightarrow> reply_verdict E (callback_id E frame) v c)"
  unfolding service_sign_callback_def decide_callback_def decide_signature_def reply_verdict_def
    callback_id_def [symmetric] callback_params_def [symmetric] callback_payload_def [symmetric]
    callback_request_def [symmetric] signed_result_def [symmetric] Let_def
  by (simp split: sum.splits option.splits prod.splits sign_decision.splits)


section \<open>What the decision does\<close>

lemma decide_callback_frame:
  assumes "decide_callback E frame c = (v, c')"
  shows "transport c' = transport c \<and> next_id c' = next_id c"
  using assms
  by (auto simp: decide_callback_def decide_signature_def dest!: client_authorize_frame
      client_try_sign_frame client_pubkey_frame
      split: sum.splits option.splits prod.splits sign_decision.splits)

lemma decide_callback_signed:
  assumes "decide_callback E frame c = (Signed res, c')"
  obtains params payload c1 m sig c2 pubkey where
    "callback_params E frame = Inr params" "callback_payload E params = Some payload"
    "client_authorize E (callback_request params payload) c = (Allow, c1)"
    "sign_callback_message (scp_payload_type params) payload = Some m"
    "client_try_sign E m c1 = (Some sig, c2)" "client_pubkey_hex E c2 = (pubkey, c')"
    "res = signed_result E sig pubkey"
  using assms
  by (auto simp: decide_callback_def decide_signature_def
      split: sum.splits option.splits prod.splits sign_decision.splits)

text \<open>
  The client's calls into the policy and the signer while it decides: \<open>consulted\<close> relates the
  client before and after, for the cases where the signer is asked nothing and where it is asked for
  one signature, after the policy allowed it.
\<close>

lemma decide_callback_cases:
  assumes "decide_callback E frame c = (v, c')"
  obtains (nothing) "c' = c" "\<forall>res. v \<noteq> Signed res"
  | (policy) q d where "client_authorize E q c = (d, c')" "\<forall>res. v \<noteq> Signed res"
  | (sign) q c1 m r c2 where "client_authorize E q c = (Allow, c1)"
      "sign_callback_message (sq_payload_type q) (sq_payload q) = Some m"
      "client_try_sign E m c1 = (r, c2)"
      "case r of None \<Rightarrow> c' = c2 \<and> (\<forall>res. v \<noteq> Signed res)
        | Some sig \<Rightarrow> \<exists>pubkey. client_pubkey_hex E c2 = (pubkey, c') \<and> v = Signed (signed_result E sig pubkey)"
proof (cases "callback_params E frame")
  case (Inl e)
  with assms show ?thesis by - (rule nothing, auto simp: decide_callback_def)
next
  case params: (Inr params)
  show ?thesis
  proof (cases "callback_payload E params")
    case None
    with assms params show ?thesis by - (rule nothing, auto simp: decide_callback_def)
  next
    case payload: (Some payload)
    let ?q = "callback_request params payload"
    obtain d c1 where d: "client_authorize E ?q c = (d, c1)" by (cases "client_authorize E ?q c")
    show ?thesis
    proof (cases d)
      case (Deny reason)
      with assms params payload d show ?thesis
        by - (rule policy [of ?q d], auto simp: decide_callback_def)
    next
      case Allow
      with assms params payload d have rest: "decide_signature E (scp_payload_type params) payload c1 = (v, c')"
        by (simp add: decide_callback_def)
      show ?thesis
      proof (cases "sign_callback_message (scp_payload_type params) payload")
        case None
        with rest d show ?thesis by - (rule policy [of ?q d], auto simp: decide_signature_def)
      next
        case (Some m)
        obtain r c2 where "client_try_sign E m c1 = (r, c2)" by (cases "client_try_sign E m c1")
        with rest Some d Allow show ?thesis
          by (intro sign [of ?q c1 m r c2])
            (auto simp: decide_signature_def split: option.splits prod.splits)
      qed
    qed
  qed
qed

lemma service_verdict:
  assumes "service_sign_callback E frame c = (r, c')"
  obtains v c1 where "decide_callback E frame c = (v, c1)"
    "reply_verdict E (callback_id E frame) v c1 = (r, c')"
  using assms by (auto simp: service_decides_then_replies split: prod.splits)

lemma service_frame:
  assumes "service_sign_callback E frame c = (r, c')"
  shows "next_id c' = next_id c"
  using assms
  by (rule service_verdict)
    (auto simp: reply_verdict_def try_then_def dest!: decide_callback_frame send_error_frame
      send_result_frame split: verdict.splits prod.splits sum.splits)


section \<open>Over the scripted transport\<close>

lemma fake_client_send:
  assumes "cl_transport E = fake_transport_ops"
  shows "client_send E f c =
    (Inr (), c\<lparr>transport := (transport c)\<lparr>outgoing := outgoing (transport c) @ [f]\<rparr>\<rparr>)"
  by (simp add: client_send_def assms fake_transport_ops_def fake_send_frame_def)

definition sign_reply :: "'v \<Rightarrow> sign_callback_result \<Rightarrow> ('v, sign_callback_result) rpc_result" where
  "sign_reply rid res = \<lparr>rs_jsonrpc = JSONRPC_VERSION, rs_id = rid, rs_result = res\<rparr>"

definition error_reply :: "'v \<Rightarrow> sign_error_code \<Rightarrow> string \<Rightarrow> 'v rpc_error_reply" where
  "error_reply rid code msg = \<lparr>rp_jsonrpc = JSONRPC_VERSION, rp_id = rid,
     rp_error = \<lparr>re_code = error_number code, re_message = msg\<rparr>\<rparr>"

text \<open>What the engine reads for a decision: a result for an approval, an error for a refusal.\<close>

definition answers :: "('v, 't, 's, 'p) client_env \<Rightarrow> 'v \<Rightarrow> sign_decision \<Rightarrow> string \<Rightarrow> bool" where
  "answers E rid d reply \<longleftrightarrow>
     (case d of
        Allow \<Rightarrow> \<exists>res. sign_result_to_string (cl_json E) (sign_reply rid res) = Inr reply
      | Deny _ \<Rightarrow> \<exists>code msg. code \<in> {SignDenied, Locked}
          \<and> error_reply_to_string (cl_json E) (error_reply rid code msg) = Inr reply)"

lemma answers_allow:
  "sign_result_to_string (cl_json E) (sign_reply rid res) = Inr reply \<Longrightarrow> answers E rid Allow reply"
  by (auto simp: answers_def)

lemma answers_deny:
  "error_reply_to_string (cl_json E) (error_reply rid code msg) = Inr reply \<Longrightarrow>
     code \<in> {SignDenied, Locked} \<Longrightarrow> answers E rid (Deny reason) reply"
  unfolding answers_def sign_decision.case by blast

lemma fake_reply_verdict:
  assumes "cl_transport E = fake_transport_ops"
  shows "reply_verdict E rid v c =
    (case (case v of
        Unanswerable e \<Rightarrow> Inl e
      | Refuse code msg reason \<Rightarrow> map_sum id (Pair (Deny reason))
          (error_reply_to_string (cl_json E) (error_reply rid code msg))
      | Signed res \<Rightarrow> map_sum id (Pair Allow) (sign_result_to_string (cl_json E) (sign_reply rid res)))
     of Inl e \<Rightarrow> (Inl (Err (Frame e)), c)
      | Inr (d, reply) \<Rightarrow>
          (Inr d, c\<lparr>transport := (transport c)\<lparr>outgoing := outgoing (transport c) @ [reply]\<rparr>\<rparr>))"
  by (simp add: reply_verdict_def send_error_def send_result_def error_reply_def sign_reply_def
      fake_client_send [OF assms] split: verdict.split sum.split)

lemma decide_callback_code:
  assumes "decide_callback E frame c = (Refuse code msg reason, c')"
  shows "code \<in> {SignDenied, Locked}"
  using assms
  by (auto simp: decide_callback_def decide_signature_def
      split: sum.splits option.splits prod.splits sign_decision.splits)

section \<open>Properties\<close>

text \<open>
  C26. One reply per callback.  Over the scripted transport a callback that is serviced is answered
  with exactly one frame, a result if the decision was to allow and an error with code
  \<open>SIGN_DENIED\<close> or \<open>LOCKED\<close> if it was to deny; a callback that fails sends nothing.
\<close>

theorem callback_answered_exactly_once:
  assumes "cl_transport E = fake_transport_ops" and "service_sign_callback E frame c = (r, c')"
  shows "case r of
      Inl _ \<Rightarrow> outgoing (transport c') = outgoing (transport c)
    | Inr d \<Rightarrow> \<exists>reply. outgoing (transport c') = outgoing (transport c) @ [reply]
        \<and> answers E (callback_id E frame) d reply"
  using assms(2)
proof (rule service_verdict)
  fix v c1 assume v: "decide_callback E frame c = (v, c1)"
    and reply: "reply_verdict E (callback_id E frame) v c1 = (r, c')"
  show ?thesis
  proof (cases v)
    case (Refuse code msg reason)
    with v have "code \<in> {SignDenied, Locked}" using decide_callback_code by metis
    then have "error_reply_to_string (cl_json E) (error_reply (callback_id E frame) code msg) = Inr b
        \<Longrightarrow> answers E (callback_id E frame) (Deny reason) b" for b
      by (rule answers_deny [rotated])
    with reply decide_callback_frame [OF v] Refuse show ?thesis
      by (auto simp: fake_reply_verdict [OF assms(1)] split: sum.splits)
  qed (use reply decide_callback_frame [OF v] in
      \<open>auto simp: fake_reply_verdict [OF assms(1)] intro: answers_allow split: sum.splits\<close>)
qed

theorem callback_answered_exactly_once_witness:
  "outgoing (transport (snd (service_sign_callback (sample_signer_env allow_all_authorize)
      (sign_frame ''spend'' ''bundle'') (client_new (fake_scripted []) \<lparr>secret_key = ()\<rparr> AllowAllSignPolicy))))
   \<noteq> []"
proof -
  let ?E = "sample_signer_env allow_all_authorize"
  let ?s = "service_sign_callback ?E (sign_frame ''spend'' ''bundle'')
      (client_new (fake_scripted []) \<lparr>secret_key = ()\<rparr> AllowAllSignPolicy)"
  have "?s = (Inr Allow, snd ?s)"
    by (simp add: prod_eq_iff client_eval Let_def)
  then show ?thesis
    using callback_answered_exactly_once [of ?E _ _ "Inr Allow" "snd ?s"] by fastforce
qed


text \<open>
  Denial.  If the policy denies a well-formed callback, the signer is not consulted at all, and
  the engine gets one error frame with code \<open>SIGN_DENIED\<close> and the policy's reason.
\<close>

lemma denied_callback_never_reaches_signer:
  assumes "cl_transport E = fake_transport_ops"
    and "callback_params E frame = Inr params" and "callback_payload E params = Some payload"
    and "fst (cl_policy E (policy c) (callback_request params payload)) = Deny reason"
    and "error_reply_to_string (cl_json E) (error_reply (callback_id E frame) SignDenied reason) = Inr reply"
    and "service_sign_callback E frame c = (r, c')"
  shows "r = Inr (Deny reason) \<and> signer c' = signer c
    \<and> outgoing (transport c') = outgoing (transport c) @ [reply]"
  using assms(2-)
  by (auto simp: service_decides_then_replies decide_callback_def client_authorize_def
      fake_reply_verdict [OF assms(1)] split: prod.splits)

lemma denied_callback_never_reaches_signer_witness:
  "outgoing (transport (snd (service_sign_callback (sample_signer_env deny_all_authorize)
      (sign_frame ''spend'' ''bundle'') (client_new (fake_scripted []) \<lparr>secret_key = ()\<rparr> DenyAllSignPolicy))))
   = [''error signing is disabled by policy'']"
proof -
  let ?E = "sample_signer_env deny_all_authorize"
  let ?c = "client_new (fake_scripted []) \<lparr>secret_key = ()\<rparr> DenyAllSignPolicy"
  let ?s = "service_sign_callback ?E (sign_frame ''spend'' ''bundle'') ?c"
  have "callback_params ?E (sign_frame ''spend'' ''bundle'') = sample_sign_params (Sample_Sign ''spend'' ''bundle'')"
    by (simp add: callback_params_def sample_defs)
  moreover have "callback_payload ?E params = Some (str_bytes (scp_payload_b64 params))" for params
    by (simp add: callback_payload_def sample_b64_def)
  ultimately have "outgoing (transport (snd ?s)) = outgoing (transport ?c)
      @ [''error signing is disabled by policy'']"
    using denied_callback_never_reaches_signer [of ?E "sign_frame ''spend'' ''bundle''" _ _ ?c
        "''signing is disabled by policy''" "''error signing is disabled by policy''" "fst ?s" "snd ?s"]
    by (simp add: sample_json_def error_reply_def)
  then show ?thesis by (simp add: client_new_def fake_scripted_def)
qed

text \<open>
  A locked identity.  If the policy allows a callback whose message can be built and the signer
  has no key, the engine gets one error frame with code \<open>LOCKED\<close>, and the decision reported to
  the caller is a denial: no success envelope with a fail-safe signature is sent.
\<close>

lemma locked_callback_is_refused:
  assumes "cl_transport E = fake_transport_ops"
    and "callback_params E frame = Inr params" and "callback_payload E params = Some payload"
    and "client_authorize E (callback_request params payload) c = (Allow, c1)"
    and "sign_callback_message (scp_payload_type params) payload = Some m"
    and "fst (try_sign (cl_signer E) (signer c) m) = None"
    and "error_reply_to_string (cl_json E)
      (error_reply (callback_id E frame) Locked ''active profile is locked; no key to sign with'') = Inr reply"
    and "service_sign_callback E frame c = (r, c')"
  shows "r = Inr (Deny ''active profile is locked'')
    \<and> outgoing (transport c') = outgoing (transport c) @ [reply]"
proof -
  have "signer c1 = signer c" using client_authorize_frame [OF assms(4)] by simp
  with assms(6) obtain c2 where "client_try_sign E m c1 = (None, c2)"
    by (cases "try_sign (cl_signer E) (signer c) m") (simp add: client_try_sign_def)
  then have "decide_callback E frame c = (Refuse Locked
      ''active profile is locked; no key to sign with'' ''active profile is locked'', c2)"
    using assms(2-5) by (simp add: decide_callback_def decide_signature_def)
  with assms(7,8) decide_callback_frame [OF this] show ?thesis
    by (auto simp: service_decides_then_replies fake_reply_verdict [OF assms(1)])
qed

lemma locked_callback_is_refused_witness:
  "outgoing (transport (snd (service_sign_callback (sample_lockable_env allow_all_authorize)
      (sign_frame ''spend'' ''bundle'')
      (client_new (fake_scripted []) \<lparr>inner = \<lparr>secret_key = ()\<rparr>, locked = True\<rparr> AllowAllSignPolicy))))
   = [''error active profile is locked; no key to sign with'']"
proof -
  let ?E = "sample_lockable_env allow_all_authorize" and ?f = "sign_frame ''spend'' ''bundle''"
  let ?c = "client_new (fake_scripted []) \<lparr>inner = \<lparr>secret_key = ()\<rparr>, locked = True\<rparr> AllowAllSignPolicy"
  let ?s = "service_sign_callback ?E ?f ?c"
  let ?params = "\<lparr>scp_session_id = ''session'', scp_op_id = ''op'', scp_payload_type = ''spend'',
    scp_payload_b64 = ''bundle'', scp_context = None\<rparr> :: sample_value sign_callback_params"
  have "fst ?s = Inr (Deny ''active profile is locked'') \<and> outgoing (transport (snd ?s))
      = outgoing (transport ?c) @ [''error active profile is locked; no key to sign with'']"
  proof (rule locked_callback_is_refused)
    show "callback_params ?E ?f = Inr ?params"
      by (simp add: callback_params_def sample_json_def sign_frame_def)
    show "callback_payload ?E ?params = Some (str_bytes ''bundle'')"
      by (simp add: callback_payload_def sample_b64_def)
    show "client_authorize ?E (callback_request ?params (str_bytes ''bundle'')) ?c = (Allow, ?c)"
      by (simp add: client_authorize_def client_new_def)
    show "sign_callback_message (scp_payload_type ?params) (str_bytes ''bundle'')
        = Some (callback_bytes (''spend'', str_bytes ''bundle''))"
      by (simp add: sign_callback_message_bytes)
  qed (simp_all add: client_new_def lockable_signer_ops_def lockable_try_sign_def sample_json_def
      error_reply_def)
  then show ?thesis by (simp add: client_new_def fake_scripted_def)
qed

text \<open>What the engine checks of a result frame: that it carries a signature of its request.\<close>

definition verified_result ::
  "hex_crate \<Rightarrow> base64_crate \<Rightarrow> ('pk, 'sg) chia_bls \<Rightarrow> string \<Rightarrow> u8 list \<Rightarrow> sign_callback_result \<Rightarrow> bool" where
  "verified_result H B64 B payload_type payload res \<longleftrightarrow>
     (case (sign_callback_message payload_type payload, key_from_hex H (scr_pubkey_hex res),
         b64_decode B64 (str_bytes (scr_signature_b64 res))) of
        (Some m, Some key, Some bs) \<Rightarrow>
          (case try_into_array bs of
             None \<Rightarrow> False
           | Some arr \<Rightarrow> verify_signature B key m (Signature arr))
      | _ \<Rightarrow> False)"

lemma decide_callback_verifies:
  assumes "cl_signer E = test_signer_ops H K" and "bls_correct B K"
    and "hex_round_trip H" and "b64_round_trip (cl_b64 E)"
    and "decide_callback E frame c = (Signed res, c')"
  shows "\<exists>params payload. callback_params E frame = Inr params \<and> callback_payload E params = Some payload
      \<and> fst (cl_policy E (policy c) (callback_request params payload)) = Allow
      \<and> verified_result H (cl_b64 E) B (scp_payload_type params) payload res"
proof -
  from assms(5) obtain params payload c1 m sig c2 pubkey where
    request: "callback_params E frame = Inr params" "callback_payload E params = Some payload"
    and allow: "client_authorize E (callback_request params payload) c = (Allow, c1)"
    and m: "sign_callback_message (scp_payload_type params) payload = Some m"
    and sig: "client_try_sign E m c1 = (Some sig, c2)" and pubkey: "client_pubkey_hex E c2 = (pubkey, c')"
    and res: "res = signed_result E sig pubkey"
    by (rule decide_callback_signed)
  let ?sk = "secret_key (signer c1)" and ?key = "test_signer_public K (signer c1)"
  from sig have sig': "sig = Signature (sign_bytes K ?sk m)" and c2: "signer c2 = signer c1"
    by (auto simp: client_try_sign_def assms(1) test_signer_ops_def default_try_sign_def test_signer_sign_def)
  from pubkey c2 have "pubkey = key_to_hex H ?key"
    by (auto simp: client_pubkey_hex_def assms(1) test_signer.public_key_hex)
  moreover have "key_from_hex H (key_to_hex H ?key) = Some ?key"
    using assms(3) by (rule key_hex_inverse)
  moreover have "fst (cl_policy E (policy c) (callback_request params payload)) = Allow"
    using allow by (auto simp: client_authorize_def split: prod.splits)
  moreover have "b64_decode (cl_b64 E) (str_bytes (scr_signature_b64 res)) = Some (array_bytes (sig_as_bytes sig))"
    using assms(4) by (simp add: res signed_result_def b64_round_trip_def)
  moreover have "verify_signature B ?key m sig"
    using assms(2) by (simp add: bls_correct_def sig' test_signer_public_def)
  ultimately show ?thesis using request m res
    by (simp add: verified_result_def signed_result_def sig')
qed

text \<open>
  C18. An approved callback is answered with a signature that verifies.  For a signer over a BLS key
  whose signatures verify, a callback serviced with \<open>Allow\<close> was allowed by the policy, and its one
  reply is a result frame whose base64 signature verifies under the key whose hex form it carries, for
  the domain-separated message of the payload type and the payload the policy was shown.
\<close>

theorem approved_callback_reply_verifies:
  assumes "cl_transport E = fake_transport_ops" and "cl_signer E = test_signer_ops H K"
    and "bls_correct B K" and "hex_round_trip H" and "b64_round_trip (cl_b64 E)"
    and "service_sign_callback E frame c = (Inr Allow, c')"
  shows "\<exists>params payload res reply.
      callback_params E frame = Inr params \<and> callback_payload E params = Some payload
      \<and> fst (cl_policy E (policy c) (callback_request params payload)) = Allow
      \<and> verified_result H (cl_b64 E) B (scp_payload_type params) payload res
      \<and> sign_result_to_string (cl_json E) (sign_reply (callback_id E frame) res) = Inr reply
      \<and> outgoing (transport c') = outgoing (transport c) @ [reply]"
  using assms(6)
proof (rule service_verdict)
  fix v c1 assume v: "decide_callback E frame c = (v, c1)"
    and reply: "reply_verdict E (callback_id E frame) v c1 = (Inr Allow, c')"
  from reply obtain res reply where res: "v = Signed res"
    "sign_result_to_string (cl_json E) (sign_reply (callback_id E frame) res) = Inr reply"
    "outgoing (transport c') = outgoing (transport c1) @ [reply]"
    by (auto simp: fake_reply_verdict [OF assms(1)] split: verdict.splits sum.splits)
  with v decide_callback_verifies [OF assms(2-5), of frame c res c1] decide_callback_frame [OF v]
  show ?thesis by auto
qed

theorem approved_callback_reply_verifies_witness:
  "\<exists>res reply. verified_result sample_hex sample_b64 accept_all_bls ''spend'' (str_bytes ''bundle'') res
     \<and> outgoing (transport (snd (service_sign_callback (sample_signer_env allow_all_authorize)
          (sign_frame ''spend'' ''bundle'')
          (client_new (fake_scripted []) \<lparr>secret_key = ()\<rparr> AllowAllSignPolicy)))) = [reply]"
proof -
  let ?E = "sample_signer_env allow_all_authorize"
  let ?f = "sign_frame ''spend'' ''bundle''"
  let ?c = "client_new (fake_scripted []) \<lparr>secret_key = ()\<rparr> AllowAllSignPolicy"
  let ?s = "service_sign_callback ?E ?f ?c"
  have s: "?s = (Inr Allow, snd ?s)"
    by (simp add: prod_eq_iff client_eval Let_def)
  obtain params payload res reply where
    "callback_params ?E ?f = Inr params" "callback_payload ?E params = Some payload"
    "verified_result sample_hex sample_b64 accept_all_bls (scp_payload_type params) payload res"
    "outgoing (transport (snd ?s)) = outgoing (transport ?c) @ [reply]"
    using approved_callback_reply_verifies [OF _ _ sample_bls_correct [of sample_keys]
        sample_hex_round_trip _ s]
    by (auto simp: sample_b64_round_trip)
  moreover from this have "scp_payload_type params = ''spend'' \<and> payload = str_bytes ''bundle''"
    by (auto simp: callback_params_def callback_payload_def sign_frame_def sample_json_def sample_b64_def)
  ultimately show ?thesis by (auto simp: client_new_def fake_scripted_def)
qed

text \<open>
  A callback whose parameters do not parse fails the caller with a frame error.  Nothing is sent
  to the engine, and neither the policy nor the signer is consulted.
\<close>

lemma malformed_callback_is_not_answered:
  assumes "callback_params E frame = Inl e"
  shows "service_sign_callback E frame c = (Inl (Err (Frame e)), c)"
  by (simp add: service_decides_then_replies decide_callback_def reply_verdict_def assms)

lemma malformed_callback_is_not_answered_witness:
  "service_sign_callback (sample_signer_env allow_all_authorize) (sample_frame\<lparr>if_method := Some METHOD_SIGN\<rparr>)
     (client_new (fake_scripted []) \<lparr>secret_key = ()\<rparr> AllowAllSignPolicy)
   = (Inl (Err (Frame ''missing field'')),
      client_new (fake_scripted []) \<lparr>secret_key = ()\<rparr> AllowAllSignPolicy)"
  by (rule malformed_callback_is_not_answered)
    (simp add: callback_params_def sample_json_def sample_frame_def)

end
