(* ===== verification/Client_Invariants.thy ===== *)
theory Client_Invariants
  imports Client_Callbacks
begin

text \<open>
  Proof principles for the client: what is kept by each call into a seam is kept by the read loop,
  by a request and by the handshake.  The locales form a chain, \<open>reading_invariant\<close>,
  \<open>calling_invariant\<close>, \<open>handshake_transition\<close>, and each adds the calls its operations make;
  \<open>handshake_invariant\<close> is the transition from an invariant to itself.
\<close>

section \<open>The read loop\<close>

text \<open>What the loop makes of a frame that is not a callback.\<close>

definition frame_response ::
  "('v, 't, 's, 'p) client_env \<Rightarrow> ('v \<Rightarrow> string + 'r) \<Rightarrow> u64 \<Rightarrow> 'v incoming_frame \<Rightarrow>
     session_error failure + 'r" where
  "frame_response E from_value awaited_id frame =
     (if Option.bind (if_id frame) (as_u64 (cl_json E)) \<noteq> Some awaited_id then Inl (Err IdMismatch)
      else (case if_error frame of
          Some er \<Rightarrow> Inl (Err (Engine (re_code er) (re_message er)))
        | None \<Rightarrow> (case if_result frame of
              None \<Rightarrow> Inl (Err MalformedResponse)
            | Some v \<Rightarrow> map_err Frame (from_value v))))"

lemma read_response_unfold:
  "read_response E fv rid n c =
     try_then (client_recv E c) (\<lambda>raw c.
       case incoming_frame_from_str (cl_json E) raw of
         Inl e \<Rightarrow> (Inl (Err (Frame e)), c)
       | Inr frame \<Rightarrow>
           if if_method frame = Some METHOD_SIGN then
             (if MAX_INTERLEAVED_CALLBACKS \<le> n then (Inl (Err TooManyCallbacks), c)
              else try_then (service_sign_callback E frame c) (\<lambda>_ c. read_response E fv rid (Suc n) c))
           else (frame_response E fv rid frame, c))"
  by (subst read_response.simps)
    (auto simp: try_then_def frame_response_def less_Suc_eq_le split: prod.split sum.split option.split)

text \<open>The executions of the loop, round by round.\<close>

lemma read_response_induct [consumes 1, case_names recv_error bad_frame flood callback_error response callback]:
  assumes run: "read_response E fv rid n c = (r, c')"
    and recv_error: "\<And>n c e c1. client_recv E c = (Inl e, c1) \<Longrightarrow> P n c (Inl e) c1"
    and bad_frame: "\<And>n c raw c1 e. client_recv E c = (Inr raw, c1) \<Longrightarrow>
      incoming_frame_from_str (cl_json E) raw = Inl e \<Longrightarrow> P n c (Inl (Err (Frame e))) c1"
    and flood: "\<And>n c raw c1 frame. client_recv E c = (Inr raw, c1) \<Longrightarrow>
      incoming_frame_from_str (cl_json E) raw = Inr frame \<Longrightarrow> if_method frame = Some METHOD_SIGN \<Longrightarrow>
      MAX_INTERLEAVED_CALLBACKS \<le> n \<Longrightarrow> P n c (Inl (Err TooManyCallbacks)) c1"
    and callback_error: "\<And>n c raw c1 frame e c2. client_recv E c = (Inr raw, c1) \<Longrightarrow>
      incoming_frame_from_str (cl_json E) raw = Inr frame \<Longrightarrow> if_method frame = Some METHOD_SIGN \<Longrightarrow>
      n < MAX_INTERLEAVED_CALLBACKS \<Longrightarrow> service_sign_callback E frame c1 = (Inl e, c2) \<Longrightarrow> P n c (Inl e) c2"
    and response: "\<And>n c raw c1 frame. client_recv E c = (Inr raw, c1) \<Longrightarrow>
      incoming_frame_from_str (cl_json E) raw = Inr frame \<Longrightarrow> if_method frame \<noteq> Some METHOD_SIGN \<Longrightarrow>
      P n c (frame_response E fv rid frame) c1"
    and callback: "\<And>n c raw c1 frame d c2 r c'. client_recv E c = (Inr raw, c1) \<Longrightarrow>
      incoming_frame_from_str (cl_json E) raw = Inr frame \<Longrightarrow> if_method frame = Some METHOD_SIGN \<Longrightarrow>
      n < MAX_INTERLEAVED_CALLBACKS \<Longrightarrow> service_sign_callback E frame c1 = (Inr d, c2) \<Longrightarrow>
      read_response E fv rid (Suc n) c2 = (r, c') \<Longrightarrow> P (Suc n) c2 r c' \<Longrightarrow> P n c r c'"
  shows "P n c r c'"
  using run
proof (induction "MAX_INTERLEAVED_CALLBACKS - n" arbitrary: n c r c' rule: less_induct)
  case less
  note unfold = read_response_unfold [of E fv rid n c]
  obtain x c1 where recv: "client_recv E c = (x, c1)" by (cases "client_recv E c")
  show ?case
  proof (cases x)
    case (Inl e)
    with less.prems recv recv_error show ?thesis by (auto simp: unfold)
  next
    case raw: (Inr raw)
    show ?thesis
    proof (cases "incoming_frame_from_str (cl_json E) raw")
      case (Inl e)
      with less.prems recv raw bad_frame show ?thesis by (auto simp: unfold)
    next
      case frame: (Inr frame)
      consider (other) "if_method frame \<noteq> Some METHOD_SIGN"
        | (flood) "if_method frame = Some METHOD_SIGN" "MAX_INTERLEAVED_CALLBACKS \<le> n"
        | (serve) "if_method frame = Some METHOD_SIGN" "n < MAX_INTERLEAVED_CALLBACKS"
        by linarith
      then show ?thesis
      proof cases
        case serve
        obtain d c2 where d: "service_sign_callback E frame c1 = (d, c2)"
          by (cases "service_sign_callback E frame c1")
        show ?thesis
        proof (cases d)
          case (Inl e)
          with less.prems recv raw frame serve d callback_error show ?thesis by (auto simp: unfold)
        next
          case (Inr dec)
          with less.prems recv raw frame serve d have "read_response E fv rid (Suc n) c2 = (r, c')"
            by (simp add: unfold)
          with less.hyps [OF _ this] recv raw frame serve d Inr show ?thesis
            by (intro callback [of c raw c1 frame n dec c2]) auto
        qed
      qed (use less.prems recv raw frame response flood in \<open>auto simp: unfold\<close>)
    qed
  qed
qed

section \<open>The chain of invariants\<close>

locale reading_invariant =
  fixes E :: "('v, 't, 's, 'p) client_env" and I :: "('t, 's, 'p) client \<Rightarrow> bool"
  assumes recv_kept: "I c \<Longrightarrow> client_recv E c = (x, c') \<Longrightarrow> I c'"
    and service_kept: "I c \<Longrightarrow> service_sign_callback E frame c = (d, c') \<Longrightarrow> I c'"
begin

lemma read_response_kept: "read_response E fv rid n c = (r, c') \<Longrightarrow> I c \<Longrightarrow> I c'"
  by (induction rule: read_response_induct) (blast intro: recv_kept service_kept)+

lemma handle_next_kept:
  "I c \<Longrightarrow> handle_next_sign_callback E c = (r, c') \<Longrightarrow> I c'"
  by (auto simp: handle_next_sign_callback_def try_then_def intro: recv_kept service_kept
      split: prod.splits sum.splits if_splits)

end

locale calling_invariant = reading_invariant +
  assumes next_id_kept: "I c \<Longrightarrow> I (c\<lparr>next_id := n\<rparr>)"
    and request_kept: "I c \<Longrightarrow> client_send E f c = (s, c') \<Longrightarrow> I c'"
begin

lemma call_kept: "client_call E to_str fv meth params c = (r, c') \<Longrightarrow> I c \<Longrightarrow> I c'"
  by (auto simp: client_call_def try_then_def Let_def intro: next_id_kept request_kept
      split: if_splits sum.splits prod.splits)
    (metis next_id_kept request_kept read_response_kept)+

lemma detach_kept: "client_detach E sess c = (r, c') \<Longrightarrow> I c \<Longrightarrow> I c'"
  by (auto simp: client_detach_def try_then_def dest: call_kept split: prod.splits sum.splits)

end

text \<open>
  A handshake takes the client from one invariant to another: the challenge is where the second may
  start to hold, and both are kept by everything else.
\<close>

locale handshake_transition = calling_invariant E I + after: calling_invariant E J
  for E :: "('v, 't, 's, 'p) client_env" and I :: "('t, 's, 'p) client \<Rightarrow> bool"
    and J :: "('t, 's, 'p) client \<Rightarrow> bool" +
  fixes D :: "string set"
  assumes weaken: "I c \<Longrightarrow> J c"
    and pubkey_kept: "I c \<Longrightarrow> client_pubkey_hex E c = (h, c') \<Longrightarrow> I c'"
    and challenge_reached: "I c \<Longrightarrow> length nonce = NONCE_LEN \<Longrightarrow> dd \<in> D \<Longrightarrow>
      client_try_sign E (challenge_message nonce dd) c = (sig, c') \<Longrightarrow> J c'"
begin

lemma begin_and_attach_reaches:
  "begin_and_attach E prof c = (r, c') \<Longrightarrow> did prof \<in> D \<Longrightarrow> I c \<Longrightarrow> J c'"
  by (auto simp: begin_and_attach_def try_then_def
      dest!: call_kept [where meth = METHOD_BEGIN] intro: weaken pubkey_kept challenge_reached after.call_kept
      split: prod.splits sum.splits option.splits if_splits)

end

locale handshake_invariant = calling_invariant +
  fixes D :: "string set"
  assumes pubkey_kept: "I c \<Longrightarrow> client_pubkey_hex E c = (h, c') \<Longrightarrow> I c'"
    and challenge_kept: "I c \<Longrightarrow> length nonce = NONCE_LEN \<Longrightarrow> dd \<in> D \<Longrightarrow>
      client_try_sign E (challenge_message nonce dd) c = (sig, c') \<Longrightarrow> I c'"

sublocale handshake_invariant \<subseteq> transition: handshake_transition E I I D
  by unfold_locales (auto intro: pubkey_kept challenge_kept)

context handshake_invariant
begin

lemma begin_and_attach_kept:
  "begin_and_attach E prof c = (r, c') \<Longrightarrow> did prof \<in> D \<Longrightarrow> I c \<Longrightarrow> I c'"
  by (rule transition.begin_and_attach_reaches)

end

section \<open>The states the signer goes through\<close>

text \<open>
  The states a signer reaches when only the client uses it: by the two calls the client makes.
\<close>

inductive signer_reaches :: "'s session_signer \<Rightarrow> 's \<Rightarrow> 's \<Rightarrow> bool" for S :: "'s session_signer" and s0 :: 's where
  reaches_start: "signer_reaches S s0 s0"
| reaches_hex: "signer_reaches S s0 s \<Longrightarrow> signing_public_key_hex S s = (h, s') \<Longrightarrow> signer_reaches S s0 s'"
| reaches_sign: "signer_reaches S s0 s \<Longrightarrow> try_sign S s m = (r, s') \<Longrightarrow> signer_reaches S s0 s'"

lemma reaches_pubkey:
  "client_pubkey_hex E c = (h, c') \<Longrightarrow> signer_reaches (cl_signer E) s0 (signer c) \<Longrightarrow>
     signer_reaches (cl_signer E) s0 (signer c')"
  by (auto simp: client_pubkey_hex_def intro: reaches_hex split: prod.splits)

lemma reaches_try_sign:
  "client_try_sign E m c = (r, c') \<Longrightarrow> signer_reaches (cl_signer E) s0 (signer c) \<Longrightarrow>
     signer_reaches (cl_signer E) s0 (signer c')"
  by (auto simp: client_try_sign_def intro: reaches_sign split: prod.splits)

lemma reaches_decide:
  assumes "decide_callback E frame c = (v, c')" and "signer_reaches (cl_signer E) s0 (signer c)"
  shows "signer_reaches (cl_signer E) s0 (signer c')"
  using assms(1)
proof (cases rule: decide_callback_cases)
  case (policy q d)
  with assms(2) client_authorize_frame [OF policy(1)] show ?thesis by simp
next
  case (sign q c1 m r c2)
  have "signer_reaches (cl_signer E) s0 (signer c2)"
    using reaches_try_sign [OF sign(3)] client_authorize_frame [OF sign(1)] assms(2) by simp
  with sign(4) show ?thesis by (auto intro: reaches_pubkey split: option.splits)
qed (use assms(2) in simp)

interpretation reaches: handshake_invariant E "\<lambda>c. signer_reaches (cl_signer E) s0 (signer c)" UNIV
  for E :: "('v, 't, 's, 'p) client_env" and s0
proof unfold_locales
  fix c c' :: "('t, 's, 'p) client" and frame d
  assume c: "signer_reaches (cl_signer E) s0 (signer c)" and "service_sign_callback E frame c = (d, c')"
  from this(2) show "signer_reaches (cl_signer E) s0 (signer c')"
  proof (rule service_verdict)
    fix v c1 assume "decide_callback E frame c = (v, c1)"
      and reply: "reply_verdict E (callback_id E frame) v c1 = (d, c')"
    from this(1) c have "signer_reaches (cl_signer E) s0 (signer c1)" by (rule reaches_decide)
    with reply show ?thesis
      by (auto simp: reply_verdict_def try_then_def dest!: send_error_frame send_result_frame
          split: verdict.splits prod.splits sum.splits)
  qed
qed (auto dest: client_send_frame client_recv_frame reaches_pubkey reaches_try_sign)

lemma signer_reaches_stateless:
  "signer_reaches (test_signer_ops H K) s0 s \<Longrightarrow> s = s0"
  by (induction rule: signer_reaches.induct)
    (auto simp: test_signer_ops_def default_try_sign_def default_signing_public_key_hex_def)

end
