(* ===== verification/Client_Custody.thy ===== *)
theory Client_Custody
  imports Client_Invariants
begin

text \<open>
  The custody of the identity key: every message the client ever asks its signer to sign is an attach
  challenge for a profile the app attached, or the callback message of a request the policy allowed.
  The client is run with a signer and a policy that keep a history of what they were asked; the
  theory \<open>Client_Simulation\<close> shows that keeping it changes nothing.
\<close>

section \<open>Recording\<close>

definition recording_signer :: "'s session_signer \<Rightarrow> ('s \<times> u8 list list) session_signer" where
  "recording_signer S =
     \<lparr>signing_public_key = (\<lambda>(s, h). case signing_public_key S s of (k, s) \<Rightarrow> (k, (s, h))),
      sign = (\<lambda>(s, h) m. case sign S s m of (sig, s) \<Rightarrow> (sig, (s, h @ [m]))),
      try_sign = (\<lambda>(s, h) m. case try_sign S s m of (sig, s) \<Rightarrow> (sig, (s, h @ [m]))),
      signing_public_key_hex = (\<lambda>(s, h). case signing_public_key_hex S s of (k, s) \<Rightarrow> (k, (s, h)))\<rparr>"

definition recording_policy :: "('v, 'p) sign_policy \<Rightarrow> ('v, 'p \<times> 'v sign_request list) sign_policy" where
  "recording_policy P = (\<lambda>(p, l) q.
     case P p q of (d, p) \<Rightarrow> (d, (p, if d = Allow then l @ [q] else l)))"

definition recording_env ::
  "('v, 't, 's, 'p) client_env \<Rightarrow> ('v, 't, 's \<times> u8 list list, 'p \<times> 'v sign_request list) client_env" where
  "recording_env E =
     \<lparr>cl_json = cl_json E, cl_b64 = cl_b64 E, cl_transport = cl_transport E,
      cl_signer = recording_signer (cl_signer E), cl_policy = recording_policy (cl_policy E),
      debug_build = debug_build E\<rparr>"

type_synonym ('v, 't, 's, 'p) recording_client =
  "('t, 's \<times> u8 list list, 'p \<times> 'v sign_request list) client"

abbreviation signed_messages :: "('v, 't, 's, 'p) recording_client \<Rightarrow> u8 list list" where
  "signed_messages c \<equiv> snd (signer c)"

abbreviation allowed_requests :: "('v, 't, 's, 'p) recording_client \<Rightarrow> 'v sign_request list" where
  "allowed_requests c \<equiv> snd (policy c)"

definition recording_client_new :: "'t \<Rightarrow> 's \<Rightarrow> 'p \<Rightarrow> ('v, 't, 's, 'p) recording_client" where
  "recording_client_new t s p = client_new t (s, []) (p, [])"

lemma recording_try_sign:
  "client_try_sign (recording_env E) m c = (r, c') \<Longrightarrow>
     signed_messages c' = signed_messages c @ [m] \<and> allowed_requests c' = allowed_requests c"
  by (auto simp: client_try_sign_def recording_env_def recording_signer_def split: prod.splits)

lemma recording_pubkey:
  "client_pubkey_hex (recording_env E) c = (h, c') \<Longrightarrow>
     signed_messages c' = signed_messages c \<and> allowed_requests c' = allowed_requests c"
  by (auto simp: client_pubkey_hex_def recording_env_def recording_signer_def split: prod.splits)

lemma recording_authorize:
  "client_authorize (recording_env E) q c = (d, c') \<Longrightarrow>
     signed_messages c' = signed_messages c
     \<and> allowed_requests c' = allowed_requests c @ (if d = Allow then [q] else [])"
  by (auto simp: client_authorize_def recording_env_def recording_policy_def split: prod.splits)

section \<open>Legitimate messages\<close>

definition attach_challenge :: "string set \<Rightarrow> u8 list \<Rightarrow> bool" where
  "attach_challenge D m \<longleftrightarrow> (\<exists>n d. m = challenge_message n d \<and> length n = NONCE_LEN \<and> d \<in> D)"

definition callback_of :: "'v sign_request list \<Rightarrow> u8 list \<Rightarrow> bool" where
  "callback_of qs m \<longleftrightarrow> (\<exists>q \<in> set qs. sign_callback_message (sq_payload_type q) (sq_payload q) = Some m)"

text \<open>How often the signer was asked for a callback signature.\<close>

definition callback_signatures :: "u8 list list \<Rightarrow> nat" where
  "callback_signatures ms = length (filter (prefix SIGN_CALLBACK_DOMAIN) ms)"

lemma callback_signatures_simps [simp]:
  "callback_signatures [] = 0"
  "callback_signatures (ms @ [challenge_message n d]) = callback_signatures ms"
  "callback_signatures (ms @ [m]) \<le> Suc (callback_signatures ms)"
  using attach_callback.not_tagged_as_other(1) [of "(n, d)"] by (auto simp: callback_signatures_def)

definition custody :: "string set \<Rightarrow> ('v, 't, 's, 'p) recording_client \<Rightarrow> bool" where
  "custody D c \<longleftrightarrow>
     (\<forall>m \<in> set (signed_messages c). attach_challenge D m \<or> callback_of (allowed_requests c) m)
     \<and> callback_signatures (signed_messages c) \<le> length (allowed_requests c)"

lemma custody_mono: "custody D c \<Longrightarrow> D \<subseteq> D' \<Longrightarrow> custody D' c"
  by (fastforce simp: custody_def attach_challenge_def)

lemma callback_of_append [simp]: "callback_of (qs @ rs) m \<longleftrightarrow> callback_of qs m \<or> callback_of rs m"
  by (auto simp: callback_of_def)

lemma custody_unchanged:
  "custody D c \<Longrightarrow> signer c' = signer c \<Longrightarrow> policy c' = policy c \<Longrightarrow> custody D c'"
  by (simp add: custody_def)

lemma custody_decide:
  assumes "custody D c" and "decide_callback (recording_env E) frame c = (v, c')"
  shows "custody D c'"
  using assms(2)
proof (cases rule: decide_callback_cases)
  case nothing
  with assms(1) show ?thesis by simp
next
  case (policy q d)
  with assms(1) recording_authorize [OF policy(1)] show ?thesis by (auto simp: custody_def)
next
  case (sign q c1 m r c2)
  have "custody D c2"
    using assms(1) recording_authorize [OF sign(1)] recording_try_sign [OF sign(3)] sign(2)
      callback_signatures_simps(3) [of "signed_messages c" m]
    by (auto simp: custody_def callback_of_def simp del: callback_signatures_simps(3))
  with sign(4) show ?thesis
    by (auto simp: custody_def dest!: recording_pubkey split: option.splits)
qed

lemma custody_service:
  assumes "custody D c" and "service_sign_callback (recording_env E) frame c = (r, c')"
  shows "custody D c'"
  using assms(2)
proof (rule service_verdict)
  fix v c1 assume v: "decide_callback (recording_env E) frame c = (v, c1)"
    and reply: "reply_verdict (recording_env E) (callback_id (recording_env E) frame) v c1 = (r, c')"
  from assms(1) v have "custody D c1" by (rule custody_decide)
  with reply show ?thesis
    by (auto simp: reply_verdict_def try_then_def dest!: send_error_frame send_result_frame
        elim!: custody_unchanged split: verdict.splits prod.splits sum.splits)
qed

interpretation custody: handshake_invariant "recording_env E" "custody D" D
  for E :: "('v, 't, 's, 'p) client_env" and D
proof unfold_locales
  fix c c' :: "('v, 't, 's, 'p) recording_client" and sig nonce dd
  assume "custody D c" "length nonce = NONCE_LEN" "dd \<in> D"
    "client_try_sign (recording_env E) (challenge_message nonce dd) c = (sig, c')"
  moreover from this have "attach_challenge D (challenge_message nonce dd)"
    by (auto simp: attach_challenge_def)
  ultimately show "custody D c'"
    by (auto simp: custody_def dest!: recording_try_sign)
next
  fix c c' :: "('v, 't, 's, 'p) recording_client" and h
  assume "custody D c" "client_pubkey_hex (recording_env E) c = (h, c')"
  then show "custody D c'" by (auto simp: custody_def dest!: recording_pubkey)
qed (auto intro: custody_service custody_unchanged dest!: client_send_frame client_recv_frame)

section \<open>Executions of the client\<close>

text \<open>
  The operations the app calls, in any order, and the changes the outside world makes in between: the
  peer writes, the profile is locked or unlocked, the user changes the policy.
\<close>

datatype client_event =
    Handshake profile_attachment
  | Reattach profile_attachment
  | Release session
  | Serve
  | Outside

inductive client_step ::
  "('v, 't, 's, 'p) client_env \<Rightarrow> ('v, 't, 's, 'p) recording_client \<Rightarrow> client_event \<Rightarrow>
     ('v, 't, 's, 'p) recording_client \<Rightarrow> bool"
  for E :: "('v, 't, 's, 'p) client_env" where
  step_handshake: "begin_and_attach (recording_env E) prof c = (r, c') \<Longrightarrow>
    client_step E c (Handshake prof) c'"
| step_reattach: "reattach (recording_env E) t prof c = (r, c') \<Longrightarrow> client_step E c (Reattach prof) c'"
| step_release: "client_detach (recording_env E) sess c = (u, c') \<Longrightarrow> client_step E c (Release sess) c'"
| step_serve: "handle_next_sign_callback (recording_env E) c = (d, c') \<Longrightarrow> client_step E c Serve c'"
| step_outside: "client_step E c Outside
    (c\<lparr>transport := t, signer := (s, signed_messages c), policy := (p, allowed_requests c)\<rparr>)"

fun attached_did :: "client_event \<Rightarrow> string set" where
  "attached_did (Handshake prof) = {did prof}"
| "attached_did (Reattach prof) = {did prof}"
| "attached_did _ = {}"

definition attached_dids :: "client_event list \<Rightarrow> string set" where
  "attached_dids es = (\<Union>ev \<in> set es. attached_did ev)"

lemma attached_dids_simps [simp]:
  "attached_dids [] = {}"
  "attached_dids (es @ [ev]) = attached_dids es \<union> attached_did ev"
  by (auto simp: attached_dids_def)

interpretation client: trace_invariant "client_step E" "recording_client_new t s p"
  "\<lambda>es. custody (attached_dids es)"
  for E :: "('v, 't, 's, 'p) client_env" and t s p
proof unfold_locales
  show "custody (attached_dids []) (recording_client_new t s p)"
    by (simp add: custody_def recording_client_new_def client_new_def)
next
  fix es and c c' :: "('v, 't, 's, 'p) recording_client" and ev
  assume "custody (attached_dids es) c" and step: "client_step E c ev c'"
  then have c: "custody (attached_dids (es @ [ev])) c" by (auto intro: custody_mono)
  from step show "custody (attached_dids (es @ [ev])) c'"
  proof cases
    case (step_handshake prof r)
    with c custody.begin_and_attach_kept show ?thesis by fastforce
  next
    case (step_reattach t prof r)
    from c have "custody (attached_dids (es @ [ev])) (c\<lparr>transport := t, next_id := 1\<rparr>)"
      by (rule custody_unchanged) simp_all
    with step_reattach custody.begin_and_attach_kept show ?thesis by (fastforce simp: reattach_def)
  next
    case (step_release sess u)
    with c show ?thesis by (auto dest: custody.detach_kept)
  next
    case (step_serve d)
    with c show ?thesis by (auto dest: custody.handle_next_kept)
  next
    case (step_outside t s p)
    with c show ?thesis by (simp add: custody_def)
  qed
qed

section \<open>Properties\<close>

text \<open>
  C1. Custody.  In every execution of the client (any mix of handshakes, re-attachments, detaches
  and callbacks, against any peer, with the lock, the policy and the pipe changing in between) every
  message the signer was asked to sign is an attach challenge with a nonce of the contract's length
  for a DID the app attached, or the callback message of a request the policy allowed; it is never a
  message of the user-signature purpose, and the two kinds exclude each other.  The signer was asked
  for at most as many callback signatures as the policy allowed requests.
\<close>

theorem signer_only_signs_challenges_and_allowed_callbacks:
  assumes "trace (client_step E) (recording_client_new t s p) es c"
  shows "(\<forall>m \<in> set (signed_messages c).
      (attach_challenge (attached_dids es) m \<noteq> callback_of (allowed_requests c) m)
      \<and> \<not> message_for User_Sign m)
    \<and> callback_signatures (signed_messages c) \<le> length (allowed_requests c)"
proof -
  have "custody (attached_dids es) c" using assms(1) by (rule client.inv_trace)
  moreover have "\<not> (attach_challenge D m \<and> callback_of qs m)"
    "attach_challenge D m \<or> callback_of qs m \<Longrightarrow> \<not> message_for User_Sign m" for D m qs
    by (auto simp: attach_challenge_def callback_of_def challenge_not_user [symmetric])
  ultimately show ?thesis by (simp add: custody_def) blast
qed

lemma trace_serve:
  "trace (client_step E) c [Serve] (snd (handle_next_sign_callback (recording_env E) c))"
proof -
  have "trace (client_step E) c ([] @ [Serve]) (snd (handle_next_sign_callback (recording_env E) c))"
    by (rule trace_step [OF trace_start], rule step_serve [where d = "fst (handle_next_sign_callback (recording_env E) c)"])
      simp
  then show ?thesis by simp
qed

theorem signer_only_signs_challenges_and_allowed_callbacks_witness:
  "let c = snd (handle_next_sign_callback (recording_env (sample_signer_env allow_all_authorize))
      (recording_client_new (fake_scripted [''sign'']) \<lparr>secret_key = ()\<rparr> AllowAllSignPolicy))
   in signed_messages c = [callback_bytes (''spend'', str_bytes ''bundle'')]
      \<and> callback_of (allowed_requests c) (callback_bytes (''spend'', str_bytes ''bundle''))"
proof -
  let ?E = "sample_signer_env allow_all_authorize"
  let ?c0 = "recording_client_new (fake_scripted [''sign'']) \<lparr>secret_key = ()\<rparr> AllowAllSignPolicy"
  let ?c = "snd (handle_next_sign_callback (recording_env ?E) ?c0)"
  have signed: "signed_messages ?c = [callback_bytes (''spend'', str_bytes ''bundle'')]"
    by (simp add: client_eval recording_client_new_def recording_env_def recording_signer_def
        recording_policy_def Let_def)
  have "\<not> attach_challenge (attached_dids [Serve]) m" for m
    by (simp add: attach_challenge_def attached_dids_def)
  with signer_only_signs_challenges_and_allowed_callbacks [OF trace_serve, of ?E "fake_scripted [''sign'']"
      "\<lparr>secret_key = ()\<rparr>" AllowAllSignPolicy] signed
  show ?thesis by (simp add: Let_def)
qed

end
