(* ===== verification/Client_Simulation.thy ===== *)
theory Client_Simulation
  imports Client_Custody
begin

text \<open>
  When two environments cannot be told apart by the client: the locale \<open>client_simulation\<close> lifts a
  relation that every call into a seam keeps to all operations of the client.  Its instances: recording
  what the signer and the policy are asked changes nothing, and the client over the line transport
  behaves as over the scripted transport of the frames on the wire.
\<close>

section \<open>Lifting a relation between clients\<close>

locale client_simulation =
  fixes E1 :: "('v, 't1, 's1, 'p1) client_env" and E2 :: "('v, 't2, 's2, 'p2) client_env"
    and R :: "('t1, 's1, 'p1) client \<Rightarrow> ('t2, 's2, 'p2) client \<Rightarrow> bool"
  assumes same_libraries: "cl_json E2 = cl_json E1" "cl_b64 E2 = cl_b64 E1" "debug_build E2 = debug_build E1"
    and same_id: "R c1 c2 \<Longrightarrow> next_id c2 = next_id c1"
    and id_sim: "R c1 c2 \<Longrightarrow> R (c1\<lparr>next_id := n\<rparr>) (c2\<lparr>next_id := n\<rparr>)"
    and send_sim: "R c1 c2 \<Longrightarrow> rel_prod (=) R (client_send E1 f c1) (client_send E2 f c2)"
    and recv_sim: "R c1 c2 \<Longrightarrow> rel_prod (=) R (client_recv E1 c1) (client_recv E2 c2)"
    and pubkey_sim: "R c1 c2 \<Longrightarrow> rel_prod (=) R (client_pubkey_hex E1 c1) (client_pubkey_hex E2 c2)"
    and try_sign_sim: "R c1 c2 \<Longrightarrow> rel_prod (=) R (client_try_sign E1 m c1) (client_try_sign E2 m c2)"
    and authorize_sim: "R c1 c2 \<Longrightarrow> rel_prod (=) R (client_authorize E1 q c1) (client_authorize E2 q c2)"
begin

text \<open>One rule per construct in which the operations are written.\<close>

lemma try_then_sim:
  "rel_prod (=) R x y \<Longrightarrow> (\<And>a c1 c2. R c1 c2 \<Longrightarrow> rel_prod (=) R (f a c1) (g a c2)) \<Longrightarrow>
     rel_prod (=) R (try_then x f) (try_then y g)"
  by (cases x; cases y; cases "fst x") auto

lemma case_prod_sim:
  "rel_prod (=) R x y \<Longrightarrow> (\<And>a c1 c2. R c1 c2 \<Longrightarrow> rel_prod (=) R (f a c1) (g a c2)) \<Longrightarrow>
     rel_prod (=) R (case_prod f x) (case_prod g y)"
  by (cases x; cases y) auto

lemma case_sum_sim:
  "(\<And>a. rel_prod (=) R (f a) (f' a)) \<Longrightarrow> (\<And>b. rel_prod (=) R (g b) (g' b)) \<Longrightarrow>
     rel_prod (=) R (case_sum f g x) (case_sum f' g' x)"
  by (cases x) auto

lemma case_option_sim:
  "rel_prod (=) R u u' \<Longrightarrow> (\<And>a. rel_prod (=) R (f a) (f' a)) \<Longrightarrow>
     rel_prod (=) R (case_option u f x) (case_option u' f' x)"
  by (cases x) auto

lemma case_decision_sim:
  "rel_prod (=) R u u' \<Longrightarrow> (\<And>a. rel_prod (=) R (f a) (f' a)) \<Longrightarrow>
     rel_prod (=) R (case_sign_decision u f x) (case_sign_decision u' f' x)"
  by (cases x) auto

lemma case_verdict_sim:
  "(\<And>e. rel_prod (=) R (f e) (f' e)) \<Longrightarrow> (\<And>a b d. rel_prod (=) R (g a b d) (g' a b d)) \<Longrightarrow>
     (\<And>r. rel_prod (=) R (h r) (h' r)) \<Longrightarrow>
     rel_prod (=) R (case_verdict f g h x) (case_verdict f' g' h' x)"
  by (cases x) auto

lemma if_sim:
  "rel_prod (=) R x x' \<Longrightarrow> rel_prod (=) R y y' \<Longrightarrow>
     rel_prod (=) R (if b then x else y) (if b then x' else y')"
  by simp

lemma result_sim: "R c1 c2 \<Longrightarrow> rel_prod (=) R (r, c1) (r, c2)"
  by simp

lemmas sim_rules = try_then_sim case_prod_sim case_sum_sim case_option_sim case_decision_sim
  case_verdict_sim if_sim result_sim id_sim send_sim recv_sim pubkey_sim try_sign_sim authorize_sim

lemma send_error_sim:
  "R c1 c2 \<Longrightarrow> rel_prod (=) R (send_error E1 rid code msg c1) (send_error E2 rid code msg c2)"
  unfolding send_error_def same_libraries by (rule sim_rules | assumption)+

lemma send_result_sim:
  "R c1 c2 \<Longrightarrow> rel_prod (=) R (send_result E1 rid res c1) (send_result E2 rid res c2)"
  unfolding send_result_def same_libraries by (rule sim_rules | assumption)+

lemma decide_signature_sim:
  "R c1 c2 \<Longrightarrow> rel_prod (=) R (decide_signature E1 ty p c1) (decide_signature E2 ty p c2)"
  unfolding decide_signature_def signed_result_def same_libraries by (rule sim_rules | assumption)+

lemma decide_callback_sim:
  "R c1 c2 \<Longrightarrow> rel_prod (=) R (decide_callback E1 frame c1) (decide_callback E2 frame c2)"
  unfolding decide_callback_def callback_params_def callback_payload_def same_libraries
  by (rule sim_rules decide_signature_sim | assumption)+

lemma reply_verdict_sim:
  "R c1 c2 \<Longrightarrow> rel_prod (=) R (reply_verdict E1 rid v c1) (reply_verdict E2 rid v c2)"
  unfolding reply_verdict_def by (rule sim_rules send_error_sim send_result_sim | assumption)+

lemma service_sim:
  "R c1 c2 \<Longrightarrow> rel_prod (=) R (service_sign_callback E1 frame c1) (service_sign_callback E2 frame c2)"
  unfolding service_decides_then_replies callback_id_def same_libraries
  by (rule sim_rules decide_callback_sim reply_verdict_sim | assumption)+

lemma read_response_sim:
  "R c1 c2 \<Longrightarrow> rel_prod (=) R (read_response E1 fv rid n c1) (read_response E2 fv rid n c2)"
proof (induction "MAX_INTERLEAVED_CALLBACKS - n" arbitrary: n c1 c2 rule: less_induct)
  case less
  show ?case
  proof (cases "MAX_INTERLEAVED_CALLBACKS \<le> n")
    case True
    show ?thesis
      by (insert less.prems, subst read_response_unfold [of E1], subst read_response_unfold [of E2],
          unfold same_libraries frame_response_def if_P [OF True], (rule sim_rules | assumption)+)
  next
    case False
    then have step: "R c d \<Longrightarrow> rel_prod (=) R (read_response E1 fv rid (Suc n) c) (read_response E2 fv rid (Suc n) d)"
      for c d using less.hyps by simp
    show ?thesis
      by (insert less.prems, subst read_response_unfold [of E1], subst read_response_unfold [of E2],
          unfold same_libraries frame_response_def, (rule sim_rules service_sim step | assumption)+)
  qed
qed

lemma call_sim:
  assumes "R c1 c2"
  shows "rel_prod (=) R (client_call E1 to_str fv meth params c1) (client_call E2 to_str fv meth params c2)"
  unfolding client_call_def same_libraries same_id [OF assms] Let_def
  by (rule sim_rules read_response_sim assms | assumption)+

lemma begin_and_attach_sim:
  "R c1 c2 \<Longrightarrow> rel_prod (=) R (begin_and_attach E1 prof c1) (begin_and_attach E2 prof c2)"
  unfolding begin_and_attach_def same_libraries by (rule sim_rules call_sim | assumption)+

lemma detach_sim:
  "R c1 c2 \<Longrightarrow> rel_prod (=) R (client_detach E1 sess c1) (client_detach E2 sess c2)"
  unfolding client_detach_def same_libraries by (rule sim_rules call_sim | assumption)+

lemma handle_next_sim:
  "R c1 c2 \<Longrightarrow> rel_prod (=) R (handle_next_sign_callback E1 c1) (handle_next_sign_callback E2 c2)"
  unfolding handle_next_sign_callback_def same_libraries
  by (rule sim_rules service_sim | assumption)+

end


section \<open>Recording changes nothing\<close>

definition erase :: "('v, 't, 's, 'p) recording_client \<Rightarrow> ('t, 's, 'p) client" where
  "erase c = \<lparr>transport = transport c, signer = fst (signer c), policy = fst (policy c), next_id = next_id c\<rparr>"

interpretation recording: client_simulation "recording_env E" E "\<lambda>c d. d = erase c"
  for E :: "('v, 't, 's, 'p) client_env"
  by unfold_locales
    (auto simp: recording_env_def recording_signer_def recording_policy_def erase_def client_send_def
      client_recv_def client_pubkey_hex_def client_try_sign_def client_authorize_def split: prod.splits)

text \<open>
  Keeping the histories changes nothing the client does: each operation of the recording client
  gives the result of the operation of the client itself and leaves the same client behind, so the
  custody property is about the client as it is.
\<close>

lemma recording_is_transparent:
  "map_prod id erase (begin_and_attach (recording_env E) prof c) = begin_and_attach E prof (erase c)
   \<and> map_prod id erase (reattach (recording_env E) t prof c) = reattach E t prof (erase c)
   \<and> map_prod id erase (client_detach (recording_env E) sess c) = client_detach E sess (erase c)
   \<and> map_prod id erase (handle_next_sign_callback (recording_env E) c) = handle_next_sign_callback E (erase c)"
proof -
  have eq: "map_prod id erase x = y" if "rel_prod (=) (\<lambda>c d. d = erase c) x y"
    for x :: "'r \<times> ('v, 't, 's, 'p) recording_client" and y
    using that by (cases x; cases y) simp
  have "map_prod id erase (reattach (recording_env E) t prof c) = reattach E t prof (erase c)"
    unfolding reattach_def by (intro eq recording.begin_and_attach_sim) (simp add: erase_def)
  then show ?thesis
    by (simp add: eq recording.begin_and_attach_sim recording.detach_sim recording.handle_next_sim)
qed

section \<open>The line transport\<close>

text \<open>The same environment over another transport.\<close>

definition over_transport ::
  "'u frame_transport \<Rightarrow> ('v, 't, 's, 'p) client_env \<Rightarrow> ('v, 'u, 's, 'p) client_env" where
  "over_transport T E =
     \<lparr>cl_json = cl_json E, cl_b64 = cl_b64 E, cl_transport = T, cl_signer = cl_signer E,
      cl_policy = cl_policy E, debug_build = debug_build E\<rparr>"

text \<open>
  A line transport carries the frames of a scripted one: what is left to read are the lines of the
  frames still to come, all of them such that framing keeps them, and what was written are the lines
  of the frames sent.
\<close>

definition carries :: "u8 list line_transport \<Rightarrow> fake_transport \<Rightarrow> bool" where
  "carries t u \<longleftrightarrow> transport_progressing t \<and> transport_stream t = lines_of (incoming u)
     \<and> (\<forall>f \<in> set (incoming u). sendable f) \<and> writer t = lines_of (outgoing u)"

lemma carries_send:
  "carries t u \<Longrightarrow> fst (line_send_frame vec_writer t f) = Inr () \<and>
     carries (snd (line_send_frame vec_writer t f)) (u\<lparr>outgoing := outgoing u @ [f]\<rparr>)"
  by (simp add: carries_def line_send_frame_def vec_writer_def lines_of_def transport_progressing_def
      transport_stream_def)

lemma carries_recv:
  assumes "carries t u"
  shows "fst (line_recv_frame t) = fst (fake_recv_frame u)
    \<and> carries (snd (line_recv_frame t)) (snd (fake_recv_frame u))"
proof (cases "incoming u")
  case Nil
  with assms line_recv_frame_stream [of t] show ?thesis
    by (auto simp: carries_def fake_recv_frame_def lines_of_def frame_of_bytes_def)
next
  case (Cons f fs)
  with assms have stream: "transport_stream t = str_bytes f @ newline # lines_of fs" and f: "sendable f"
    by (simp_all add: carries_def lines_of_def)
  obtain t' where "line_recv_frame t = (Inr f, t')" "transport_progressing t'" "writer t' = writer t"
    "transport_stream t' = lines_of fs"
    using line_recv_frame_stream [of t] assms
    unfolding stream line_bytes_of_frame [OF f] frame_of_line [OF f] by (auto simp: carries_def)
  with Cons assms show ?thesis by (simp add: carries_def fake_recv_frame_def)
qed

definition over_wire ::
  "(u8 list line_transport, 's, 'p) client \<Rightarrow> (fake_transport, 's, 'p) client \<Rightarrow> bool" where
  "over_wire c d \<longleftrightarrow> carries (transport c) (transport d)
     \<and> signer d = signer c \<and> policy d = policy c \<and> next_id d = next_id c"

interpretation wire: client_simulation "over_transport (line_transport_ops vec_writer) E"
  "over_transport fake_transport_ops E" over_wire
  for E :: "('v, 't, 's, 'p) client_env"
proof unfold_locales
  fix c1 :: "(u8 list line_transport, 's, 'p) client" and c2 f
  assume R: "over_wire c1 c2"
  then show "rel_prod (=) over_wire (client_send (over_transport (line_transport_ops vec_writer) E) f c1)
      (client_send (over_transport fake_transport_ops E) f c2)"
    using carries_send [of "transport c1" "transport c2" f]
    by (auto simp: over_wire_def client_send_def over_transport_def line_transport_ops_def
        fake_transport_ops_def fake_send_frame_def split: prod.splits)
  from R show "rel_prod (=) over_wire (client_recv (over_transport (line_transport_ops vec_writer) E) c1)
      (client_recv (over_transport fake_transport_ops E) c2)"
    using carries_recv [of "transport c1" "transport c2"]
    by (auto simp: over_wire_def client_recv_def over_transport_def line_transport_ops_def
        fake_transport_ops_def split: prod.splits)
qed (auto simp: over_wire_def over_transport_def client_pubkey_hex_def client_try_sign_def
    client_authorize_def split: prod.splits)

text \<open>
  C12. The line transport refines the scripted one.  If the bytes to read are the lines of the frames
  a script holds, however they are chunked, then every operation of the client has the same result
  over the line transport as over the script, the bytes it writes are the lines of the frames the
  script collects, and the correspondence still holds afterwards.  For a re-attachment that is the
  correspondence of the new transport with its script; the old one need only have kept the signer and the
  policy.  What is proved of the client over the scripted transport therefore holds on the wire.
\<close>

theorem line_transport_refines_script:
  assumes "over_wire c d"
  shows "rel_prod (=) over_wire (begin_and_attach (over_transport (line_transport_ops vec_writer) E) prof c)
      (begin_and_attach (over_transport fake_transport_ops E) prof d)
    \<and> rel_prod (=) over_wire (client_detach (over_transport (line_transport_ops vec_writer) E) sess c)
      (client_detach (over_transport fake_transport_ops E) sess d)
    \<and> rel_prod (=) over_wire (handle_next_sign_callback (over_transport (line_transport_ops vec_writer) E) c)
      (handle_next_sign_callback (over_transport fake_transport_ops E) d)
    \<and> (\<forall>t u. carries t u \<longrightarrow> rel_prod (=) over_wire (reattach (over_transport (line_transport_ops vec_writer) E) t prof c)
      (reattach (over_transport fake_transport_ops E) u prof d))"
proof -
  have "rel_prod (=) over_wire (reattach (over_transport (line_transport_ops vec_writer) E) t prof c)
      (reattach (over_transport fake_transport_ops E) u prof d)" if "carries t u" for t u
    unfolding reattach_def
    by (rule wire.begin_and_attach_sim) (use assms that in \<open>simp add: over_wire_def\<close>)
  then show ?thesis
    using assms wire.begin_and_attach_sim wire.detach_sim wire.handle_next_sim by blast
qed

theorem line_transport_refines_script_witness:
  "fst (handle_next_sign_callback (over_transport (line_transport_ops vec_writer)
        (sample_signer_env allow_all_authorize))
      (client_new (line_transport_new [Inr (str_bytes ''si''), Inr (str_bytes ''gn'' @ [newline])] [])
        \<lparr>secret_key = ()\<rparr> AllowAllSignPolicy)) = Inr Allow"
proof -
  let ?E = "sample_signer_env allow_all_authorize"
  let ?c = "client_new (line_transport_new [Inr (str_bytes ''si''), Inr (str_bytes ''gn'' @ [newline])] [])
      \<lparr>secret_key = ()\<rparr> AllowAllSignPolicy"
  let ?d = "client_new (fake_scripted [''sign'']) \<lparr>secret_key = ()\<rparr> AllowAllSignPolicy"
  have "sendable ''sign''"
    by (simp add: sendable_def str_bytes_def byte_of_char_def utf8_rest_def utf8_following_def
        MAX_FRAME_BYTES_def)
  then have "over_wire ?c ?d"
    by (simp add: over_wire_def client_new_def carries_def fake_scripted_def line_transport_new_def
        buf_reader_new_def transport_progressing_def transport_stream_def stream_of_def lines_of_def
        str_bytes_def)
  then have "fst (handle_next_sign_callback (over_transport (line_transport_ops vec_writer) ?E) ?c)
      = fst (handle_next_sign_callback (over_transport fake_transport_ops ?E) ?d)"
    using line_transport_refines_script [of ?c ?d ?E] by (metis rel_prod_sel)
  also have "\<dots> = Inr Allow"
    by (simp add: over_transport_def client_eval Let_def)
  finally show ?thesis .
qed

end
