(* ===== verification/Client_Protocol.thy ===== *)
theory Client_Protocol
  imports Client_Invariants
begin

text \<open>
  The requests of the client over the scripted transport: which frames a request consumes and sends,
  which frame it accepts as its response, how many callbacks it services on the way, and what the
  handshake, \<open>detach\<close> and \<open>reattach\<close> do on every outcome.  \<open>Client_Simulation\<close> carries the
  results to the line transport.
\<close>

section \<open>Frames\<close>

definition is_callback :: "('v, 't, 's, 'p) client_env \<Rightarrow> string \<Rightarrow> bool" where
  "is_callback E raw \<longleftrightarrow>
     (case incoming_frame_from_str (cl_json E) raw of
        Inl _ \<Rightarrow> False
      | Inr frame \<Rightarrow> if_method frame = Some METHOD_SIGN)"

text \<open>The frame is the awaited response and carries the value.\<close>

definition responds_with ::
  "('v, 't, 's, 'p) client_env \<Rightarrow> ('v \<Rightarrow> string + 'r) \<Rightarrow> u64 \<Rightarrow> string \<Rightarrow> 'r \<Rightarrow> bool" where
  "responds_with E from_value rid raw x \<longleftrightarrow>
     (case incoming_frame_from_str (cl_json E) raw of
        Inl _ \<Rightarrow> False
      | Inr frame \<Rightarrow>
          if_method frame \<noteq> Some METHOD_SIGN
          \<and> Option.bind (if_id frame) (as_u64 (cl_json E)) = Some rid
          \<and> if_error frame = None
          \<and> (case if_result frame of None \<Rightarrow> False | Some v \<Rightarrow> from_value v = Inr x))"

lemma frame_response_Inr:
  "frame_response E fv rid frame = Inr x \<longleftrightarrow>
     Option.bind (if_id frame) (as_u64 (cl_json E)) = Some rid \<and> if_error frame = None
     \<and> (case if_result frame of None \<Rightarrow> False | Some v \<Rightarrow> fv v = Inr x)"
  by (auto simp: frame_response_def split: option.splits)

section \<open>The scripted transport under the client\<close>

lemma fake_client_recv:
  assumes "cl_transport E = fake_transport_ops"
  shows "client_recv E c =
    (case incoming (transport c) of
       [] \<Rightarrow> (Inl (Err (Io (SimpleError UnexpectedEof))), c)
     | raw # rest \<Rightarrow> (Inr raw, c\<lparr>transport := (transport c)\<lparr>incoming := rest\<rparr>\<rparr>))"
  by (simp add: client_recv_def assms fake_transport_ops_def fake_recv_frame_def split: list.split)

text \<open>A callback that is serviced sends one frame, and one that fails sends none.\<close>

lemma fake_service:
  assumes fake: "cl_transport E = fake_transport_ops" and "service_sign_callback E frame c = (r, c')"
  shows "incoming (transport c') = incoming (transport c)
    \<and> (\<exists>replies. outgoing (transport c') = outgoing (transport c) @ replies
        \<and> length replies = (case r of Inl _ \<Rightarrow> 0 | Inr _ \<Rightarrow> 1))"
  using assms(2)
proof (rule service_verdict)
  fix v c1 assume v: "decide_callback E frame c = (v, c1)"
    and reply: "reply_verdict E (callback_id E frame) v c1 = (r, c')"
  then show ?thesis
    using decide_callback_frame [OF v]
    by (auto simp: fake_reply_verdict [OF fake] split: sum.splits verdict.splits)
qed

lemma fake_read_response:
  assumes run: "read_response E fv rid n c = (r, c')" and fake: "cl_transport E = fake_transport_ops"
  shows "n \<le> MAX_INTERLEAVED_CALLBACKS \<Longrightarrow> \<exists>served replies final.
      incoming (transport c) = served @ final @ incoming (transport c')
      \<and> outgoing (transport c') = outgoing (transport c) @ replies
      \<and> length replies \<le> length served \<and> n + length served \<le> MAX_INTERLEAVED_CALLBACKS \<and> length final \<le> 1
      \<and> list_all (is_callback E) served
      \<and> (\<forall>x. r = Inr x \<longrightarrow> length replies = length served
            \<and> (\<exists>raw. final = [raw] \<and> responds_with E fv rid raw x))"
  (is "_ \<Longrightarrow> \<exists>served replies final. ?P n c r c' served replies final")
  using run
proof (induction rule: read_response_induct)
  case (recv_error n c e c1)
  then have "?P n c (Inl e) c1 [] [] []"
    by (auto simp: fake_client_recv [OF fake] split: list.splits)
  then show ?case by blast
next
  case (bad_frame n c raw c1 e)
  then have "?P n c (Inl (Err (Frame e))) c1 [] [] [raw]"
    by (auto simp: fake_client_recv [OF fake] split: list.splits)
  then show ?case by blast
next
  case (flood n c raw c1 frame)
  then have "?P n c (Inl (Err TooManyCallbacks)) c1 [] [] [raw]"
    by (auto simp: fake_client_recv [OF fake] split: list.splits)
  then show ?case by blast
next
  case (callback_error n c raw c1 frame e c2)
  with fake_service [OF fake callback_error(5)] have "?P n c (Inl e) c2 [] [] [raw]"
    by (auto simp: fake_client_recv [OF fake] split: list.splits)
  then show ?case by blast
next
  case (response n c raw c1 frame)
  then have "?P n c (frame_response E fv rid frame) c1 [] [] [raw]"
    by (auto simp: fake_client_recv [OF fake] responds_with_def frame_response_Inr split: list.splits)
  then show ?case by blast
next
  case (callback n c raw c1 frame d c2 r c')
  from callback(4,7) obtain served replies final where ih: "?P (Suc n) c2 r c' served replies final"
    by auto
  from fake_service [OF fake callback(5)] obtain reply where
    c2: "incoming (transport c2) = incoming (transport c1)"
      "outgoing (transport c2) = outgoing (transport c1) @ [reply]"
    by (auto simp: length_Suc_conv)
  have "is_callback E raw" using callback(2,3) by (simp add: is_callback_def)
  with ih c2 callback(1) have "?P n c r c' (raw # served) (reply # replies) final"
    by (auto simp: fake_client_recv [OF fake] split: list.splits)
  then show ?case by (intro exI)
qed

section \<open>One request\<close>

text \<open>What a request reads and writes, whatever its outcome.\<close>

lemma fake_call:
  assumes fake: "cl_transport E = fake_transport_ops"
    and run: "client_call E to_str fv meth params c = (r, c')"
  shows "\<exists>request served replies final.
      incoming (transport c) = served @ final @ incoming (transport c')
      \<and> outgoing (transport c') = outgoing (transport c) @ request @ replies
      \<and> length request \<le> 1 \<and> length replies \<le> length served
      \<and> length served \<le> MAX_INTERLEAVED_CALLBACKS \<and> length final \<le> 1
      \<and> (\<forall>req \<in> set request. to_str \<lparr>rq_jsonrpc = JSONRPC_VERSION, rq_id = next_id c,
            rq_method = meth, rq_params = params\<rparr> = Inr req)
      \<and> (\<forall>x. r = Inr x \<longrightarrow> length request = 1 \<and> length replies = length served
            \<and> list_all (is_callback E) served
            \<and> (\<exists>raw. final = [raw] \<and> responds_with E fv (next_id c) raw x))"
  (is "\<exists>request served replies final. ?P request served replies final")
proof -
  let ?req = "\<lparr>rq_jsonrpc = JSONRPC_VERSION, rq_id = next_id c, rq_method = meth, rq_params = params\<rparr>"
  let ?c1 = "c\<lparr>next_id := next_id c + 1\<rparr>"
  consider (panic) "debug_build E" "next_id c = - 1"
    | (unserialisable) e where "\<not> (debug_build E \<and> next_id c = - 1)" "to_str ?req = Inl e"
    | (sent) req where "\<not> (debug_build E \<and> next_id c = - 1)" "to_str ?req = Inr req"
    by (cases "to_str ?req") auto
  then show ?thesis
  proof cases
    case panic
    with run have "?P [] [] [] []" by (auto simp: client_call_def)
    then show ?thesis by (intro exI)
  next
    case unserialisable
    with run have "?P [] [] [] []" by (auto simp: client_call_def Let_def)
    then show ?thesis by (intro exI)
  next
    case (sent req)
    let ?t = "(transport c)\<lparr>outgoing := outgoing (transport c) @ [req]\<rparr>"
    from sent run have "read_response E fv (next_id c) 0 (?c1\<lparr>transport := ?t\<rparr>) = (r, c')"
      by (auto simp: client_call_def Let_def fake_client_send [OF fake])
    from fake_read_response [OF this fake] obtain served replies final where
      "incoming (transport c) = served @ final @ incoming (transport c')"
      "outgoing (transport c') = outgoing (transport c) @ [req] @ replies"
      "length replies \<le> length served" "length served \<le> MAX_INTERLEAVED_CALLBACKS" "length final \<le> 1"
      "list_all (is_callback E) served"
      "\<forall>x. r = Inr x \<longrightarrow> length replies = length served
            \<and> (\<exists>raw. final = [raw] \<and> responds_with E fv (next_id c) raw x)"
      by auto
    with sent(2) have "?P [req] served replies final" by simp
    then show ?thesis by (intro exI)
  qed
qed

lemma call_next_id:
  "client_call E to_str fv meth params c = (r, c') \<Longrightarrow>
    if debug_build E \<and> next_id c = - 1 then r = Inl Panic \<and> c' = c else next_id c' = next_id c + 1"
proof -
  have read: "read_response E fv rid n c = (r, c') \<Longrightarrow> next_id c' = next_id c"
    for rid n c c' r
    by (induction rule: read_response_induct) (auto dest!: client_recv_frame service_frame)
  show "client_call E to_str fv meth params c = (r, c') \<Longrightarrow>
    if debug_build E \<and> next_id c = - 1 then r = Inl Panic \<and> c' = c else next_id c' = next_id c + 1"
    by (auto simp: client_call_def Let_def try_then_def dest!: read client_send_frame
        split: if_splits sum.splits prod.splits)
qed

text \<open>A request that returned a value, as one transcript.\<close>

definition answered ::
  "('v, 't, 's, 'p) client_env \<Rightarrow> ('q rpc_request \<Rightarrow> string + string) \<Rightarrow> ('v \<Rightarrow> string + 'r) \<Rightarrow>
     string \<Rightarrow> 'q \<Rightarrow> u64 \<Rightarrow> string list \<Rightarrow> string list \<Rightarrow> 'r \<Rightarrow> bool" where
  "answered E to_str fv meth params rid consumed sent x \<longleftrightarrow>
     consumed \<noteq> [] \<and> length sent = length consumed \<and> length consumed \<le> Suc MAX_INTERLEAVED_CALLBACKS
     \<and> to_str \<lparr>rq_jsonrpc = JSONRPC_VERSION, rq_id = rid, rq_method = meth, rq_params = params\<rparr>
         = Inr (hd sent)
     \<and> list_all (is_callback E) (butlast consumed)
     \<and> responds_with E fv rid (last consumed) x"

lemma answered_sent: "answered E to_str fv meth params rid consumed sent x \<Longrightarrow> sent \<noteq> []"
  by (auto simp: answered_def)

lemma call_answered:
  assumes fake: "cl_transport E = fake_transport_ops"
    and run: "client_call E to_str fv meth params c = (Inr x, c')"
  obtains consumed sent where "incoming (transport c) = consumed @ incoming (transport c')"
    "outgoing (transport c') = outgoing (transport c) @ sent"
    "answered E to_str fv meth params (next_id c) consumed sent x"
proof -
  obtain request served replies raw where
    "incoming (transport c) = served @ [raw] @ incoming (transport c')"
    "outgoing (transport c') = outgoing (transport c) @ request @ replies"
    "length served \<le> MAX_INTERLEAVED_CALLBACKS" "length replies = length served" "length request = 1"
    "\<forall>req \<in> set request. to_str \<lparr>rq_jsonrpc = JSONRPC_VERSION, rq_id = next_id c,
            rq_method = meth, rq_params = params\<rparr> = Inr req"
    "list_all (is_callback E) served" "responds_with E fv (next_id c) raw x"
    using fake_call [OF fake run] by auto
  then show ?thesis
    by (intro that [of "served @ [raw]" "request @ replies"])
      (auto simp: answered_def length_Suc_conv)
qed

section \<open>Properties of a request\<close>

text \<open>
  C16. A request returns a value only for its own response.  Over the scripted transport a request
  that succeeds has sent the serialised request with the next id and then one reply for each frame it
  consumed before the last; those frames are \<open>sign\<close> callbacks, at most
  \<open>MAX_INTERLEAVED_CALLBACKS\<close> of them, and the last frame carries the awaited id, no error, and a
  result that parses to the value.  The next request gets the next id.
\<close>

theorem request_returns_its_own_response:
  assumes "cl_transport E = fake_transport_ops"
    and "client_call E to_str fv meth params c = (Inr x, c')"
  shows "next_id c' = next_id c + 1
    \<and> (\<exists>consumed sent. incoming (transport c) = consumed @ incoming (transport c')
        \<and> outgoing (transport c') = outgoing (transport c) @ sent
        \<and> answered E to_str fv meth params (next_id c) consumed sent x)"
  using call_answered [OF assms] call_next_id [OF assms(2)] by (metis Inl_Inr_False)

text \<open>A request at the sample environment: one callback interleaves with the response.\<close>

abbreviation sample_detach ::
  "(detach_result, fake_transport, unit test_signer, allow_all_sign_policy) client_result" where
  "sample_detach \<equiv> client_call (sample_signer_env allow_all_authorize)
     (detach_request_to_string sample_json) (detach_result_from_value sample_json) METHOD_DETACH
     \<lparr>dp_session_id = ''session''\<rparr>
     (client_new (fake_scripted [''sign'', ''detach-ok'', ''sign'']) \<lparr>secret_key = ()\<rparr> AllowAllSignPolicy)"

lemma sample_detach_result: "sample_detach = (Inr DetachResult, snd sample_detach)"
  by (simp add: prod_eq_iff client_call_def read_response_unfold frame_response_def client_eval
      MAX_INTERLEAVED_CALLBACKS_def Let_def cong: try_then_weak_cong)

theorem request_returns_its_own_response_witness:
  "next_id (snd sample_detach) = 2"
proof -
  have "next_id (snd sample_detach) = 1 + 1"
    using request_returns_its_own_response [OF _ sample_detach_result] by (simp add: client_new_def)
  then show ?thesis by simp
qed

text \<open>
  C31. A request is bounded by the client, not by the peer.  Whatever arrives and however the request
  ends, it consumes at most one frame more than \<open>MAX_INTERLEAVED_CALLBACKS\<close> and sends at most
  that many.
\<close>

theorem request_is_bounded:
  assumes "cl_transport E = fake_transport_ops"
    and "client_call E to_str fv meth params c = (r, c')"
  shows "\<exists>consumed sent. incoming (transport c) = consumed @ incoming (transport c')
    \<and> outgoing (transport c') = outgoing (transport c) @ sent
    \<and> length consumed \<le> Suc MAX_INTERLEAVED_CALLBACKS \<and> length sent \<le> Suc MAX_INTERLEAVED_CALLBACKS"
proof -
  from fake_call [OF assms] obtain request served replies final where
    "incoming (transport c) = (served @ final) @ incoming (transport c')"
    "outgoing (transport c') = outgoing (transport c) @ (request @ replies)"
    "length request \<le> 1" "length replies \<le> length served"
    "length served \<le> MAX_INTERLEAVED_CALLBACKS" "length final \<le> 1"
    by auto
  moreover from this have "length (served @ final) \<le> Suc MAX_INTERLEAVED_CALLBACKS"
    "length (request @ replies) \<le> Suc MAX_INTERLEAVED_CALLBACKS" by simp_all
  ultimately show ?thesis by blast
qed


theorem request_is_bounded_witness:
  "length (outgoing (transport (snd sample_detach))) \<le> 65"
  using request_is_bounded [OF _ sample_detach_result]
  by (auto simp: MAX_INTERLEAVED_CALLBACKS_def client_new_def fake_scripted_def)

definition answerable :: "('v, 't, 's, 'p) client_env \<Rightarrow> string \<Rightarrow> bool" where
  "answerable E raw \<longleftrightarrow>
     (case incoming_frame_from_str (cl_json E) raw of
        Inl _ \<Rightarrow> False
      | Inr frame \<Rightarrow> if_method frame = Some METHOD_SIGN
          \<and> (case callback_params E frame of Inl _ \<Rightarrow> False | Inr _ \<Rightarrow> True))"

definition serialises_replies :: "('v, 't, 's, 'p) client_env \<Rightarrow> bool" where
  "serialises_replies E \<longleftrightarrow>
     (\<forall>r. \<exists>s. sign_result_to_string (cl_json E) r = Inr s) \<and> (\<forall>r. \<exists>s. error_reply_to_string (cl_json E) r = Inr s)"

lemma service_answerable:
  assumes fake: "cl_transport E = fake_transport_ops" and ser: "serialises_replies E"
    and "callback_params E frame = Inr params"
  obtains d c' where "service_sign_callback E frame c = (Inr d, c')"
proof -
  obtain v c1 where v: "decide_callback E frame c = (v, c1)" by (cases "decide_callback E frame c")
  with assms(3) have "\<forall>e. v \<noteq> Unanswerable e"
    by (auto simp: decide_callback_def decide_signature_def
        split: option.splits prod.splits sign_decision.splits)
  moreover obtain reply where
    "case v of Unanswerable _ \<Rightarrow> True
      | Refuse code msg reason \<Rightarrow>
          error_reply_to_string (cl_json E) (error_reply (callback_id E frame) code msg) = Inr reply
      | Signed res \<Rightarrow> sign_result_to_string (cl_json E) (sign_reply (callback_id E frame) res) = Inr reply"
    using ser by (cases v) (auto simp: serialises_replies_def)
  ultimately show ?thesis using v that
    by (cases v) (auto simp: service_decides_then_replies fake_reply_verdict [OF fake])
qed

lemma read_response_flood:
  assumes fake: "cl_transport E = fake_transport_ops" and ser: "serialises_replies E"
  shows "incoming (transport c) = flood @ rest \<Longrightarrow> list_all (answerable E) flood \<Longrightarrow>
    n + length flood = Suc MAX_INTERLEAVED_CALLBACKS \<Longrightarrow> n \<le> MAX_INTERLEAVED_CALLBACKS \<Longrightarrow>
    \<exists>c' replies. read_response E fv rid n c = (Inl (Err TooManyCallbacks), c')
      \<and> incoming (transport c') = rest
      \<and> outgoing (transport c') = outgoing (transport c) @ replies \<and> Suc (length replies) = length flood"
proof (induction flood arbitrary: n c)
  case (Cons raw flood)
  let ?c = "c\<lparr>transport := (transport c)\<lparr>incoming := flood @ rest\<rparr>\<rparr>"
  have recv: "client_recv E c = (Inr raw, ?c)"
    using Cons.prems(1) by (simp add: fake_client_recv [OF fake])
  from Cons.prems(2) obtain frame params where frame: "incoming_frame_from_str (cl_json E) raw = Inr frame"
    "if_method frame = Some METHOD_SIGN" "callback_params E frame = Inr params"
    by (auto simp: answerable_def split: sum.splits)
  show ?case
  proof (cases "n = MAX_INTERLEAVED_CALLBACKS")
    case True
    with Cons.prems(3) have "flood = []" by simp
    with recv frame True show ?thesis by (subst read_response_unfold) simp
  next
    case False
    obtain d c2 where d: "service_sign_callback E frame ?c = (Inr d, c2)"
      using service_answerable [OF fake ser frame(3)] by blast
    from fake_service [OF fake d] obtain reply where c2: "incoming (transport c2) = flood @ rest"
      "outgoing (transport c2) = outgoing (transport c) @ [reply]"
      by (auto simp: length_Suc_conv)
    from Cons.IH [OF c2(1), of "Suc n"] Cons.prems False obtain c' replies where
      "read_response E fv rid (Suc n) c2 = (Inl (Err TooManyCallbacks), c')" "incoming (transport c') = rest"
      "outgoing (transport c') = outgoing (transport c2) @ replies" "Suc (length replies) = length flood"
      by auto
    with recv frame d c2 False Cons.prems(4) show ?thesis
      by (subst read_response_unfold) (auto intro: exI [of _ "reply # replies"])
  qed
qed simp

text \<open>
  C25. A flood of callbacks is cut off.  If more than \<open>MAX_INTERLEAVED_CALLBACKS\<close> callbacks
  arrive before the response and each can be answered, the request fails with
  \<open>TooManyCallbacks\<close> after answering exactly \<open>MAX_INTERLEAVED_CALLBACKS\<close> of them; the next
  one is read and dropped.
\<close>

theorem callback_flood_is_cut_off:
  assumes fake: "cl_transport E = fake_transport_ops" and ser: "serialises_replies E"
    and "incoming (transport c) = flood @ rest" and "length flood = Suc MAX_INTERLEAVED_CALLBACKS"
    and "list_all (answerable E) flood"
    and "to_str \<lparr>rq_jsonrpc = JSONRPC_VERSION, rq_id = next_id c, rq_method = meth, rq_params = params\<rparr>
      = Inr request"
    and "next_id c \<noteq> - 1"
  shows "\<exists>c' replies. client_call E to_str fv meth params c = (Inl (Err TooManyCallbacks), c')
    \<and> incoming (transport c') = rest
    \<and> outgoing (transport c') = outgoing (transport c) @ request # replies
    \<and> length replies = MAX_INTERLEAVED_CALLBACKS"
proof -
  let ?c = "c\<lparr>next_id := next_id c + 1,
    transport := (transport c)\<lparr>outgoing := outgoing (transport c) @ [request]\<rparr>\<rparr>"
  obtain c' replies where "read_response E fv (next_id c) 0 ?c = (Inl (Err TooManyCallbacks), c')"
    "incoming (transport c') = rest"
    "outgoing (transport c') = outgoing (transport ?c) @ replies" "Suc (length replies) = length flood"
    using read_response_flood [OF fake ser, where c = ?c and flood = flood and rest = rest and n = 0
        and fv = fv and rid = "next_id c"] assms(3-5) by auto
  with assms(4,6,7) show ?thesis
    by (simp add: client_call_def Let_def fake_client_send [OF fake])
qed


theorem callback_flood_is_cut_off_witness:
  "fst (client_call (sample_signer_env allow_all_authorize) (detach_request_to_string sample_json)
     (detach_result_from_value sample_json) METHOD_DETACH \<lparr>dp_session_id = ''session''\<rparr>
     (client_new (fake_scripted (replicate 65 ''sign'' @ [''detach-ok''])) \<lparr>secret_key = ()\<rparr> AllowAllSignPolicy))
   = Inl (Err TooManyCallbacks)"
proof -
  let ?E = "sample_signer_env allow_all_authorize"
  let ?c = "client_new (fake_scripted (replicate 65 ''sign'' @ [''detach-ok''])) \<lparr>secret_key = ()\<rparr> AllowAllSignPolicy"
  have ser: "serialises_replies ?E" by (simp add: serialises_replies_def sample_json_def)
  have "answerable ?E ''sign''"
    by (simp add: answerable_def callback_params_def sample_json_def sample_parse_def sign_frame_def)
  then have "list_all (answerable ?E) (replicate 65 ''sign'')" by (simp add: list_all_iff)
  then obtain c' where "client_call ?E (detach_request_to_string sample_json)
     (detach_result_from_value sample_json) METHOD_DETACH \<lparr>dp_session_id = ''session''\<rparr> ?c
     = (Inl (Err TooManyCallbacks), c')"
    using callback_flood_is_cut_off [OF _ ser, of ?c "replicate 65 ''sign''" "[''detach-ok'']"
        "detach_request_to_string sample_json" METHOD_DETACH "\<lparr>dp_session_id = ''session''\<rparr>"
        "''detach session''" "detach_result_from_value sample_json"]
    by (auto simp: client_new_def fake_scripted_def MAX_INTERLEAVED_CALLBACKS_def sample_json_def)
  then show ?thesis by simp
qed


section \<open>The handshake\<close>

text \<open>
  \<open>begin_and_attach\<close> up to the signed challenge, and from there.
\<close>

definition begin_phase ::
  "('v, 't, 's, 'p) client_env \<Rightarrow> profile_attachment \<Rightarrow> ('t, 's, 'p) client \<Rightarrow>
     (begin_result \<times> signature, 't, 's, 'p) client_result" where
  "begin_phase E prof c =
     (case client_pubkey_hex E c of (key, c) \<Rightarrow>
      try_then (client_call E (begin_request_to_string (cl_json E)) (begin_result_from_value (cl_json E))
          METHOD_BEGIN \<lparr>bp_profile_did = did prof, signing_pubkey_hex = key\<rparr> c)
        (\<lambda>br c.
          case b64_decode (cl_b64 E) (str_bytes (nonce_b64 br)) of
            None \<Rightarrow> (Inl (Err MalformedResponse), c)
          | Some nonce \<Rightarrow>
              if length nonce \<noteq> NONCE_LEN
              then (Inl (Err (InvalidNonceLength NONCE_LEN (length nonce))), c)
              else (case (if debug_build E then client_pubkey_hex E c else (key, c)) of
                  (key', c) \<Rightarrow>
                    if key' \<noteq> key then (Inl Panic, c)
                    else (case client_try_sign E (challenge_message nonce (did prof)) c of
                        (None, c) \<Rightarrow> (Inl (Err Locked_Signer), c)
                      | (Some sig, c) \<Rightarrow> (Inr (br, sig), c)))))"

definition attach_phase ::
  "('v, 't, 's, 'p) client_env \<Rightarrow> profile_attachment \<Rightarrow> begin_result \<Rightarrow> signature \<Rightarrow> ('t, 's, 'p) client \<Rightarrow>
     (session, 't, 's, 'p) client_result" where
  "attach_phase E prof br sig c =
     try_then (client_call E (attach_request_to_string (cl_json E)) (attach_result_from_value (cl_json E))
         METHOD_ATTACH
         \<lparr>ap_session_candidate = br_session_candidate br,
          ap_signature_b64 = b64_encode (cl_b64 E) (array_bytes (sig_as_bytes sig)), profile = prof\<rparr> c)
       (\<lambda>att c. (Inr \<lparr>session_id = ar_session_id att,
           engine_capabilities = ar_engine_capabilities att, profile_did = did prof\<rparr>, c))"

lemma begin_and_attach_phases:
  "begin_and_attach E prof c = try_then (begin_phase E prof c) (\<lambda>(br, sig). attach_phase E prof br sig)"
  unfolding begin_and_attach_def begin_phase_def attach_phase_def
  by (auto simp: try_then_def split: prod.split sum.split option.split)


text \<open>The begin request of a profile and a key, answered with \<open>br\<close>.\<close>

abbreviation begin_answered ::
  "('v, 't, 's, 'p) client_env \<Rightarrow> profile_attachment \<Rightarrow> string \<Rightarrow> u64 \<Rightarrow> string list \<Rightarrow> string list \<Rightarrow>
     begin_result \<Rightarrow> bool" where
  "begin_answered E prof key rid consumed sent br \<equiv>
     answered E (begin_request_to_string (cl_json E)) (begin_result_from_value (cl_json E)) METHOD_BEGIN
       \<lparr>bp_profile_did = did prof, signing_pubkey_hex = key\<rparr> rid consumed sent br"

abbreviation attach_answered ::
  "('v, 't, 's, 'p) client_env \<Rightarrow> profile_attachment \<Rightarrow> string \<Rightarrow> signature \<Rightarrow> u64 \<Rightarrow> string list \<Rightarrow>
     string list \<Rightarrow> attach_result \<Rightarrow> bool" where
  "attach_answered E prof candidate sig rid consumed sent att \<equiv>
     answered E (attach_request_to_string (cl_json E)) (attach_result_from_value (cl_json E)) METHOD_ATTACH
       \<lparr>ap_session_candidate = candidate,
        ap_signature_b64 = b64_encode (cl_b64 E) (array_bytes (sig_as_bytes sig)), profile = prof\<rparr>
       rid consumed sent att"

lemma begin_phase_outcome:
  assumes fake: "cl_transport E = fake_transport_ops" and run: "begin_phase E prof c = (r, c')"
  obtains (request) e where "r = Inl e"
      "\<exists>c1 key. client_call E (begin_request_to_string (cl_json E)) (begin_result_from_value (cl_json E))
          METHOD_BEGIN \<lparr>bp_profile_did = did prof, signing_pubkey_hex = key\<rparr> c1 = (Inl e, c')
        \<and> transport c1 = transport c"
  | (answer) consumed sent br where
      "incoming (transport c) = consumed @ incoming (transport c')"
      "outgoing (transport c') = outgoing (transport c) @ sent"
      "begin_answered E prof (fst (signing_public_key_hex (cl_signer E) (signer c))) (next_id c) consumed sent br"
      "next_id c' = next_id c + 1"
      "case r of
         Inr (br', sig) \<Rightarrow> br' = br \<and> (\<exists>nonce s. b64_decode (cl_b64 E) (str_bytes (nonce_b64 br)) = Some nonce
           \<and> length nonce = NONCE_LEN \<and> signer_reaches (cl_signer E) (signer c) s
           \<and> fst (try_sign (cl_signer E) s (challenge_message nonce (did prof))) = Some sig)
       | Inl (Err (InvalidNonceLength a b)) \<Rightarrow> a = NONCE_LEN \<and> b \<noteq> NONCE_LEN
           \<and> map_option length (b64_decode (cl_b64 E) (str_bytes (nonce_b64 br))) = Some b
       | _ \<Rightarrow> True"
proof -
  obtain key c1 where key: "client_pubkey_hex E c = (key, c1)" by (cases "client_pubkey_hex E c")
  from client_pubkey_frame [OF key] have c1: "transport c1 = transport c" "next_id c1 = next_id c"
    by simp_all
  have key_eq: "key = fst (signing_public_key_hex (cl_signer E) (signer c))"
    using key by (auto simp: client_pubkey_hex_def split: prod.splits)
  obtain x c2 where call: "client_call E (begin_request_to_string (cl_json E))
      (begin_result_from_value (cl_json E)) METHOD_BEGIN
      \<lparr>bp_profile_did = did prof, signing_pubkey_hex = key\<rparr> c1 = (x, c2)" (is "?call = _")
    by (cases ?call)
  show ?thesis
  proof (cases x)
    case (Inl e)
    with run key call c1 show ?thesis by - (rule request [of e], auto simp: begin_phase_def)
  next
    case (Inr br)
    with call have ok: "?call = (Inr br, c2)" by simp
    obtain consumed sent where seen: "incoming (transport c1) = consumed @ incoming (transport c2)"
      "outgoing (transport c2) = outgoing (transport c1) @ sent"
      "begin_answered E prof key (next_id c1) consumed sent br"
      by (rule call_answered [OF fake ok])
    have rest: "transport c' = transport c2 \<and> next_id c' = next_id c2"
      using run key ok
      by (auto simp: begin_phase_def dest!: client_pubkey_frame client_try_sign_frame
          split: option.splits if_splits prod.splits)
    have "case r of
         Inr (br', sig) \<Rightarrow> br' = br \<and> (\<exists>nonce s. b64_decode (cl_b64 E) (str_bytes (nonce_b64 br)) = Some nonce
           \<and> length nonce = NONCE_LEN \<and> signer_reaches (cl_signer E) (signer c) s
           \<and> fst (try_sign (cl_signer E) s (challenge_message nonce (did prof))) = Some sig)
       | Inl (Err (InvalidNonceLength a b)) \<Rightarrow> a = NONCE_LEN \<and> b \<noteq> NONCE_LEN
           \<and> map_option length (b64_decode (cl_b64 E) (str_bytes (nonce_b64 br))) = Some b
       | _ \<Rightarrow> True"
    proof (cases "b64_decode (cl_b64 E) (str_bytes (nonce_b64 br))")
      case None
      with run key ok have "r = Inl (Err MalformedResponse)" by (simp add: begin_phase_def)
      then show ?thesis by simp
    next
      case nonce: (Some nonce)
      show ?thesis
      proof (cases "length nonce = NONCE_LEN")
        case False
        with nonce run key ok have "r = Inl (Err (InvalidNonceLength NONCE_LEN (length nonce)))"
          by (simp add: begin_phase_def)
        with nonce False show ?thesis by simp
      next
        case True
        obtain h3 c3 where c3: "(if debug_build E then client_pubkey_hex E c2 else (key, c2)) = (h3, c3)"
          by (cases "if debug_build E then client_pubkey_hex E c2 else (key, c2)")
        have "signer_reaches (cl_signer E) (signer c) (signer c2)"
          by (rule reaches.call_kept [OF ok reaches_pubkey [OF key reaches_start]])
        with c3 have reach: "signer_reaches (cl_signer E) (signer c) (signer c3)"
          by (auto intro: reaches_pubkey split: if_splits)
        obtain sig c4 where c4: "client_try_sign E (challenge_message nonce (did prof)) c3 = (sig, c4)"
          by (cases "client_try_sign E (challenge_message nonce (did prof)) c3")
        with nonce True run key ok c3 consider "r = Inl Panic" | "r = Inl (Err Locked_Signer)"
          | sig' where "sig = Some sig'" "r = Inr (br, sig')"
          by (auto simp: begin_phase_def split: if_splits option.splits)
        then show ?thesis
        proof cases
          case 3
          with c4 have "fst (try_sign (cl_signer E) (signer c3) (challenge_message nonce (did prof))) = Some sig'"
            by (auto simp: client_try_sign_def split: prod.splits)
          with 3 nonce True reach show ?thesis by auto
        qed simp_all
      qed
    qed
    moreover have "next_id c2 = next_id c + 1"
      using call_next_id [OF ok] c1 by (auto split: if_splits)
    ultimately show ?thesis
      using seen rest c1 by (intro answer [of consumed sent br]) (simp_all add: key_eq)
  qed
qed

lemma call_error_kinds:
  assumes "client_call E to_str fv meth params c = (Inl (Err e), c')"
  shows "case e of Locked_Signer \<Rightarrow> False | InvalidNonceLength _ _ \<Rightarrow> False | NotASignCallback \<Rightarrow> False | _ \<Rightarrow> True"
proof -
  let ?ok = "\<lambda>r :: session_error failure + 'a. \<forall>e. r = Inl (Err e) \<longrightarrow>
    (case e of Locked_Signer \<Rightarrow> False | InvalidNonceLength _ _ \<Rightarrow> False | NotASignCallback \<Rightarrow> False | _ \<Rightarrow> True)"
  have send: "client_send E f c = (Inl x, c') \<Longrightarrow> ?ok (Inl x)" for f x and c c' :: "('b, 'c, 'd) client"
    by (auto simp: client_send_def map_err_def split: prod.splits sum.splits)
  have service: "service_sign_callback E frame c = (Inl x, c') \<Longrightarrow> ?ok (Inl x)" for frame x c c'
    by (auto simp: service_decides_then_replies reply_verdict_def send_error_def send_result_def try_then_def
        dest!: send split: prod.splits verdict.splits sum.splits)
  have recv: "client_recv E c = (Inl x, c') \<Longrightarrow> ?ok (Inl x)" for x c c'
    by (auto simp: client_recv_def map_err_def split: prod.splits sum.splits)
  have read: "read_response E fv rid n c = (r, c') \<Longrightarrow> ?ok r" for rid n c r c'
  proof (induction rule: read_response_induct)
    case (response n c raw c1 frame)
    then show ?case by (auto simp: frame_response_def map_err_def split: option.splits sum.splits)
  qed (use recv service in auto)
  show ?thesis
    using assms
    by (auto simp: client_call_def Let_def try_then_def dest!: read send
        split: if_splits sum.splits prod.splits)
qed


lemma handshake_transcript:
  assumes "cl_transport E = fake_transport_ops" and "begin_and_attach E prof c = (Inr sess, c')"
  shows "\<exists>consumed1 sent1 br nonce s sig consumed2 sent2 att.
      incoming (transport c) = consumed1 @ consumed2 @ incoming (transport c')
      \<and> outgoing (transport c') = outgoing (transport c) @ sent1 @ sent2
      \<and> begin_answered E prof (fst (signing_public_key_hex (cl_signer E) (signer c))) (next_id c)
          consumed1 sent1 br
      \<and> b64_decode (cl_b64 E) (str_bytes (nonce_b64 br)) = Some nonce \<and> length nonce = NONCE_LEN
      \<and> signer_reaches (cl_signer E) (signer c) s
      \<and> fst (try_sign (cl_signer E) s (challenge_message nonce (did prof))) = Some sig
      \<and> attach_answered E prof (br_session_candidate br) sig (next_id c + 1) consumed2 sent2 att
      \<and> sess = \<lparr>session_id = ar_session_id att, engine_capabilities = ar_engine_capabilities att,
                profile_did = did prof\<rparr>"
proof -
  from assms(2) obtain br sig c1 where begins: "begin_phase E prof c = (Inr (br, sig), c1)"
    and att: "attach_phase E prof br sig c1 = (Inr sess, c')"
    by (auto simp: begin_and_attach_phases try_then_Inr_iff)
  from assms(1) begins show ?thesis
  proof (cases rule: begin_phase_outcome)
    case (answer consumed1 sent1 br')
    from att obtain ar where call: "client_call E (attach_request_to_string (cl_json E))
        (attach_result_from_value (cl_json E)) METHOD_ATTACH
        \<lparr>ap_session_candidate = br_session_candidate br,
         ap_signature_b64 = b64_encode (cl_b64 E) (array_bytes (sig_as_bytes sig)), profile = prof\<rparr> c1
        = (Inr ar, c')"
      and sess: "sess = \<lparr>session_id = ar_session_id ar, engine_capabilities = ar_engine_capabilities ar,
          profile_did = did prof\<rparr>"
      by (auto simp: attach_phase_def try_then_Inr_iff)
    obtain consumed2 sent2 where
      "incoming (transport c1) = consumed2 @ incoming (transport c')"
      "outgoing (transport c') = outgoing (transport c1) @ sent2"
      "attach_answered E prof (br_session_candidate br) sig (next_id c1) consumed2 sent2 ar"
      by (rule call_answered [OF assms(1) call])
    moreover have "br' = br" using answer(5) by simp
    moreover from answer(5) obtain nonce s where
      "b64_decode (cl_b64 E) (str_bytes (nonce_b64 br')) = Some nonce" "length nonce = NONCE_LEN"
      "signer_reaches (cl_signer E) (signer c) s" "fst (try_sign (cl_signer E) s (challenge_message nonce (did prof))) = Some sig"
      by auto
    ultimately show ?thesis
      using answer(1-4) sess
      by (intro exI [of _ consumed1] exI [of _ sent1] exI [of _ br] exI [of _ nonce] exI [of _ s]
          exI [of _ sig] exI [of _ consumed2] exI [of _ sent2] exI [of _ ar]) simp
  qed simp
qed

section \<open>Properties of the handshake\<close>

text \<open>
  C7. What an opened session stands for.  Over the scripted transport, if \<open>begin_and_attach\<close>
  returns a session, then the client sent a begin request with its DID and its key under the next id
  and an attach request under the id after it, each followed by one reply per callback consumed, and
  each answered; the attach request echoes the candidate of the begin response and carries the
  signature the signer gave, in a state it reached by the client's own calls, for the challenge over that response's nonce, which has the contract's
  length, and the attached DID; the session is the one the attach response names.
\<close>

theorem session_is_authenticated:
  assumes "cl_transport E = fake_transport_ops" and "begin_and_attach E prof c = (Inr sess, c')"
  shows "\<exists>consumed1 sent1 br nonce s sig consumed2 sent2 att.
      incoming (transport c) = consumed1 @ consumed2 @ incoming (transport c')
      \<and> outgoing (transport c') = outgoing (transport c) @ sent1 @ sent2
      \<and> begin_answered E prof (fst (signing_public_key_hex (cl_signer E) (signer c))) (next_id c)
          consumed1 sent1 br
      \<and> b64_decode (cl_b64 E) (str_bytes (nonce_b64 br)) = Some nonce \<and> length nonce = NONCE_LEN
      \<and> signer_reaches (cl_signer E) (signer c) s
      \<and> fst (try_sign (cl_signer E) s (challenge_message nonce (did prof))) = Some sig
      \<and> attach_answered E prof (br_session_candidate br) sig (next_id c + 1) consumed2 sent2 att
      \<and> sess = \<lparr>session_id = ar_session_id att, engine_capabilities = ar_engine_capabilities att,
                profile_did = did prof\<rparr>"
  using assms by (rule handshake_transcript)

text \<open>
  C22. Failing before the attach.  If \<open>begin_and_attach\<close> fails because the nonce has the wrong
  length or because the signer is locked, the begin request was answered and nothing was sent after
  it but one reply per callback consumed: no attach request.  A wrong length is reported as it is.
\<close>

theorem refused_handshake_sends_no_attach:
  assumes "cl_transport E = fake_transport_ops" and "begin_and_attach E prof c = (Inl (Err e), c')"
    and "case e of Locked_Signer \<Rightarrow> True | InvalidNonceLength _ _ \<Rightarrow> True | _ \<Rightarrow> False"
  shows "\<exists>consumed sent br. incoming (transport c) = consumed @ incoming (transport c')
    \<and> outgoing (transport c') = outgoing (transport c) @ sent
    \<and> begin_answered E prof (fst (signing_public_key_hex (cl_signer E) (signer c))) (next_id c)
        consumed sent br
    \<and> (case e of
          InvalidNonceLength expected actual \<Rightarrow> expected = NONCE_LEN \<and> actual \<noteq> NONCE_LEN
            \<and> map_option length (b64_decode (cl_b64 E) (str_bytes (nonce_b64 br))) = Some actual
        | _ \<Rightarrow> True)"
proof -
  have attach: "attach_phase E prof br sig d \<noteq> (Inl (Err e), c')" for br sig d
  proof
    assume "attach_phase E prof br sig d = (Inl (Err e), c')"
    then have "client_call E (attach_request_to_string (cl_json E)) (attach_result_from_value (cl_json E))
        METHOD_ATTACH \<lparr>ap_session_candidate = br_session_candidate br,
         ap_signature_b64 = b64_encode (cl_b64 E) (array_bytes (sig_as_bytes sig)), profile = prof\<rparr> d
        = (Inl (Err e), c')"
      by (auto simp: attach_phase_def try_then_def split: prod.splits sum.splits)
    from call_error_kinds [OF this] assms(3) show False by (cases e) auto
  qed
  have "begin_phase E prof c = (Inl (Err e), c')"
    using assms(2) attach
    by (auto simp: begin_and_attach_phases try_then_def split: prod.splits sum.splits)
  with assms(1) show ?thesis
  proof (cases rule: begin_phase_outcome)
    case (request e')
    then obtain c1 key where "client_call E (begin_request_to_string (cl_json E))
        (begin_result_from_value (cl_json E)) METHOD_BEGIN
        \<lparr>bp_profile_did = did prof, signing_pubkey_hex = key\<rparr> c1 = (Inl (Err e), c')"
      by auto
    from call_error_kinds [OF this] assms(3) show ?thesis by (cases e) auto
  next
    case (answer consumed sent br)
    then show ?thesis
      by (intro exI [of _ consumed] exI [of _ sent] exI [of _ br]) (auto split: session_error.splits)
  qed
qed


text \<open>The handshake at the sample environment, with a callback before the second response.\<close>

abbreviation sample_handshake ::
  "string list \<Rightarrow> (session, fake_transport, unit test_signer, allow_all_sign_policy) client_result" where
  "sample_handshake script \<equiv> begin_and_attach (sample_signer_env allow_all_authorize) sample_profile
     (client_new (fake_scripted script) \<lparr>secret_key = ()\<rparr> AllowAllSignPolicy)"

lemma sample_handshake_result:
  "fst (sample_handshake [''begin-ok'', ''sign'', ''attach-ok'']) =
     Inr \<lparr>session_id = ''session'', engine_capabilities = [''sign''], profile_did = ''did:chia:alice''\<rparr>"
  "fst (sample_handshake [''begin-short'', ''attach-ok'']) = Inl (Err (InvalidNonceLength 32 5))"
  by (simp_all add: begin_and_attach_def client_call_def read_response_unfold frame_response_def client_eval
      NONCE_LEN_def MAX_INTERLEAVED_CALLBACKS_def Let_def cong: try_then_weak_cong)


theorem session_is_authenticated_witness:
  "\<exists>sent1 sent2. outgoing (transport (snd (sample_handshake [''begin-ok'', ''sign'', ''attach-ok'']))) = sent1 @ sent2
     \<and> sent1 \<noteq> [] \<and> sent2 \<noteq> []"
proof -
  let ?h = "sample_handshake [''begin-ok'', ''sign'', ''attach-ok'']"
  have "?h = (Inr \<lparr>session_id = ''session'', engine_capabilities = [''sign''],
      profile_did = ''did:chia:alice''\<rparr>, snd ?h)"
    using sample_handshake_result(1) by (simp only: prod_eq_iff fst_conv snd_conv)
  from session_is_authenticated [OF _ this] show ?thesis
    by (auto simp: client_new_def fake_scripted_def dest!: answered_sent)
qed

theorem refused_handshake_sends_no_attach_witness:
  "\<exists>consumed br key. begin_answered (sample_signer_env allow_all_authorize) sample_profile key 1 consumed
     (outgoing (transport (snd (sample_handshake [''begin-short'', ''attach-ok''])))) br"
proof -
  let ?h = "sample_handshake [''begin-short'', ''attach-ok'']"
  have "?h = (Inl (Err (InvalidNonceLength 32 5)), snd ?h)"
    using sample_handshake_result(2) by (simp only: prod_eq_iff fst_conv snd_conv)
  from refused_handshake_sends_no_attach [OF _ this] show ?thesis
    by (auto simp: client_new_def fake_scripted_def)
qed

section \<open>A locked identity\<close>

definition is_error_reply :: "('v, 't, 's, 'p) client_env \<Rightarrow> string \<Rightarrow> bool" where
  "is_error_reply E f \<longleftrightarrow>
     (\<exists>rid code msg. error_reply_to_string (cl_json E) (error_reply rid code msg) = Inr f)"

definition locked_replies ::
  "('v, fake_transport, 'sk lockable_signer, 'p) client_env \<Rightarrow> string list \<Rightarrow>
     (fake_transport, 'sk lockable_signer, 'p) client \<Rightarrow> bool" where
  "locked_replies E sent c \<longleftrightarrow> locked (signer c)
     \<and> (\<exists>replies. outgoing (transport c) = sent @ replies \<and> list_all (is_error_reply E) replies)"

lemma locked_decide:
  assumes "cl_signer E = lockable_signer_ops H K" and "locked (signer c)"
    and "decide_callback E frame c = (v, c')"
  shows "locked (signer c') \<and> (\<forall>res. v \<noteq> Signed res)"
  using assms(3)
proof (cases rule: decide_callback_cases)
  case (policy q d)
  with assms(2) client_authorize_frame [OF policy(1)] show ?thesis by simp
next
  case (sign q c1 m r c2)
  from sign(3) assms(1,2) client_authorize_frame [OF sign(1)] have "r = None" "locked (signer c2)"
    by (auto simp: client_try_sign_def lockable_signer_ops_def lockable_try_sign_def)
  with sign(4) show ?thesis by simp
qed (use assms(2) in simp)

lemma locked_reading:
  assumes fake: "cl_transport E = fake_transport_ops" and lock: "cl_signer E = lockable_signer_ops H K"
  shows "reading_invariant E (locked_replies E sent)"
proof unfold_locales
  fix c c' x assume "locked_replies E sent c" "client_recv E c = (x, c')"
  then show "locked_replies E sent c'"
    by (auto simp: locked_replies_def fake_client_recv [OF fake] split: list.splits)
next
  fix c c' frame d
  assume inv: "locked_replies E sent c" and "service_sign_callback E frame c = (d, c')"
  from this(2) show "locked_replies E sent c'"
  proof (rule service_verdict)
    fix v c1 assume v: "decide_callback E frame c = (v, c1)"
      and reply: "reply_verdict E (callback_id E frame) v c1 = (d, c')"
    from inv have "locked (signer c)" by (simp add: locked_replies_def)
    from locked_decide [OF lock this v] have c1: "locked (signer c1)" and "\<forall>res. v \<noteq> Signed res" by simp_all
    moreover have "list_all (is_error_reply E) (replies @ [r])"
      if "list_all (is_error_reply E) replies"
        "error_reply_to_string (cl_json E) (error_reply (callback_id E frame) code msg) = Inr r"
      for replies r code msg
      using that by (auto simp: is_error_reply_def)
    ultimately show ?thesis
      using reply inv decide_callback_frame [OF v]
      by (auto simp: fake_reply_verdict [OF fake] locked_replies_def split: verdict.splits sum.splits)
  qed
qed

lemma locked_call:
  assumes fake: "cl_transport E = fake_transport_ops" and lock: "cl_signer E = lockable_signer_ops H K"
    and "locked (signer c)" and run: "client_call E to_str fv meth params c = (r, c')"
  shows "\<exists>request. length request \<le> 1 \<and> locked_replies E (outgoing (transport c) @ request) c'"
proof -
  note kept = reading_invariant.read_response_kept [OF locked_reading [OF fake lock]]
  have start: "locked_replies E (outgoing (transport c) @ fs)
      (c\<lparr>next_id := n, transport := (transport c)\<lparr>outgoing := outgoing (transport c) @ fs\<rparr>\<rparr>)" for fs n
    using assms(3) by (simp add: locked_replies_def)
  from run assms(3) consider (unsent) "transport c' = transport c" "signer c' = signer c"
    | (sent) request n rid where "read_response E fv rid 0 (c\<lparr>next_id := n,
        transport := (transport c)\<lparr>outgoing := outgoing (transport c) @ [request]\<rparr>\<rparr>) = (r, c')"
    by (auto simp: client_call_def Let_def fake_client_send [OF fake] split: if_splits sum.splits)
  then show ?thesis
  proof cases
    case unsent
    with assms(3) show ?thesis by (intro exI [of _ "[]"]) (simp add: locked_replies_def)
  next
    case (sent request n rid)
    from kept [OF this start] show ?thesis by (intro exI [of _ "[request]"]) simp
  qed
qed

text \<open>
  C14. A locked identity never signs.  While the profile is locked, \<open>begin_and_attach\<close> returns no
  session, and after the begin request nothing but error replies goes out: no attach request, no
  signature, whatever the engine sends and whatever the policy allows.
\<close>

theorem locked_identity_sends_no_signature:
  assumes fake: "cl_transport E = fake_transport_ops" and lock: "cl_signer E = lockable_signer_ops H K"
    and "locked (signer c)" and "begin_and_attach E prof c = (r, c')"
  shows "(\<forall>sess. r \<noteq> Inr sess) \<and> locked (signer c')
    \<and> (\<exists>request replies. outgoing (transport c') = outgoing (transport c) @ request @ replies
        \<and> length request \<le> 1 \<and> list_all (is_error_reply E) replies)"
proof -
  have key: "client_pubkey_hex E c = (key_to_hex H (test_signer_public K (inner (signer c))), c)" for c
    by (simp add: client_pubkey_hex_def lock lockable_signer.public_key_hex)
  have none: "locked (signer c) \<Longrightarrow> client_try_sign E m c = (None, c)" for m c
    by (simp add: client_try_sign_def lock lockable_signer_ops_def lockable_try_sign_def)
  obtain h x c1 where call: "client_call E (begin_request_to_string (cl_json E))
      (begin_result_from_value (cl_json E)) METHOD_BEGIN
      \<lparr>bp_profile_did = did prof, signing_pubkey_hex = h\<rparr> c = (x, c1)"
    and h: "client_pubkey_hex E c = (h, c)"
    using key by (metis surj_pair)
  obtain request where c1: "length request \<le> 1" "locked_replies E (outgoing (transport c) @ request) c1"
    using locked_call [OF fake lock assms(3) call] by blast
  then have "locked (signer c1)" by (simp add: locked_replies_def)
  with assms(4) h call none [OF this] have "c' = c1 \<and> (\<forall>sess. r \<noteq> Inr sess)"
    by (cases x) (auto simp: begin_and_attach_def key split: option.splits if_splits)
  with c1 show ?thesis by (auto simp: locked_replies_def)
qed

theorem locked_identity_sends_no_signature_witness:
  "\<exists>e. fst (begin_and_attach (sample_lockable_env allow_all_authorize) sample_profile
     (client_new (fake_scripted [''sign'', ''begin-ok'', ''attach-ok''])
       \<lparr>inner = \<lparr>secret_key = ()\<rparr>, locked = True\<rparr> AllowAllSignPolicy)) = Inl e"
proof -
  let ?r = "begin_and_attach (sample_lockable_env allow_all_authorize) sample_profile
     (client_new (fake_scripted [''sign'', ''begin-ok'', ''attach-ok''])
       \<lparr>inner = \<lparr>secret_key = ()\<rparr>, locked = True\<rparr> AllowAllSignPolicy)"
  have "(\<forall>sess. fst ?r \<noteq> Inr sess) \<and> locked (signer (snd ?r)) \<and> (\<exists>request replies.
      outgoing (transport (snd ?r)) = outgoing (fake_scripted [''sign'', ''begin-ok'', ''attach-ok''])
        @ request @ replies
      \<and> length request \<le> 1 \<and> list_all (is_error_reply (sample_lockable_env allow_all_authorize)) replies)"
    using locked_identity_sends_no_signature [of "sample_lockable_env allow_all_authorize" sample_hex
        sample_keys "client_new (fake_scripted [''sign'', ''begin-ok'', ''attach-ok''])
          \<lparr>inner = \<lparr>secret_key = ()\<rparr>, locked = True\<rparr> AllowAllSignPolicy" sample_profile "fst ?r" "snd ?r"]
    by (simp add: client_new_def)
  then show ?thesis by (cases "fst ?r") auto
qed

section \<open>Detach, reattach and the request counter\<close>

text \<open>
  \<open>reattach\<close> is a fresh handshake: nothing of the dropped connection, neither its unread
  frames nor its request counter, reaches the new one; only the identity and the policy are kept.
\<close>

lemma reattach_forgets_the_connection:
  "reattach E t prof c = begin_and_attach E prof (client_new t (signer c) (policy c))"
  by (cases c) (simp add: reattach_def client_new_def)

text \<open>
  \<open>detach\<close> succeeds only if the engine answered a detach request that names the session.
\<close>

lemma detach_names_its_session:
  assumes "cl_transport E = fake_transport_ops" and "client_detach E sess c = (Inr (), c')"
  shows "\<exists>consumed sent x. incoming (transport c) = consumed @ incoming (transport c')
    \<and> outgoing (transport c') = outgoing (transport c) @ sent
    \<and> answered E (detach_request_to_string (cl_json E)) (detach_result_from_value (cl_json E))
        METHOD_DETACH \<lparr>dp_session_id = session_id sess\<rparr> (next_id c) consumed sent x"
proof -
  from assms(2) obtain x where "client_call E (detach_request_to_string (cl_json E))
      (detach_result_from_value (cl_json E)) METHOD_DETACH \<lparr>dp_session_id = session_id sess\<rparr> c = (Inr x, c')"
    by (auto simp: client_detach_def try_then_Inr_iff)
  from call_answered [OF assms(1) this] show ?thesis by metis
qed

lemma detach_names_its_session_witness:
  "\<exists>consumed x. answered (sample_signer_env allow_all_authorize) (detach_request_to_string sample_json)
     (detach_result_from_value sample_json) METHOD_DETACH \<lparr>dp_session_id = ''session''\<rparr> 1 consumed
     (outgoing (transport (snd sample_detach))) x"
proof -
  let ?E = "sample_signer_env allow_all_authorize"
  let ?c = "client_new (fake_scripted [''sign'', ''detach-ok'', ''sign'']) \<lparr>secret_key = ()\<rparr> AllowAllSignPolicy"
  let ?sess = "\<lparr>session_id = ''session'', engine_capabilities = [], profile_did = ''''\<rparr>"
  have "client_detach ?E ?sess ?c = try_then sample_detach (\<lambda>_ c. (Inr (), c))"
    by (simp add: client_detach_def)
  also have "\<dots> = (Inr (), snd sample_detach)"
    by (subst sample_detach_result) simp
  finally have "client_detach ?E ?sess ?c = (Inr (), snd sample_detach)" .
  from detach_names_its_session [OF _ this] show ?thesis
    by (auto simp: client_new_def fake_scripted_def)
qed

text \<open>
  The request counter at its end.  When the 64-bit counter is exhausted a debug build panics
  before anything is sent, and a release build sends the request under the last id and continues at
  zero.
\<close>

lemma request_counter_at_the_end:
  assumes "next_id c = - 1"
  shows "if debug_build E then client_call E to_str fv meth params c = (Inl Panic, c)
    else next_id (snd (client_call E to_str fv meth params c)) = 0"
  using assms call_next_id [of E to_str fv meth params c, OF surjective_pairing]
  by (auto simp: client_call_def)

lemma request_counter_at_the_end_witness:
  "fst (client_call (sample_signer_env allow_all_authorize) (detach_request_to_string sample_json)
     (detach_result_from_value sample_json) METHOD_DETACH \<lparr>dp_session_id = ''session''\<rparr>
     (client_new (fake_scripted [''detach-ok'']) \<lparr>secret_key = ()\<rparr> AllowAllSignPolicy\<lparr>next_id := - 1\<rparr>))
   = Inl Panic"
  using request_counter_at_the_end [of "client_new (fake_scripted [''detach-ok'']) \<lparr>secret_key = ()\<rparr>
      AllowAllSignPolicy\<lparr>next_id := - 1\<rparr>" "sample_signer_env allow_all_authorize"
      "detach_request_to_string sample_json" "detach_result_from_value sample_json" METHOD_DETACH
      "\<lparr>dp_session_id = ''session''\<rparr>"]
  by simp

end
