(* ===== verification/Client_Liveness.thy ===== *)
theory Client_Liveness
  imports Client_Protocol
begin

text \<open>
  That the client succeeds: against a peer that answers, interleaving no more callbacks than the
  bound allows, a request returns the value of its response and the handshake returns a session.
  \<open>Client_Protocol\<close> says what a success means; this theory says when there is one.
\<close>

section \<open>A peer that answers\<close>

text \<open>
  The frames a request reads from such a peer: callbacks that can be answered, then the response.
\<close>

definition cooperates ::
  "('v, 't, 's, 'p) client_env \<Rightarrow> ('v \<Rightarrow> string + 'r) \<Rightarrow> u64 \<Rightarrow> 'r \<Rightarrow> string list \<Rightarrow> bool" where
  "cooperates E fv rid x script \<longleftrightarrow>
     script \<noteq> [] \<and> length script \<le> Suc MAX_INTERLEAVED_CALLBACKS
     \<and> list_all (answerable E) (butlast script) \<and> responds_with E fv rid (last script) x"

lemma read_response_completes:
  assumes fake: "cl_transport E = fake_transport_ops" and ser: "serialises_replies E"
    and answer: "responds_with E fv rid raw x"
  shows "incoming (transport c) = served @ raw # rest \<Longrightarrow> list_all (answerable E) served \<Longrightarrow>
    n + length served \<le> MAX_INTERLEAVED_CALLBACKS \<Longrightarrow>
    \<exists>c'. read_response E fv rid n c = (Inr x, c') \<and> incoming (transport c') = rest"
proof (induction served arbitrary: n c)
  case Nil
  let ?c = "c\<lparr>transport := (transport c)\<lparr>incoming := rest\<rparr>\<rparr>"
  have "client_recv E c = (Inr raw, ?c)" using Nil.prems(1) by (simp add: fake_client_recv [OF fake])
  with answer have "read_response E fv rid n c = (Inr x, ?c)"
    by (subst read_response_unfold)
      (auto simp: responds_with_def frame_response_Inr split: sum.splits)
  then show ?case by simp
next
  case (Cons f served)
  let ?c = "c\<lparr>transport := (transport c)\<lparr>incoming := served @ raw # rest\<rparr>\<rparr>"
  have recv: "client_recv E c = (Inr f, ?c)"
    using Cons.prems(1) by (simp add: fake_client_recv [OF fake])
  from Cons.prems(2) obtain frame params where frame: "incoming_frame_from_str (cl_json E) f = Inr frame"
    "if_method frame = Some METHOD_SIGN" "callback_params E frame = Inr params"
    by (auto simp: answerable_def split: sum.splits)
  obtain d c2 where d: "service_sign_callback E frame ?c = (Inr d, c2)"
    using service_answerable [OF fake ser frame(3)] by blast
  from fake_service [OF fake d] have "incoming (transport c2) = served @ raw # rest" by simp
  from Cons.IH [OF this, of "Suc n"] Cons.prems(2,3) obtain c' where
    "read_response E fv rid (Suc n) c2 = (Inr x, c')" "incoming (transport c') = rest" by auto
  with recv frame d Cons.prems(3) show ?case by (subst read_response_unfold) auto
qed

lemma call_completes:
  assumes fake: "cl_transport E = fake_transport_ops" and ser: "serialises_replies E"
    and "to_str \<lparr>rq_jsonrpc = JSONRPC_VERSION, rq_id = next_id c, rq_method = meth, rq_params = params\<rparr>
      = Inr request"
    and "next_id c \<noteq> - 1" and script: "cooperates E fv (next_id c) x script"
    and "incoming (transport c) = script @ rest"
  obtains c' where "client_call E to_str fv meth params c = (Inr x, c')" "incoming (transport c') = rest"
    "next_id c' = next_id c + 1"
proof -
  let ?c = "c\<lparr>next_id := next_id c + 1,
    transport := (transport c)\<lparr>outgoing := outgoing (transport c) @ [request]\<rparr>\<rparr>"
  have "incoming (transport ?c) = butlast script @ last script # rest"
    using script assms(6) by (simp add: cooperates_def append_butlast_last_id [symmetric] del: append_butlast_last_id)
  moreover have "0 + length (butlast script) \<le> MAX_INTERLEAVED_CALLBACKS"
    using script by (cases script) (simp_all add: cooperates_def)
  ultimately obtain c' where c': "read_response E fv (next_id c) 0 ?c = (Inr x, c')" "incoming (transport c') = rest"
    using read_response_completes [OF fake ser] script by (fastforce simp: cooperates_def)
  then have "client_call E to_str fv meth params c = (Inr x, c')"
    using assms(3,4) by (simp add: client_call_def Let_def fake_client_send [OF fake])
  with c'(2) that call_next_id [OF this] assms(4) show thesis by simp
qed

section \<open>A signer that signs\<close>

text \<open>
  As long as only the client uses it, the signer names one key and signs everything: an unlocked
  profile.
\<close>

definition unlocked :: "'s session_signer \<Rightarrow> 's \<Rightarrow> bool" where
  "unlocked S s0 \<longleftrightarrow> (\<exists>key. \<forall>s. signer_reaches S s0 s \<longrightarrow>
     fst (signing_public_key_hex S s) = key \<and> (\<forall>m. fst (try_sign S s m) \<noteq> None))"

lemma unlocked_test_signer: "unlocked (test_signer_ops H K) s"
  by (auto simp: unlocked_def test_signer_ops_def default_try_sign_def
      default_signing_public_key_hex_def dest!: signer_reaches_stateless [unfolded test_signer_ops_def])

text \<open>Every request serialises.\<close>

definition serialises_requests :: "('v, 't, 's, 'p) client_env \<Rightarrow> bool" where
  "serialises_requests E \<longleftrightarrow>
     (\<forall>r. \<exists>s. begin_request_to_string (cl_json E) r = Inr s)
     \<and> (\<forall>r. \<exists>s. attach_request_to_string (cl_json E) r = Inr s)"

lemma begin_phase_completes:
  assumes fake: "cl_transport E = fake_transport_ops" and ser: "serialises_replies E"
    and req: "serialises_requests E" and unlocked: "unlocked (cl_signer E) (signer c)"
    and "next_id c \<noteq> - 1" and "cooperates E (begin_result_from_value (cl_json E)) (next_id c) br script"
    and "incoming (transport c) = script @ rest"
    and nonce: "b64_decode (cl_b64 E) (str_bytes (nonce_b64 br)) = Some nonce" "length nonce = NONCE_LEN"
  obtains s sig sent c' where "begin_phase E prof c = (Inr (br, sig), c')" "incoming (transport c') = rest"
    "outgoing (transport c') = outgoing (transport c) @ sent" "next_id c' = next_id c + 1"
    "signer_reaches (cl_signer E) (signer c) s"
    "fst (try_sign (cl_signer E) s (challenge_message nonce (did prof))) = Some sig"
proof -
  from unlocked obtain key where
    names: "\<And>s. signer_reaches (cl_signer E) (signer c) s \<Longrightarrow> fst (signing_public_key_hex (cl_signer E) s) = key"
    and signs: "\<And>s m. signer_reaches (cl_signer E) (signer c) s \<Longrightarrow> fst (try_sign (cl_signer E) s m) \<noteq> None"
    by (auto simp: unlocked_def)
  have key: "fst (client_pubkey_hex E d) = key" if "signer_reaches (cl_signer E) (signer c) (signer d)" for d
    using names [OF that] by (auto simp: client_pubkey_hex_def split: prod.split)
  obtain c1 where c1: "client_pubkey_hex E c = (key, c1)"
    using key [of c] reaches_start by (metis prod.collapse)
  let ?q = "\<lparr>bp_profile_did = did prof, signing_pubkey_hex = key\<rparr>"
  from client_pubkey_frame [OF c1] assms(5-7) have start: "next_id c1 = next_id c" "next_id c1 \<noteq> - 1"
    "cooperates E (begin_result_from_value (cl_json E)) (next_id c1) br script"
    "incoming (transport c1) = script @ rest" by simp_all
  obtain request where "begin_request_to_string (cl_json E)
      \<lparr>rq_jsonrpc = JSONRPC_VERSION, rq_id = next_id c1, rq_method = METHOD_BEGIN, rq_params = ?q\<rparr> = Inr request"
    using req by (auto simp: serialises_requests_def)
  from fake ser this start(2-4) obtain c2 where call: "client_call E (begin_request_to_string (cl_json E))
      (begin_result_from_value (cl_json E)) METHOD_BEGIN ?q c1 = (Inr br, c2)"
    and c2: "incoming (transport c2) = rest" "next_id c2 = next_id c1 + 1"
    by (rule call_completes)
  obtain sent where sent: "outgoing (transport c2) = outgoing (transport c1) @ sent"
    by (rule call_answered [OF fake call])
  have r2: "signer_reaches (cl_signer E) (signer c) (signer c2)"
    by (rule reaches.call_kept [OF call reaches_pubkey [OF c1 reaches_start]])
  obtain c3 where c3: "(if debug_build E then client_pubkey_hex E c2 else (key, c2)) = (key, c3)"
    using key [OF r2] by (cases "debug_build E"; cases "client_pubkey_hex E c2") auto
  with r2 have r3: "signer_reaches (cl_signer E) (signer c) (signer c3)"
    by (auto intro: reaches_pubkey split: if_splits)
  obtain sig c4 where c4: "client_try_sign E (challenge_message nonce (did prof)) c3 = (Some sig, c4)"
    and sig: "fst (try_sign (cl_signer E) (signer c3) (challenge_message nonce (did prof))) = Some sig"
    using signs [OF r3, of "challenge_message nonce (did prof)"]
    by (cases "try_sign (cl_signer E) (signer c3) (challenge_message nonce (did prof))")
      (auto simp: client_try_sign_def)
  have "transport c4 = transport c2 \<and> next_id c4 = next_id c2"
    using c3 client_try_sign_frame [OF c4] by (auto dest: client_pubkey_frame split: if_splits)
  moreover have "begin_phase E prof c = (Inr (br, sig), c4)"
    using c1 call nonce c3 c4 by (simp add: begin_phase_def)
  ultimately show thesis
    using that [OF _ _ _ _ r3 sig] c2 sent start(1) client_pubkey_frame [OF c1] by simp
qed

text \<open>The handshake: what the client returns, and what it sends for it.\<close>

lemma handshake_completes:
  assumes fake: "cl_transport E = fake_transport_ops" and ser: "serialises_replies E"
    and req: "serialises_requests E" and unlocked: "unlocked (cl_signer E) (signer c)"
    and ids: "next_id c \<noteq> - 1" "next_id c + 1 \<noteq> - 1"
    and begins: "cooperates E (begin_result_from_value (cl_json E)) (next_id c) br script1"
    and nonce: "b64_decode (cl_b64 E) (str_bytes (nonce_b64 br)) = Some nonce" "length nonce = NONCE_LEN"
    and attaches: "cooperates E (attach_result_from_value (cl_json E)) (next_id c + 1) att script2"
    and script: "incoming (transport c) = script1 @ script2 @ rest"
  obtains c' s sig sent1 sent2 consumed where
    "begin_and_attach E prof c = (Inr \<lparr>session_id = ar_session_id att,
        engine_capabilities = ar_engine_capabilities att, profile_did = did prof\<rparr>, c')"
    "incoming (transport c') = rest" "outgoing (transport c') = outgoing (transport c) @ sent1 @ sent2"
    "signer_reaches (cl_signer E) (signer c) s"
    "fst (try_sign (cl_signer E) s (challenge_message nonce (did prof))) = Some sig"
    "attach_answered E prof (br_session_candidate br) sig (next_id c + 1) consumed sent2 att"
    "next_id c' = next_id c + 2"
proof -
  from fake ser req unlocked ids(1) begins script nonce obtain s sig sent1 c1 where
    phase: "begin_phase E prof c = (Inr (br, sig), c1)" "incoming (transport c1) = script2 @ rest"
    and sent1: "outgoing (transport c1) = outgoing (transport c) @ sent1"
    and c1: "next_id c1 = next_id c + 1"
    and sig: "signer_reaches (cl_signer E) (signer c) s"
      "fst (try_sign (cl_signer E) s (challenge_message nonce (did prof))) = Some sig"
    by (rule begin_phase_completes)
  let ?q = "\<lparr>ap_session_candidate = br_session_candidate br,
    ap_signature_b64 = b64_encode (cl_b64 E) (array_bytes (sig_as_bytes sig)), profile = prof\<rparr>"
  obtain request where "attach_request_to_string (cl_json E)
      \<lparr>rq_jsonrpc = JSONRPC_VERSION, rq_id = next_id c1, rq_method = METHOD_ATTACH, rq_params = ?q\<rparr> = Inr request"
    using req by (auto simp: serialises_requests_def)
  from fake ser this ids(2) [folded c1] attaches [folded c1] phase(2) obtain c' where
    call: "client_call E (attach_request_to_string (cl_json E)) (attach_result_from_value (cl_json E))
      METHOD_ATTACH ?q c1 = (Inr att, c')" and rest: "incoming (transport c') = rest"
    and next_id: "next_id c' = next_id c1 + 1"
    by (rule call_completes)
  from fake call obtain consumed sent2 where
    "outgoing (transport c') = outgoing (transport c1) @ sent2"
    "attach_answered E prof (br_session_candidate br) sig (next_id c1) consumed sent2 att"
    by (rule call_answered)
  moreover from phase(1) call have "begin_and_attach E prof c = (Inr \<lparr>session_id = ar_session_id att,
        engine_capabilities = ar_engine_capabilities att, profile_did = did prof\<rparr>, c')"
    by (simp add: begin_and_attach_phases attach_phase_def)
  ultimately show thesis using that [OF _ rest _ sig] sent1 c1 next_id by simp
qed

text \<open>A detach against a peer that answers.\<close>

lemma detach_completes:
  assumes fake: "cl_transport E = fake_transport_ops" and ser: "serialises_replies E"
    and req: "\<forall>r. \<exists>s. detach_request_to_string (cl_json E) r = Inr s" and "next_id c \<noteq> - 1"
    and "cooperates E (detach_result_from_value (cl_json E)) (next_id c) DetachResult script"
    and script: "incoming (transport c) = script @ rest"
  obtains c' consumed sent where "client_detach E sess c = (Inr (), c')" "incoming (transport c') = rest"
    "outgoing (transport c') = outgoing (transport c) @ sent"
    "answered E (detach_request_to_string (cl_json E)) (detach_result_from_value (cl_json E)) METHOD_DETACH
      \<lparr>dp_session_id = session_id sess\<rparr> (next_id c) consumed sent DetachResult"
proof -
  let ?q = "\<lparr>dp_session_id = session_id sess\<rparr>"
  obtain request where "detach_request_to_string (cl_json E)
      \<lparr>rq_jsonrpc = JSONRPC_VERSION, rq_id = next_id c, rq_method = METHOD_DETACH, rq_params = ?q\<rparr> = Inr request"
    using req by blast
  from fake ser this assms(4,5) script obtain c' where
    call: "client_call E (detach_request_to_string (cl_json E)) (detach_result_from_value (cl_json E))
      METHOD_DETACH ?q c = (Inr DetachResult, c')" and rest: "incoming (transport c') = rest"
    by (rule call_completes)
  from fake call obtain consumed sent where "outgoing (transport c') = outgoing (transport c) @ sent"
    "answered E (detach_request_to_string (cl_json E)) (detach_result_from_value (cl_json E)) METHOD_DETACH ?q
      (next_id c) consumed sent DetachResult"
    by (rule call_answered)
  moreover from call have "client_detach E sess c = (Inr (), c')" by (simp add: client_detach_def)
  ultimately show thesis using rest that by blast
qed

section \<open>Property\<close>

text \<open>
  C11. The handshake succeeds against a peer that answers.  Over the scripted transport and with an
  unlocked signer, if the script holds at most \<open>MAX_INTERLEAVED_CALLBACKS\<close> answerable callbacks and
  then a begin response with a 32-byte nonce, and again at most so many and then an attach response,
  \<open>begin_and_attach\<close> returns the session the attach response names and leaves the rest of the
  script unread.
\<close>

theorem cooperative_peer_gives_a_session:
  assumes fake: "cl_transport E = fake_transport_ops" and ser: "serialises_replies E"
    and req: "serialises_requests E" and unlocked: "unlocked (cl_signer E) (signer c)"
    and ids: "next_id c \<noteq> - 1" "next_id c + 1 \<noteq> - 1"
    and begins: "cooperates E (begin_result_from_value (cl_json E)) (next_id c) br script1"
    and "b64_decode (cl_b64 E) (str_bytes (nonce_b64 br)) = Some nonce" and "length nonce = NONCE_LEN"
    and attaches: "cooperates E (attach_result_from_value (cl_json E)) (next_id c + 1) att script2"
    and "incoming (transport c) = script1 @ script2 @ rest"
  shows "\<exists>c'. begin_and_attach E prof c = (Inr \<lparr>session_id = ar_session_id att,
        engine_capabilities = ar_engine_capabilities att, profile_did = did prof\<rparr>, c')
      \<and> incoming (transport c') = rest"
  by (rule handshake_completes [OF assms]) blast

text \<open>The handshake of the samples, with a callback before each response.\<close>

theorem cooperative_peer_gives_a_session_witness:
  "fst (begin_and_attach (sample_signer_env allow_all_authorize) sample_profile
     (client_new (fake_scripted [''sign'', ''begin-ok'', ''sign'', ''sign'', ''attach-ok'', ''stray''])
       \<lparr>secret_key = ()\<rparr> AllowAllSignPolicy))
   = Inr \<lparr>session_id = ''session'', engine_capabilities = [''sign''], profile_did = ''did:chia:alice''\<rparr>"
proof -
  let ?E = "sample_signer_env allow_all_authorize"
  let ?c = "client_new (fake_scripted [''sign'', ''begin-ok'', ''sign'', ''sign'', ''attach-ok'', ''stray''])
    \<lparr>secret_key = ()\<rparr> AllowAllSignPolicy"
  let ?br = "\<lparr>nonce_b64 = replicate 32 CHR ''n'', br_session_candidate = ''candidate''\<rparr>"
    and ?att = "\<lparr>ar_session_id = ''session'', ar_engine_capabilities = [''sign'']\<rparr>"
  have sign: "answerable ?E ''sign''"
    by (simp add: answerable_def callback_params_def sample_json_def sample_parse_def sign_frame_def)
  have "cooperates ?E sample_begin 1 ?br [''sign'', ''begin-ok'']"
    "cooperates ?E sample_attach 2 ?att [''sign'', ''sign'', ''attach-ok'']"
    using sign by (simp_all add: cooperates_def MAX_INTERLEAVED_CALLBACKS_def responds_with_def sample_defs)
  then obtain c' where "begin_and_attach ?E sample_profile ?c = (Inr \<lparr>session_id = ''session'',
      engine_capabilities = [''sign''], profile_did = did sample_profile\<rparr>, c')"
    using cooperative_peer_gives_a_session [of ?E ?c ?br "[''sign'', ''begin-ok'']" "str_bytes (replicate 32 CHR ''n'')"
        ?att "[''sign'', ''sign'', ''attach-ok'']" "[''stray'']" sample_profile]
    by (auto simp: unlocked_test_signer serialises_replies_def serialises_requests_def sample_json_def
        client_new_def fake_scripted_def sample_b64_def NONCE_LEN_def)
  then show ?thesis by simp
qed

end
