(* ===== verification/Client_Json.thy ===== *)
theory Client_Json
  imports Wire_Json Client_Liveness
begin

text \<open>
  The JSON library of the client made of the shapes of \<open>Wire_Json\<close> and a text form.  It meets what
  the properties of the client assume of one: everything the client sends is written, and the frames a
  peer writes for its answers and its callbacks are read as such.
\<close>

definition or_error :: "'a option \<Rightarrow> string + 'a" where
  "or_error r = (case r of None \<Rightarrow> Inl ''invalid JSON or shape'' | Some a \<Rightarrow> Inr a)"

definition derived_json :: "'f json_text \<Rightarrow> 'f json serde_json" where
  "derived_json J =
     \<lparr>value_null = J_Null, as_u64 = u64_of_json,
      begin_request_to_string = (\<lambda>r. Inr (text_of_json J (json_of_rpc_request json_of_begin_params r))),
      attach_request_to_string = (\<lambda>r. Inr (text_of_json J (json_of_rpc_request json_of_attach_params r))),
      detach_request_to_string = (\<lambda>r. Inr (text_of_json J (json_of_rpc_request json_of_detach_params r))),
      sign_result_to_string = (\<lambda>r. Inr (text_of_json J (json_of_rpc_result json_of_sign_result r))),
      error_reply_to_string = (\<lambda>r. Inr (text_of_json J (json_of_rpc_error_reply r))),
      incoming_frame_from_str = (\<lambda>s. or_error (read_from_str J incoming_frame_of_json s)),
      begin_result_from_value = or_error \<circ> begin_result_of_json,
      attach_result_from_value = or_error \<circ> attach_result_of_json,
      detach_result_from_value = or_error \<circ> detach_result_of_json,
      sign_params_from_value = or_error \<circ> sign_params_of_json\<rparr>"

lemma or_error_Some [simp]: "or_error (Some a) = Inr a"
  by (simp add: or_error_def)

lemma derived_json_serialises:
  assumes "cl_json E = derived_json J"
  shows "serialises_replies E" and "serialises_requests E"
    and "\<forall>r. \<exists>s. detach_request_to_string (cl_json E) r = Inr s"
  using assms by (simp_all add: serialises_replies_def serialises_requests_def derived_json_def)

text \<open>The text of a value that reads back.\<close>

definition reads_back :: "'f json_text \<Rightarrow> 'f json \<Rightarrow> bool" where
  "reads_back J v \<longleftrightarrow> json_of_text J (text_of_json J v) = Some v"

definition response_json :: "('r \<Rightarrow> 'f json) \<Rightarrow> u64 \<Rightarrow> 'r \<Rightarrow> 'f json" where
  "response_json write rid x = json_of_rpc_result write \<lparr>rs_jsonrpc = JSONRPC_VERSION, rs_id = json_u64 rid, rs_result = x\<rparr>"

lemma response_frame:
  "write x \<noteq> J_Null \<Longrightarrow> incoming_frame_of_json (response_json write rid x) =
     Some \<lparr>if_id = Some (json_u64 rid), if_method = None, if_params = None, if_result = Some (write x), if_error = None\<rparr>"
  by (simp add: response_json_def incoming_frame_of_json_def json_of_rpc_result_def reading_simps
      option_of_json_simps option_of_optional(1))

lemma written_response_is_read:
  assumes "cl_json E = derived_json J" and "reads_back J (response_json write rid x)"
    and "write x \<noteq> J_Null" and "fv (write x) = Inr x"
  shows "responds_with E fv rid (text_of_json J (response_json write rid x)) x"
  using assms
  by (simp add: responds_with_def derived_json_def read_from_str_def reads_back_def response_frame u64_of_json_u64)

lemma answers_are_objects:
  "json_of_begin_result br \<noteq> J_Null" "json_of_attach_result ar \<noteq> J_Null" "json_of_detach_result dr \<noteq> J_Null"
  by (simp_all add: json_of_begin_result_def json_of_attach_result_def json_of_detach_result_def json_object_def)

lemma written_answers_cooperate:
  assumes "cl_json E = derived_json J"
  shows "reads_back J (response_json json_of_begin_result rid br) \<Longrightarrow>
      cooperates E (begin_result_from_value (cl_json E)) rid br
        [text_of_json J (response_json json_of_begin_result rid br)]"
    and "reads_back J (response_json json_of_attach_result rid ar) \<Longrightarrow>
      cooperates E (attach_result_from_value (cl_json E)) rid ar
        [text_of_json J (response_json json_of_attach_result rid ar)]"
    and "reads_back J (response_json json_of_detach_result rid dr) \<Longrightarrow>
      cooperates E (detach_result_from_value (cl_json E)) rid dr
        [text_of_json J (response_json json_of_detach_result rid dr)]"
  by (auto simp: cooperates_def assms derived_json_def answers_are_objects begin_round_trip attach_round_trip
      detach_round_trip intro!: written_response_is_read [OF assms])

text \<open>
  A callback the engine writes as a \<open>sign\<close> request can be answered.
\<close>

lemma written_callback_is_answerable:
  fixes rq :: "'f json sign_callback_params rpc_request"
  assumes "cl_json E = derived_json J" and "rq_method rq = METHOD_SIGN"
    and "reads_back J (json_of_rpc_request json_of_sign_params rq)"
  shows "answerable E (text_of_json J (json_of_rpc_request json_of_sign_params rq))"
proof -
  have "json_of_sign_params (rq_params rq) \<noteq> J_Null" by (simp add: json_of_sign_params_def json_object_def)
  then have "incoming_frame_of_json (json_of_rpc_request json_of_sign_params rq) =
      Some \<lparr>if_id = Some (json_u64 (rq_id rq)), if_method = Some METHOD_SIGN,
        if_params = Some (json_of_sign_params (rq_params rq)), if_result = None, if_error = None\<rparr>"
    using assms(2) by (simp add: incoming_frame_of_json_def json_of_rpc_request_def reading_simps
      option_of_json_simps option_of_optional(1))
  with assms(1,3) show ?thesis
    by (simp add: answerable_def derived_json_def read_from_str_def reads_back_def callback_params_def sign_round_trip)
qed

end
