(* ===== verification/Client_Registry.thy ===== *)
theory Client_Registry
  imports Client
begin

text \<open>
  The app's registry of live sessions, \<open>SessionRegistry\<close> of \<open>src/client.rs\<close>, against its
  history: what it holds after any sequence of insertions and removals.
\<close>

section \<open>Histories\<close>

datatype registry_op = Insert session | Remove string

fun registry_step :: "registry_op \<Rightarrow> session_registry \<Rightarrow> session_registry" where
  "registry_step (Insert s) r = registry_insert s r"
| "registry_step (Remove d) r = snd (registry_remove d r)"

definition registry_run :: "registry_op list \<Rightarrow> session_registry" where
  "registry_run ops = fold registry_step ops registry_new"

text \<open>The live session of a DID by the history, newest operation first.\<close>

fun live :: "registry_op list \<Rightarrow> string \<Rightarrow> session option" where
  "live [] d = None"
| "live (Insert s # ops) d = (if profile_did s = d then Some s else live ops d)"
| "live (Remove d' # ops) d = (if d' = d then None else live ops d)"

lemma registry_simps [simp]:
  "registry_get registry_new d = None"
  "registry_get (registry_insert s r) d = (if d = profile_did s then Some s else registry_get r d)"
  "registry_get (snd (registry_remove d' r)) d = (if d = d' then None else registry_get r d)"
  "fst (registry_remove d r) = registry_get r d"
  by (simp_all add: registry_get_def registry_new_def registry_insert_def registry_remove_def)

lemma registry_run_snoc [simp]: "registry_run (ops @ [op]) = registry_step op (registry_run ops)"
  by (simp add: registry_run_def)

lemma registry_get_run: "registry_get (registry_run ops) d = live (rev ops) d"
proof (induction ops rule: rev_induct)
  case (snoc op ops)
  then show ?case by (cases op) auto
qed (simp add: registry_run_def)

lemma live_did: "live ops d = Some s \<Longrightarrow> profile_did s = d"
  by (induction ops d rule: live.induct) (auto split: if_splits)

lemma registry_len_keys: "registry_len r = card (dom (registry_get r))"
proof -
  have "registry_get r = hm_get (by_did r)" by (simp add: registry_get_def fun_eq_iff)
  then show ?thesis by (simp only: registry_len_def hm.count_keys)
qed

section \<open>Property\<close>

text \<open>
  C33. The registry holds, for each DID, the session inserted last if no removal of the DID came
  later, and that session is the DID's own; removing returns what a lookup would have returned; the
  length counts the DIDs with a live session, and the registry is empty exactly if there is none.
\<close>

theorem registry_tracks_live_sessions:
  "registry_get (registry_run ops) d = live (rev ops) d
   \<and> map_option profile_did (registry_get (registry_run ops) d) \<in> {None, Some d}
   \<and> fst (registry_remove d (registry_run ops)) = live (rev ops) d
   \<and> registry_len (registry_run ops) = card (dom (live (rev ops)))
   \<and> (registry_is_empty (registry_run ops) \<longleftrightarrow> (\<forall>d. live (rev ops) d = None))"
proof -
  have get: "registry_get (registry_run ops) = live (rev ops)"
    by (simp add: fun_eq_iff registry_get_run)
  have len: "registry_len (registry_run ops) = card (dom (live (rev ops)))"
    by (simp add: registry_len_keys get)
  have "registry_get (registry_run ops) = hm_get (by_did (registry_run ops))"
    by (simp add: registry_get_def fun_eq_iff)
  then have "finite (dom (live (rev ops)))"
    using hm.finite_keys [of "by_did (registry_run ops)"] by (simp only: get [symmetric])
  with len have "registry_is_empty (registry_run ops) \<longleftrightarrow> dom (live (rev ops)) = {}"
    by (simp add: registry_is_empty_def registry_len_def)
  then show ?thesis
    using get len live_did [of "rev ops" d] by (cases "live (rev ops) d") (auto simp: dom_def)
qed

end
