(* ===== verification/Client_Panics.thy ===== *)
theory Client_Panics
  imports Client_Protocol
begin

text \<open>
  When the client panics.  The peer can never cause it: no frame, no callback and no failure of the pipe
  makes an operation panic.  What remains are the two assertions a debug build compiles in, the
  overflow of the request counter and the check that the signer's key did not change during a
  handshake.
\<close>

section \<open>Calls that never panic\<close>

definition calm :: "('e failure + 'a) \<times> 's \<Rightarrow> bool" where
  "calm r \<longleftrightarrow> (case fst r of Inl Panic \<Rightarrow> False | _ \<Rightarrow> True)"

lemma calm_simps [simp]:
  "calm (Inr a, s)" "calm (Inl e, s) \<longleftrightarrow> e \<noteq> Panic" "calm (map_err f x, s)"
  by (simp add: calm_def, cases e, simp_all add: calm_def map_err_def split: sum.split)

lemma calm_iff: "calm r \<longleftrightarrow> fst r \<noteq> Inl Panic"
  by (auto simp: calm_def split: sum.splits failure.splits)

lemma calm_try_then: "calm r \<Longrightarrow> (\<And>a s. r = (Inr a, s) \<Longrightarrow> calm (k a s)) \<Longrightarrow> calm (try_then r k)"
  by (cases r; cases "fst r") (auto simp: calm_iff)

lemma seams_calm [simp]: "calm (client_send E f c)" "calm (client_recv E c)"
  by (simp_all add: client_send_def client_recv_def split: prod.split)

lemma replies_calm [simp]: "calm (send_error E rid code msg c)" "calm (send_result E rid res c)"
  by (simp_all add: send_error_def send_result_def split: sum.split)

lemma service_calm [simp]: "calm (service_sign_callback E frame c)"
  by (auto simp: service_decides_then_replies reply_verdict_def intro: calm_try_then
      split: prod.split verdict.split)

lemma read_response_calm [simp]: "calm (read_response E fv rid n c)"
proof -
  obtain r c' where run: "read_response E fv rid n c = (r, c')" by fastforce
  then have "calm (r, c')"
  proof (induction rule: read_response_induct)
    case (recv_error n c e c1)
    from seams_calm(2) [of E c] show ?case unfolding recv_error by simp
  next
    case (callback_error n c raw c1 frame e c2)
    from service_calm [of E frame c1] show ?case unfolding callback_error(5) by simp
  next
    case (response n c raw c1 frame)
    then show ?case by (simp add: frame_response_def split: option.split)
  qed simp_all
  with run show ?thesis by simp
qed

text \<open>A request panics exactly when a debug build has no identifier left for it.\<close>

lemma call_calm: "calm (client_call E to_str fv meth params c) \<longleftrightarrow> \<not> (debug_build E \<and> next_id c = - 1)"
  by (auto simp: client_call_def Let_def intro: calm_try_then split: sum.split)

lemma detach_calm: "calm (client_detach E sess c) \<longleftrightarrow> \<not> (debug_build E \<and> next_id c = - 1)"
  unfolding client_detach_def
  by (cases "debug_build E \<and> next_id c = - 1")
    (simp add: client_call_def, auto simp: call_calm intro: calm_try_then)

section \<open>Handshakes\<close>

text \<open>The signer answers with one key, whatever the client asks of it.\<close>

definition constant_key :: "'s session_signer \<Rightarrow> 's \<Rightarrow> bool" where
  "constant_key S s \<longleftrightarrow>
     (\<forall>s'. signer_reaches S s s' \<longrightarrow> fst (signing_public_key_hex S s') = fst (signing_public_key_hex S s))"

lemma begin_phase_calm:
  assumes key: "constant_key (cl_signer E) (signer c)" and id: "\<not> (debug_build E \<and> next_id c = - 1)"
  shows "calm (begin_phase E prof c)
    \<and> (\<forall>x c'. begin_phase E prof c = (Inr x, c') \<longrightarrow> next_id c' = next_id c + 1)"
proof -
  obtain h c1 where h: "client_pubkey_hex E c = (h, c1)" by fastforce
  let ?call = "client_call E (begin_request_to_string (cl_json E)) (begin_result_from_value (cl_json E))
    METHOD_BEGIN \<lparr>bp_profile_did = did prof, signing_pubkey_hex = h\<rparr> c1"
  have id1: "next_id c1 = next_id c" using client_pubkey_frame [OF h] by simp
  have first: "h = fst (signing_public_key_hex (cl_signer E) (signer c))"
    using h by (auto simp: client_pubkey_hex_def split: prod.splits)
  have c1: "signer_reaches (cl_signer E) (signer c) (signer c1)"
    using h reaches_start by (rule reaches_pubkey)
  obtain x c2 where run: "?call = (x, c2)" by fastforce
  from id have "calm ?call" by (simp add: call_calm id1)
  then have x: "x \<noteq> Inl Panic" using run by (simp add: calm_iff)
  have id2: "next_id c2 = next_id c + 1" using call_next_id [OF run] id by (simp add: id1 split: if_splits)
  from run c1 have "signer_reaches (cl_signer E) (signer c) (signer c2)" by (rule reaches.call_kept)
  with key have same: "fst (signing_public_key_hex (cl_signer E) (signer c2)) = h"
    by (simp add: constant_key_def first)
  obtain c3 where c3: "client_pubkey_hex E c2 = (h, c3)"
    using same by (cases "client_pubkey_hex E c2") (auto simp: client_pubkey_hex_def split: prod.splits)
  have id3: "next_id c3 = next_id c2" using client_pubkey_frame [OF c3] by simp
  show ?thesis
    using x id2 id3 by (cases x)
      (auto simp: begin_phase_def h run c3 calm_iff dest: client_try_sign_frame
        split: option.split option.splits prod.split prod.splits if_splits)
qed

lemma begin_and_attach_calm:
  assumes key: "constant_key (cl_signer E) (signer c)"
    and ids: "debug_build E \<Longrightarrow> next_id c \<noteq> - 1 \<and> next_id c \<noteq> - 2"
  shows "calm (begin_and_attach E prof c)"
  unfolding begin_and_attach_phases
proof (rule calm_try_then)
  show "calm (begin_phase E prof c)" using begin_phase_calm [OF key] ids by blast
next
  fix x c1 assume "begin_phase E prof c = (Inr x, c1)"
  with begin_phase_calm [OF key] ids have "next_id c1 = next_id c + 1" by blast
  with ids have "\<not> (debug_build E \<and> next_id c1 = - 1)" by (auto simp: eq_neg_iff_add_eq_0 add.commute)
  then have "calm (attach_phase E prof br sig c1)" for br sig
    unfolding attach_phase_def by (intro calm_try_then) (auto simp: call_calm)
  then show "calm ((case x of (br, sig) \<Rightarrow> attach_phase E prof br sig) c1)" by (cases x) simp
qed

section \<open>Property\<close>

text \<open>
  C32. Panic freedom.  With a signer that keeps its key, whatever arrives: serving a callback never
  panics, a detach panics exactly when a debug build has used up the 64-bit request identifiers, a
  handshake only when fewer than two are left for a debug build, and a re-attachment never, since it
  starts the identifiers again.
\<close>

theorem client_panics_only_at_the_counter_end:
  assumes "constant_key (cl_signer E) (signer c)"
  shows "fst (handle_next_sign_callback E c) \<noteq> Inl Panic
    \<and> (fst (client_detach E sess c) = Inl Panic \<longleftrightarrow> debug_build E \<and> next_id c = - 1)
    \<and> (fst (begin_and_attach E prof c) = Inl Panic \<longrightarrow> debug_build E \<and> (next_id c = - 1 \<or> next_id c = - 2))
    \<and> fst (reattach E t prof c) \<noteq> Inl Panic"
proof -
  have "calm (handle_next_sign_callback E c)"
    unfolding handle_next_sign_callback_def
    by (rule calm_try_then) (simp_all split: sum.split)
  moreover have "calm (reattach E t prof c)"
    unfolding reattach_def by (rule begin_and_attach_calm) (use assms in simp_all)
  ultimately show ?thesis
    using detach_calm [of E sess c] begin_and_attach_calm [OF assms, of prof] by (auto simp: calm_iff)
qed

lemma constant_key_test_signer: "constant_key (test_signer_ops H K) s"
  by (auto simp: constant_key_def dest!: signer_reaches_stateless)

theorem client_panics_only_at_the_counter_end_witness:
  "fst (client_detach (sample_signer_env allow_all_authorize)
     \<lparr>session_id = ''session'', engine_capabilities = [], profile_did = ''did:chia:alice''\<rparr>
     (client_new (fake_scripted [''detach-ok'']) \<lparr>secret_key = ()\<rparr> AllowAllSignPolicy\<lparr>next_id := - 1\<rparr>)) = Inl Panic"
proof -
  have "constant_key (cl_signer (sample_signer_env allow_all_authorize)) (signer
      (client_new (fake_scripted [''detach-ok'']) \<lparr>secret_key = ()\<rparr> AllowAllSignPolicy\<lparr>next_id := - 1\<rparr>))"
    by (simp add: constant_key_test_signer)
  from client_panics_only_at_the_counter_end [OF this] show ?thesis by simp
qed

end
