(* ===== verification/Handshake.thy ===== *)
theory Handshake
  imports Engine_Queue Client_Protocol
begin

text \<open>
  Both role-halves together: the attach request the client builds from the engine's begin response is
  accepted by the engine that issued it, and opens a session for the client's profile.
\<close>

section \<open>The pending handshake of a begin request\<close>

lemma issued_twice:
  assumes "distinct (issued es)" and "Begin p (Inr br) \<in> set es" and "Begin p' (Inr br') \<in> set es"
    and "br_session_candidate br' = br_session_candidate br"
  shows "p' = p \<and> br' = br"
  using issued_once [OF assms(1) [unfolded issued_def] assms(2,3)] assms(4) by simp

text \<open>
  A handshake that has not been attempted or evicted: what the engine holds for the candidate is the
  key and the DID of the begin request and the nonce of its response.
\<close>

definition undisturbed :: "string \<Rightarrow> engine_event list \<Rightarrow> bool" where
  "undisturbed candidate es \<longleftrightarrow>
     length (issued es) < MAX_PENDING_CANDIDATES \<and> list_all (\<lambda>ev. \<not> attempts candidate ev) es"

lemma pending_of_begin:
  assumes run: "trace (engine_step X) (engine_new e r) (es1 @ Begin p (Inr br) # es2) g"
    and dist: "distinct (issued (es1 @ Begin p (Inr br) # es2))"
    and calm: "undisturbed (br_session_candidate br) es2"
  obtains cand where "hm_get (pending g) (br_session_candidate br) = Some cand"
    "nonce_b64 br = b64_encode (eng_b64 X) (array_bytes (nonce cand))"
    "key_from_hex (eng_hex X) (signing_pubkey_hex p) = Some (advertised_key cand)"
    "pc_profile_did cand = bp_profile_did p"
proof -
  let ?es = "es1 @ Begin p (Inr br) # es2" and ?c = "br_session_candidate br"
  have "fresh_queue ?es g" using run by (rule queue.inv_trace)
  with dist have m: "mirrored (pending g) (candidate_order g)" and surv: "survivors ?es g"
    by (auto simp: fresh_queue_def)
  from calm have "?c \<in> set (candidate_order g)"
    by (intro survivorsD [OF surv]) (auto simp: undisturbed_def list_all_iff)
  with m obtain cand where cand: "hm_get (pending g) ?c = Some cand"
    by (auto simp: mirrored_def fmlookup_dom'_iff)
  moreover from run have "originated X ?es g" by (rule origin.inv_trace)
  ultimately have "handshake_origin X ?es ?c cand" by (simp add: originated_def)
  then obtain p' br' where mem: "Begin p' (Inr br') \<in> set ?es" "br_session_candidate br' = ?c"
    and origin: "nonce_b64 br' = b64_encode (eng_b64 X) (array_bytes (nonce cand))"
      "key_from_hex (eng_hex X) (signing_pubkey_hex p') = Some (advertised_key cand)"
      "bp_profile_did p' = pc_profile_did cand"
    by (auto simp: handshake_origin_def)
  from mem have "p' = p \<and> br' = br"
    by (intro issued_twice [OF dist]) simp_all
  then have eq: "p' = p" "br' = br" by simp_all
  show ?thesis
    by (rule that [OF cand origin(1) [unfolded eq] origin(2) [unfolded eq] origin(3) [unfolded eq, symmetric]])
qed

section \<open>Completeness\<close>

text \<open>The attach request of a client with the key of \<open>s\<close>, from a begin response.\<close>

definition honest_attach ::
  "'sk bls_keys \<Rightarrow> 'sk test_signer \<Rightarrow> base64_crate \<Rightarrow> profile_attachment \<Rightarrow> begin_result \<Rightarrow> u8 list \<Rightarrow> attach_params" where
  "honest_attach K s B prof br nn =
     \<lparr>ap_session_candidate = br_session_candidate br,
      ap_signature_b64 = b64_encode B
        (array_bytes (sig_as_bytes (test_signer_sign K s (challenge_message nn (did prof))))),
      profile = prof\<rparr>"

lemma honest_attach_authenticated:
  assumes "b64_round_trip (eng_b64 X)" and "bls_correct (eng_bls X) K"
    and "pc_profile_did cand = did prof" and "advertised_key cand = test_signer_public K s"
    and "b64_decode (eng_b64 X) (str_bytes (nonce_b64 br)) = Some nn" and "nn = array_bytes (nonce cand)"
  shows "authenticated X cand (honest_attach K s (eng_b64 X) prof br nn) (Some (test_signer_public K s))"
  using assms
  by (simp add: authenticated_def honest_attach_def decode_signature_def b64_round_trip_def bls_correct_def
      test_signer_sign_def test_signer_public_def)

lemma honest_attach_accepted:
  assumes "hex_round_trip (eng_hex X)" and b64: "b64_round_trip (eng_b64 X)" and "bls_correct (eng_bls X) K"
    and run: "trace (engine_step X) (engine_new e r)
      (es1 @ Begin \<lparr>bp_profile_did = did prof,
        signing_pubkey_hex = key_to_hex (eng_hex X) (test_signer_public K s)\<rparr> (Inr br) # es2) g"
    and "distinct (issued (es1 @ Begin \<lparr>bp_profile_did = did prof,
        signing_pubkey_hex = key_to_hex (eng_hex X) (test_signer_public K s)\<rparr> (Inr br) # es2))"
    and "undisturbed (br_session_candidate br) es2"
    and nn: "b64_decode (eng_b64 X) (str_bytes (nonce_b64 br)) = Some nn"
    and published: "fst (resolve_signing_key X (resolver g) (did prof)) = Some (test_signer_public K s)"
    and "fst (fill_nonce X (entropy g)) = Some n"
  shows "\<exists>g'. engine_attach X (honest_attach K s (eng_b64 X) prof br nn) g
      = (Inr \<lparr>ar_session_id = hex_encode (eng_hex X) (array_bytes n),
              ar_engine_capabilities = ENGINE_CAPABILITIES\<rparr>, g')
    \<and> engine_session g' (hex_encode (eng_hex X) (array_bytes n)) = Some prof"
proof -
  let ?ap = "honest_attach K s (eng_b64 X) prof br nn"
  obtain cand where cand: "hm_get (pending g) (br_session_candidate br) = Some cand"
    "nonce_b64 br = b64_encode (eng_b64 X) (array_bytes (nonce cand))"
    "advertised_key cand = test_signer_public K s" "pc_profile_did cand = did prof"
    by (rule pending_of_begin [OF run assms(5,6)]) (simp add: key_hex_inverse [OF assms(1)])
  from nn cand(2) b64 have "nn = array_bytes (nonce cand)" by (simp add: b64_round_trip_def)
  with honest_attach_authenticated [OF b64 assms(3) cand(4,3) nn]
  have "authenticated X cand ?ap (fst (resolve_signing_key X (resolver g) (did (profile ?ap))))"
    using published by (simp add: honest_attach_def)
  with cand(1) assms(9) have "fst (engine_attach X ?ap g) = Inr \<lparr>ar_session_id =
      hex_encode (eng_hex X) (array_bytes n), ar_engine_capabilities = ENGINE_CAPABILITIES\<rparr>"
    by (intro engine_attach_accepts) (simp_all add: honest_attach_def)
  then obtain g' where ok: "engine_attach X ?ap g = (Inr \<lparr>ar_session_id =
      hex_encode (eng_hex X) (array_bytes n), ar_engine_capabilities = ENGINE_CAPABILITIES\<rparr>, g')"
    by (metis prod.collapse)
  from engine_attach_effect [OF ok] ok show ?thesis
    by (simp add: engine_session_def honest_attach_def)
qed

section \<open>Properties\<close>

text \<open>The engine accepts the request and holds the session open for its profile.\<close>

definition engine_accepts ::
  "('pk, 'sg, 'e, 'r) engine_env \<Rightarrow> ('e, 'r) engine \<Rightarrow> attach_params \<Rightarrow> bool" where
  "engine_accepts X g ap \<longleftrightarrow>
     (case engine_attach X ap g of
        (Inl _, _) \<Rightarrow> False
      | (Inr ar, g') \<Rightarrow> engine_session g' (ar_session_id ar) = Some (profile ap)
          \<and> ar_engine_capabilities ar = ENGINE_CAPABILITIES)"

text \<open>
  C8. Completeness of the handshake.  In any execution of the engine whose tokens do not repeat, if
  \<open>begin\<close> answered the client's DID and key, fewer than \<open>MAX_PENDING_CANDIDATES\<close> further
  candidates were issued since and none of the requests in between attempted this one, and the
  resolver publishes the key for the DID, then the attach request the client builds from the begin
  response is accepted and its session is open for the client's profile.
\<close>

theorem honest_handshake_completes:
  assumes "hex_round_trip (eng_hex X)" and "b64_round_trip (eng_b64 X)" and "bls_correct (eng_bls X) K"
    and "trace (engine_step X) (engine_new e r)
      (es1 @ Begin \<lparr>bp_profile_did = did prof,
        signing_pubkey_hex = key_to_hex (eng_hex X) (test_signer_public K s)\<rparr> (Inr br) # es2) g"
    and "distinct (issued (es1 @ Begin \<lparr>bp_profile_did = did prof,
        signing_pubkey_hex = key_to_hex (eng_hex X) (test_signer_public K s)\<rparr> (Inr br) # es2))"
    and "undisturbed (br_session_candidate br) es2"
    and "b64_decode (eng_b64 X) (str_bytes (nonce_b64 br)) = Some nn"
    and "fst (resolve_signing_key X (resolver g) (did prof)) = Some (test_signer_public K s)"
    and "fst (fill_nonce X (entropy g)) = Some n"
  shows "engine_accepts X g (honest_attach K s (eng_b64 X) prof br nn)"
  using honest_attach_accepted [OF assms] by (auto simp: engine_accepts_def honest_attach_def)

theorem honest_handshake_completes_witness:
  "engine_accepts sample_engine sample_begun
     (honest_attach sample_keys \<lparr>secret_key = ()\<rparr> sample_b64 sample_profile sample_begin_result (replicate 32 0))"
proof -
  have "engine_accepts sample_engine sample_begun (honest_attach sample_keys \<lparr>secret_key = ()\<rparr>
      (eng_b64 sample_engine) sample_profile sample_begin_result (replicate 32 0))"
  proof (rule honest_handshake_completes)
    show "trace (engine_step sample_engine) sample_engine_start
      ([] @ Begin sample_begin_params (Inr sample_begin_result) # []) sample_begun"
      using sample_trace_begin by simp
    show "distinct (issued ([] @ Begin sample_begin_params (Inr sample_begin_result) # []))" by simp
    show "undisturbed (br_session_candidate sample_begin_result) []" by (simp add: undisturbed_def)
    show "b64_decode (eng_b64 sample_engine) (str_bytes (nonce_b64 sample_begin_result)) = Some (replicate 32 0)"
      by (simp add: sample_engine_def sample_b64_def sample_begin_result_def)
    show "fst (fill_nonce sample_engine (entropy sample_begun)) = Some (array_of 2)"
      by (simp add: sample_begun_fields sample_engine_def sample_nonces)
    show "fst (resolve_signing_key sample_engine (resolver sample_begun) (did sample_profile))
        = Some (test_signer_public sample_keys \<lparr>secret_key = ()\<rparr>)"
      by (simp add: sample_begun_fields sample_engine_def engine_new_def stub_resolve_def)
  qed (simp_all add: sample_engine_def sample_hex_round_trip sample_b64_round_trip sample_bls_correct)
  then show ?thesis by (simp add: sample_engine_def)
qed

text \<open>
  The client builds exactly that request.  Over the scripted transport and with a signer over a
  BLS key, if \<open>begin_and_attach\<close> returns a session, then the begin request advertised the signer's
  key and the attach request that followed the begin response is the one of the completeness
  property, for the nonce that response encodes.
\<close>

lemma client_sends_the_honest_attach:
  assumes "cl_transport E = fake_transport_ops" and "cl_signer E = test_signer_ops H K"
    and "begin_and_attach E prof c = (Inr sess, c')"
  shows "\<exists>consumed1 sent1 br nn consumed2 sent2 att.
      outgoing (transport c') = outgoing (transport c) @ sent1 @ sent2
      \<and> begin_answered E prof (key_to_hex H (test_signer_public K (signer c))) (next_id c) consumed1 sent1 br
      \<and> b64_decode (cl_b64 E) (str_bytes (nonce_b64 br)) = Some nn
      \<and> answered E (attach_request_to_string (cl_json E)) (attach_result_from_value (cl_json E)) METHOD_ATTACH
          (honest_attach K (signer c) (cl_b64 E) prof br nn) (next_id c + 1) consumed2 sent2 att
      \<and> session_id sess = ar_session_id att \<and> profile_did sess = did prof"
proof -
  from handshake_transcript [OF assms(1,3)] obtain consumed1 sent1 br nn s sig consumed2 sent2 att where
    sent: "outgoing (transport c') = outgoing (transport c) @ sent1 @ sent2"
    and begins: "begin_answered E prof (fst (signing_public_key_hex (cl_signer E) (signer c))) (next_id c)
      consumed1 sent1 br"
    and nn: "b64_decode (cl_b64 E) (str_bytes (nonce_b64 br)) = Some nn"
    and s: "signer_reaches (cl_signer E) (signer c) s"
    and sig: "fst (try_sign (cl_signer E) s (challenge_message nn (did prof))) = Some sig"
    and attaches: "attach_answered E prof (br_session_candidate br) sig (next_id c + 1) consumed2 sent2 att"
    and sess: "sess = \<lparr>session_id = ar_session_id att, engine_capabilities = ar_engine_capabilities att,
                profile_did = did prof\<rparr>"
    by blast
  from s have "s = signer c" using signer_reaches_stateless assms(2) by metis
  with sig have "sig = test_signer_sign K (signer c) (challenge_message nn (did prof))"
    by (simp add: assms(2) test_signer_ops_def default_try_sign_def)
  with attaches have "answered E (attach_request_to_string (cl_json E)) (attach_result_from_value (cl_json E))
      METHOD_ATTACH (honest_attach K (signer c) (cl_b64 E) prof br nn) (next_id c + 1) consumed2 sent2 att"
    by (simp add: honest_attach_def)
  moreover from begins have "begin_answered E prof (key_to_hex H (test_signer_public K (signer c)))
      (next_id c) consumed1 sent1 br"
    by (simp add: assms(2) test_signer.public_key_hex)
  ultimately show ?thesis using sent nn sess
    by (intro exI [of _ consumed1] exI [of _ sent1] exI [of _ br] exI [of _ nn] exI [of _ consumed2]
        exI [of _ sent2] exI [of _ att]) simp
qed

lemma client_sends_the_honest_attach_witness:
  "\<exists>consumed sent br nn rid att. answered (sample_signer_env allow_all_authorize)
     (attach_request_to_string sample_json) (attach_result_from_value sample_json) METHOD_ATTACH
     (honest_attach sample_keys \<lparr>secret_key = ()\<rparr> sample_b64 sample_profile br nn) rid consumed sent att"
proof -
  let ?h = "sample_handshake [''begin-ok'', ''sign'', ''attach-ok'']"
  have "?h = (Inr \<lparr>session_id = ''session'', engine_capabilities = [''sign''],
      profile_did = ''did:chia:alice''\<rparr>, snd ?h)"
    using sample_handshake_result(1) by (simp only: prod_eq_iff fst_conv snd_conv)
  from client_sends_the_honest_attach [OF _ _ this, of sample_hex sample_keys] show ?thesis
    by (simp add: client_new_def) blast
qed

end
