(* ===== verification/Connected.thy ===== *)
theory Connected
  imports Handshake Client_Liveness Client_Simulation
begin

text \<open>
  The two role-halves connected: the client's handshake when the responses it reads are the answers
  the engine gave to its requests.
\<close>

section \<open>A client and an engine with the same codecs\<close>

definition same_codecs ::
  "('v, 't, 's, 'p) client_env \<Rightarrow> ('pk, 'sg, 'e, 'r) engine_env \<Rightarrow> 'sk bls_keys \<Rightarrow> bool" where
  "same_codecs E X K \<longleftrightarrow>
     cl_b64 E = eng_b64 X \<and> hex_round_trip (eng_hex X) \<and> b64_round_trip (eng_b64 X)
     \<and> bls_correct (eng_bls X) K"

text \<open>
  The engine's side: it answered a begin request for the profile and the key with \<open>br\<close>, the handshake
  was not disturbed since, the key is published, and the entropy source is about to give \<open>n\<close>.
\<close>

definition engine_ready ::
  "('pk, 'sg, 'e, 'r) engine_env \<Rightarrow> 'e \<Rightarrow> 'r \<Rightarrow> profile_attachment \<Rightarrow> signing_public_key \<Rightarrow> begin_result \<Rightarrow>
     32 bytes \<Rightarrow> ('e, 'r) engine \<Rightarrow> bool" where
  "engine_ready X e r prof key br n g \<longleftrightarrow>
     (\<exists>es1 es2. let es = es1 @ Begin \<lparr>bp_profile_did = did prof, signing_pubkey_hex = key_to_hex (eng_hex X) key\<rparr>
            (Inr br) # es2
        in trace (engine_step X) (engine_new e r) es g \<and> distinct (issued es)
          \<and> undisturbed (br_session_candidate br) es2)
     \<and> fst (resolve_signing_key X (resolver g) (did prof)) = Some key
     \<and> fst (fill_nonce X (entropy g)) = Some n"

lemma engine_ready_nonce:
  assumes "same_codecs E X K" and "engine_ready X e r prof key br n g"
  obtains nn where "b64_decode (eng_b64 X) (str_bytes (nonce_b64 br)) = Some nn" "length nn = NONCE_LEN"
proof -
  from assms(2) obtain es1 es2 where run: "trace (engine_step X) (engine_new e r)
      (es1 @ Begin \<lparr>bp_profile_did = did prof, signing_pubkey_hex = key_to_hex (eng_hex X) key\<rparr> (Inr br) # es2) g"
    and dist: "distinct (issued (es1 @ Begin \<lparr>bp_profile_did = did prof,
      signing_pubkey_hex = key_to_hex (eng_hex X) key\<rparr> (Inr br) # es2))"
    and calm: "undisturbed (br_session_candidate br) es2"
    by (auto simp: engine_ready_def Let_def)
  obtain cand :: pending_candidate where "nonce_b64 br = b64_encode (eng_b64 X) (array_bytes (nonce cand))"
    by (rule pending_of_begin [OF run dist calm]) blast
  with assms(1) that show thesis
    by (simp add: same_codecs_def b64_round_trip_def NONCE_LEN_def)
qed

lemma engine_ready_accepts:
  assumes "same_codecs E X K" and "engine_ready X e r prof (test_signer_public K s) br n g"
    and "b64_decode (eng_b64 X) (str_bytes (nonce_b64 br)) = Some nn"
  obtains g' where "engine_attach X (honest_attach K s (eng_b64 X) prof br nn) g
      = (Inr \<lparr>ar_session_id = hex_encode (eng_hex X) (array_bytes n),
              ar_engine_capabilities = ENGINE_CAPABILITIES\<rparr>, g')"
    "engine_session g' (hex_encode (eng_hex X) (array_bytes n)) = Some prof"
proof -
  from assms(2) obtain es1 es2 where "trace (engine_step X) (engine_new e r)
      (es1 @ Begin \<lparr>bp_profile_did = did prof,
        signing_pubkey_hex = key_to_hex (eng_hex X) (test_signer_public K s)\<rparr> (Inr br) # es2) g"
    "distinct (issued (es1 @ Begin \<lparr>bp_profile_did = did prof,
        signing_pubkey_hex = key_to_hex (eng_hex X) (test_signer_public K s)\<rparr> (Inr br) # es2))"
    "undisturbed (br_session_candidate br) es2"
    "fst (resolve_signing_key X (resolver g) (did prof)) = Some (test_signer_public K s)"
    "fst (fill_nonce X (entropy g)) = Some n"
    by (auto simp: engine_ready_def Let_def)
  with honest_attach_accepted [OF _ _ _ this(1-3) assms(3) this(4,5)] assms(1) that show thesis
    by (auto simp: same_codecs_def)
qed

section \<open>Over the scripted transport\<close>

text \<open>
  The two halves agree.  A client with a BLS signer reads, each after at most
  \<open>MAX_INTERLEAVED_CALLBACKS\<close> answerable callbacks, the answer the engine gave to its begin request
  and an attach response with the next session id of the engine.  Then the attach request the client
  sends is accepted by the engine with exactly that response, and the session the client returns is
  open in the engine for the client's profile.
\<close>

lemma connected_halves_agree:
  assumes codecs: "same_codecs E X K" and fake: "cl_transport E = fake_transport_ops"
    and signer: "cl_signer E = test_signer_ops (eng_hex X) K"
    and ser: "serialises_replies E" "serialises_requests E" and ids: "next_id c \<noteq> - 1" "next_id c + 1 \<noteq> - 1"
    and ready: "engine_ready X e r prof (test_signer_public K (signer c)) br n g"
    and begins: "cooperates E (begin_result_from_value (cl_json E)) (next_id c) br script1"
    and attaches: "cooperates E (attach_result_from_value (cl_json E)) (next_id c + 1) att script2"
    and script: "incoming (transport c) = script1 @ script2 @ rest"
    and att: "att = \<lparr>ar_session_id = hex_encode (eng_hex X) (array_bytes n),
      ar_engine_capabilities = ENGINE_CAPABILITIES\<rparr>"
  shows "\<exists>nn c' g' sent1 sent2 consumed. begin_and_attach E prof c = (Inr \<lparr>session_id = ar_session_id att,
        engine_capabilities = ENGINE_CAPABILITIES, profile_did = did prof\<rparr>, c')
      \<and> outgoing (transport c') = outgoing (transport c) @ sent1 @ sent2
      \<and> answered E (attach_request_to_string (cl_json E)) (attach_result_from_value (cl_json E)) METHOD_ATTACH
          (honest_attach K (signer c) (eng_b64 X) prof br nn) (next_id c + 1) consumed sent2 att
      \<and> engine_attach X (honest_attach K (signer c) (eng_b64 X) prof br nn) g = (Inr att, g')
      \<and> engine_session g' (ar_session_id att) = Some prof
      \<and> incoming (transport c') = rest \<and> next_id c' = next_id c + 2"
proof -
  obtain nn where nn: "b64_decode (eng_b64 X) (str_bytes (nonce_b64 br)) = Some nn" and len: "length nn = NONCE_LEN"
    by (rule engine_ready_nonce [OF codecs ready])
  obtain g' where g': "engine_attach X (honest_attach K (signer c) (eng_b64 X) prof br nn) g = (Inr att, g')"
    "engine_session g' (ar_session_id att) = Some prof"
    using engine_ready_accepts [OF codecs ready nn] by (auto simp: att)
  have unlocked: "unlocked (cl_signer E) (signer c)" by (simp add: signer unlocked_test_signer)
  have b64: "cl_b64 E = eng_b64 X" using codecs by (simp add: same_codecs_def)
  from fake ser unlocked ids begins nn [folded b64] len attaches script obtain c' s sig sent1 sent2 consumed where
    run: "begin_and_attach E prof c = (Inr \<lparr>session_id = ar_session_id att,
        engine_capabilities = ar_engine_capabilities att, profile_did = did prof\<rparr>, c')"
    "outgoing (transport c') = outgoing (transport c) @ sent1 @ sent2"
    and s: "signer_reaches (cl_signer E) (signer c) s"
    and sig: "fst (try_sign (cl_signer E) s (challenge_message nn (did prof))) = Some sig"
    and sent: "attach_answered E prof (br_session_candidate br) sig (next_id c + 1) consumed sent2 att"
    and left: "incoming (transport c') = rest" "next_id c' = next_id c + 2"
    by (rule handshake_completes)
  from s have "s = signer c" using signer_reaches_stateless signer by metis
  with sig have "sig = test_signer_sign K (signer c) (challenge_message nn (did prof))"
    by (simp add: signer test_signer_ops_def default_try_sign_def)
  with sent have "answered E (attach_request_to_string (cl_json E)) (attach_result_from_value (cl_json E))
      METHOD_ATTACH (honest_attach K (signer c) (eng_b64 X) prof br nn) (next_id c + 1) consumed sent2 att"
    by (simp add: honest_attach_def b64)
  with run g' left show ?thesis
    by (intro exI [of _ nn] exI [of _ c'] exI [of _ g'] exI [of _ sent1] exI [of _ sent2] exI [of _ consumed])
      (simp add: att)
qed

text \<open>A JSON library that knows the responses of the sample engine.\<close>

definition connected_env :: "(sample_value, fake_transport, unit test_signer, allow_all_sign_policy) client_env" where
  "connected_env = (sample_signer_env allow_all_authorize)\<lparr>cl_json := sample_json\<lparr>
     incoming_frame_from_str := (\<lambda>s.
       if s = ''begin'' then Inr (result_frame 1 (Sample_Begin (bytes_str (replicate 32 0)) (bytes_str (replicate 32 1))))
       else if s = ''attach'' then Inr (result_frame 2 (Sample_Attach (bytes_str (replicate 32 2))))
       else if s = ''detach'' then Inr (result_frame 3 Sample_Detached)
       else Inl ''expected value''),
     attach_result_from_value := (\<lambda>v. map_sum id (\<lambda>r. r\<lparr>ar_engine_capabilities := ENGINE_CAPABILITIES\<rparr>) (sample_attach v))\<rparr>\<rparr>"

lemma connected_env_simps [simp]:
  "cl_transport connected_env = fake_transport_ops"
  "cl_signer connected_env = test_signer_ops sample_hex sample_keys" "cl_b64 connected_env = sample_b64"
  by (simp_all add: connected_env_def)

lemma connected_ready:
  "engine_ready sample_engine (seq_entropy_new [])
     \<lparr>stub_did = ''did:chia:alice'', stub_key = test_signer_public sample_keys \<lparr>secret_key = ()\<rparr>\<rparr>
     sample_profile (test_signer_public sample_keys \<lparr>secret_key = ()\<rparr>) sample_begin_result (array_of 2) sample_begun"
  unfolding engine_ready_def Let_def
proof (intro conjI exI)
  show "trace (engine_step sample_engine) sample_engine_start
      ([] @ Begin sample_begin_params (Inr sample_begin_result) # []) sample_begun"
    using sample_trace_begin by simp
  show "undisturbed (br_session_candidate sample_begin_result) []" by (simp add: undisturbed_def)
qed (simp_all add: sample_begun_fields sample_engine_def sample_nonces engine_new_def stub_resolve_def)

lemma connected_halves_agree_witness:
  "fst (begin_and_attach connected_env sample_profile
       (client_new (fake_scripted [''begin'', ''attach'']) \<lparr>secret_key = ()\<rparr> AllowAllSignPolicy))
     = Inr \<lparr>session_id = ar_session_id sample_attach_result, engine_capabilities = ENGINE_CAPABILITIES,
            profile_did = did sample_profile\<rparr>"
proof -
  let ?c = "client_new (fake_scripted [''begin'', ''attach'']) \<lparr>secret_key = ()\<rparr> AllowAllSignPolicy"
  have codecs: "same_codecs connected_env sample_engine sample_keys"
    by (simp add: same_codecs_def sample_engine_def sample_hex_round_trip sample_b64_round_trip sample_bls_correct)
  have ser: "serialises_replies connected_env" "serialises_requests connected_env"
    by (simp_all add: serialises_replies_def serialises_requests_def connected_env_def sample_json_def)
  have script:
    "cooperates connected_env (begin_result_from_value (cl_json connected_env)) (next_id ?c)
       sample_begin_result [''begin'']"
    "cooperates connected_env (attach_result_from_value (cl_json connected_env)) (next_id ?c + 1)
       sample_attach_result [''attach'']"
    by (simp_all add: cooperates_def responds_with_def connected_env_def sample_json_def result_frame_def
        sample_frame_def client_new_def sample_begin_result_def sample_attach_result_def)
  have "\<exists>c'. begin_and_attach connected_env sample_profile ?c = (Inr \<lparr>session_id =
      ar_session_id sample_attach_result, engine_capabilities = ENGINE_CAPABILITIES,
      profile_did = did sample_profile\<rparr>, c')"
    using connected_halves_agree [OF codecs _ _ ser _ _ _ script, of "seq_entropy_new []"
        "\<lparr>stub_did = ''did:chia:alice'', stub_key = test_signer_public sample_keys \<lparr>secret_key = ()\<rparr>\<rparr>"
        sample_profile "array_of 2" sample_begun "[]"] connected_ready
    by (auto simp: client_new_def fake_scripted_def sample_attach_result_def sample_engine_def sample_hex_def)
  then show ?thesis by auto
qed

section \<open>Over the pipe\<close>

text \<open>What the frames mean does not depend on the transport.\<close>

lemma over_transport_simps [simp]:
  "cl_json (over_transport T E) = cl_json E" "cl_b64 (over_transport T E) = cl_b64 E"
  "cl_transport (over_transport T E) = T" "cl_signer (over_transport T E) = cl_signer E"
  by (simp_all add: over_transport_def)

lemma over_transport_same: "cl_transport E = T \<Longrightarrow> over_transport T E = E"
  by (cases E) (simp add: over_transport_def)

lemma meaning_over_transport [simp]:
  "responds_with (over_transport T E) fv rid raw x \<longleftrightarrow> responds_with E fv rid raw x"
  "answerable (over_transport T E) raw \<longleftrightarrow> answerable E raw"
  "is_callback (over_transport T E) raw \<longleftrightarrow> is_callback E raw"
  "serialises_replies (over_transport T E) \<longleftrightarrow> serialises_replies E"
  "serialises_requests (over_transport T E) \<longleftrightarrow> serialises_requests E"
  by (simp_all add: responds_with_def answerable_def is_callback_def callback_params_def
      serialises_replies_def serialises_requests_def cong: sum.case_cong option.case_cong)

lemma cooperates_over_transport [simp]:
  "cooperates (over_transport T E) fv rid x script \<longleftrightarrow> cooperates E fv rid x script"
  by (simp add: cooperates_def list_all_iff)

lemma answered_over_transport [simp]:
  "answered (over_transport T E) to_str fv meth params rid consumed sent x
     \<longleftrightarrow> answered E to_str fv meth params rid consumed sent x"
  by (simp add: answered_def list_all_iff)

lemma same_codecs_over_transport [simp]: "same_codecs (over_transport T E) X K \<longleftrightarrow> same_codecs E X K"
  by (simp add: same_codecs_def)

text \<open>
  The handshake over the pipe, next to the same handshake over the script the pipe carries.
\<close>

lemma handshake_over_the_pipe:
  assumes codecs: "same_codecs E X K" and pipe: "cl_transport E = line_transport_ops vec_writer"
    and signer: "cl_signer E = test_signer_ops (eng_hex X) K"
    and ser: "serialises_replies E" "serialises_requests E"
    and ready: "engine_ready X e r prof (test_signer_public K s) br n g"
    and begins: "cooperates E (begin_result_from_value (cl_json E)) 1 br script1"
    and attaches: "cooperates E (attach_result_from_value (cl_json E)) 2 att script2"
    and chunks: "progressing chunks" "stream_of [] chunks = lines_of (script1 @ script2 @ rest)"
    and sendable: "\<forall>f \<in> set (script1 @ script2 @ rest). sendable f"
    and att: "att = \<lparr>ar_session_id = hex_encode (eng_hex X) (array_bytes n),
      ar_engine_capabilities = ENGINE_CAPABILITIES\<rparr>"
  obtains nn c' d' g' sent1 sent2 consumed where
    "begin_and_attach E prof (client_new (line_transport_new chunks []) s p) = (Inr \<lparr>session_id = ar_session_id att,
      engine_capabilities = ENGINE_CAPABILITIES, profile_did = did prof\<rparr>, c')"
    "over_wire c' d'" "incoming (transport d') = rest" "outgoing (transport d') = sent1 @ sent2" "next_id d' = 3"
    "answered E (attach_request_to_string (cl_json E)) (attach_result_from_value (cl_json E)) METHOD_ATTACH
      (honest_attach K s (eng_b64 X) prof br nn) 2 consumed sent2 att"
    "engine_attach X (honest_attach K s (eng_b64 X) prof br nn) g = (Inr att, g')"
    "engine_session g' (ar_session_id att) = Some prof"
proof -
  let ?F = "over_transport fake_transport_ops E" and ?c = "client_new (line_transport_new chunks []) s p"
  let ?d = "client_new (fake_scripted (script1 @ script2 @ rest)) s p"
  have wire: "over_wire ?c ?d"
    using chunks sendable
    by (simp add: over_wire_def client_new_def carries_def fake_scripted_def line_transport_new_def
        buf_reader_new_def transport_progressing_def transport_stream_def lines_of_def)
  have d: "next_id ?d = 1" "signer ?d = s" "incoming (transport ?d) = script1 @ script2 @ rest"
    "outgoing (transport ?d) = []"
    by (simp_all add: client_new_def fake_scripted_def)
  obtain nn d' g' sent1 sent2 consumed where
    run: "begin_and_attach ?F prof ?d = (Inr \<lparr>session_id = ar_session_id att,
        engine_capabilities = ENGINE_CAPABILITIES, profile_did = did prof\<rparr>, d')"
    and out: "outgoing (transport d') = sent1 @ sent2" "incoming (transport d') = rest" "next_id d' = 3"
    and sent: "answered E (attach_request_to_string (cl_json E)) (attach_result_from_value (cl_json E)) METHOD_ATTACH
        (honest_attach K s (eng_b64 X) prof br nn) 2 consumed sent2 att"
    and acc: "engine_attach X (honest_attach K s (eng_b64 X) prof br nn) g = (Inr att, g')"
      "engine_session g' (ar_session_id att) = Some prof"
    using connected_halves_agree [of ?F X K ?d e r prof br n g script1 att script2 rest]
      codecs signer ser ready begins attaches att d by auto
  have "rel_prod (=) over_wire (begin_and_attach (over_transport (line_transport_ops vec_writer) E) prof ?c)
      (begin_and_attach ?F prof ?d)"
    using wire by (rule wire.begin_and_attach_sim)
  then obtain c' where "begin_and_attach E prof ?c = (Inr \<lparr>session_id = ar_session_id att,
        engine_capabilities = ENGINE_CAPABILITIES, profile_did = did prof\<rparr>, c')" "over_wire c' d'"
    by (cases "begin_and_attach E prof ?c") (auto simp: run over_transport_same [OF pipe])
  then show thesis using out sent acc by (intro that)
qed

text \<open>
  C9. The two halves agree over the pipe.  A new client with a BLS signer reads a byte stream, cut into
  chunks in any way, that holds the lines of at most \<open>MAX_INTERLEAVED_CALLBACKS\<close> answerable callbacks
  and the answer the engine gave to its begin request, and then of as many callbacks and an attach
  response with the next session id of the engine.  Then it writes the lines of its requests and
  replies, the attach request among them is accepted by the engine with exactly that response, and the
  session the client returns is open in the engine for the client's profile.  A client whose pipe was
  dropped, in whatever state that left it, gets the same from \<open>reattach\<close> over this pipe.
\<close>

theorem halves_agree_over_the_pipe:
  assumes codecs: "same_codecs E X K" and pipe: "cl_transport E = line_transport_ops vec_writer"
    and signer: "cl_signer E = test_signer_ops (eng_hex X) K"
    and ser: "serialises_replies E" "serialises_requests E"
    and ready: "engine_ready X e r prof (test_signer_public K s) br n g"
    and begins: "cooperates E (begin_result_from_value (cl_json E)) 1 br script1"
    and attaches: "cooperates E (attach_result_from_value (cl_json E)) 2 att script2"
    and chunks: "progressing chunks" "stream_of [] chunks = lines_of (script1 @ script2 @ rest)"
    and sendable: "\<forall>f \<in> set (script1 @ script2 @ rest). sendable f"
    and att: "att = \<lparr>ar_session_id = hex_encode (eng_hex X) (array_bytes n),
      ar_engine_capabilities = ENGINE_CAPABILITIES\<rparr>"
  shows "\<exists>nn c' g' sent1 sent2 consumed.
      begin_and_attach E prof (client_new (line_transport_new chunks []) s p) = (Inr \<lparr>session_id = ar_session_id att,
        engine_capabilities = ENGINE_CAPABILITIES, profile_did = did prof\<rparr>, c')
      \<and> (\<forall>d. signer d = s \<and> policy d = p \<longrightarrow> reattach E (line_transport_new chunks []) prof d
            = begin_and_attach E prof (client_new (line_transport_new chunks []) s p))
      \<and> writer (transport c') = lines_of (sent1 @ sent2)
      \<and> answered E (attach_request_to_string (cl_json E)) (attach_result_from_value (cl_json E)) METHOD_ATTACH
          (honest_attach K s (eng_b64 X) prof br nn) 2 consumed sent2 att
      \<and> engine_attach X (honest_attach K s (eng_b64 X) prof br nn) g = (Inr att, g')
      \<and> engine_session g' (ar_session_id att) = Some prof"
proof -
  obtain nn c' d' g' sent1 sent2 consumed where
    run: "begin_and_attach E prof (client_new (line_transport_new chunks []) s p) = (Inr \<lparr>session_id =
        ar_session_id att, engine_capabilities = ENGINE_CAPABILITIES, profile_did = did prof\<rparr>, c')"
    and wire: "over_wire c' d'" "outgoing (transport d') = sent1 @ sent2"
    and acc: "answered E (attach_request_to_string (cl_json E)) (attach_result_from_value (cl_json E)) METHOD_ATTACH
        (honest_attach K s (eng_b64 X) prof br nn) 2 consumed sent2 att"
      "engine_attach X (honest_attach K s (eng_b64 X) prof br nn) g = (Inr att, g')"
      "engine_session g' (ar_session_id att) = Some prof"
    using assms by (rule handshake_over_the_pipe)
  from wire have "writer (transport c') = lines_of (sent1 @ sent2)" by (simp add: over_wire_def carries_def)
  moreover have "\<forall>d. signer d = s \<and> policy d = p \<longrightarrow> reattach E (line_transport_new chunks []) prof d
      = begin_and_attach E prof (client_new (line_transport_new chunks []) s p)"
    by (auto simp: reattach_forgets_the_connection)
  ultimately show ?thesis using run acc by blast
qed

text \<open>The bytes of the sample engine's answers, in three chunks.\<close>

theorem halves_agree_over_the_pipe_witness:
  "fst (begin_and_attach (over_transport (line_transport_ops vec_writer) connected_env) sample_profile
       (client_new (line_transport_new [Inr (str_bytes ''beg''), Inr (str_bytes ''in'' @ newline # str_bytes ''at''),
          Inr (str_bytes ''tach'' @ [newline])] []) \<lparr>secret_key = ()\<rparr> AllowAllSignPolicy))
     = Inr \<lparr>session_id = ar_session_id sample_attach_result, engine_capabilities = ENGINE_CAPABILITIES,
            profile_did = did sample_profile\<rparr>"
proof -
  let ?E = "over_transport (line_transport_ops vec_writer) connected_env"
  let ?chunks = "[Inr (str_bytes ''beg''), Inr (str_bytes ''in'' @ newline # str_bytes ''at''),
          Inr (str_bytes ''tach'' @ [newline])] :: (io_error + u8 list) list"
  have codecs: "same_codecs ?E sample_engine sample_keys"
    by (simp add: same_codecs_def sample_engine_def sample_hex_round_trip sample_b64_round_trip sample_bls_correct)
  have ser: "serialises_replies ?E" "serialises_requests ?E"
    by (simp_all add: serialises_replies_def serialises_requests_def connected_env_def sample_json_def)
  have script:
    "cooperates ?E (begin_result_from_value (cl_json ?E)) 1 sample_begin_result [''begin'']"
    "cooperates ?E (attach_result_from_value (cl_json ?E)) 2 sample_attach_result [''attach'']"
    by (simp_all add: cooperates_def responds_with_def connected_env_def sample_json_def result_frame_def
        sample_frame_def sample_begin_result_def sample_attach_result_def)
  have chunks: "progressing ?chunks" "stream_of [] ?chunks = lines_of ([''begin''] @ [''attach''] @ [])"
    by (simp_all add: progressing_def stream_of_def lines_of_def str_bytes_def)
  have sendable: "\<forall>f \<in> set ([''begin''] @ [''attach''] @ []). sendable f"
    by (simp add: sendable_def str_bytes_def byte_of_char_def utf8_rest_def utf8_following_def MAX_FRAME_BYTES_def)
  have "\<exists>c'. begin_and_attach ?E sample_profile (client_new (line_transport_new ?chunks []) \<lparr>secret_key = ()\<rparr>
      AllowAllSignPolicy) = (Inr \<lparr>session_id = ar_session_id sample_attach_result,
        engine_capabilities = ENGINE_CAPABILITIES, profile_did = did sample_profile\<rparr>, c')"
    using halves_agree_over_the_pipe [OF codecs _ _ ser connected_ready script chunks sendable, of AllowAllSignPolicy]
    by (auto simp: sample_attach_result_def sample_engine_def sample_hex_def)
  then show ?thesis by auto
qed

end
