(* ===== verification/Lifecycle.thy ===== *)
theory Lifecycle
  imports Connected Engine_Sessions
begin

text \<open>
  The whole life of a session over one pipe: the handshake, any other traffic at the engine, and the
  detach that ends it.
\<close>

section \<open>Closing an open session\<close>

lemma open_session_detaches:
  assumes "engine_session g1 sid = Some prof"
    and "trace (engine_step X) g1 es g2 \<and> list_all (\<lambda>ev. \<not> touches sid ev) es"
  shows "engine_session g2 sid = Some prof \<and> fst (engine_detach sid g2)
    \<and> engine_session (snd (engine_detach sid g2)) = (engine_session g2)(sid := None)"
proof -
  from session_kept assms(2) have "engine_session g2 sid = engine_session g1 sid" by blast
  with assms(1) have "engine_session g2 sid = Some prof" by simp
  then show ?thesis by (auto simp: engine_detach_def engine_session_def fun_eq_iff)
qed

section \<open>Property\<close>

text \<open>
  C10. A session lives from its handshake to its detach.  A new client with a BLS signer reads a byte
  stream, cut into chunks in any way, that holds the engine's answers to its begin, attach and detach
  requests, each after at most \<open>MAX_INTERLEAVED_CALLBACKS\<close> answerable callbacks.  Then
  \<open>begin_and_attach\<close> returns the session and \<open>detach\<close> of it succeeds; the client wrote exactly the
  lines of its requests and replies, under the ids 1, 2 and 3, and the rest of the stream is left
  unread.  At the engine the session is open for the profile after the attach request the client
  sent, stays open through all other requests that neither detach nor reuse its identifier, and the
  detach request the client sent closes it, reports so, and closes no other.
\<close>

theorem session_lifecycle_over_the_pipe:
  assumes codecs: "same_codecs E X K" and pipe: "cl_transport E = line_transport_ops vec_writer"
    and signer: "cl_signer E = test_signer_ops (eng_hex X) K"
    and ser: "serialises_replies E" "serialises_requests E"
    and ser_detach: "\<forall>r. \<exists>s. detach_request_to_string (cl_json E) r = Inr s"
    and ready: "engine_ready X e r prof (test_signer_public K s) br n g"
    and begins: "cooperates E (begin_result_from_value (cl_json E)) 1 br script1"
    and attaches: "cooperates E (attach_result_from_value (cl_json E)) 2 att script2"
    and detaches: "cooperates E (detach_result_from_value (cl_json E)) 3 DetachResult script3"
    and chunks: "progressing chunks" "stream_of [] chunks = lines_of (script1 @ script2 @ script3 @ rest)"
    and sendable: "\<forall>f \<in> set (script1 @ script2 @ script3 @ rest). sendable f"
    and att: "att = \<lparr>ar_session_id = hex_encode (eng_hex X) (array_bytes n),
      ar_engine_capabilities = ENGINE_CAPABILITIES\<rparr>"
    and sess: "sess = \<lparr>session_id = ar_session_id att, engine_capabilities = ENGINE_CAPABILITIES,
      profile_did = did prof\<rparr>"
  shows "\<exists>nn c1 c2 g1 sent1 sent2 sent3 consumed2 consumed3.
      begin_and_attach E prof (client_new (line_transport_new chunks []) s p) = (Inr sess, c1)
      \<and> client_detach E sess c1 = (Inr (), c2)
      \<and> writer (transport c2) = lines_of (sent1 @ sent2 @ sent3)
      \<and> transport_stream (transport c2) = lines_of rest
      \<and> answered E (attach_request_to_string (cl_json E)) (attach_result_from_value (cl_json E)) METHOD_ATTACH
          (honest_attach K s (eng_b64 X) prof br nn) 2 consumed2 sent2 att
      \<and> answered E (detach_request_to_string (cl_json E)) (detach_result_from_value (cl_json E)) METHOD_DETACH
          \<lparr>dp_session_id = session_id sess\<rparr> 3 consumed3 sent3 DetachResult
      \<and> engine_attach X (honest_attach K s (eng_b64 X) prof br nn) g = (Inr att, g1)
      \<and> (\<forall>es g2. trace (engine_step X) g1 es g2 \<and> list_all (\<lambda>ev. \<not> touches (session_id sess) ev) es \<longrightarrow>
          engine_session g2 (session_id sess) = Some prof
          \<and> fst (engine_detach (session_id sess) g2)
          \<and> engine_session (snd (engine_detach (session_id sess) g2))
              = (engine_session g2)(session_id sess := None))"
proof -
  obtain nn c1 d1 g1 sent1 sent2 consumed2 where
    run: "begin_and_attach E prof (client_new (line_transport_new chunks []) s p) = (Inr \<lparr>session_id =
        ar_session_id att, engine_capabilities = ENGINE_CAPABILITIES, profile_did = did prof\<rparr>, c1)"
    and wire: "over_wire c1 d1" and d1: "incoming (transport d1) = script3 @ rest"
      "outgoing (transport d1) = sent1 @ sent2" "next_id d1 = 3"
    and acc: "answered E (attach_request_to_string (cl_json E)) (attach_result_from_value (cl_json E)) METHOD_ATTACH
        (honest_attach K s (eng_b64 X) prof br nn) 2 consumed2 sent2 att"
      "engine_attach X (honest_attach K s (eng_b64 X) prof br nn) g = (Inr att, g1)"
    and opened: "engine_session g1 (ar_session_id att) = Some prof"
    using codecs pipe signer ser ready begins attaches chunks sendable att by (rule handshake_over_the_pipe)
  let ?F = "over_transport fake_transport_ops E"
  have "cl_transport ?F = fake_transport_ops" "serialises_replies ?F"
    "\<forall>r. \<exists>s. detach_request_to_string (cl_json ?F) r = Inr s" "next_id d1 \<noteq> - 1"
    "cooperates ?F (detach_result_from_value (cl_json ?F)) (next_id d1) DetachResult script3"
    "incoming (transport d1) = script3 @ rest"
    using ser(1) ser_detach detaches d1(1,3) by simp_all
  then obtain d2 consumed3 sent3 where d2: "client_detach ?F sess d1 = (Inr (), d2)" "incoming (transport d2) = rest"
      "outgoing (transport d2) = outgoing (transport d1) @ sent3"
    and det: "answered ?F (detach_request_to_string (cl_json ?F)) (detach_result_from_value (cl_json ?F))
      METHOD_DETACH \<lparr>dp_session_id = session_id sess\<rparr> (next_id d1) consumed3 sent3 DetachResult"
    by (rule detach_completes)
  have "rel_prod (=) over_wire (client_detach (over_transport (line_transport_ops vec_writer) E) sess c1)
      (client_detach ?F sess d1)"
    using wire by (rule wire.detach_sim)
  then obtain c2 where c2: "client_detach E sess c1 = (Inr (), c2)" "over_wire c2 d2"
    by (cases "client_detach E sess c1") (auto simp: d2(1) over_transport_same [OF pipe])
  from c2(2) d1(2) d2(2,3) have wrote: "writer (transport c2) = lines_of (sent1 @ sent2 @ sent3)"
    and left: "transport_stream (transport c2) = lines_of rest"
    by (simp_all add: over_wire_def carries_def)
  have answer: "answered E (detach_request_to_string (cl_json E)) (detach_result_from_value (cl_json E)) METHOD_DETACH
      \<lparr>dp_session_id = session_id sess\<rparr> 3 consumed3 sent3 DetachResult"
    using det by (simp only: answered_over_transport over_transport_simps d1(3))
  from opened have "engine_session g1 (session_id sess) = Some prof" by (simp add: sess)
  note engine = open_session_detaches [OF this]
  from engine run [folded sess] c2(1) wrote left acc(1) answer acc(2) show ?thesis by blast
qed

text \<open>The sample engine's answers in two chunks.\<close>

theorem session_lifecycle_over_the_pipe_witness:
  "\<exists>sess c1 c2.
     begin_and_attach (over_transport (line_transport_ops vec_writer) connected_env) sample_profile
       (client_new (line_transport_new [Inr (str_bytes ''begin'' @ newline # str_bytes ''att''),
          Inr (str_bytes ''ach'' @ newline # str_bytes ''detach'' @ [newline])] []) \<lparr>secret_key = ()\<rparr>
          AllowAllSignPolicy) = (Inr sess, c1)
     \<and> session_id sess = ar_session_id sample_attach_result
     \<and> client_detach (over_transport (line_transport_ops vec_writer) connected_env) sess c1 = (Inr (), c2)"
proof -
  let ?E = "over_transport (line_transport_ops vec_writer) connected_env"
  let ?chunks = "[Inr (str_bytes ''begin'' @ newline # str_bytes ''att''),
      Inr (str_bytes ''ach'' @ newline # str_bytes ''detach'' @ [newline])] :: (io_error + u8 list) list"
  have codecs: "same_codecs ?E sample_engine sample_keys"
    by (simp add: same_codecs_def sample_engine_def sample_hex_round_trip sample_b64_round_trip sample_bls_correct)
  have ser: "serialises_replies ?E" "serialises_requests ?E" "\<forall>r. \<exists>s. detach_request_to_string (cl_json ?E) r = Inr s"
    by (simp_all add: serialises_replies_def serialises_requests_def connected_env_def sample_json_def)
  have script:
    "cooperates ?E (begin_result_from_value (cl_json ?E)) 1 sample_begin_result [''begin'']"
    "cooperates ?E (attach_result_from_value (cl_json ?E)) 2 sample_attach_result [''attach'']"
    "cooperates ?E (detach_result_from_value (cl_json ?E)) 3 DetachResult [''detach'']"
    by (simp_all add: cooperates_def responds_with_def connected_env_def sample_json_def result_frame_def
        sample_frame_def sample_begin_result_def sample_attach_result_def)
  have chunks: "progressing ?chunks" "stream_of [] ?chunks = lines_of ([''begin''] @ [''attach''] @ [''detach''] @ [])"
    by (simp_all add: progressing_def stream_of_def lines_of_def str_bytes_def)
  have sendable: "\<forall>f \<in> set ([''begin''] @ [''attach''] @ [''detach''] @ []). sendable f"
    by (simp add: sendable_def str_bytes_def byte_of_char_def utf8_rest_def utf8_following_def MAX_FRAME_BYTES_def)
  let ?sess = "\<lparr>session_id = ar_session_id sample_attach_result, engine_capabilities = ENGINE_CAPABILITIES,
      profile_did = did sample_profile\<rparr>"
  have "\<exists>c1 c2. begin_and_attach ?E sample_profile (client_new (line_transport_new ?chunks []) \<lparr>secret_key = ()\<rparr>
        AllowAllSignPolicy) = (Inr ?sess, c1) \<and> client_detach ?E ?sess c1 = (Inr (), c2)"
    using session_lifecycle_over_the_pipe [OF codecs _ _ ser connected_ready script chunks sendable _ refl,
        of AllowAllSignPolicy]
    by (simp add: sample_attach_result_def sample_engine_def sample_hex_def) blast
  then show ?thesis by (intro exI [of _ ?sess]) simp
qed

end
