(* ===== verification/Agreement.thy ===== *)
theory Agreement
  imports Connected Client_Custody
begin

text \<open>
  What the engine's acceptance says about the app.  An execution of the engine and an execution of the
  app's client are taken together, with no assumption on how they interleave or on who sits between
  them, except that the signatures presented to the engine are not forgeries: they verify under the
  app's key only for messages the app's signer was asked to sign.  Agreement follows from the custody
  of the key on the client's side and the origin of the pending handshakes on the engine's.
\<close>

section \<open>The challenges the app signs\<close>

definition attach_challenge_for :: "string \<Rightarrow> u8 list \<Rightarrow> bool" where
  "attach_challenge_for d m \<longleftrightarrow>
     (let n = take NONCE_LEN (drop (length SESSION_CHALLENGE_DOMAIN) m)
      in length n = NONCE_LEN \<and> m = challenge_message n d)"

lemma attach_challenge_for_iff:
  "attach_challenge_for d m \<longleftrightarrow> (\<exists>n. length n = NONCE_LEN \<and> m = challenge_message n d)"
proof
  assume "attach_challenge_for d m"
  then show "\<exists>n. length n = NONCE_LEN \<and> m = challenge_message n d"
    unfolding attach_challenge_for_def Let_def by blast
qed (auto simp: attach_challenge_for_def Let_def challenge_message_def)

lemma challenge_for_callback: "sign_callback_message t p = Some m \<Longrightarrow> \<not> attach_challenge_for d m"
  by (auto simp: attach_challenge_for_iff)

lemma challenge_for_challenge:
  "length n = NONCE_LEN \<Longrightarrow> attach_challenge_for d (challenge_message n d') \<longleftrightarrow> d' = d"
  using attach.unambiguous by (fastforce simp: attach_challenge_for_iff)

lemma attach_challenge_did:
  "length n = NONCE_LEN \<Longrightarrow> attach_challenge D (challenge_message n d) \<longleftrightarrow> d \<in> D"
proof -
  have "attach_challenge D m \<longleftrightarrow> (\<exists>d' \<in> D. attach_challenge_for d' m)" for m
    by (auto simp: attach_challenge_def attach_challenge_for_iff)
  then show "length n = NONCE_LEN \<Longrightarrow> attach_challenge D (challenge_message n d) \<longleftrightarrow> d \<in> D"
    by (auto simp: challenge_for_challenge)
qed

definition challenges_signed :: "string \<Rightarrow> u8 list list \<Rightarrow> nat" where
  "challenges_signed d ms = length (filter (attach_challenge_for d) ms)"

text \<open>Serving callbacks never signs a challenge, and a handshake signs at most one.\<close>

definition signed_at_most :: "string \<Rightarrow> nat \<Rightarrow> ('v, 't, 's, 'p) recording_client \<Rightarrow> bool" where
  "signed_at_most d k c \<longleftrightarrow> challenges_signed d (signed_messages c) \<le> k"

lemma signed_at_most_same: "signed_at_most d k c \<Longrightarrow> signer c' = signer c \<Longrightarrow> signed_at_most d k c'"
  by (simp add: signed_at_most_def)

lemma signed_at_most_decide:
  assumes "signed_at_most d k c" and "decide_callback (recording_env E) frame c = (v, c')"
  shows "signed_at_most d k c'"
  using assms(2)
proof (cases rule: decide_callback_cases)
  case (policy q dec)
  with assms(1) recording_authorize [OF policy(1)] show ?thesis by (simp add: signed_at_most_def)
next
  case (sign q c1 m r c2)
  have "signed_at_most d k c2"
    using assms(1) recording_authorize [OF sign(1)] recording_try_sign [OF sign(3)]
      challenge_for_callback [OF sign(2), of d]
    by (simp add: signed_at_most_def challenges_signed_def)
  with sign(4) show ?thesis
    by (auto simp: signed_at_most_def dest!: recording_pubkey split: option.splits)
qed (use assms(1) in simp)

interpretation counted: calling_invariant "recording_env E" "signed_at_most d k"
  for E :: "('v, 't, 's, 'p) client_env" and d k
proof unfold_locales
  fix c c' :: "('v, 't, 's, 'p) recording_client" and frame r
  assume c: "signed_at_most d k c" and "service_sign_callback (recording_env E) frame c = (r, c')"
  from this(2) show "signed_at_most d k c'"
  proof (rule service_verdict)
    fix v c1 assume "decide_callback (recording_env E) frame c = (v, c1)"
      and reply: "reply_verdict (recording_env E) (callback_id (recording_env E) frame) v c1 = (r, c')"
    from c this(1) have "signed_at_most d k c1" by (rule signed_at_most_decide)
    with reply show ?thesis
      by (auto simp: reply_verdict_def try_then_def dest!: send_error_frame send_result_frame
          elim!: signed_at_most_same split: verdict.splits prod.splits sum.splits)
  qed
qed (auto intro: signed_at_most_same dest!: client_send_frame client_recv_frame)

interpretation one_challenge: handshake_transition "recording_env E" "signed_at_most d k"
  "signed_at_most d (if dd = d then Suc k else k)" "{dd}"
  for E :: "('v, 't, 's, 'p) client_env" and d k dd
  by unfold_locales
    (auto simp: signed_at_most_def challenges_signed_def challenge_for_challenge
      dest!: recording_pubkey recording_try_sign)

text \<open>How often the app ran a handshake for a DID.\<close>

definition handshakes_run :: "string \<Rightarrow> client_event list \<Rightarrow> nat" where
  "handshakes_run d ces = length (filter (\<lambda>ev. d \<in> attached_did ev) ces)"

interpretation challenges: trace_invariant "client_step E" "recording_client_new t s p"
  "\<lambda>ces. signed_at_most d (handshakes_run d ces)"
  for E :: "('v, 't, 's, 'p) client_env" and t s p d
proof unfold_locales
  show "signed_at_most d (handshakes_run d []) (recording_client_new t s p)"
    by (simp add: signed_at_most_def challenges_signed_def recording_client_new_def client_new_def)
next
  fix ces and c c' :: "('v, 't, 's, 'p) recording_client" and ev
  assume c: "signed_at_most d (handshakes_run d ces) c" and "client_step E c ev c'"
  from this(2) show "signed_at_most d (handshakes_run d (ces @ [ev])) c'"
  proof cases
    case (step_handshake prof r)
    have "signed_at_most d (if did prof = d then Suc (handshakes_run d ces) else handshakes_run d ces) c'"
      by (rule one_challenge.begin_and_attach_reaches [OF step_handshake(2) _ c]) simp
    with step_handshake(1) show ?thesis by (auto simp: handshakes_run_def split: if_splits)
  next
    case (step_reattach t prof r)
    from step_reattach(2) have "begin_and_attach (recording_env E) prof (c\<lparr>transport := t, next_id := 1\<rparr>) = (r, c')"
      by (simp add: reattach_def)
    then have "signed_at_most d (if did prof = d then Suc (handshakes_run d ces) else handshakes_run d ces) c'"
      by (rule one_challenge.begin_and_attach_reaches) (use c in \<open>simp_all add: signed_at_most_def\<close>)
    with step_reattach(1) show ?thesis by (auto simp: handshakes_run_def split: if_splits)
  next
    case (step_release sess u)
    with c counted.detach_kept [OF step_release(2)] show ?thesis by (simp add: handshakes_run_def)
  next
    case (step_serve r)
    with c counted.handle_next_kept [OF _ step_serve(2)] show ?thesis by (simp add: handshakes_run_def)
  next
    case (step_outside t s p)
    with c show ?thesis by (simp add: handshakes_run_def signed_at_most_def)
  qed
qed

section \<open>The signatures the engine sees\<close>

text \<open>
  No forgery: a signature presented to the engine in an attach verifies under the key only for messages
  the owner of the key was asked to sign.
\<close>

definition no_forgery ::
  "('pk, 'sg, 'e, 'r) engine_env \<Rightarrow> signing_public_key \<Rightarrow> u8 list list \<Rightarrow> engine_event list \<Rightarrow> bool" where
  "no_forgery X pk ms es \<longleftrightarrow>
     (\<forall>ap r sig m. Attach_Request ap r \<in> set es \<and> decode_signature (eng_b64 X) (ap_signature_b64 ap) = Inr sig
        \<and> verify_signature (eng_bls X) pk m sig \<longrightarrow> m \<in> set ms)"

text \<open>The candidate was issued to a begin request that advertised the key.\<close>

fun begins_with ::
  "('pk, 'sg, 'e, 'r) engine_env \<Rightarrow> signing_public_key \<Rightarrow> string \<Rightarrow> engine_event \<Rightarrow> bool" where
  "begins_with X pk cand (Begin p (Inr br)) \<longleftrightarrow> br_session_candidate br = cand
     \<and> key_from_hex (eng_hex X) (signing_pubkey_hex p) = Some pk"
| "begins_with X pk cand _ \<longleftrightarrow> False"

definition begun_with ::
  "('pk, 'sg, 'e, 'r) engine_env \<Rightarrow> signing_public_key \<Rightarrow> engine_event list \<Rightarrow> string \<Rightarrow> bool" where
  "begun_with X pk es cand \<longleftrightarrow> list_ex (begins_with X pk cand) es"

lemma begun_withE:
  assumes "begun_with X pk es cand"
  obtains p br where "Begin p (Inr br) \<in> set es" "br_session_candidate br = cand"
    "key_from_hex (eng_hex X) (signing_pubkey_hex p) = Some pk"
proof -
  from assms obtain ev where "ev \<in> set es" "begins_with X pk cand ev"
    unfolding begun_with_def list_ex_iff by blast
  then show thesis by (cases "(X, pk, cand, ev)" rule: begins_with.cases) (auto intro: that)
qed

text \<open>What the engine knows when it has accepted an attach under the key.\<close>

definition agreed ::
  "('pk, 'sg, 'e, 'r) engine_env \<Rightarrow> engine_event list \<Rightarrow> u8 list list \<Rightarrow> string \<Rightarrow> string \<Rightarrow> u8 list \<Rightarrow> bool" where
  "agreed X es ms d cand n \<longleftrightarrow>
     length n = NONCE_LEN \<and> challenge_message n d \<in> set ms
     \<and> (\<exists>p br. Begin p (Inr br) \<in> set es \<and> br_session_candidate br = cand \<and> bp_profile_did p = d
          \<and> nonce_b64 br = b64_encode (eng_b64 X) n)"

lemma agreed_mono: "agreed X es ms d cand n \<Longrightarrow> set es \<subseteq> set fs \<Longrightarrow> agreed X fs ms d cand n"
  by (auto simp: agreed_def)

lemma accepting_state_agreed:
  assumes run: "trace (engine_step X) (engine_new e r) es g" and acc: "engine_attach X ap g = (Inr ar, g')"
    and published: "fst (resolve_signing_key X (resolver g) (did (profile ap))) = Some pk"
    and genuine: "no_forgery X pk ms fs" "Attach_Request ap (Inr ar) \<in> set fs"
  obtains n where "agreed X es ms (did (profile ap)) (ap_session_candidate ap) n"
proof -
  from acc obtain cand where cand: "hm_get (pending g) (ap_session_candidate ap) = Some cand"
    and auth: "authenticated X cand ap (fst (resolve_signing_key X (resolver g) (did (profile ap))))"
    by (rule engine_attach_success)
  from origin.inv_trace [OF run] cand have "handshake_origin X es (ap_session_candidate ap) cand"
    by (simp add: originated_def)
  then obtain p br where br: "Begin p (Inr br) \<in> set es" "br_session_candidate br = ap_session_candidate ap"
    "nonce_b64 br = b64_encode (eng_b64 X) (array_bytes (nonce cand))" "bp_profile_did p = pc_profile_did cand"
    by (auto simp: handshake_origin_def)
  from auth published obtain sig where "decode_signature (eng_b64 X) (ap_signature_b64 ap) = Inr sig"
    "verify_signature (eng_bls X) pk (challenge_message (array_bytes (nonce cand)) (did (profile ap))) sig"
    by (auto simp: authenticated_def split: sum.splits)
  with genuine have "challenge_message (array_bytes (nonce cand)) (did (profile ap)) \<in> set ms"
    by (auto simp: no_forgery_def)
  with br auth show thesis
    by (intro that [of "array_bytes (nonce cand)"]) (auto simp: agreed_def NONCE_LEN_def authenticated_def)
qed

text \<open>With distinct tokens the key an accepted candidate was begun with is the key published for it.\<close>

lemma begun_key_published:
  assumes run: "trace (engine_step X) (engine_new e r) es1 g" and acc: "engine_attach X ap g = (Inr ar, g')"
    and "set es1 \<subseteq> set es" and "distinct (issued es)" and "begun_with X pk es (ap_session_candidate ap)"
  shows "fst (resolve_signing_key X (resolver g) (did (profile ap))) = Some pk"
proof -
  from acc obtain cand where cand: "hm_get (pending g) (ap_session_candidate ap) = Some cand"
    and auth: "authenticated X cand ap (fst (resolve_signing_key X (resolver g) (did (profile ap))))"
    by (rule engine_attach_success)
  from origin.inv_trace [OF run] cand assms(3) obtain p br where br: "Begin p (Inr br) \<in> set es"
    "br_session_candidate br = ap_session_candidate ap"
    "key_from_hex (eng_hex X) (signing_pubkey_hex p) = Some (advertised_key cand)"
    by (fastforce simp: originated_def handshake_origin_def)
  from assms(5) obtain p' br' where br': "Begin p' (Inr br') \<in> set es"
    "br_session_candidate br' = ap_session_candidate ap" "key_from_hex (eng_hex X) (signing_pubkey_hex p') = Some pk"
    by (rule begun_withE)
  from issued_twice [OF assms(4) br(1) br'(1)] br br' auth show ?thesis by (simp add: authenticated_def)
qed

lemma accepted_agreed:
  assumes run: "trace (engine_step X) (engine_new e r) es g" and dist: "distinct (issued es)"
    and genuine: "no_forgery X pk ms es"
    and acc: "Attach_Request ap (Inr ar) \<in> set es" and key: "begun_with X pk es (ap_session_candidate ap)"
  obtains n where "agreed X es ms (did (profile ap)) (ap_session_candidate ap) n"
proof -
  from acc obtain es1 es2 where es: "es = (es1 @ [Attach_Request ap (Inr ar)]) @ es2"
    by (metis append_Cons append_Nil append_assoc in_set_conv_decomp)
  with run obtain g1 where "trace (engine_step X) (engine_new e r) (es1 @ [Attach_Request ap (Inr ar)]) g1"
    by (blast elim: trace_prefix)
  then obtain g0 where g0: "trace (engine_step X) (engine_new e r) es1 g0"
    and att: "engine_attach X ap g0 = (Inr ar, g1)"
    by (auto elim!: trace_snocE)
  have sub: "set es1 \<subseteq> set es" by (auto simp: es)
  obtain n where "agreed X es1 ms (did (profile ap)) (ap_session_candidate ap) n"
    using accepting_state_agreed [OF g0 att begun_key_published [OF g0 att sub dist key] genuine acc] .
  with sub show thesis by (blast intro: that agreed_mono)
qed

section \<open>Counting sessions\<close>

text \<open>The attaches of the DID that were accepted under the key, and the nonces the engine issued.\<close>

definition opened_under ::
  "('pk, 'sg, 'e, 'r) engine_env \<Rightarrow> signing_public_key \<Rightarrow> string \<Rightarrow> engine_event list \<Rightarrow> engine_event list" where
  "opened_under X pk d es =
     filter (\<lambda>ev. case ev of
         Attach_Request ap (Inr _) \<Rightarrow> did (profile ap) = d \<and> begun_with X pk es (ap_session_candidate ap)
       | _ \<Rightarrow> False) es"

fun nonce_issued_by :: "engine_event \<Rightarrow> string list" where
  "nonce_issued_by (Begin p (Inr br)) = [nonce_b64 br]"
| "nonce_issued_by _ = []"

definition nonces_issued :: "engine_event list \<Rightarrow> string list" where
  "nonces_issued es = concat (map nonce_issued_by es)"

fun attempted :: "engine_event \<Rightarrow> string" where
  "attempted (Attach_Request ap _) = ap_session_candidate ap"
| "attempted _ = []"

lemma opened_under_member:
  "ev \<in> set (opened_under X pk d es) \<longleftrightarrow>
     (\<exists>ap ar. ev = Attach_Request ap (Inr ar) \<and> ev \<in> set es \<and> did (profile ap) = d
        \<and> begun_with X pk es (ap_session_candidate ap))"
  by (auto simp: opened_under_def split: engine_event.splits sum.splits)

lemma opened_candidates_distinct:
  assumes "trace (engine_step X) (engine_new e r) es g" and "distinct (issued es)"
  shows "distinct (map attempted (opened_under X pk d es))"
  unfolding distinct_count_list
proof
  fix c
  have "count_list (map attempted (opened_under X pk d es)) c \<le> accepted_count c es"
    unfolding opened_under_def accepted_count_def
    by (rule count_list_map_filter) (auto split: engine_event.splits sum.splits)
  also have "\<dots> \<le> count_list (issued es) c"
    using single.inv_trace [OF assms(1)] by (auto simp: single_use_def intro: add_leD1)
  also have "\<dots> \<le> 1"
    using assms(2) by (simp add: distinct_count_list)
  finally show "count_list (map attempted (opened_under X pk d es)) c \<le> 1" .
qed


section \<open>Properties\<close>

text \<open>
  C3. Agreement.  Suppose an execution of the engine, with any nonces and tokens, repeated ones
  included, reaches a state in which it accepts an attach while the app's key is published for the DID
  of the attach, and the signatures the engine has seen by then are no forgeries under that key.  Then
  the app ran a handshake for that DID, and in it the app signed the challenge of that DID and of a
  nonce the engine issued with the candidate, in answer to a begin request for that DID.  No callback
  the app served, whatever the engine put in it, can stand in for the handshake.
\<close>

theorem accepted_attach_was_made_by_the_app:
  assumes "trace (engine_step X) (engine_new e r) es g" and "engine_attach X ap g = (Inr ar, g')"
    and "fst (resolve_signing_key X (resolver g) (did (profile ap))) = Some pk"
    and "trace (client_step E) (recording_client_new t s p) ces c"
    and "no_forgery X pk (signed_messages c) (es @ [Attach_Request ap (Inr ar)])"
  shows "did (profile ap) \<in> attached_dids ces
    \<and> (\<exists>n. agreed X es (signed_messages c) (did (profile ap)) (ap_session_candidate ap) n
         \<and> \<not> callback_of (allowed_requests c) (challenge_message n (did (profile ap))))"
proof -
  obtain n where n: "agreed X es (signed_messages c) (did (profile ap)) (ap_session_candidate ap) n"
    by (rule accepting_state_agreed [OF assms(1-3,5)]) simp_all
  have not_callback: "\<not> callback_of (allowed_requests c) (challenge_message n (did (profile ap)))"
    by (auto simp: callback_of_def)
  have "custody (attached_dids ces) c" using assms(4) by (rule client.inv_trace)
  with n not_callback have "did (profile ap) \<in> attached_dids ces"
    by (auto simp: custody_def agreed_def attach_challenge_did)
  with n not_callback show ?thesis by blast
qed

text \<open>
  C4. Injective agreement between the halves.  If the signatures the engine saw are no forgeries under
  the app's key and neither the tokens nor the nonces it issued repeat, it opened at most as many
  sessions for a DID under the app's key as the app ran handshakes for it: no replay, no relay and no
  callback turns one handshake of the app into two sessions.
\<close>

theorem sessions_opened_are_handshakes_run:
  assumes "trace (engine_step X) (engine_new e r) es g" and "distinct (issued es)"
    and "distinct (nonces_issued es)"
    and "trace (client_step E) (recording_client_new t s p) ces c"
    and "no_forgery X pk (signed_messages c) es"
  shows "length (opened_under X pk d es) \<le> handshakes_run d ces"
proof -
  let ?A = "opened_under X pk d es" and ?ms = "signed_messages c"
  have dist: "distinct (map attempted ?A)" by (rule opened_candidates_distinct [OF assms(1,2)])
  have "\<exists>n. agreed X es ?ms d cand n" if "cand \<in> attempted ` set ?A" for cand
    using that accepted_agreed [OF assms(1,2,5)] by (force simp: opened_under_member)
  then obtain f where f: "\<And>cand. cand \<in> attempted ` set ?A \<Longrightarrow> agreed X es ?ms d cand (f cand)"
    by metis
  let ?m = "\<lambda>cand. challenge_message (f cand) d"
  have inj: "inj_on ?m (attempted ` set ?A)"
  proof (rule inj_onI)
    fix a b assume mem: "a \<in> attempted ` set ?A" "b \<in> attempted ` set ?A" and "?m a = ?m b"
    then have "f a = f b"
      using f [OF mem(1)] f [OF mem(2)] attach.unambiguous [of "(f a, d)" "(f b, d)"] by (simp add: agreed_def)
    with f [OF mem(1)] f [OF mem(2)] obtain p br q br' where
      begins: "Begin p (Inr br) \<in> set es" "Begin q (Inr br') \<in> set es" "nonce_b64 br' = nonce_b64 br"
      and cands: "br_session_candidate br = a" "br_session_candidate br' = b"
      by (auto simp: agreed_def)
    from issued_once [OF assms(3) [unfolded nonces_issued_def] begins(1,2)] begins(3) have "br = br'" by simp
    with cands show "a = b" by simp
  qed
  have "length ?A = card (attempted ` set ?A)"
    using distinct_card [OF dist] by simp
  also have "\<dots> = card (?m ` attempted ` set ?A)" by (rule card_image [OF inj, symmetric])
  also have "\<dots> \<le> card (set (filter (attach_challenge_for d) ?ms))"
    using f by (intro card_mono) (auto simp: agreed_def challenge_for_challenge)
  also have "\<dots> \<le> challenges_signed d ?ms" unfolding challenges_signed_def by (rule card_length)
  also have "\<dots> \<le> handshakes_run d ces"
    using challenges.inv_trace [OF assms(4), of d] by (simp add: signed_at_most_def)
  finally show ?thesis .
qed

text \<open>
  The sample engine with a library that accepts signatures of one message only, and the app's client
  that read its answers.
\<close>

definition one_message_bls :: "u8 list \<Rightarrow> (unit, unit) chia_bls" where
  "one_message_bls message =
     \<lparr>pk_from_bytes = (\<lambda>_. Some ()), sg_from_bytes = (\<lambda>_. Some ()), bls_verify = (\<lambda>_ _ m. m = message)\<rparr>"

definition strict_engine :: "(unit, unit, seq_entropy, stub_resolver) engine_env" where
  "strict_engine = sample_engine\<lparr>eng_bls := one_message_bls (challenge_message (replicate 32 0) ''did:chia:alice'')\<rparr>"

definition connected_handshake ::
  "(session_error failure + session) \<times> (sample_value, fake_transport, unit test_signer, allow_all_sign_policy) recording_client" where
  "connected_handshake = begin_and_attach (recording_env connected_env) sample_profile
     (recording_client_new (fake_scripted [''begin'', ''attach'']) \<lparr>secret_key = ()\<rparr> AllowAllSignPolicy)"

lemma connected_signed:
  "signed_messages (snd connected_handshake) = [challenge_message (replicate 32 0) ''did:chia:alice'']"
  by (simp add: connected_handshake_def begin_and_attach_def client_call_def read_response_unfold
      frame_response_def client_eval recording_client_new_def recording_env_def recording_signer_def
      connected_env_def NONCE_LEN_def MAX_INTERLEAVED_CALLBACKS_def Let_def cong: try_then_weak_cong)

abbreviation strict_events :: "engine_event list" where
  "strict_events \<equiv> [Begin sample_begin_params (Inr sample_begin_result)]
     @ [Attach_Request sample_attach_params (Inr sample_attach_result)]"

lemma strict_begun:
  "trace (engine_step strict_engine) sample_engine_start [Begin sample_begin_params (Inr sample_begin_result)] sample_begun"
proof -
  have "engine_begin (sample_engine\<lparr>eng_bls := B\<rparr>) p g = engine_begin sample_engine p g" for B p g
    by (cases "key_from_hex (eng_hex sample_engine) (signing_pubkey_hex p)")
      (simp_all add: engine_begin_def engine_fill_nonce_def)
  then have "engine_begin strict_engine sample_begin_params sample_engine_start = (Inr sample_begin_result, sample_begun)"
    by (simp only: strict_engine_def sample_engine_begin)
  then have "trace (engine_step strict_engine) sample_engine_start
      ([] @ [Begin sample_begin_params (Inr sample_begin_result)]) sample_begun"
    by (intro trace_step [OF trace_start] step_begin)
  then show ?thesis by simp
qed

lemma strict_attach:
  "engine_attach strict_engine sample_attach_params sample_begun
     = (Inr sample_attach_result, snd (engine_attach strict_engine sample_attach_params sample_begun))"
proof -
  have "fst (engine_attach strict_engine sample_attach_params sample_begun)
      = Inr \<lparr>ar_session_id = hex_encode (eng_hex strict_engine) (array_bytes (array_of 2 :: 32 bytes)),
             ar_engine_capabilities = ENGINE_CAPABILITIES\<rparr>"
  proof (rule engine_attach_accepts)
    show "hm_get (pending sample_begun) (ap_session_candidate sample_attach_params) = Some
        \<lparr>nonce = array_of 0, advertised_key = test_signer_public sample_keys \<lparr>secret_key = ()\<rparr>,
         pc_profile_did = ''did:chia:alice''\<rparr>"
      by (simp add: sample_attach_params_def sample_begun_fields)
  qed (simp_all add: sample_begun_fields strict_engine_def sample_engine_def sample_nonces authenticated_def
      sample_attach_params_def engine_new_def stub_resolve_def decode_signature_def sample_b64_def
      try_into_array_def verify_signature_def one_message_bls_def)
  then show ?thesis
    by (simp add: prod_eq_iff sample_attach_result_def strict_engine_def sample_engine_def sample_hex_def)
qed

lemma strict_trace:
  "\<exists>g. trace (engine_step strict_engine) sample_engine_start strict_events g"
  using trace_step [OF strict_begun step_attach [OF strict_attach]] by auto

lemma connected_trace:
  "trace (client_step connected_env) (recording_client_new (fake_scripted [''begin'', ''attach''])
     \<lparr>secret_key = ()\<rparr> AllowAllSignPolicy) ([] @ [Handshake sample_profile]) (snd connected_handshake)"
  by (rule trace_step [OF trace_start], rule step_handshake [where r = "fst connected_handshake"])
    (simp add: connected_handshake_def)

lemma strict_facts:
  "distinct (issued strict_events)" "distinct (nonces_issued strict_events)"
  "no_forgery strict_engine pk (signed_messages (snd connected_handshake)) strict_events"
  "begun_with strict_engine (test_signer_public sample_keys \<lparr>secret_key = ()\<rparr>) strict_events
     (ap_session_candidate sample_attach_params)"
  by (simp_all add: nonces_issued_def no_forgery_def connected_signed strict_engine_def sample_engine_def
      verify_signature_def one_message_bls_def begun_with_def sample_attach_params_def
      key_hex_inverse [OF sample_hex_round_trip])

theorem accepted_attach_was_made_by_the_app_witness:
  "\<exists>n. agreed strict_engine [Begin sample_begin_params (Inr sample_begin_result)]
     (signed_messages (snd connected_handshake)) (did sample_profile) (ap_session_candidate sample_attach_params) n"
proof -
  have "fst (resolve_signing_key strict_engine (resolver sample_begun) (did (profile sample_attach_params)))
      = Some (test_signer_public sample_keys \<lparr>secret_key = ()\<rparr>)"
    by (simp add: sample_begun_fields strict_engine_def sample_engine_def engine_new_def stub_resolve_def
        sample_attach_params_def)
  from accepted_attach_was_made_by_the_app [OF strict_begun strict_attach this connected_trace strict_facts(3)]
  show ?thesis by (auto simp: sample_attach_params_def)
qed

theorem sessions_opened_are_handshakes_run_witness:
  "let pk = test_signer_public sample_keys \<lparr>secret_key = ()\<rparr>
   in length (opened_under strict_engine pk (did sample_profile) strict_events) = 1
      \<and> length (opened_under strict_engine pk (did sample_profile) strict_events)
          \<le> handshakes_run (did sample_profile) [Handshake sample_profile]"
proof -
  obtain g where "trace (engine_step strict_engine) sample_engine_start strict_events g"
    using strict_trace by blast
  from sessions_opened_are_handshakes_run [OF this strict_facts(1,2) connected_trace strict_facts(3),
      of "test_signer_public sample_keys \<lparr>secret_key = ()\<rparr>" "did sample_profile"]
  have "length (opened_under strict_engine (test_signer_public sample_keys \<lparr>secret_key = ()\<rparr>)
      (did sample_profile) strict_events) \<le> handshakes_run (did sample_profile) [Handshake sample_profile]"
    by simp
  moreover have "length (opened_under strict_engine (test_signer_public sample_keys \<lparr>secret_key = ()\<rparr>)
      (did sample_profile) strict_events) = 1"
    using strict_facts(4) by (simp add: opened_under_def sample_attach_params_def)
  ultimately show ?thesis by (simp add: Let_def)
qed

end
