(* ===== verification/Engine_Tests.thy ===== *)
theory Engine_Tests
  imports Engine_Trace
begin

text \<open>
  The unit tests of \<open>src/engine.rs\<close>, as programs over the model: each test is a function to
  \<open>bool\<close>, true when none of its assertions fails and nothing it unwraps is an error.  They hold for
  every codec, hash and key library with the documented behaviour, not only for the ones the tests
  link.
\<close>

section \<open>The fixtures\<close>

abbreviation test_did :: string where
  "test_did \<equiv> ''did:chia:alice''"

text \<open>The engine of the tests: the counter-based nonces of \<open>SeqEntropy\<close> and a stub resolver.\<close>

definition test_env ::
  "hex_crate \<Rightarrow> base64_crate \<Rightarrow> ('pk, 'sg) chia_bls \<Rightarrow> (u8 list \<Rightarrow> 32 bytes) \<Rightarrow>
     ('pk, 'sg, seq_entropy, stub_resolver) engine_env" where
  "test_env H B L sha256 =
     \<lparr>eng_hex = H, eng_b64 = B, eng_bls = L, fill_nonce = seq_fill_nonce sha256,
      resolve_signing_key = stub_resolve\<rparr>"

definition test_registry :: "'sk bls_keys \<Rightarrow> 'sk test_signer \<Rightarrow> (seq_entropy, stub_resolver) engine" where
  "test_registry K app =
     engine_new (seq_entropy_new (str_bytes ''engine-test-seed''))
       \<lparr>stub_did = test_did, stub_key = test_signer_public K app\<rparr>"

definition test_profile :: profile_attachment where
  "test_profile = \<lparr>did = test_did, subscriptions = [], config_digest = ''d''\<rparr>"

definition test_honest_attach ::
  "('pk, 'sg, 'e, 'r) engine_env \<Rightarrow> 'sk bls_keys \<Rightarrow> 'sk test_signer \<Rightarrow> begin_result \<Rightarrow> attach_params option" where
  "test_honest_attach X K app begin =
     (case b64_decode (eng_b64 X) (str_bytes (nonce_b64 begin)) of
        None \<Rightarrow> None
      | Some nn \<Rightarrow>
          let signature = test_signer_sign K app (challenge_message nn test_did) in
          Some \<lparr>ap_session_candidate = br_session_candidate begin,
                ap_signature_b64 = b64_encode (eng_b64 X) (array_bytes (sig_as_bytes signature)),
                profile = test_profile\<rparr>)"

definition test_begin ::
  "('pk, 'sg, 'e, 'r) engine_env \<Rightarrow> signing_public_key \<Rightarrow> ('e, 'r) engine \<Rightarrow>
     (attach_error failure + begin_result) \<times> ('e, 'r) engine" where
  "test_begin X key g =
     engine_begin X \<lparr>bp_profile_did = test_did, signing_pubkey_hex = key_to_hex (eng_hex X) key\<rparr> g"

section \<open>The tests\<close>

type_synonym ('pk, 'sg, 'sk) engine_test =
  "('pk, 'sg, seq_entropy, stub_resolver) engine_env \<Rightarrow> 'sk bls_keys \<Rightarrow> bool"

definition honest_handshake_opens_a_session :: "('pk, 'sg, 'sk) engine_test" where
  "honest_handshake_opens_a_session X K =
     (let app = test_signer_seeded K 7 in
      unwrap (test_begin X (test_signer_public K app) (test_registry K app)) (\<lambda>begin g.
        pending_candidates g = 1
        \<and> (case test_honest_attach X K app begin of
             None \<Rightarrow> False
           | Some params \<Rightarrow>
               unwrap (engine_attach X params g) (\<lambda>att g.
                 open_sessions g = 1 \<and> pending_candidates g = 0
                 \<and> engine_session g (ar_session_id att) \<noteq> None
                 \<and> ''sync'' \<in> set (ar_engine_capabilities att)
                 \<and> (case engine_detach (ar_session_id att) g of (removed, g) \<Rightarrow>
                      removed \<and> open_sessions g = 0 \<and> \<not> fst (engine_detach (ar_session_id att) g))))))"

definition forged_signature_is_rejected_as_bad_mac :: "('pk, 'sg, 'sk) engine_test" where
  "forged_signature_is_rejected_as_bad_mac X K =
     (let app = test_signer_seeded K 7 in
      unwrap (test_begin X (test_signer_public K app) (test_registry K app)) (\<lambda>begin g.
        let stranger = test_signer_seeded K 999 in
        case (test_honest_attach X K app begin, b64_decode (eng_b64 X) (str_bytes (nonce_b64 begin))) of
          (Some params, Some nn) \<Rightarrow>
            let forged = test_signer_sign K stranger (challenge_message nn test_did);
                params = params\<lparr>ap_signature_b64 :=
                  b64_encode (eng_b64 X) (array_bytes (sig_as_bytes forged))\<rparr> in
            unwrap_err (engine_attach X params g) (\<lambda>err g.
              err = BadSignature \<and> attach_error_code err = BadMac)
        | _ \<Rightarrow> False))"

definition unpublished_key_is_a_key_mismatch :: "('pk, 'sg, 'sk) engine_test" where
  "unpublished_key_is_a_key_mismatch X K =
     (let app = test_signer_seeded K 7; stranger = test_signer_seeded K 999 in
      unwrap (test_begin X (test_signer_public K stranger) (test_registry K app)) (\<lambda>begin g.
        case test_honest_attach X K stranger begin of
          None \<Rightarrow> False
        | Some params \<Rightarrow> unwrap_err (engine_attach X params g) (\<lambda>err g. err = KeyMismatch)))"

definition attach_rejects_a_malformed_signature :: "('pk, 'sg, 'sk) engine_test" where
  "attach_rejects_a_malformed_signature X K =
     (let app = test_signer_seeded K 7 in
      unwrap (test_begin X (test_signer_public K app) (test_registry K app)) (\<lambda>begin g.
        case test_honest_attach X K app begin of
          None \<Rightarrow> False
        | Some params \<Rightarrow>
            unwrap_err (engine_attach X (params\<lparr>ap_signature_b64 := ''!!not-base64''\<rparr>) g)
              (\<lambda>err g. case err of Malformed _ \<Rightarrow> True | _ \<Rightarrow> False)))"

definition replayed_candidate_is_unknown :: "('pk, 'sg, 'sk) engine_test" where
  "replayed_candidate_is_unknown X K =
     (let app = test_signer_seeded K 7 in
      unwrap (test_begin X (test_signer_public K app) (test_registry K app)) (\<lambda>begin g.
        case test_honest_attach X K app begin of
          None \<Rightarrow> False
        | Some params \<Rightarrow>
            unwrap (engine_attach X params g) (\<lambda>_ g.
              unwrap_err (engine_attach X params g) (\<lambda>err g.
                err = UnknownCandidate \<and> attach_error_code err = AuthRequired))))"

definition unresolvable_did_is_rejected :: "('pk, 'sg, 'sk) engine_test" where
  "unresolvable_did_is_rejected X K =
     (let app = test_signer_seeded K 7;
          engine = engine_new (seq_entropy_new (str_bytes ''seed''))
            \<lparr>stub_did = ''did:chia:someone-else'', stub_key = test_signer_public K app\<rparr> in
      unwrap (test_begin X (test_signer_public K app) engine) (\<lambda>begin g.
        case test_honest_attach X K app begin of
          None \<Rightarrow> False
        | Some params \<Rightarrow> unwrap_err (engine_attach X params g) (\<lambda>err g. err = UnknownDid)))"

definition begin_rejects_a_malformed_pubkey :: "('pk, 'sg, 'sk) engine_test" where
  "begin_rejects_a_malformed_pubkey X K =
     (let app = test_signer_seeded K 7 in
      unwrap_err (engine_begin X \<lparr>bp_profile_did = test_did, signing_pubkey_hex = ''not-hex''\<rparr>
          (test_registry K app))
        (\<lambda>err g. case err of Malformed _ \<Rightarrow> True | _ \<Rightarrow> False))"

text \<open>The loop of the last test: so many begins, each unwrapped.\<close>

fun test_begins ::
  "('pk, 'sg, 'e, 'r) engine_env \<Rightarrow> signing_public_key \<Rightarrow> nat \<Rightarrow> ('e, 'r) engine \<Rightarrow> ('e, 'r) engine option" where
  "test_begins X key 0 g = Some g"
| "test_begins X key (Suc n) g =
     (case test_begin X key g of
        (Inl _, _) \<Rightarrow> None
      | (Inr _, g) \<Rightarrow> test_begins X key n g)"

definition pending_candidates_are_capped :: "('pk, 'sg, 'sk) engine_test" where
  "pending_candidates_are_capped X K =
     (let app = test_signer_seeded K 7 in
      case test_begins X (test_signer_public K app) (MAX_PENDING_CANDIDATES + 10) (test_registry K app) of
        None \<Rightarrow> False
      | Some g \<Rightarrow> pending_candidates g \<le> MAX_PENDING_CANDIDATES)"

definition engine_tests :: "('pk, 'sg, 'sk) engine_test list" where
  "engine_tests =
     [honest_handshake_opens_a_session, forged_signature_is_rejected_as_bad_mac,
      unpublished_key_is_a_key_mismatch, attach_rejects_a_malformed_signature,
      replayed_candidate_is_unknown, unresolvable_did_is_rejected, begin_rejects_a_malformed_pubkey,
      pending_candidates_are_capped]"

section \<open>They pass\<close>

text \<open>
  What the tests rely on: codecs that read back what they write and refuse the two malformed strings,
  signatures that verify under their own key, and two seeds with different keys of which one does not
  sign for the other.
\<close>

definition test_contract ::
  "hex_crate \<Rightarrow> base64_crate \<Rightarrow> ('pk, 'sg) chia_bls \<Rightarrow> 'sk bls_keys \<Rightarrow> bool" where
  "test_contract H B L K \<longleftrightarrow>
     hex_round_trip H \<and> hex_decode H ''not-hex'' = None
     \<and> b64_round_trip B \<and> b64_decode B (str_bytes ''!!not-base64'') = None
     \<and> bls_correct L K
     \<and> test_signer_public K (test_signer_seeded K 7) \<noteq> test_signer_public K (test_signer_seeded K 999)
     \<and> (\<forall>m. \<not> verify_signature L (test_signer_public K (test_signer_seeded K 7)) m
            (test_signer_sign K (test_signer_seeded K 999) m))"

lemma test_env_simps [simp]:
  "eng_hex (test_env H B L sha256) = H" "eng_b64 (test_env H B L sha256) = B"
  "eng_bls (test_env H B L sha256) = L" "fill_nonce (test_env H B L sha256) = seq_fill_nonce sha256"
  "resolve_signing_key (test_env H B L sha256) = stub_resolve"
  by (simp_all add: test_env_def)

text \<open>The state after one begin on a fresh engine.\<close>

definition test_nonce :: "(u8 list \<Rightarrow> 32 bytes) \<Rightarrow> u8 list \<Rightarrow> u64 \<Rightarrow> 32 bytes" where
  "test_nonce sha256 s i = sha256 (s @ u64_to_be_bytes i)"

definition test_candidate :: "hex_crate \<Rightarrow> (u8 list \<Rightarrow> 32 bytes) \<Rightarrow> u8 list \<Rightarrow> string" where
  "test_candidate H sha256 s = hex_encode H (array_bytes (test_nonce sha256 s 1))"

definition test_begun ::
  "hex_crate \<Rightarrow> (u8 list \<Rightarrow> 32 bytes) \<Rightarrow> signing_public_key \<Rightarrow> u8 list \<Rightarrow> 'r \<Rightarrow> (seq_entropy, 'r) engine" where
  "test_begun H sha256 key s r =
     \<lparr>entropy = \<lparr>counter = 2, seed = s\<rparr>, resolver = r,
      pending = hm_insert (test_candidate H sha256 s)
        \<lparr>nonce = test_nonce sha256 s 0, advertised_key = key, pc_profile_did = test_did\<rparr> hm_new,
      candidate_order = [test_candidate H sha256 s], sessions = hm_new\<rparr>"

lemma test_begin_run:
  assumes "hex_round_trip H"
  shows "test_begin (test_env H B L sha256) key (engine_new (seq_entropy_new s) r) =
    (Inr \<lparr>nonce_b64 = b64_encode B (array_bytes (test_nonce sha256 s 0)),
          br_session_candidate = test_candidate H sha256 s\<rparr>, test_begun H sha256 key s r)"
  by (simp add: test_begin_def engine_begin_def key_hex_inverse [OF assms] engine_fill_nonce_def
      seq_fill_nonce_def seq_entropy_new_def engine_new_def evict_if_full_def test_begun_def
      test_candidate_def test_nonce_def Let_def)

lemma test_honest_attach_run:
  assumes "b64_round_trip B"
  shows "test_honest_attach (test_env H B L sha256) K app \<lparr>nonce_b64 = b64_encode B bs, br_session_candidate = t\<rparr>
    = Some \<lparr>ap_session_candidate = t, ap_signature_b64 = b64_encode B
        (array_bytes (sig_as_bytes (test_signer_sign K app (challenge_message bs test_did)))),
        profile = test_profile\<rparr>"
  using assms by (simp add: test_honest_attach_def b64_round_trip_def)

lemma decode_own_signature:
  assumes "b64_round_trip B"
  shows "decode_signature B (b64_encode B (array_bytes (sig_as_bytes sig))) = Inr sig"
  using assms by (cases sig) (simp add: decode_signature_def b64_round_trip_def)

lemmas test_eval = test_registry_def test_begin_run test_honest_attach_run engine_attach_def
  take_candidate_alt test_begun_def test_profile_def stub_resolve_def decode_own_signature
  own_signature_verifies engine_fill_nonce_def seq_fill_nonce_def pending_candidates_def
  open_sessions_def Let_def

lemma hm_remove_only [simp]: "hm_remove k (hm_insert k v hm_new) = hm_new"
  by (rule fmap_ext) simp

lemma hm_len_single [simp]: "hm_len (hm_insert k v hm_new) = 1"
  by (simp add: hm.count_put)

text \<open>A begin succeeds while the counter of the nonce source has two numbers left.\<close>

lemma test_begin_succeeds:
  assumes "hex_round_trip H" and "unat (counter (entropy g)) + 2 < 2 ^ 64"
  obtains br g' where "test_begin (test_env H B L sha256) key g = (Inr br, g')"
    "unat (counter (entropy g')) = unat (counter (entropy g)) + 2"
proof -
  let ?n = "counter (entropy g)"
  have succ: "unat (?n + 1) = unat ?n + 1" "unat (?n + 2) = unat ?n + 2"
    using assms(2) by (simp_all add: unat_word_ariths)
  have last: "unat (- 1 :: u64) = 2 ^ 64 - 1" by (simp add: unsigned_minus_1_eq_mask mask_eq_exp_minus_1)
  have "?n \<noteq> - 1" using last assms(2) by auto
  moreover have "?n + 1 \<noteq> - 1"
  proof
    assume "?n + 1 = - 1"
    with succ(1) last assms(2) show False by simp
  qed
  ultimately have "test_begin (test_env H B L sha256) key g = (Inr (projr (fst (test_begin (test_env H B L sha256) key g))),
      snd (test_begin (test_env H B L sha256) key g))
    \<and> counter (entropy (snd (test_begin (test_env H B L sha256) key g))) = ?n + 2"
    by (simp add: test_begin_def engine_begin_def key_hex_inverse [OF assms(1)] engine_fill_nonce_def
        seq_fill_nonce_def evict_if_full_def Let_def split: prod.split)
  with succ that show thesis by metis
qed

lemma test_begins_succeed:
  assumes "hex_round_trip H"
  shows "unat (counter (entropy g)) + 2 * n < 2 ^ 64 \<Longrightarrow>
    \<exists>g'. test_begins (test_env H B L sha256) key n g = Some g'"
proof (induction n arbitrary: g)
  case (Suc n)
  then have "unat (counter (entropy g)) + 2 < 2 ^ 64" by simp
  with assms obtain br g' where "test_begin (test_env H B L sha256) key g = (Inr br, g')"
    "unat (counter (entropy g')) = unat (counter (entropy g)) + 2"
    by (rule test_begin_succeeds)
  with Suc.IH [of g'] Suc.prems show ?case by simp
qed simp

text \<open>The loop is an execution of the engine.\<close>

lemma test_begins_trace:
  "test_begins X key n g = Some g' \<Longrightarrow> trace (engine_step X) g0 es g \<Longrightarrow> \<exists>es'. trace (engine_step X) g0 es' g'"
proof (induction n arbitrary: g es)
  case (Suc n)
  then obtain br g1 where first: "test_begin X key g = (Inr br, g1)" and rest: "test_begins X key n g1 = Some g'"
    by (auto split: prod.splits sum.splits)
  from first have "engine_step X g (Begin \<lparr>bp_profile_did = test_did,
      signing_pubkey_hex = key_to_hex (eng_hex X) key\<rparr> (Inr br)) g1"
    by (simp add: test_begin_def step_begin)
  with Suc.prems(2) obtain es1 where "trace (engine_step X) g0 es1 g1" by (blast intro: trace_step)
  with rest show ?case by (rule Suc.IH)
qed auto

lemma begins_are_capped:
  assumes "hex_round_trip H"
  shows "pending_candidates_are_capped (test_env H B L sha256) K"
proof -
  let ?app = "test_signer_seeded K 7"
  have "unat (counter (entropy (test_registry K ?app))) + 2 * (MAX_PENDING_CANDIDATES + 10) < 2 ^ 64"
    by (simp add: test_registry_def engine_new_def seq_entropy_new_def MAX_PENDING_CANDIDATES_def)
  from test_begins_succeed [OF assms this] obtain g where
    g: "test_begins (test_env H B L sha256) (test_signer_public K ?app) (MAX_PENDING_CANDIDATES + 10)
      (test_registry K ?app) = Some g" by blast
  have "trace (engine_step (test_env H B L sha256)) (test_registry K ?app) [] (test_registry K ?app)"
    by (rule trace_start)
  from test_begins_trace [OF g this] have "pending_candidates g \<le> MAX_PENDING_CANDIDATES"
    unfolding test_registry_def using bounded.inv_trace by (fastforce simp: pending_bounded_def)
  with g show ?thesis by (simp add: pending_candidates_are_capped_def)
qed

text \<open>
  C35. The model passes the unit tests of the engine, for every codec, key library and hash with the
  documented behaviour the tests rely on.
\<close>

theorem engine_tests_pass:
  assumes "test_contract H B L K"
  shows "list_all (\<lambda>t. t (test_env H B L sha256) K) engine_tests"
proof -
  have "honest_handshake_opens_a_session (test_env H B L sha256) K"
    using assms
    by (simp add: honest_handshake_opens_a_session_def test_contract_def test_eval engine_session_def
        engine_detach_def ENGINE_CAPABILITIES_def)
  moreover have "forged_signature_is_rejected_as_bad_mac (test_env H B L sha256) K"
    using assms
    by (simp add: forged_signature_is_rejected_as_bad_mac_def test_contract_def test_eval b64_round_trip_def)
  moreover have "unpublished_key_is_a_key_mismatch (test_env H B L sha256) K"
    using assms
    by (simp add: unpublished_key_is_a_key_mismatch_def test_contract_def test_eval)
  moreover have "attach_rejects_a_malformed_signature (test_env H B L sha256) K"
    using assms
    by (simp add: attach_rejects_a_malformed_signature_def test_contract_def test_eval decode_signature_def)
  moreover have "replayed_candidate_is_unknown (test_env H B L sha256) K"
    using assms
    by (simp add: replayed_candidate_is_unknown_def test_contract_def test_eval)
  moreover have "unresolvable_did_is_rejected (test_env H B L sha256) K"
    using assms
    by (simp add: unresolvable_did_is_rejected_def test_contract_def test_eval)
  moreover have "begin_rejects_a_malformed_pubkey (test_env H B L sha256) K"
    using assms
    by (simp add: begin_rejects_a_malformed_pubkey_def test_contract_def engine_begin_def key_from_hex_def)
  moreover have "pending_candidates_are_capped (test_env H B L sha256) K"
    using assms by (intro begins_are_capped) (simp add: test_contract_def)
  ultimately show ?thesis by (simp add: engine_tests_def)
qed

text \<open>Keys and a verifier that meet the contract, with the tagged codecs.\<close>

definition first_byte_keys :: "u8 bls_keys" where
  "first_byte_keys =
     \<lparr>chacha_fill = (\<lambda>n. array_of (ucast n)), secret_from_seed = (\<lambda>a. hd (array_bytes a)),
      public_key_bytes = array_of, sign_bytes = (\<lambda>sk _. array_of sk)\<rparr>"

definition first_byte_bls :: "(u8, u8) chia_bls" where
  "first_byte_bls =
     \<lparr>pk_from_bytes = (\<lambda>a. Some (hd (array_bytes a))), sg_from_bytes = (\<lambda>a. Some (hd (array_bytes a))),
      bls_verify = (\<lambda>sg pk _. sg = pk)\<rparr>"

theorem engine_tests_pass_witness:
  "list_all (\<lambda>t. t (test_env tagged_hex tagged_b64 first_byte_bls (\<lambda>bs. array_of (last bs))) first_byte_keys)
     engine_tests"
proof (rule engine_tests_pass)
  show "test_contract tagged_hex tagged_b64 first_byte_bls first_byte_keys"
    by (simp add: test_contract_def hex_round_trip_def b64_round_trip_def bls_correct_def tagged_hex_def
        tagged_b64_def first_byte_keys_def first_byte_bls_def verify_signature_def test_signer_public_def
        test_signer_sign_def test_signer_seeded_def str_bytes_def bytes_str_def comp_def)
qed

end
