(* ===== verification/Unit_Tests.thy ===== *)
theory Unit_Tests
  imports Domain Hex_Codec Wire Wire_Json Signer Transport Test_Support
begin

text \<open>
  The unit tests of \<open>src/domain.rs\<close>, \<open>src/wire.rs\<close>, \<open>src/signer.rs\<close> and
  \<open>src/transport.rs\<close>, as functions to \<open>bool\<close> over the model, true when every assertion of the test
  holds.
\<close>

section \<open>Messages and keys\<close>

abbreviation profile_did_fixture :: string where
  "profile_did_fixture \<equiv> ''did:chia:testprofile''"

definition starts_with :: "u8 list \<Rightarrow> u8 list \<Rightarrow> bool" where
  "starts_with m tag \<longleftrightarrow> take (length tag) m = tag"

definition nonce_fixture :: "(u8 list \<Rightarrow> 32 bytes) \<Rightarrow> u8 list" where
  "nonce_fixture sha256 = array_bytes (sha256 (str_bytes ''domain test nonce fixture''))"

definition challenge_is_domain_separated :: "(u8 list \<Rightarrow> 32 bytes) \<Rightarrow> bool" where
  "challenge_is_domain_separated sha256 =
     (let m = challenge_message (nonce_fixture sha256) profile_did_fixture in
      starts_with m SESSION_CHALLENGE_DOMAIN
      \<and> m = challenge_message (nonce_fixture sha256) profile_did_fixture
      \<and> m \<noteq> challenge_message (str_bytes ''other-nonce'') profile_did_fixture
      \<and> m \<noteq> challenge_message (nonce_fixture sha256) ''did:chia:someoneelse'')"

definition callback_disambiguates_the_boundary :: bool where
  "callback_disambiguates_the_boundary =
     (case (sign_callback_message ''a'' (str_bytes ''bc''), sign_callback_message ''ab'' (str_bytes ''c'')) of
        (Some a, Some b) \<Rightarrow>
          a \<noteq> b \<and> starts_with a SIGN_CALLBACK_DOMAIN \<and> \<not> starts_with a SESSION_CHALLENGE_DOMAIN
      | _ \<Rightarrow> False)"

definition callback_rejects_an_overlong_type :: bool where
  "callback_rejects_an_overlong_type =
     (let huge = replicate (unat (- 1 :: u16) + 1) CHR ''x'' in
      sign_callback_message huge (str_bytes ''p'') = None)"

definition user_sign_is_pairwise_distinct :: bool where
  "user_sign_is_pairwise_distinct =
     (let m = user_sign_message (str_bytes ''attest this'') in
      starts_with m USER_SIGN_DOMAIN \<and> \<not> starts_with m SESSION_CHALLENGE_DOMAIN
      \<and> \<not> starts_with m SIGN_CALLBACK_DOMAIN
      \<and> drop (length USER_SIGN_DOMAIN) m = str_bytes ''attest this''
      \<and> USER_SIGN_DOMAIN \<noteq> SESSION_CHALLENGE_DOMAIN \<and> USER_SIGN_DOMAIN \<noteq> SIGN_CALLBACK_DOMAIN)"

definition public_key_hex_round_trips :: "hex_crate \<Rightarrow> bool" where
  "public_key_hex_round_trips H =
     (let key = SigningPublicKey (array_of 7) in
      key_from_hex H (key_to_hex H key) = Some key
      \<and> key_from_hex H ''zz'' = None
      \<and> key_from_hex H (concat (replicate (SIGNING_KEY_LEN - 1) ''aa'')) = None)"

definition verify_rejects_a_bad_key_or_signature :: "('pk, 'sg) chia_bls \<Rightarrow> bool" where
  "verify_rejects_a_bad_key_or_signature L =
     (let key = SigningPublicKey (array_of 1) in
      \<not> verify_signature L key (str_bytes ''msg'') (Signature (array_of 0)))"

section \<open>The error taxonomy\<close>

definition taxonomy_table :: "(sign_error_code \<times> string \<times> int) list" where
  "taxonomy_table =
     [(AuthRequired, ''AUTH_REQUIRED'', -33001), (BadMac, ''BAD_MAC'', -33002),
      (Replay, ''REPLAY'', -33003), (PairDenied, ''PAIR_DENIED'', -33010),
      (ConnectRequired, ''CONNECT_REQUIRED'', -33020), (SignDenied, ''SIGN_DENIED'', -33030),
      (NoConfirmer, ''NO_CONFIRMER'', -33034), (Locked, ''LOCKED'', -33040)]"

definition taxonomy_is_pinned :: bool where
  "taxonomy_is_pinned =
     list_all (\<lambda>(code, symbol, num).
         error_symbol code = symbol \<and> error_number code = num
         \<and> re_code (to_rpc_error code) = num \<and> re_message (to_rpc_error code) = symbol)
       taxonomy_table"

definition error_codes_are_unique :: bool where
  "error_codes_are_unique = distinct (map (\<lambda>(code, _, _). error_number code) taxonomy_table)"

section \<open>The wire shapes as JSON\<close>

text \<open>An assertion about the value an \<open>unwrap\<close> yields.\<close>

definition holds_of :: "'a option \<Rightarrow> ('a \<Rightarrow> bool) \<Rightarrow> bool" where
  "holds_of r P = (case r of None \<Rightarrow> False | Some a \<Rightarrow> P a)"

definition wire_types_round_trip_through_json :: "'f json_text \<Rightarrow> bool" where
  \<open>wire_types_round_trip_through_json J =
     (let params = \<lparr>bp_profile_did = ''did:chia:x'', signing_pubkey_hex = concat (replicate 32 ''ab'')\<rparr>;
          json1 = text_of_json J (json_of_begin_params params);
          attach = \<lparr>ar_session_id = ''s'', ar_engine_capabilities = [''sync'']\<rparr>;
          json2 = text_of_json J (json_of_attach_result attach) in
      holds_of (read_from_str J begin_params_of_json json1) (\<lambda>back. bp_profile_did back = bp_profile_did params)
      \<and> holds_of (read_from_str J attach_result_of_json json2) (\<lambda>back.
          ar_engine_capabilities back = ar_engine_capabilities attach)
      \<and> holds_of (read_from_str J attach_result_of_json ''{"session_id":"s"}'') (\<lambda>minimal.
          ar_engine_capabilities minimal = []))\<close>

definition incoming_frame_parses_both :: "'f json_text \<Rightarrow> bool" where
  \<open>incoming_frame_parses_both J =
     (holds_of (read_from_str J incoming_frame_of_json ''{"id":1,"result":{"ok":true}}'') (\<lambda>response.
        if_result response \<noteq> None \<and> if_method response = None)
      \<and> holds_of (read_from_str J incoming_frame_of_json ''{"id":2,"method":"sign","params":{}}'') (\<lambda>request.
          if_method request = Some ''sign''))\<close>

section \<open>Policies\<close>

definition request_fixture :: "'v sign_request" where
  "request_fixture =
     \<lparr>sq_session_id = ''s'', sq_op_id = ''o'', sq_payload_type = ''spend'',
      sq_payload = str_bytes ''bytes'', sq_context = None\<rparr>"

definition allow_all_allows_and_deny_all_denies :: bool where
  "allow_all_allows_and_deny_all_denies =
     (fst (allow_all_authorize AllowAllSignPolicy (request_fixture :: unit sign_request)) = Allow
      \<and> (case fst (deny_all_authorize DenyAllSignPolicy (request_fixture :: unit sign_request)) of
          Deny _ \<Rightarrow> True | Allow \<Rightarrow> False))"

section \<open>Frames\<close>

text \<open>The contents of a \<open>Cursor\<close> are one chunk for the buffered reader.\<close>

definition line_round_trip_fixture :: "u8 list line_transport" where
  "line_round_trip_fixture =
     line_transport_new [Inr (str_bytes ''{\"a\":1}'' @ [newline] @ str_bytes ''{\"b\":2}'' @ [newline])] []"

definition line_transport_round_trips_frames :: bool where
  "line_transport_round_trips_frames =
     (case line_recv_frame line_round_trip_fixture of (r1, t) \<Rightarrow>
      case line_recv_frame t of (r2, t) \<Rightarrow>
      case line_recv_frame t of (r3, t) \<Rightarrow>
      case line_send_frame vec_writer t ''{\"c\":3}'' of (r4, t) \<Rightarrow>
        r1 = Inr ''{\"a\":1}'' \<and> r2 = Inr ''{\"b\":2}''
        \<and> (case r3 of Inl e \<Rightarrow> io_kind e = UnexpectedEof | Inr _ \<Rightarrow> False)
        \<and> r4 = Inr () \<and> writer t = str_bytes ''{\"c\":3}'' @ [newline])"

definition line_transport_rejects_an_oversized_frame :: bool where
  "line_transport_rejects_an_oversized_frame =
     (let giant = replicate (MAX_FRAME_BYTES + 16) (byte_of_char CHR ''x'') in
      case fst (line_recv_frame (line_transport_new [Inr giant] ([] :: u8 list))) of
        Inl e \<Rightarrow> io_kind e = InvalidData
      | Inr _ \<Rightarrow> False)"

definition os_entropy_yields_distinct_nonces :: "'o getrandom \<Rightarrow> 'o \<Rightarrow> bool" where
  "os_entropy_yields_distinct_nonces getrandom os =
     (case os_fill_nonce getrandom os of
        (None, _) \<Rightarrow> False
      | (Some a, os) \<Rightarrow> (case os_fill_nonce getrandom os of (None, _) \<Rightarrow> False | (Some b, _) \<Rightarrow> a \<noteq> b))"

section \<open>They pass\<close>

lemma starts_with_prefix: "starts_with m tag \<longleftrightarrow> prefix tag m"
  by (auto simp: starts_with_def prefix_def) (metis append_take_drop_id)

lemma message_tests: "challenge_is_domain_separated sha256" "callback_disambiguates_the_boundary"
  "callback_rejects_an_overlong_type" "user_sign_is_pairwise_distinct"
proof -
  have "length (challenge_message (nonce_fixture sha256) profile_did_fixture)
      \<noteq> length (challenge_message (str_bytes ''other-nonce'') profile_did_fixture)"
    by (simp add: challenge_message_def nonce_fixture_def)
  then show "challenge_is_domain_separated sha256"
    by (auto simp: challenge_is_domain_separated_def Let_def starts_with_def challenge_message_def)
  show "callback_disambiguates_the_boundary"
    using callback.tagged attach_callback.not_tagged_as_other(2)
    by (auto simp: callback_disambiguates_the_boundary_def starts_with_prefix sign_callback_message_bytes
        dest: callback_bytes_inj [rotated 2])
  show "callback_rejects_an_overlong_type"
    by (simp add: callback_rejects_an_overlong_type_def Let_def sign_callback_message_bytes
        unsigned_minus_1_eq_mask mask_eq_exp_minus_1)
  show "user_sign_is_pairwise_distinct"
    using user.tagged attach_user.not_tagged_as_other(2) callback_user.not_tagged_as_other(2) tags_incomparable
    by (auto simp: user_sign_is_pairwise_distinct_def Let_def starts_with_prefix user_sign_message_def)
qed

lemma frames_are_sendable: "sendable ''{\"a\":1}''" "sendable ''{\"b\":2}''"
  by (simp_all add: sendable_def str_bytes_def byte_of_char_def utf8_rest_def utf8_following_def
      MAX_FRAME_BYTES_def)

lemma frame_tests: "line_transport_round_trips_frames" "line_transport_rejects_an_oversized_frame"
proof -
  let ?fs = "[''{\"a\":1}'', ''{\"b\":2}'']"
  have results: "fst (recv_many (Suc (length ?fs)) line_round_trip_fixture)
      = map Inr ?fs @ [Inl (SimpleError UnexpectedEof)]"
    by (rule recv_many_lines) (simp_all add: frames_are_sendable line_round_trip_fixture_def lines_of_def
        transport_progressing_def transport_stream_def line_transport_new_def buf_reader_new_def stream_of_def)
  obtain r1 t1 where t1: "line_recv_frame line_round_trip_fixture = (r1, t1)"
    by (cases "line_recv_frame line_round_trip_fixture")
  obtain r2 t2 where t2: "line_recv_frame t1 = (r2, t2)" by (cases "line_recv_frame t1")
  obtain r3 t3 where t3: "line_recv_frame t2 = (r3, t3)" by (cases "line_recv_frame t2")
  have keeps: "line_recv_frame t = (r, t') \<Longrightarrow> writer t' = writer t" for t t' :: "u8 list line_transport" and r
    by (auto simp: line_recv_frame_def split: prod.splits)
  have "writer line_round_trip_fixture = []" by (simp add: line_round_trip_fixture_def line_transport_new_def)
  then have "writer t3 = []" using keeps [OF t1] keeps [OF t2] keeps [OF t3] by simp
  with results t1 t2 t3 show "line_transport_round_trips_frames"
    by (simp add: line_transport_round_trips_frames_def line_send_frame_def vec_writer_def)
  let ?giant = "line_transport_new [Inr (replicate (MAX_FRAME_BYTES + 16) (byte_of_char CHR ''x''))] ([] :: u8 list)"
  have "transport_progressing ?giant"
    "transport_stream ?giant = replicate (MAX_FRAME_BYTES + 16) (byte_of_char CHR ''x'')"
    using MAX_FRAME_BYTES_pos
    by (auto simp: transport_progressing_def transport_stream_def line_transport_new_def buf_reader_new_def
        stream_of_def)
  moreover have "byte_of_char CHR ''x'' \<noteq> newline" by (simp add: newline_byte)
  ultimately show "line_transport_rejects_an_oversized_frame"
    using recv_oversized [of ?giant] by (simp add: line_transport_rejects_an_oversized_frame_def)
qed

text \<open>
  What the JSON tests rely on: the text written for an object reads back as that object, and the three
  literal texts denote the objects one sees in them.  Which shapes these objects are read as is the
  model's.
\<close>

definition reads_json_syntax :: "'f json_text \<Rightarrow> bool" where
  \<open>reads_json_syntax J \<longleftrightarrow>
     (\<forall>p. json_of_text J (text_of_json J (json_of_begin_params p)) = Some (json_of_begin_params p))
     \<and> (\<forall>r. json_of_text J (text_of_json J (json_of_attach_result r)) = Some (json_of_attach_result r))
     \<and> json_of_text J ''{"session_id":"s"}'' = Some (json_object [(''session_id'', J_String ''s'')])
     \<and> json_of_text J ''{"id":1,"result":{"ok":true}}''
         = Some (json_object [(''id'', J_Number (J_Int 1)), (''result'', json_object [(''ok'', J_Bool True)])])
     \<and> json_of_text J ''{"id":2,"method":"sign","params":{}}''
         = Some (json_object [(''id'', J_Number (J_Int 2)), (''method'', J_String ''sign''), (''params'', json_object [])])\<close>

lemma wire_tests:
  assumes "reads_json_syntax J"
  shows "wire_types_round_trip_through_json J" and "incoming_frame_parses_both J"
proof -
  show "wire_types_round_trip_through_json J"
    using assms
    by (simp add: wire_types_round_trip_through_json_def holds_of_def read_from_str_def reads_json_syntax_def
        begin_round_trip attach_round_trip)
      (simp add: attach_result_of_json_def reading_simps)
  show "incoming_frame_parses_both J"
    using assms
    by (simp add: incoming_frame_parses_both_def holds_of_def read_from_str_def reads_json_syntax_def
        incoming_frame_of_json_def reading_simps option_of_json_simps)
qed

text \<open>
  What the remaining tests rely on: a hex codec that reads back what it writes and nothing but pairs of
  digits; and a BLS library that reads a compressed point only if the
  flag for compression, the highest bit of its first byte, is set.
\<close>

definition reads_compressed_points :: "('pk, 'sg) chia_bls \<Rightarrow> bool" where
  "reads_compressed_points L \<longleftrightarrow>
     (\<forall>k. pk_from_bytes L k \<noteq> None \<longrightarrow> bit (hd (array_bytes k)) 7)
     \<and> (\<forall>s. sg_from_bytes L s \<noteq> None \<longrightarrow> bit (hd (array_bytes s)) 7)"

lemma key_tests:
  assumes "reads_hex H"
  shows "public_key_hex_round_trips H"
proof -
  have "key_from_hex H ''zz'' = None"
  proof (cases "hex_decode H ''zz''")
    case (Some bs)
    with assms have "list_all is_hex_digit ''zz''" unfolding reads_hex_def by blast
    then show ?thesis by (simp add: is_hex_digit_def)
  qed (simp add: key_from_hex_def)
  moreover have "key_from_hex H (concat (replicate (SIGNING_KEY_LEN - 1) ''aa'')) = None"
  proof (cases "hex_decode H (concat (replicate (SIGNING_KEY_LEN - 1) ''aa''))")
    case (Some bs)
    with assms have "length (concat (replicate (SIGNING_KEY_LEN - 1) ''aa'')) = 2 * length bs"
      by (simp add: reads_hex_def)
    then have "(try_into_array bs :: 48 bytes option) = None"
      by (simp add: SIGNING_KEY_LEN_def length_concat map_replicate_const sum_list_replicate try_into_array_eq_None)
    with Some show ?thesis by (simp add: key_from_hex_def)
  qed (simp add: key_from_hex_def)
  ultimately show ?thesis
    using assms key_hex_inverse [of H "SigningPublicKey (array_of 7)"]
    by (simp add: public_key_hex_round_trips_def reads_hex_def)
qed

lemma verify_test: "reads_compressed_points L \<Longrightarrow> verify_rejects_a_bad_key_or_signature L"
proof -
  assume "reads_compressed_points L"
  moreover have "hd (array_bytes (array_of 1 :: 48 bytes)) = 1" by simp
  ultimately have "pk_from_bytes L (array_of 1) = None"
    unfolding reads_compressed_points_def by (metis bit_1_iff zero_neq_numeral)
  then show ?thesis
    by (simp add: verify_rejects_a_bad_key_or_signature_def verify_signature_iff)
qed

text \<open>
  C37. The model passes the unit tests of the message, key, taxonomy, wire, policy and transport
  modules, for every hash, every library that reads hex and compressed points as documented, and every
  reader of JSON texts.  (The test that two nonces of the operating system differ is a statement about
  \<open>getrandom\<close> and is left out.)
\<close>

theorem contract_tests_pass:
  assumes "reads_hex H" and "reads_compressed_points L" and "reads_json_syntax J"
  shows "challenge_is_domain_separated sha256 \<and> callback_disambiguates_the_boundary
    \<and> callback_rejects_an_overlong_type \<and> user_sign_is_pairwise_distinct
    \<and> public_key_hex_round_trips H \<and> verify_rejects_a_bad_key_or_signature L
    \<and> taxonomy_is_pinned \<and> error_codes_are_unique
    \<and> wire_types_round_trip_through_json J \<and> incoming_frame_parses_both J \<and> allow_all_allows_and_deny_all_denies
    \<and> line_transport_round_trips_frames \<and> line_transport_rejects_an_oversized_frame"
proof -
  have "taxonomy_is_pinned \<and> error_codes_are_unique"
    by (simp add: taxonomy_is_pinned_def error_codes_are_unique_def taxonomy_table_def to_rpc_error_def)
  then show ?thesis
    using message_tests(1) [of sha256] message_tests(2-) frame_tests key_tests [OF assms(1)]
      verify_test [OF assms(2)] wire_tests [OF assms(3)]
    by (simp add: allow_all_allows_and_deny_all_denies_def)
qed

text \<open>Parameters that meet the contract.\<close>

definition flag_bls :: "(unit, unit) chia_bls" where
  "flag_bls =
     \<lparr>pk_from_bytes = (\<lambda>k. if bit (hd (array_bytes k)) 7 then Some () else None),
      sg_from_bytes = (\<lambda>s. if bit (hd (array_bytes s)) 7 then Some () else None), bls_verify = (\<lambda>_ _ _. True)\<rparr>"

definition fixture_text :: "unit json_text" where
  \<open>fixture_text =
     \<lparr>text_of_json = (\<lambda>j.
        case begin_params_of_json j of
          Some p \<Rightarrow> CHR ''b'' # pack [bp_profile_did p, signing_pubkey_hex p]
        | None \<Rightarrow> (case attach_result_of_json j of
            None \<Rightarrow> ''''
          | Some r \<Rightarrow> let xs = ar_session_id r # ar_engine_capabilities r
              in CHR ''a'' # replicate (length xs) CHR ''1'' @ CHR ''0'' # pack xs)),
      json_of_text = (\<lambda>s.
        if s = ''{"session_id":"s"}'' then Some (json_object [(''session_id'', J_String ''s'')])
        else if s = ''{"id":1,"result":{"ok":true}}''
        then Some (json_object [(''id'', J_Number (J_Int 1)), (''result'', json_object [(''ok'', J_Bool True)])])
        else if s = ''{"id":2,"method":"sign","params":{}}''
        then Some (json_object
          [(''id'', J_Number (J_Int 2)), (''method'', J_String ''sign''), (''params'', json_object [])])
        else if hd s = CHR ''b'' then (case unpack 2 (tl s) of
          [d, k] \<Rightarrow> Some (json_of_begin_params \<lparr>bp_profile_did = d, signing_pubkey_hex = k\<rparr>))
        else let k = length (takeWhile (\<lambda>c. c = CHR ''1'') (tl s)); xs = unpack k (drop (Suc k) (tl s))
          in Some (json_of_attach_result \<lparr>ar_session_id = hd xs, ar_engine_capabilities = tl xs\<rparr>))\<rparr>\<close>

lemma attach_result_is_no_begin: "begin_params_of_json (json_of_attach_result r) = None"
  by (simp add: json_of_attach_result_def begin_params_of_json_def reading_simps)

lemma fixture_text_reads: "reads_json_syntax fixture_text"
proof -
  have "json_of_text fixture_text (text_of_json fixture_text (json_of_begin_params p)) = Some (json_of_begin_params p)" for p
    by (cases p) (simp add: fixture_text_def begin_round_trip del: unpack.simps)
  moreover have "json_of_text fixture_text (text_of_json fixture_text (json_of_attach_result r)) = Some (json_of_attach_result r)" for r
    using unpack_pack [of "ar_session_id r # ar_engine_capabilities r"]
    by (cases r) (simp add: fixture_text_def attach_result_is_no_begin attach_round_trip takeWhile_ones Let_def
      del: unpack.simps)
  ultimately show ?thesis
    by (simp add: reads_json_syntax_def) (simp add: fixture_text_def del: unpack.simps)
qed

theorem contract_tests_pass_witness:
  "public_key_hex_round_trips hex_codec \<and> verify_rejects_a_bad_key_or_signature flag_bls
   \<and> wire_types_round_trip_through_json fixture_text"
proof -
  have "reads_compressed_points flag_bls" by (simp add: reads_compressed_points_def flag_bls_def)
  from contract_tests_pass [OF hex_codec_reads this fixture_text_reads] show ?thesis by simp
qed

end
