(* ===== verification/Client_Tests.thy ===== *)
theory Client_Tests
  imports Client_Protocol
begin

text \<open>
  The unit tests of \<open>src/client.rs\<close> as functions to \<open>bool\<close> over the model, true when none of
  their assertions fails.  They hold for every JSON library that reads the frames of the tests and
  writes replies that can be read back, and for every codec and key library with the behaviour the
  tests rely on.
\<close>

section \<open>Reading what the client sent\<close>

text \<open>
  What the tests use of \<open>serde_json::Value\<close>: \<open>json_at\<close> parses a text and indexes it along a path
  (\<open>None\<close> where the text does not parse or a key is missing), and the two scalar readings.
\<close>

record 'v value_api =
  json_at :: "string \<Rightarrow> string list \<Rightarrow> 'v option"
  as_str :: "'v \<Rightarrow> string option"
  as_i64 :: "'v \<Rightarrow> int option"

definition str_at :: "'v value_api \<Rightarrow> string \<Rightarrow> string list \<Rightarrow> string option" where
  "str_at A text path = Option.bind (json_at A text path) (as_str A)"

definition int_at :: "'v value_api \<Rightarrow> string \<Rightarrow> string list \<Rightarrow> int option" where
  "int_at A text path = Option.bind (json_at A text path) (as_i64 A)"

text \<open>\<open>outgoing[i]\<close>; an index out of range fails the test.\<close>

definition sent_frame :: "(fake_transport, 's, 'p) client \<Rightarrow> nat \<Rightarrow> string option" where
  "sent_frame c i = (if i < length (outgoing (transport c)) then Some (outgoing (transport c) ! i) else None)"

definition test_signature :: "base64_crate \<Rightarrow> string option \<Rightarrow> signature option" where
  "test_signature B sig_b64 =
     Option.bind sig_b64 (\<lambda>s. Option.bind (b64_decode B (str_bytes s)) (\<lambda>bs. map_option Signature (try_into_array bs)))"

section \<open>The fixtures\<close>

record ('v, 'pk, 'sg, 'sk) client_fixture =
  fx_json :: "'v serde_json"
  fx_api :: "'v value_api"
  fx_b64 :: base64_crate
  fx_hex :: hex_crate
  fx_bls :: "('pk, 'sg) chia_bls"
  fx_keys :: "'sk bls_keys"
  fx_sha256 :: "u8 list \<Rightarrow> 32 bytes"

abbreviation client_did :: string where
  "client_did \<equiv> ''did:chia:testprofile''"

definition client_nonce :: "('v, 'pk, 'sg, 'sk) client_fixture \<Rightarrow> u8 list" where
  "client_nonce F = array_bytes (fx_sha256 F (str_bytes ''dig-ipc-protocol client test nonce fixture''))"

definition client_profile :: profile_attachment where
  "client_profile = \<lparr>did = client_did, subscriptions = [''store-a''], config_digest = ''cfg-digest''\<rparr>"

text \<open>The decimal form of a number, as \<open>format!\<close> writes it.\<close>

fun decimal :: "nat \<Rightarrow> string" where
  "decimal n = (if n < 10 then [char_of (48 + n)] else decimal (n div 10) @ [char_of (48 + n mod 10)])"

declare decimal.simps [simp del]

definition begin_text :: "base64_crate \<Rightarrow> u8 list \<Rightarrow> nat \<Rightarrow> string" where
  \<open>begin_text B nn rid =
     ''{"jsonrpc":"2.0","id":'' @ decimal rid @ '',"result":{"nonce_b64":"'' @ b64_encode B nn
       @ ''","session_candidate":"cand-1"}}''\<close>

definition attach_text :: "nat \<Rightarrow> string" where
  \<open>attach_text rid =
     ''{"jsonrpc":"2.0","id":'' @ decimal rid
       @ '',"result":{"session_id":"sess-1","engine_capabilities":["content.serve","sync"]}}''\<close>

definition callback_text :: "nat \<Rightarrow> string \<Rightarrow> string \<Rightarrow> string \<Rightarrow> string \<Rightarrow> string \<Rightarrow> string" where
  \<open>callback_text rid sid op ty payload_b64 context =
     ''{"jsonrpc":"2.0","id":'' @ decimal rid @ '',"method":"sign","params":{"session_id":"'' @ sid
       @ ''","op_id":"'' @ op @ ''","payload_type":"'' @ ty @ ''","payload_b64":"'' @ payload_b64
       @ ''"'' @ context @ ''}}''\<close>

definition engine_error_text :: string where
  \<open>engine_error_text =
     ''{"jsonrpc":"2.0","id":1,"error":{"code":-32000,"message":"unknown profile"}}''\<close>

definition detach_ack_text :: string where
  \<open>detach_ack_text = ''{"jsonrpc":"2.0","id":1,"result":{}}''\<close>

definition signer_env ::
  "('v, 'pk, 'sg, 'sk) client_fixture \<Rightarrow> ('v, 'p) sign_policy \<Rightarrow> ('v, fake_transport, 'sk test_signer, 'p) client_env" where
  "signer_env F P =
     \<lparr>cl_json = fx_json F, cl_b64 = fx_b64 F, cl_transport = fake_transport_ops,
      cl_signer = test_signer_ops (fx_hex F) (fx_keys F), cl_policy = P, debug_build = True\<rparr>"

definition locked_env ::
  "('v, 'pk, 'sg, 'sk) client_fixture \<Rightarrow> ('v, 'p) sign_policy \<Rightarrow> ('v, fake_transport, 'sk lockable_signer, 'p) client_env" where
  "locked_env F P =
     \<lparr>cl_json = fx_json F, cl_b64 = fx_b64 F, cl_transport = fake_transport_ops,
      cl_signer = lockable_signer_ops (fx_hex F) (fx_keys F), cl_policy = P, debug_build = True\<rparr>"

definition attach_signature_verifies ::
  "('v, 'pk, 'sg, 'sk) client_fixture \<Rightarrow> string option \<Rightarrow> signing_public_key \<Rightarrow> bool" where
  "attach_signature_verifies F sent expected =
     (case sent of
        None \<Rightarrow> False
      | Some text \<Rightarrow>
          (case test_signature (fx_b64 F) (str_at (fx_api F) text [''params'', ''signature_b64'']) of
             None \<Rightarrow> False
           | Some sig \<Rightarrow> verify_signature (fx_bls F) expected
               (challenge_message (client_nonce F) client_did) sig))"

section \<open>The tests of the handshake\<close>

abbreviation seeded :: "('v, 'pk, 'sg, 'sk) client_fixture \<Rightarrow> u64 \<Rightarrow> 'sk test_signer" where
  "seeded F n \<equiv> test_signer_seeded (fx_keys F) n"

definition happy_path_opens_a_session :: "('v, 'pk, 'sg, 'sk) client_fixture \<Rightarrow> bool" where
  "happy_path_opens_a_session F =
     (let pubkey = test_signer_public (fx_keys F) (seeded F 42);
          pipe = fake_scripted [begin_text (fx_b64 F) (client_nonce F) 1, attach_text 2] in
      unwrap (begin_and_attach (signer_env F allow_all_authorize) client_profile
          (client_new pipe (seeded F 42) AllowAllSignPolicy)) (\<lambda>sess c.
        session_id sess = ''sess-1'' \<and> profile_did sess = client_did
        \<and> engine_capabilities sess = [''content.serve'', ''sync'']
        \<and> attach_signature_verifies F (sent_frame c 1) pubkey))"

definition attach_signature_is_rejected_for_a_foreign_key ::
  "('v, 'pk, 'sg, 'sk) client_fixture \<Rightarrow> bool" where
  "attach_signature_is_rejected_for_a_foreign_key F =
     (let pipe = fake_scripted [begin_text (fx_b64 F) (client_nonce F) 1, attach_text 2] in
      unwrap (begin_and_attach (signer_env F allow_all_authorize) client_profile
          (client_new pipe (seeded F 42) AllowAllSignPolicy)) (\<lambda>_ c.
        \<not> attach_signature_verifies F (sent_frame c 1) (test_signer_public (fx_keys F) (seeded F 999))))"

definition short_nonce :: "('v, 'pk, 'sg, 'sk) client_fixture \<Rightarrow> u8 list" where
  "short_nonce F =
     take 31 (array_bytes (fx_sha256 F (str_bytes ''dig-ipc-protocol wrong-length nonce fixture'')))"

definition wrong_length_nonce_is_rejected :: "('v, 'pk, 'sg, 'sk) client_fixture \<Rightarrow> bool" where
  "wrong_length_nonce_is_rejected F =
     (length (short_nonce F) = 31
      \<and> (let pipe = fake_scripted [begin_text (fx_b64 F) (short_nonce F) 1] in
         unwrap_err (begin_and_attach (signer_env F allow_all_authorize) client_profile
             (client_new pipe (seeded F 42) AllowAllSignPolicy)) (\<lambda>err c.
           err = InvalidNonceLength NONCE_LEN 31 \<and> length (outgoing (transport c)) = 1)))"

definition begin_propagates_an_engine_error :: "('v, 'pk, 'sg, 'sk) client_fixture \<Rightarrow> bool" where
  "begin_propagates_an_engine_error F =
     unwrap_err (begin_and_attach (signer_env F allow_all_authorize) client_profile
         (client_new (fake_scripted [engine_error_text]) (seeded F 1) AllowAllSignPolicy)) (\<lambda>err _.
       case err of
         Engine code message \<Rightarrow> code = -32000 \<and> message = ''unknown profile''
       | _ \<Rightarrow> False)"

definition interleaved_callback_is_serviced :: "('v, 'pk, 'sg, 'sk) client_fixture \<Rightarrow> bool" where
  "interleaved_callback_is_serviced F =
     (let interleaved = callback_text 500 ''s'' ''o'' ''t'' (b64_encode (fx_b64 F) (str_bytes ''x'')) [];
          pipe = fake_scripted [interleaved, begin_text (fx_b64 F) (client_nonce F) 1, attach_text 2] in
      unwrap (begin_and_attach (signer_env F allow_all_authorize) client_profile
          (client_new pipe (seeded F 1) AllowAllSignPolicy)) (\<lambda>sess c.
        session_id sess = ''sess-1''
        \<and> list_ex (\<lambda>f. int_at (fx_api F) f [''id''] = Some 500 \<and> json_at (fx_api F) f [''result''] \<noteq> None)
            (outgoing (transport c))))"

definition dropped_pipe_then_reattach_recovers :: "('v, 'pk, 'sg, 'sk) client_fixture \<Rightarrow> bool" where
  "dropped_pipe_then_reattach_recovers F =
     (case begin_and_attach (signer_env F allow_all_authorize) client_profile
         (client_new (fake_scripted []) (seeded F 1) AllowAllSignPolicy) of
        (Inl (Err (Io e)), c) \<Rightarrow>
          io_kind e = UnexpectedEof
          \<and> (let fresh = fake_scripted [begin_text (fx_b64 F) (client_nonce F) 1, attach_text 2] in
             unwrap (reattach (signer_env F allow_all_authorize) fresh client_profile c)
               (\<lambda>sess _. session_id sess = ''sess-1''))
      | _ \<Rightarrow> False)"

definition locked_signer_fails_without_a_round_trip :: "('v, 'pk, 'sg, 'sk) client_fixture \<Rightarrow> bool" where
  "locked_signer_fails_without_a_round_trip F =
     (let pipe = fake_scripted [begin_text (fx_b64 F) (client_nonce F) 1] in
      unwrap_err (begin_and_attach (locked_env F allow_all_authorize) client_profile
          (client_new pipe (lockable_signer_seeded (fx_keys F) 42 True) AllowAllSignPolicy))
        (\<lambda>err c. err = Locked_Signer \<and> length (outgoing (transport c)) = 1))"

definition detach_sends_the_session_id :: "('v, 'pk, 'sg, 'sk) client_fixture \<Rightarrow> bool" where
  "detach_sends_the_session_id F =
     (let sess = \<lparr>session_id = ''sess-42'', engine_capabilities = [], profile_did = client_did\<rparr> in
      unwrap (client_detach (signer_env F allow_all_authorize) sess
          (client_new (fake_scripted [detach_ack_text]) (seeded F 1) AllowAllSignPolicy)) (\<lambda>_ c.
        case sent_frame c 0 of
          None \<Rightarrow> False
        | Some sent \<Rightarrow> str_at (fx_api F) sent [''method''] = Some METHOD_DETACH
            \<and> str_at (fx_api F) sent [''params'', ''session_id''] = Some ''sess-42''))"

definition gives_up_after_too_many_callbacks :: "('v, 'pk, 'sg, 'sk) client_fixture \<Rightarrow> bool" where
  "gives_up_after_too_many_callbacks F =
     (let flood = map (\<lambda>i. callback_text i ''s'' ''o'' ''t'' (b64_encode (fx_b64 F) (str_bytes ''x'')) [])
            [0..<MAX_INTERLEAVED_CALLBACKS + 1] in
      unwrap_err (begin_and_attach (signer_env F allow_all_authorize) client_profile
          (client_new (fake_scripted flood) (seeded F 1) AllowAllSignPolicy))
        (\<lambda>err _. err = TooManyCallbacks))"

section \<open>The tests of the callbacks\<close>

definition replied_signature :: "('v, 'pk, 'sg, 'sk) client_fixture \<Rightarrow> string \<Rightarrow> signature option" where
  "replied_signature F reply =
     test_signature (fx_b64 F) (str_at (fx_api F) reply [''result'', ''signature_b64''])"

definition sign_callback_returns_a_signature :: "('v, 'pk, 'sg, 'sk) client_fixture \<Rightarrow> bool" where
  \<open>sign_callback_returns_a_signature F =
     (let pubkey = test_signer_public (fx_keys F) (seeded F 42);
          payload = str_bytes ''spend-bundle-bytes'';
          callback = callback_text 77 ''sess-1'' ''op-9'' ''spend'' (b64_encode (fx_b64 F) payload)
            '',"context":{"amount":5}'' in
      unwrap (handle_next_sign_callback (signer_env F allow_all_authorize)
          (client_new (fake_scripted [callback]) (seeded F 42) AllowAllSignPolicy)) (\<lambda>decision c.
        decision = Allow
        \<and> (case sent_frame c 0 of
             None \<Rightarrow> False
           | Some reply \<Rightarrow>
               int_at (fx_api F) reply [''id''] = Some 77
               \<and> (case (replied_signature F reply, sign_callback_message ''spend'' payload) of
                    (Some sig, Some message) \<Rightarrow>
                      verify_signature (fx_bls F) pubkey message sig
                      \<and> \<not> verify_signature (fx_bls F) pubkey payload sig
                  | _ \<Rightarrow> False)
               \<and> str_at (fx_api F) reply [''result'', ''pubkey_hex''] = Some (key_to_hex (fx_hex F) pubkey)
               \<and> json_at (fx_api F) reply [''result'', ''private_key''] = None)))\<close>

definition sign_callback_is_no_attach_oracle :: "('v, 'pk, 'sg, 'sk) client_fixture \<Rightarrow> bool" where
  "sign_callback_is_no_attach_oracle F =
     (let pubkey = test_signer_public (fx_keys F) (seeded F 42);
          forged_payload = challenge_message (client_nonce F) client_did;
          callback = callback_text 13 ''s'' ''o'' ''spend'' (b64_encode (fx_b64 F) forged_payload) [] in
      unwrap (handle_next_sign_callback (signer_env F allow_all_authorize)
          (client_new (fake_scripted [callback]) (seeded F 42) AllowAllSignPolicy)) (\<lambda>_ c.
        case sent_frame c 0 of
          None \<Rightarrow> False
        | Some reply \<Rightarrow>
            (case (replied_signature F reply, sign_callback_message ''spend'' forged_payload) of
               (Some sig, Some message) \<Rightarrow>
                 \<not> verify_signature (fx_bls F) pubkey forged_payload sig
                 \<and> verify_signature (fx_bls F) pubkey message sig
             | _ \<Rightarrow> False)))"

text \<open>A refused callback: the decision is a denial and the reply an error with the code.\<close>

definition replies_with_error ::
  "('v, 'pk, 'sg, 'sk) client_fixture \<Rightarrow> sign_error_code \<Rightarrow> sign_decision \<Rightarrow> string option \<Rightarrow> bool" where
  "replies_with_error F code decision sent =
     ((case decision of Deny _ \<Rightarrow> True | Allow \<Rightarrow> False)
      \<and> (case sent of
           None \<Rightarrow> False
         | Some reply \<Rightarrow> int_at (fx_api F) reply [''error'', ''code''] = Some (error_number code)))"

definition replies_to :: "('v, 'pk, 'sg, 'sk) client_fixture \<Rightarrow> int \<Rightarrow> string option \<Rightarrow> bool" where
  "replies_to F rid sent =
     (case sent of
        None \<Rightarrow> False
      | Some reply \<Rightarrow> int_at (fx_api F) reply [''id''] = Some rid \<and> json_at (fx_api F) reply [''result''] = None)"

definition sign_callback_denied_by_policy :: "('v, 'pk, 'sg, 'sk) client_fixture \<Rightarrow> bool" where
  "sign_callback_denied_by_policy F =
     (let callback = callback_text 88 ''sess-1'' ''op-1'' ''spend''
            (b64_encode (fx_b64 F) (str_bytes ''anything'')) [] in
      unwrap (handle_next_sign_callback (signer_env F deny_all_authorize)
          (client_new (fake_scripted [callback]) (seeded F 1) DenyAllSignPolicy)) (\<lambda>decision c.
        replies_with_error F SignDenied decision (sent_frame c 0) \<and> replies_to F 88 (sent_frame c 0)))"

definition sign_callback_fails_closed_when_locked :: "('v, 'pk, 'sg, 'sk) client_fixture \<Rightarrow> bool" where
  "sign_callback_fails_closed_when_locked F =
     (let callback = callback_text 91 ''sess-1'' ''op-2'' ''spend''
            (b64_encode (fx_b64 F) (str_bytes ''spend-bundle-bytes'')) [] in
      unwrap (handle_next_sign_callback (locked_env F allow_all_authorize)
          (client_new (fake_scripted [callback]) (lockable_signer_seeded (fx_keys F) 42 True)
            AllowAllSignPolicy)) (\<lambda>decision c.
        replies_with_error F Locked decision (sent_frame c 0) \<and> replies_to F 91 (sent_frame c 0)))"

definition sign_callback_with_a_bad_payload :: "('v, 'pk, 'sg, 'sk) client_fixture \<Rightarrow> bool" where
  "sign_callback_with_a_bad_payload F =
     (let callback = callback_text 5 ''s'' ''o'' ''spend'' ''not!!base64'' [] in
      unwrap (handle_next_sign_callback (signer_env F allow_all_authorize)
          (client_new (fake_scripted [callback]) (seeded F 1) AllowAllSignPolicy)) (\<lambda>decision c.
        replies_with_error F SignDenied decision (sent_frame c 0)))"

definition non_callback_frame_is_rejected :: "('v, 'pk, 'sg, 'sk) client_fixture \<Rightarrow> bool" where
  "non_callback_frame_is_rejected F =
     unwrap_err (handle_next_sign_callback (signer_env F allow_all_authorize)
         (client_new (fake_scripted [attach_text 1]) (seeded F 1) AllowAllSignPolicy))
       (\<lambda>err _. err = NotASignCallback)"

section \<open>The test of the registry\<close>

definition registry_tracks_one_session_per_profile :: bool where
  "registry_tracks_one_session_per_profile =
     (let r = registry_new;
          alice = \<lparr>session_id = ''a'', engine_capabilities = [], profile_did = ''did:chia:alice''\<rparr>;
          bob = \<lparr>session_id = ''b'', engine_capabilities = [], profile_did = ''did:chia:bob''\<rparr>;
          r2 = registry_insert bob (registry_insert alice r) in
      registry_is_empty r \<and> registry_len r2 = 2 \<and> registry_get r2 ''did:chia:alice'' = Some alice
      \<and> (case registry_remove ''did:chia:bob'' r2 of
           (None, _) \<Rightarrow> False
         | (Some removed, r3) \<Rightarrow> session_id removed = ''b'' \<and> registry_len r3 = 1))"

definition client_tests :: "(('v, 'pk, 'sg, 'sk) client_fixture \<Rightarrow> bool) list" where
  "client_tests =
     [happy_path_opens_a_session, attach_signature_is_rejected_for_a_foreign_key,
      wrong_length_nonce_is_rejected, begin_propagates_an_engine_error, interleaved_callback_is_serviced,
      dropped_pipe_then_reattach_recovers, locked_signer_fails_without_a_round_trip,
      detach_sends_the_session_id, gives_up_after_too_many_callbacks, sign_callback_returns_a_signature,
      sign_callback_is_no_attach_oracle, sign_callback_denied_by_policy,
      sign_callback_fails_closed_when_locked, sign_callback_with_a_bad_payload,
      non_callback_frame_is_rejected, \<lambda>_. registry_tracks_one_session_per_profile]"

section \<open>What they rely on\<close>

text \<open>The JSON library reads a text as a \<open>sign\<close> request with the given identifier and parameters.\<close>

definition reads_callback ::
  "('v, 'pk, 'sg, 'sk) client_fixture \<Rightarrow> string \<Rightarrow> int \<Rightarrow> string \<Rightarrow> string \<Rightarrow> bool" where
  "reads_callback F text rid ty payload_b64 \<longleftrightarrow>
     (\<exists>frame v pv params. incoming_frame_from_str (fx_json F) text = Inr frame
        \<and> if_method frame = Some METHOD_SIGN \<and> if_id frame = Some v \<and> as_i64 (fx_api F) v = Some rid
        \<and> if_params frame = Some pv \<and> sign_params_from_value (fx_json F) pv = Inr params
        \<and> scp_payload_type params = ty \<and> scp_payload_b64 params = payload_b64)"

text \<open>Every message the client writes serialises, and the replies read back as they were written.\<close>

definition json_writes :: "('v, 'pk, 'sg, 'sk) client_fixture \<Rightarrow> bool" where
  "json_writes F \<longleftrightarrow>
     (\<forall>r. \<exists>s. begin_request_to_string (fx_json F) r = Inr s)
     \<and> (\<forall>r. \<exists>s. attach_request_to_string (fx_json F) r = Inr s
          \<and> str_at (fx_api F) s [''params'', ''signature_b64''] = Some (ap_signature_b64 (rq_params r)))
     \<and> (\<forall>r. \<exists>s. detach_request_to_string (fx_json F) r = Inr s
          \<and> str_at (fx_api F) s [''method''] = Some (rq_method r)
          \<and> str_at (fx_api F) s [''params'', ''session_id''] = Some (dp_session_id (rq_params r)))
     \<and> (\<forall>r. \<exists>s. sign_result_to_string (fx_json F) r = Inr s
          \<and> json_at (fx_api F) s [''id''] = Some (rs_id r) \<and> json_at (fx_api F) s [''result''] \<noteq> None
          \<and> str_at (fx_api F) s [''result'', ''signature_b64''] = Some (scr_signature_b64 (rs_result r))
          \<and> str_at (fx_api F) s [''result'', ''pubkey_hex''] = Some (scr_pubkey_hex (rs_result r))
          \<and> json_at (fx_api F) s [''result'', ''private_key''] = None)
     \<and> (\<forall>r. \<exists>s. error_reply_to_string (fx_json F) r = Inr s
          \<and> json_at (fx_api F) s [''id''] = Some (rp_id r) \<and> json_at (fx_api F) s [''result''] = None
          \<and> int_at (fx_api F) s [''error'', ''code''] = Some (re_code (rp_error r)))"

definition json_reads :: "('v, 'pk, 'sg, 'sk) client_fixture \<Rightarrow> bool" where
  "json_reads F \<longleftrightarrow>
     (let E = signer_env F allow_all_authorize; b64 = b64_encode (fx_b64 F) in
      (\<forall>nn \<in> {client_nonce F, short_nonce F}.
         responds_with E (begin_result_from_value (fx_json F)) 1 (begin_text (fx_b64 F) nn 1)
           \<lparr>nonce_b64 = b64 nn, br_session_candidate = ''cand-1''\<rparr>)
      \<and> responds_with E (attach_result_from_value (fx_json F)) 2 (attach_text 2)
           \<lparr>ar_session_id = ''sess-1'', ar_engine_capabilities = [''content.serve'', ''sync'']\<rparr>
      \<and> (\<exists>frame. incoming_frame_from_str (fx_json F) (attach_text 1) = Inr frame \<and> if_method frame = None)
      \<and> (\<exists>frame. incoming_frame_from_str (fx_json F) engine_error_text = Inr frame \<and> if_method frame = None
           \<and> Option.bind (if_id frame) (as_u64 (fx_json F)) = Some 1
           \<and> if_error frame = Some \<lparr>re_code = -32000, re_message = ''unknown profile''\<rparr>)
      \<and> responds_with E (detach_result_from_value (fx_json F)) 1 detach_ack_text DetachResult
      \<and> reads_callback F (callback_text 500 ''s'' ''o'' ''t'' (b64 (str_bytes ''x'')) []) 500 ''t'' (b64 (str_bytes ''x''))
      \<and> (\<forall>i < MAX_INTERLEAVED_CALLBACKS + 1. \<exists>k.
           reads_callback F (callback_text i ''s'' ''o'' ''t'' (b64 (str_bytes ''x'')) []) k ''t'' (b64 (str_bytes ''x'')))
      \<and> reads_callback F (callback_text 77 ''sess-1'' ''op-9'' ''spend'' (b64 (str_bytes ''spend-bundle-bytes''))
            '',\"context\":{\"amount\":5}'') 77 ''spend'' (b64 (str_bytes ''spend-bundle-bytes''))
      \<and> reads_callback F (callback_text 13 ''s'' ''o'' ''spend''
            (b64 (challenge_message (client_nonce F) client_did)) []) 13 ''spend''
            (b64 (challenge_message (client_nonce F) client_did))
      \<and> reads_callback F (callback_text 88 ''sess-1'' ''op-1'' ''spend'' (b64 (str_bytes ''anything'')) [])
            88 ''spend'' (b64 (str_bytes ''anything''))
      \<and> reads_callback F (callback_text 91 ''sess-1'' ''op-2'' ''spend'' (b64 (str_bytes ''spend-bundle-bytes'')) [])
            91 ''spend'' (b64 (str_bytes ''spend-bundle-bytes''))
      \<and> reads_callback F (callback_text 5 ''s'' ''o'' ''spend'' ''not!!base64'' []) 5 ''spend'' ''not!!base64'')"

text \<open>
  The codecs and keys: a signature verifies under its own key, not under the stranger's, and a callback
  signature of the two payloads of the tests does not verify over the payload itself.
\<close>

definition signs_apart :: "('v, 'pk, 'sg, 'sk) client_fixture \<Rightarrow> bool" where
  "signs_apart F \<longleftrightarrow>
     b64_round_trip (fx_b64 F) \<and> b64_decode (fx_b64 F) (str_bytes ''not!!base64'') = None
     \<and> bls_correct (fx_bls F) (fx_keys F)
     \<and> (let challenge = challenge_message (client_nonce F) client_did;
            sig = (\<lambda>m. test_signer_sign (fx_keys F) (seeded F 42) m) in
        \<not> verify_signature (fx_bls F) (test_signer_public (fx_keys F) (seeded F 999)) challenge (sig challenge)
        \<and> (\<forall>payload \<in> {str_bytes ''spend-bundle-bytes'', challenge}.
             \<not> verify_signature (fx_bls F) (test_signer_public (fx_keys F) (seeded F 42)) payload
                 (sig (callback_bytes (''spend'', payload)))))"

lemma client_writers:
  assumes "json_writes F"
  obtains bw aw dw rw ew where
    "\<And>r. begin_request_to_string (fx_json F) r = Inr (bw r)"
    "\<And>r. attach_request_to_string (fx_json F) r = Inr (aw r)"
    "\<And>r. str_at (fx_api F) (aw r) [''params'', ''signature_b64''] = Some (ap_signature_b64 (rq_params r))"
    "\<And>r. detach_request_to_string (fx_json F) r = Inr (dw r)"
    "\<And>r. str_at (fx_api F) (dw r) [''method''] = Some (rq_method r)"
    "\<And>r. str_at (fx_api F) (dw r) [''params'', ''session_id''] = Some (dp_session_id (rq_params r))"
    "\<And>r. sign_result_to_string (fx_json F) r = Inr (rw r)"
    "\<And>r. json_at (fx_api F) (rw r) [''id''] = Some (rs_id r)"
    "\<And>r. json_at (fx_api F) (rw r) [''result''] \<noteq> None"
    "\<And>r. str_at (fx_api F) (rw r) [''result'', ''signature_b64''] = Some (scr_signature_b64 (rs_result r))"
    "\<And>r. str_at (fx_api F) (rw r) [''result'', ''pubkey_hex''] = Some (scr_pubkey_hex (rs_result r))"
    "\<And>r. json_at (fx_api F) (rw r) [''result'', ''private_key''] = None"
    "\<And>r. error_reply_to_string (fx_json F) r = Inr (ew r)"
    "\<And>r. json_at (fx_api F) (ew r) [''id''] = Some (rp_id r)"
    "\<And>r. json_at (fx_api F) (ew r) [''result''] = None"
    "\<And>r. int_at (fx_api F) (ew r) [''error'', ''code''] = Some (re_code (rp_error r))"
  using assms unfolding json_writes_def choice_iff by auto

section \<open>Running them\<close>

lemma client_test_env [simp]:
  "cl_json (signer_env F P) = fx_json F" "cl_b64 (signer_env F P) = fx_b64 F"
  "cl_transport (signer_env F P) = fake_transport_ops"
  "cl_signer (signer_env F P) = test_signer_ops (fx_hex F) (fx_keys F)"
  "cl_policy (signer_env F P) = P" "debug_build (signer_env F P)"
  "cl_json (locked_env F P) = fx_json F" "cl_b64 (locked_env F P) = fx_b64 F"
  "cl_transport (locked_env F P) = fake_transport_ops"
  "cl_signer (locked_env F P) = lockable_signer_ops (fx_hex F) (fx_keys F)"
  "cl_policy (locked_env F P) = P" "debug_build (locked_env F P)"
  by (simp_all add: signer_env_def locked_env_def)

text \<open>Only the JSON library decides what a frame responds.\<close>

lemma responds_with_json:
  "responds_with E fv rid raw x \<Longrightarrow> cl_json E = cl_json E' \<Longrightarrow> responds_with E' fv rid raw x"
  by (simp add: responds_with_def cong: sum.case_cong)

lemma read_hit:
  assumes fake: "cl_transport E = fake_transport_ops" and "responds_with E fv rid raw x"
    and "incoming (transport c) = raw # rest"
  shows "read_response E fv rid n c = (Inr x, c\<lparr>transport := (transport c)\<lparr>incoming := rest\<rparr>\<rparr>)"
  using assms(2,3)
  by (subst read_response_unfold)
    (auto simp: fake_client_recv [OF fake] responds_with_def frame_response_Inr split: sum.splits)

lemma call_hit:
  assumes fake: "cl_transport E = fake_transport_ops" and "\<And>r. to_str r = Inr (w r)"
    and "responds_with E fv rid raw x" and "next_id c = rid" and "rid \<noteq> - 1"
    and "incoming (transport c) = raw # rest"
  shows "client_call E to_str fv meth params c = (Inr x, c\<lparr>next_id := rid + 1,
    transport := \<lparr>incoming = rest, outgoing = outgoing (transport c)
      @ [w \<lparr>rq_jsonrpc = JSONRPC_VERSION, rq_id = rid, rq_method = meth, rq_params = params\<rparr>]\<rparr>\<rparr>)"
  using assms read_hit [OF fake assms(3), where rest = rest]
  by (cases "transport c") (simp add: client_call_def Let_def fake_client_send [OF fake])

lemma test_signer_seam [simp]:
  "client_pubkey_hex (signer_env F P) c = (key_to_hex (fx_hex F) (test_signer_public (fx_keys F) (signer c)), c)"
  "client_try_sign (signer_env F P) m c = (Some (test_signer_sign (fx_keys F) (signer c) m), c)"
  "client_pubkey_hex (locked_env F P) d =
     (key_to_hex (fx_hex F) (test_signer_public (fx_keys F) (inner (signer d))), d)"
  "client_try_sign (locked_env F P) m d = (lockable_try_sign (fx_keys F) (signer d) m, d)"
  by (simp_all add: client_pubkey_hex_def client_try_sign_def test_signer_ops_def lockable_signer_ops_def
      default_try_sign_def default_signing_public_key_hex_def)

text \<open>The handshake of the tests, from a client whose next identifier is one.\<close>

definition attach_request :: "('v, 'pk, 'sg, 'sk) client_fixture \<Rightarrow> 'sk test_signer \<Rightarrow> attach_params rpc_request" where
  "attach_request F sk =
     \<lparr>rq_jsonrpc = JSONRPC_VERSION, rq_id = 2, rq_method = METHOD_ATTACH,
      rq_params = \<lparr>ap_session_candidate = ''cand-1'',
        ap_signature_b64 = b64_encode (fx_b64 F) (array_bytes (sig_as_bytes
          (test_signer_sign (fx_keys F) sk (challenge_message (client_nonce F) client_did)))),
        profile = client_profile\<rparr>\<rparr>"

definition begin_request :: "('v, 'pk, 'sg, 'sk) client_fixture \<Rightarrow> 'sk test_signer \<Rightarrow> begin_params rpc_request" where
  "begin_request F sk =
     \<lparr>rq_jsonrpc = JSONRPC_VERSION, rq_id = 1, rq_method = METHOD_BEGIN,
      rq_params = \<lparr>bp_profile_did = client_did,
        signing_pubkey_hex = key_to_hex (fx_hex F) (test_signer_public (fx_keys F) sk)\<rparr>\<rparr>"

lemma json_reads_handshake:
  assumes "json_reads F" and "cl_json E = fx_json F"
  shows "responds_with E (begin_result_from_value (fx_json F)) 1
      (begin_text (fx_b64 F) (client_nonce F) 1)
      \<lparr>nonce_b64 = b64_encode (fx_b64 F) (client_nonce F), br_session_candidate = ''cand-1''\<rparr>"
    and "responds_with E (begin_result_from_value (fx_json F)) 1
      (begin_text (fx_b64 F) (short_nonce F) 1)
      \<lparr>nonce_b64 = b64_encode (fx_b64 F) (short_nonce F), br_session_candidate = ''cand-1''\<rparr>"
    and "responds_with E (attach_result_from_value (fx_json F)) 2 (attach_text 2)
      \<lparr>ar_session_id = ''sess-1'', ar_engine_capabilities = [''content.serve'', ''sync'']\<rparr>"
    and "responds_with E (detach_result_from_value (fx_json F)) 1 detach_ack_text DetachResult"
  using assms by (auto simp: json_reads_def Let_def intro: responds_with_json)

lemma handshake_run:
  assumes writes: "\<And>r. begin_request_to_string (fx_json F) r = Inr (bw r)"
      "\<And>r. attach_request_to_string (fx_json F) r = Inr (aw r)"
    and reads: "json_reads F" and b64: "b64_round_trip (fx_b64 F)"
    and c: "incoming (transport c) = [begin_text (fx_b64 F) (client_nonce F) 1, attach_text 2]" "next_id c = 1"
  shows "begin_and_attach (signer_env F P) client_profile c = (Inr \<lparr>session_id = ''sess-1'',
        engine_capabilities = [''content.serve'', ''sync''], profile_did = client_did\<rparr>,
      c\<lparr>next_id := 3, transport := \<lparr>incoming = [], outgoing = outgoing (transport c)
        @ [bw (begin_request F (signer c)), aw (attach_request F (signer c))]\<rparr>\<rparr>)"
proof -
  let ?E = "signer_env F P"
  note hit = json_reads_handshake [OF reads, of ?E, OF client_test_env(1)]
  have len: "length (client_nonce F) = NONCE_LEN" by (simp add: client_nonce_def NONCE_LEN_def)
  show ?thesis
    using b64 c len
    by (simp add: begin_and_attach_def client_profile_def b64_round_trip_def begin_request_def
        attach_request_def call_hit [OF _ writes(1) hit(1)] call_hit [OF _ writes(2) hit(3)])
qed

section \<open>They pass\<close>

lemma handshake_tests:
  assumes w: "json_writes F" and reads: "json_reads F" and keys: "signs_apart F"
  shows "happy_path_opens_a_session F" and "attach_signature_is_rejected_for_a_foreign_key F"
    and "wrong_length_nonce_is_rejected F" and "begin_propagates_an_engine_error F"
    and "dropped_pipe_then_reattach_recovers F" and "locked_signer_fails_without_a_round_trip F"
    and "detach_sends_the_session_id F"
proof -
  from w obtain bw aw dw where writes: "\<And>r. begin_request_to_string (fx_json F) r = Inr (bw r)"
    "\<And>r. attach_request_to_string (fx_json F) r = Inr (aw r)"
    "\<And>r. str_at (fx_api F) (aw r) [''params'', ''signature_b64''] = Some (ap_signature_b64 (rq_params r))"
    "\<And>r. detach_request_to_string (fx_json F) r = Inr (dw r)"
    "\<And>r. str_at (fx_api F) (dw r) [''method''] = Some (rq_method r)"
    "\<And>r. str_at (fx_api F) (dw r) [''params'', ''session_id''] = Some (dp_session_id (rq_params r))"
    by (rule client_writers) blast
  from keys have b64: "b64_round_trip (fx_b64 F)" by (simp add: signs_apart_def)
  have round: "test_signature (fx_b64 F) (Some (b64_encode (fx_b64 F) (array_bytes (sig_as_bytes sig)))) = Some sig"
    for sig using b64 by (cases sig) (simp add: test_signature_def b64_round_trip_def)
  note run = handshake_run [OF writes(1,2) reads b64]
  note hit = json_reads_handshake [OF reads]
  show "happy_path_opens_a_session F"
    using keys
    by (simp add: happy_path_opens_a_session_def run client_new_def fake_scripted_def sent_frame_def
        attach_signature_verifies_def writes(3) attach_request_def round signs_apart_def
        own_signature_verifies Let_def)
  show "attach_signature_is_rejected_for_a_foreign_key F"
    using keys
    by (simp add: attach_signature_is_rejected_for_a_foreign_key_def run client_new_def fake_scripted_def
        sent_frame_def attach_signature_verifies_def writes(3) attach_request_def round signs_apart_def Let_def)
  have short: "length (short_nonce F) = 31" by (simp add: short_nonce_def)
  then show "wrong_length_nonce_is_rejected F"
    using b64
    by (simp add: wrong_length_nonce_is_rejected_def begin_and_attach_def client_new_def fake_scripted_def
        call_hit [OF _ writes(1) hit(2)] b64_round_trip_def NONCE_LEN_def)
  show "dropped_pipe_then_reattach_recovers F"
    by (simp add: dropped_pipe_then_reattach_recovers_def reattach_def run client_new_def fake_scripted_def
        begin_and_attach_def [of _ _ "\<lparr>transport = \<lparr>incoming = [], outgoing = []\<rparr>,
          signer = seeded F 1, policy = AllowAllSignPolicy, next_id = 1\<rparr>"] client_call_def
        fake_client_send read_response_unfold fake_client_recv writes(1) Let_def)
  show "locked_signer_fails_without_a_round_trip F"
    using b64
    by (simp add: locked_signer_fails_without_a_round_trip_def begin_and_attach_def client_new_def
        fake_scripted_def call_hit [OF _ writes(1) hit(1)] b64_round_trip_def NONCE_LEN_def client_nonce_def
        lockable_signer_seeded_def lockable_try_sign_def)
  show "detach_sends_the_session_id F"
    by (simp add: detach_sends_the_session_id_def client_detach_def client_new_def fake_scripted_def
        call_hit [OF _ writes(4) hit(4)] sent_frame_def writes(5,6))
  from reads obtain frame where "incoming_frame_from_str (fx_json F) engine_error_text = Inr frame"
    "if_method frame = None" "Option.bind (if_id frame) (as_u64 (fx_json F)) = Some 1"
    "if_error frame = Some \<lparr>re_code = -32000, re_message = ''unknown profile''\<rparr>"
    by (auto simp: json_reads_def Let_def)
  then show "begin_propagates_an_engine_error F"
    by (simp add: begin_propagates_an_engine_error_def begin_and_attach_def client_call_def client_new_def
        fake_scripted_def fake_client_send fake_client_recv read_response_unfold frame_response_def
        writes(1) Let_def)
qed

text \<open>A frame of the tests is a callback that can be answered.\<close>

lemma reads_callback_frame:
  assumes "reads_callback F text rid ty p"
  obtains frame v pv params where "incoming_frame_from_str (fx_json F) text = Inr frame"
    "if_method frame = Some METHOD_SIGN" "if_id frame = Some v" "as_i64 (fx_api F) v = Some rid"
    "if_params frame = Some pv" "sign_params_from_value (fx_json F) pv = Inr params"
    "scp_payload_type params = ty" "scp_payload_b64 params = p"
  using assms by (auto simp: reads_callback_def)

lemma reads_callback_answerable:
  assumes "reads_callback F text rid ty p" and "cl_json E = fx_json F"
  shows "answerable E text"
  using assms by (auto simp: reads_callback_def answerable_def callback_params_def)

lemma small_type_message [simp]:
  "sign_callback_message ''spend'' p = Some (callback_bytes (''spend'', p))"
  "sign_callback_message ''t'' p = Some (callback_bytes (''t'', p))"
  by (simp_all add: sign_callback_message_bytes)

lemmas callback_eval = handle_next_sign_callback_def service_sign_callback_def client_authorize_def
  send_result_def send_error_def fake_client_send fake_client_recv client_new_def fake_scripted_def
  sent_frame_def lockable_signer_seeded_def lockable_try_sign_def replies_with_error_def replies_to_def
  replied_signature_def

lemma callback_tests:
  assumes w: "json_writes F" and reads: "json_reads F" and keys: "signs_apart F"
  shows "sign_callback_returns_a_signature F" and "sign_callback_is_no_attach_oracle F"
    and "sign_callback_denied_by_policy F" and "sign_callback_fails_closed_when_locked F"
    and "sign_callback_with_a_bad_payload F" and "non_callback_frame_is_rejected F"
proof -
  from w obtain rw ew where writes: "\<And>r. sign_result_to_string (fx_json F) r = Inr (rw r)"
    "\<And>r. json_at (fx_api F) (rw r) [''id''] = Some (rs_id r)"
    "\<And>r. str_at (fx_api F) (rw r) [''result'', ''signature_b64''] = Some (scr_signature_b64 (rs_result r))"
    "\<And>r. str_at (fx_api F) (rw r) [''result'', ''pubkey_hex''] = Some (scr_pubkey_hex (rs_result r))"
    "\<And>r. json_at (fx_api F) (rw r) [''result'', ''private_key''] = None"
    "\<And>r. error_reply_to_string (fx_json F) r = Inr (ew r)"
    "\<And>r. json_at (fx_api F) (ew r) [''id''] = Some (rp_id r)"
    "\<And>r. json_at (fx_api F) (ew r) [''result''] = None"
    "\<And>r. int_at (fx_api F) (ew r) [''error'', ''code''] = Some (re_code (rp_error r))"
    by (rule client_writers) blast
  have ids: "int_at (fx_api F) (rw r) [''id''] = as_i64 (fx_api F) (rs_id r)"
    "int_at (fx_api F) (ew r') [''id''] = as_i64 (fx_api F) (rp_id r')" for r r'
    by (simp_all add: int_at_def writes)
  from keys have b64: "\<And>bs. b64_decode (fx_b64 F) (str_bytes (b64_encode (fx_b64 F) bs)) = Some bs"
    and bad: "b64_decode (fx_b64 F) (str_bytes ''not!!base64'') = None"
    by (simp_all add: signs_apart_def b64_round_trip_def)
  have round: "test_signature (fx_b64 F) (Some (b64_encode (fx_b64 F) (array_bytes (sig_as_bytes sig)))) = Some sig"
    for sig by (cases sig) (simp add: test_signature_def b64)
  from reads have cb:
    "reads_callback F (callback_text 77 ''sess-1'' ''op-9'' ''spend'' (b64_encode (fx_b64 F)
       (str_bytes ''spend-bundle-bytes'')) '',\"context\":{\"amount\":5}'') 77 ''spend''
       (b64_encode (fx_b64 F) (str_bytes ''spend-bundle-bytes''))"
    "reads_callback F (callback_text 13 ''s'' ''o'' ''spend'' (b64_encode (fx_b64 F)
       (challenge_message (client_nonce F) client_did)) []) 13 ''spend''
       (b64_encode (fx_b64 F) (challenge_message (client_nonce F) client_did))"
    "reads_callback F (callback_text 88 ''sess-1'' ''op-1'' ''spend'' (b64_encode (fx_b64 F)
       (str_bytes ''anything'')) []) 88 ''spend'' (b64_encode (fx_b64 F) (str_bytes ''anything''))"
    "reads_callback F (callback_text 91 ''sess-1'' ''op-2'' ''spend'' (b64_encode (fx_b64 F)
       (str_bytes ''spend-bundle-bytes'')) []) 91 ''spend'' (b64_encode (fx_b64 F) (str_bytes ''spend-bundle-bytes''))"
    "reads_callback F (callback_text 5 ''s'' ''o'' ''spend'' ''not!!base64'' []) 5 ''spend'' ''not!!base64''"
    by (simp_all add: json_reads_def Let_def)
  from cb(1) show "sign_callback_returns_a_signature F"
    using keys
    by (elim reads_callback_frame) (simp add: sign_callback_returns_a_signature_def callback_eval b64 writes ids
        round signs_apart_def own_signature_verifies Let_def)
  from cb(2) show "sign_callback_is_no_attach_oracle F"
    using keys
    by (elim reads_callback_frame) (simp add: sign_callback_is_no_attach_oracle_def callback_eval b64 writes
        round signs_apart_def own_signature_verifies Let_def)
  from cb(3) show "sign_callback_denied_by_policy F"
    by (elim reads_callback_frame) (simp add: sign_callback_denied_by_policy_def callback_eval b64 writes ids)
  from cb(4) show "sign_callback_fails_closed_when_locked F"
    by (elim reads_callback_frame) (simp add: sign_callback_fails_closed_when_locked_def callback_eval b64 writes ids)
  from cb(5) show "sign_callback_with_a_bad_payload F"
    by (elim reads_callback_frame) (simp add: sign_callback_with_a_bad_payload_def callback_eval bad writes)
  from reads show "non_callback_frame_is_rejected F"
    by (auto simp: json_reads_def Let_def non_callback_frame_is_rejected_def callback_eval)
qed

lemma registry_test: "registry_tracks_one_session_per_profile"
  by (simp add: registry_tracks_one_session_per_profile_def registry_new_def registry_insert_def
      registry_get_def registry_remove_def registry_len_def registry_is_empty_def hm.count_put hm.count_del)

text \<open>The two tests in which callbacks arrive during a handshake.\<close>

lemma interleaved_read:
  assumes w: "json_writes F" and keys: "signs_apart F" and cb: "reads_callback F text rid ''t'' (b64_encode (fx_b64 F) bs)"
    and hit: "responds_with (signer_env F allow_all_authorize) fv aid raw x"
    and c: "incoming (transport c) = text # raw # rest"
  obtains reply c' where "read_response (signer_env F allow_all_authorize) fv aid 0 c = (Inr x, c')"
    "transport c' = \<lparr>incoming = rest, outgoing = outgoing (transport c) @ [reply]\<rparr>"
    "signer c' = signer c" "next_id c' = next_id c"
    "int_at (fx_api F) reply [''id''] = Some rid" "json_at (fx_api F) reply [''result''] \<noteq> None"
proof -
  let ?E = "signer_env F allow_all_authorize"
  from w obtain rw where writes: "\<And>r. sign_result_to_string (fx_json F) r = Inr (rw r)"
    "\<And>r. json_at (fx_api F) (rw r) [''id''] = Some (rs_id r)"
    "\<And>r. json_at (fx_api F) (rw r) [''result''] \<noteq> None"
    by (rule client_writers) blast
  from cb obtain frame v pv params where frame: "incoming_frame_from_str (fx_json F) text = Inr frame"
    "if_method frame = Some METHOD_SIGN" "if_id frame = Some v" "as_i64 (fx_api F) v = Some rid"
    "if_params frame = Some pv" "sign_params_from_value (fx_json F) pv = Inr params"
    "scp_payload_type params = ''t''" "scp_payload_b64 params = b64_encode (fx_b64 F) bs"
    by (rule reads_callback_frame)
  let ?c1 = "c\<lparr>transport := (transport c)\<lparr>incoming := raw # rest\<rparr>\<rparr>"
  let ?reply = "rw \<lparr>rs_jsonrpc = JSONRPC_VERSION, rs_id = v, rs_result = \<lparr>scr_signature_b64 =
      b64_encode (fx_b64 F) (array_bytes (sig_as_bytes (test_signer_sign (fx_keys F) (signer c)
        (callback_bytes (''t'', bs))))),
      scr_pubkey_hex = key_to_hex (fx_hex F) (test_signer_public (fx_keys F) (signer c))\<rparr>\<rparr>"
  let ?c2 = "?c1\<lparr>transport := \<lparr>incoming = raw # rest, outgoing = outgoing (transport c) @ [?reply]\<rparr>\<rparr>"
  have service: "service_sign_callback ?E frame ?c1 = (Inr Allow, ?c2)"
    using frame keys
    by (cases "transport c") (simp add: callback_eval writes signs_apart_def b64_round_trip_def)
  have "read_response ?E fv aid 0 c = read_response ?E fv aid (Suc 0) ?c2"
    using frame c service
    by (subst read_response_unfold) (simp add: fake_client_recv MAX_INTERLEAVED_CALLBACKS_def)
  also have "\<dots> = (Inr x, ?c2\<lparr>transport := (transport ?c2)\<lparr>incoming := rest\<rparr>\<rparr>)"
    by (rule read_hit [OF _ hit]) simp_all
  finally have read: "read_response ?E fv aid 0 c = (Inr x, ?c2\<lparr>transport := (transport ?c2)\<lparr>incoming := rest\<rparr>\<rparr>)" .
  have "int_at (fx_api F) ?reply [''id''] = Some rid" by (simp add: int_at_def writes(2) frame(4))
  moreover have "json_at (fx_api F) ?reply [''result''] \<noteq> None" by (rule writes(3))
  ultimately show thesis by (intro that [OF read, of ?reply]) simp_all
qed

text \<open>The client of the tests with a script, what it sent and its next identifier.\<close>

definition client_at ::
  "('v, 'pk, 'sg, 'sk) client_fixture \<Rightarrow> string list \<Rightarrow> string list \<Rightarrow> u64 \<Rightarrow>
     (fake_transport, 'sk test_signer, allow_all_sign_policy) client" where
  "client_at F script out n =
     \<lparr>transport = \<lparr>incoming = script, outgoing = out\<rparr>, signer = seeded F 1,
      policy = AllowAllSignPolicy, next_id = n\<rparr>"

lemma client_at_simps [simp]:
  "transport (client_at F script out n) = \<lparr>incoming = script, outgoing = out\<rparr>"
  "signer (client_at F script out n) = seeded F 1" "next_id (client_at F script out n) = n"
  "client_new (fake_scripted script) (seeded F 1) AllowAllSignPolicy = client_at F script [] 1"
  "client_at F script out n\<lparr>next_id := k\<rparr> = client_at F script out k"
  "client_at F script out n\<lparr>transport := \<lparr>incoming = script', outgoing = out'\<rparr>\<rparr> = client_at F script' out' n"
  by (simp_all add: client_at_def client_new_def fake_scripted_def)

lemma interleaving_tests:
  assumes w: "json_writes F" and reads: "json_reads F" and keys: "signs_apart F"
  shows "interleaved_callback_is_serviced F" and "gives_up_after_too_many_callbacks F"
proof -
  let ?E = "signer_env F allow_all_authorize"
  let ?b64 = "b64_encode (fx_b64 F)"
  from w obtain bw aw where writes: "\<And>r. begin_request_to_string (fx_json F) r = Inr (bw r)"
    "\<And>r. attach_request_to_string (fx_json F) r = Inr (aw r)"
    by (rule client_writers) blast
  note hit = json_reads_handshake [OF reads, of ?E, OF client_test_env(1)]
  let ?cb = "callback_text 500 ''s'' ''o'' ''t'' (?b64 (str_bytes ''x'')) []"
  let ?c0 = "client_at F [?cb, begin_text (fx_b64 F) (client_nonce F) 1, attach_text 2] [bw (begin_request F (seeded F 1))] 2"
  have cb: "reads_callback F ?cb 500 ''t'' (?b64 (str_bytes ''x''))"
    using reads by (simp add: json_reads_def Let_def)
  have "incoming (transport ?c0) = ?cb # begin_text (fx_b64 F) (client_nonce F) 1 # [attach_text 2]" by simp
  from w keys cb hit(1) this obtain reply c' where
    read: "read_response ?E (begin_result_from_value (fx_json F)) 1 0 ?c0
      = (Inr \<lparr>nonce_b64 = ?b64 (client_nonce F), br_session_candidate = ''cand-1''\<rparr>, c')"
    and c': "transport c' = \<lparr>incoming = [attach_text 2], outgoing = outgoing (transport ?c0) @ [reply]\<rparr>"
      "signer c' = signer ?c0" "next_id c' = next_id ?c0"
    and reply: "int_at (fx_api F) reply [''id''] = Some 500" "json_at (fx_api F) reply [''result''] \<noteq> None"
    by (rule interleaved_read)
  have len: "length (client_nonce F) = NONCE_LEN" by (simp add: client_nonce_def NONCE_LEN_def)
  have "client_call ?E (begin_request_to_string (fx_json F)) (begin_result_from_value (fx_json F)) METHOD_BEGIN
      \<lparr>bp_profile_did = client_did, signing_pubkey_hex = key_to_hex (fx_hex F) (test_signer_public (fx_keys F) (seeded F 1))\<rparr>
      (client_at F [?cb, begin_text (fx_b64 F) (client_nonce F) 1, attach_text 2] [] 1)
      = (Inr \<lparr>nonce_b64 = ?b64 (client_nonce F), br_session_candidate = ''cand-1''\<rparr>, c')"
    using read by (simp add: client_call_def Let_def writes fake_client_send begin_request_def)
  with keys len c' reply show "interleaved_callback_is_serviced F"
    by (simp add: interleaved_callback_is_serviced_def begin_and_attach_def
        client_profile_def signs_apart_def b64_round_trip_def call_hit [OF _ writes(2) hit(3)])
  let ?flood = "map (\<lambda>i. callback_text i ''s'' ''o'' ''t'' (?b64 (str_bytes ''x'')) []) [0..<MAX_INTERLEAVED_CALLBACKS + 1]"
  have ser: "serialises_replies ?E" using w by (auto simp: serialises_replies_def json_writes_def)
  have "answerable ?E (callback_text i ''s'' ''o'' ''t'' (?b64 (str_bytes ''x'')) [])"
    if i: "i < MAX_INTERLEAVED_CALLBACKS + 1" for i
  proof -
    from reads i obtain k where "reads_callback F (callback_text i ''s'' ''o'' ''t'' (?b64 (str_bytes ''x'')) [])
        k ''t'' (?b64 (str_bytes ''x''))"
      unfolding json_reads_def Let_def by blast
    then show ?thesis by (rule reads_callback_answerable) simp
  qed
  then have "list_all (answerable ?E) ?flood" by (simp add: list_all_iff del: upt_Suc)
  then obtain d replies where "read_response ?E (begin_result_from_value (fx_json F)) 1 0
      (client_at F ?flood [bw (begin_request F (seeded F 1))] 2) = (Inl (Err TooManyCallbacks), d)"
    using read_response_flood [of ?E "client_at F ?flood [bw (begin_request F (seeded F 1))] 2" ?flood "[]" 0] ser
    by auto
  then show "gives_up_after_too_many_callbacks F"
    by (simp add: gives_up_after_too_many_callbacks_def begin_and_attach_def
        client_profile_def client_call_def Let_def writes fake_client_send begin_request_def del: upt_Suc)
qed

section \<open>Property\<close>

text \<open>
  C36. The model passes the unit tests of the client, for every JSON library that reads the frames of
  the tests and whose replies read back, and every codec and key library with the behaviour the tests
  rely on.
\<close>

theorem client_tests_pass:
  assumes "json_writes F" and "json_reads F" and "signs_apart F"
  shows "list_all (\<lambda>t. t F) client_tests"
  using handshake_tests [OF assms] callback_tests [OF assms] interleaving_tests [OF assms] registry_test
  by (simp add: client_tests_def)

text \<open>
  A JSON library, keys and codecs that meet the three contracts: values are integers and strings,
  frames are read by their texts, and what is written is a tag and a list of length-prefixed strings.
\<close>

datatype fixture_value = FInt int | FStr string

definition value_text :: "fixture_value \<Rightarrow> string" where
  "value_text v =
     (case v of
        FInt i \<Rightarrow> (if i < 0 then CHR ''-'' else CHR ''+'') # replicate (nat \<bar>i\<bar>) CHR ''1''
      | FStr s \<Rightarrow> CHR ''s'' # s)"

definition text_value :: "string \<Rightarrow> fixture_value" where
  "text_value t =
     (if hd t = CHR ''s'' then FStr (tl t)
      else FInt ((if hd t = CHR ''-'' then -1 else 1) * int (length (tl t))))"

lemma text_value_text [simp]: "text_value (value_text v) = v"
  by (cases v) (auto simp: text_value_def value_text_def)

definition fixture_api :: "fixture_value value_api" where
  "fixture_api =
     \<lparr>json_at = (\<lambda>t path.
        if t = [] then None
        else if hd t = CHR ''A'' then
          (if path = [''params'', ''signature_b64''] then Some (FStr (unpack 1 (tl t) ! 0)) else None)
        else if hd t = CHR ''D'' then
          (if path = [''method''] then Some (FStr (unpack 2 (tl t) ! 0))
           else if path = [''params'', ''session_id''] then Some (FStr (unpack 2 (tl t) ! 1)) else None)
        else if hd t = CHR ''R'' then
          (if path = [''id''] then Some (text_value (unpack 3 (tl t) ! 0))
           else if path = [''result''] then Some (FInt 0)
           else if path = [''result'', ''signature_b64''] then Some (FStr (unpack 3 (tl t) ! 1))
           else if path = [''result'', ''pubkey_hex''] then Some (FStr (unpack 3 (tl t) ! 2)) else None)
        else if hd t = CHR ''E'' then
          (if path = [''id''] then Some (text_value (unpack 2 (tl t) ! 0))
           else if path = [''error'', ''code''] then Some (text_value (unpack 2 (tl t) ! 1)) else None)
        else None),
      as_str = (\<lambda>v. case v of FStr s \<Rightarrow> Some s | FInt _ \<Rightarrow> None),
      as_i64 = (\<lambda>v. case v of FInt i \<Rightarrow> Some i | FStr _ \<Rightarrow> None)\<rparr>"

definition fixture_sha256 :: "u8 list \<Rightarrow> 32 bytes" where
  "fixture_sha256 bs = array_of (of_nat (length bs))"

definition callback_frame :: "int \<Rightarrow> string \<Rightarrow> fixture_value incoming_frame" where
  "callback_frame rid v = \<lparr>if_id = Some (FInt rid), if_method = Some METHOD_SIGN, if_params = Some (FStr v),
     if_result = None, if_error = None\<rparr>"

definition response_frame :: "int \<Rightarrow> fixture_value \<Rightarrow> fixture_value incoming_frame" where
  "response_frame rid v = \<lparr>if_id = Some (FInt rid), if_method = None, if_params = None,
     if_result = Some v, if_error = None\<rparr>"

text \<open>
  The base64 forms the frames carry, the frames by their texts, and the ending of the callbacks that
  come in floods.
\<close>

definition b64_text :: "u8 list \<Rightarrow> string" where
  "b64_text = b64_encode tagged_b64"

definition fixture_frames :: "(string \<times> fixture_value incoming_frame) list" where
  \<open>fixture_frames =
     [(begin_text tagged_b64 (replicate 32 42) 1, response_frame 1 (FStr (b64_text (replicate 32 42)))),
      (begin_text tagged_b64 (replicate 31 43) 1, response_frame 1 (FStr (b64_text (replicate 31 43)))),
      (attach_text 2, response_frame 2 (FInt 0)),
      (attach_text 1, response_frame 1 (FInt 0)),
      (engine_error_text, (response_frame 1 (FInt 0))\<lparr>if_result := None,
         if_error := Some \<lparr>re_code = -32000, re_message = ''unknown profile''\<rparr>\<rparr>),
      (detach_ack_text, response_frame 1 (FInt 0)),
      (callback_text 77 ''sess-1'' ''op-9'' ''spend'' ''bspend-bundle-bytes'' '',"context":{"amount":5}'',
         callback_frame 77 ''sbspend-bundle-bytes''),
      (callback_text 13 ''s'' ''o'' ''spend''
         (b64_text (challenge_message (replicate 32 42) client_did)) [],
         callback_frame 13 (CHR ''s'' # b64_text (challenge_message (replicate 32 42) client_did))),
      (callback_text 88 ''sess-1'' ''op-1'' ''spend'' ''banything'' [], callback_frame 88 ''sbanything''),
      (callback_text 91 ''sess-1'' ''op-2'' ''spend'' ''bspend-bundle-bytes'' [],
         callback_frame 91 ''sbspend-bundle-bytes''),
      (callback_text 5 ''s'' ''o'' ''spend'' ''not!!base64'' [], callback_frame 5 ''snot!!base64'')]\<close>

definition flood_ending :: "string \<Rightarrow> bool" where
  \<open>flood_ending t \<longleftrightarrow> take 5 (rev t) = rev ''bx"}}''\<close>

definition fixture_json :: "fixture_value serde_json" where
  "fixture_json =
     \<lparr>value_null = FInt 0,
      as_u64 = (\<lambda>v. case v of FInt i \<Rightarrow> Some (of_int i) | FStr _ \<Rightarrow> None),
      begin_request_to_string = (\<lambda>r. Inr ''B''),
      attach_request_to_string = (\<lambda>r. Inr (CHR ''A'' # pack [ap_signature_b64 (rq_params r)])),
      detach_request_to_string = (\<lambda>r. Inr (CHR ''D'' # pack [rq_method r, dp_session_id (rq_params r)])),
      sign_result_to_string = (\<lambda>r. Inr (CHR ''R'' # pack [value_text (rs_id r),
        scr_signature_b64 (rs_result r), scr_pubkey_hex (rs_result r)])),
      error_reply_to_string = (\<lambda>r. Inr (CHR ''E'' # pack [value_text (rp_id r),
        value_text (FInt (re_code (rp_error r)))])),
      incoming_frame_from_str = (\<lambda>t.
        if flood_ending t then
          Inr (callback_frame (if t = callback_text 500 ''s'' ''o'' ''t'' ''bx'' [] then 500 else 0) ''tbx'')
        else case map_of fixture_frames t of Some frame \<Rightarrow> Inr frame | None \<Rightarrow> Inl ''expected value''),
      begin_result_from_value = (\<lambda>v. case v of
          FStr n \<Rightarrow> Inr \<lparr>nonce_b64 = n, br_session_candidate = ''cand-1''\<rparr>
        | FInt _ \<Rightarrow> Inl ''missing field''),
      attach_result_from_value = (\<lambda>_. Inr \<lparr>ar_session_id = ''sess-1'',
        ar_engine_capabilities = [''content.serve'', ''sync'']\<rparr>),
      detach_result_from_value = (\<lambda>_. Inr DetachResult),
      sign_params_from_value = (\<lambda>v. case v of
          FStr (c # p) \<Rightarrow> Inr \<lparr>scp_session_id = ''s'', scp_op_id = ''o'',
            scp_payload_type = (if c = CHR ''t'' then ''t'' else ''spend''), scp_payload_b64 = p, scp_context = None\<rparr>
        | _ \<Rightarrow> Inl ''missing field'')\<rparr>"

definition sample_fixture :: "(fixture_value, u8, u8 list, u8) client_fixture" where
  "sample_fixture =
     \<lparr>fx_json = fixture_json, fx_api = fixture_api, fx_b64 = tagged_b64, fx_hex = tagged_hex,
      fx_bls = length_bls, fx_keys = length_keys, fx_sha256 = fixture_sha256\<rparr>"

lemma sample_fixture_simps [simp]:
  "fx_json sample_fixture = fixture_json" "fx_api sample_fixture = fixture_api"
  "fx_b64 sample_fixture = tagged_b64" "fx_bls sample_fixture = length_bls"
  "fx_keys sample_fixture = length_keys" "fx_hex sample_fixture = tagged_hex"
  by (simp_all add: sample_fixture_def)

lemma fixture_nonces:
  "client_nonce sample_fixture = replicate 32 42" "short_nonce sample_fixture = replicate 31 43"
  by (simp_all add: client_nonce_def short_nonce_def sample_fixture_def fixture_sha256_def)

lemma fixture_writes: "json_writes sample_fixture"
  by (simp add: json_writes_def fixture_json_def fixture_api_def str_at_def int_at_def del: unpack.simps)

lemma fixture_b64 [simp]:
  "b64_encode tagged_b64 (str_bytes s) = CHR ''b'' # s"
  by (simp add: tagged_b64_def)

lemma fixture_signs: "signs_apart sample_fixture"
proof -
  have "b64_decode tagged_b64 (str_bytes ''not!!base64'') = None"
    by (simp add: tagged_b64_def str_bytes_def)
  then show ?thesis
    by (simp add: signs_apart_def tagged_round_trips length_keys_correct length_keys_verify Let_def
        test_signer_seeded_def callback_bytes_def SIGN_CALLBACK_DOMAIN_def) (simp add: length_keys_def)
qed

lemma fixture_flood: "flood_ending (callback_text i ''s'' ''o'' ''t'' ''bx'' [])"
  by (simp add: flood_ending_def callback_text_def)

lemma begin_texts_differ:
  "begin_text tagged_b64 (replicate 32 42) 1 \<noteq> begin_text tagged_b64 (replicate 31 43) 1"
  by (rule notI, drule arg_cong [of _ _ length]) (simp add: begin_text_def tagged_b64_def)

lemmas frame_texts = begin_text_def attach_text_def callback_text_def engine_error_text_def
  detach_ack_text_def flood_ending_def decimal.simps

lemma fixture_lookup:
  "\<not> flood_ending t \<Longrightarrow> map_of fixture_frames t = Some frame
    \<Longrightarrow> incoming_frame_from_str fixture_json t = Inr frame"
  by (simp add: fixture_json_def)

lemma fixture_begin_frames:
  "incoming_frame_from_str fixture_json (begin_text tagged_b64 (replicate 32 42) 1)
     = Inr (response_frame 1 (FStr (b64_text (replicate 32 42))))"
  "incoming_frame_from_str fixture_json (begin_text tagged_b64 (replicate 31 43) 1)
     = Inr (response_frame 1 (FStr (b64_text (replicate 31 43))))"
  by (rule fixture_lookup, simp add: flood_ending_def begin_text_def,
      simp add: fixture_frames_def begin_texts_differ [symmetric, simplified])+

lemma fixture_response_frames:
  "incoming_frame_from_str fixture_json (attach_text 2) = Inr (response_frame 2 (FInt 0))"
  "incoming_frame_from_str fixture_json (attach_text 1) = Inr (response_frame 1 (FInt 0))"
  "incoming_frame_from_str fixture_json detach_ack_text = Inr (response_frame 1 (FInt 0))"
  "incoming_frame_from_str fixture_json engine_error_text = Inr ((response_frame 1 (FInt 0))\<lparr>if_result := None,
     if_error := Some \<lparr>re_code = -32000, re_message = ''unknown profile''\<rparr>\<rparr>)"
  by (rule fixture_lookup, simp add: frame_texts, simp add: fixture_frames_def frame_texts)+

lemma fixture_callback_frames:
  "incoming_frame_from_str fixture_json (callback_text 77 ''sess-1'' ''op-9'' ''spend'' ''bspend-bundle-bytes''
     '',\"context\":{\"amount\":5}'') = Inr (callback_frame 77 ''sbspend-bundle-bytes'')"
  "incoming_frame_from_str fixture_json (callback_text 88 ''sess-1'' ''op-1'' ''spend'' ''banything'' [])
     = Inr (callback_frame 88 ''sbanything'')"
  "incoming_frame_from_str fixture_json (callback_text 91 ''sess-1'' ''op-2'' ''spend'' ''bspend-bundle-bytes'' [])
     = Inr (callback_frame 91 ''sbspend-bundle-bytes'')"
  "incoming_frame_from_str fixture_json (callback_text 5 ''s'' ''o'' ''spend'' ''not!!base64'' [])
     = Inr (callback_frame 5 ''snot!!base64'')"
  by (rule fixture_lookup, simp add: frame_texts, simp add: fixture_frames_def frame_texts)+

lemma fixture_oracle_frame:
  "incoming_frame_from_str fixture_json (callback_text 13 ''s'' ''o'' ''spend''
      (b64_text (challenge_message (replicate 32 42) client_did)) [])
    = Inr (callback_frame 13 (CHR ''s'' # b64_text (challenge_message (replicate 32 42) client_did)))"
proof (rule fixture_lookup)
  have "b64_text (challenge_message n client_did) = CHR ''b'' # bytes_str (SESSION_CHALLENGE_DOMAIN @ n) @ client_did"
    for n by (simp add: b64_text_def tagged_b64_def challenge_message_def bytes_str_def str_bytes_def comp_def)
  then show "\<not> flood_ending (callback_text 13 ''s'' ''o'' ''spend''
      (b64_text (challenge_message (replicate 32 42) client_did)) [])"
    by (simp add: frame_texts)
qed (simp add: fixture_frames_def frame_texts)

lemma fixture_reads: "json_reads sample_fixture"
proof -
  have flood: "reads_callback sample_fixture (callback_text i ''s'' ''o'' ''t'' ''bx'' [])
      (if callback_text i ''s'' ''o'' ''t'' ''bx'' [] = callback_text 500 ''s'' ''o'' ''t'' ''bx'' [] then 500 else 0)
      ''t'' ''bx''" for i
    by (simp add: reads_callback_def fixture_json_def fixture_api_def fixture_flood callback_frame_def)
  have callback: "reads_callback sample_fixture t rid ty p"
    if "incoming_frame_from_str fixture_json t = Inr (callback_frame rid (c # p))"
      and "ty = (if c = CHR ''t'' then ''t'' else ''spend'')" for t rid c p ty
    using that by (simp add: reads_callback_def callback_frame_def)
      (simp add: fixture_json_def fixture_api_def)
  have response: "responds_with (signer_env sample_fixture allow_all_authorize) fv (word_of_int rid) t x"
    if "incoming_frame_from_str fixture_json t = Inr (response_frame rid v)" and "fv v = Inr x"
    for t fv rid x v
    using that by (simp add: responds_with_def response_frame_def) (simp add: fixture_json_def)
  show ?thesis
    unfolding json_reads_def Let_def fixture_nonces sample_fixture_simps fixture_b64
    unfolding b64_text_def [symmetric]
  proof (intro conjI ballI allI impI)
    fix nn :: "u8 list" assume "nn \<in> {replicate 32 42, replicate 31 43}"
    then show "responds_with (signer_env sample_fixture allow_all_authorize)
        (begin_result_from_value fixture_json) 1 (begin_text tagged_b64 nn 1)
        \<lparr>nonce_b64 = b64_text nn, br_session_candidate = ''cand-1''\<rparr>"
      using response [OF fixture_begin_frames(1), of "begin_result_from_value fixture_json"]
        response [OF fixture_begin_frames(2), of "begin_result_from_value fixture_json"]
      by (auto simp: fixture_json_def)
  next
    show "responds_with (signer_env sample_fixture allow_all_authorize)
        (attach_result_from_value fixture_json) 2 (attach_text 2)
        \<lparr>ar_session_id = ''sess-1'', ar_engine_capabilities = [''content.serve'', ''sync'']\<rparr>"
      using response [OF fixture_response_frames(1), of "attach_result_from_value fixture_json"]
      by (simp add: fixture_json_def)
  next
    show "responds_with (signer_env sample_fixture allow_all_authorize)
        (detach_result_from_value fixture_json) 1 detach_ack_text DetachResult"
      using response [OF fixture_response_frames(3), of "detach_result_from_value fixture_json"]
      by (simp add: fixture_json_def)
  next
    show "\<exists>frame. incoming_frame_from_str fixture_json (attach_text 1) = Inr frame \<and> if_method frame = None"
      by (simp add: fixture_response_frames [simplified] response_frame_def)
  next
    show "\<exists>frame. incoming_frame_from_str fixture_json engine_error_text = Inr frame \<and> if_method frame = None
        \<and> Option.bind (if_id frame) (as_u64 fixture_json) = Some 1
        \<and> if_error frame = Some \<lparr>re_code = -32000, re_message = ''unknown profile''\<rparr>"
      by (simp add: fixture_response_frames response_frame_def) (simp add: fixture_json_def)
  next
    fix i :: nat assume "i < MAX_INTERLEAVED_CALLBACKS + 1"
    show "\<exists>k. reads_callback sample_fixture (callback_text i ''s'' ''o'' ''t'' ''bx'' []) k ''t'' ''bx''"
      using flood by blast
  qed (use flood [of 500] in simp, rule callback, rule fixture_callback_frames fixture_oracle_frame, simp)+
qed

theorem client_tests_pass_witness: "list_all (\<lambda>t. t sample_fixture) client_tests"
  by (rule client_tests_pass [OF fixture_writes fixture_reads fixture_signs])

end
