(* ===== verification/Conformance.thy ===== *)
theory Conformance
  imports Domain Hex_Codec Test_Support
begin

text \<open>
  The conformance suite \<open>tests/conformance.rs\<close>: the golden hex vectors that pin the byte layout of
  every signed message, and the negatives of the cross-protocol oracle, as functions to \<open>bool\<close>, true
  when every assertion of the test holds.
\<close>

section \<open>Fixtures\<close>

abbreviation conformance_did :: string where
  "conformance_did \<equiv> ''did:chia:conformance''"

definition conformance_nonce :: "(u8 list \<Rightarrow> 32 bytes) \<Rightarrow> u8 list" where
  "conformance_nonce sha256 = array_bytes (sha256 (str_bytes ''dig-ipc-protocol conformance nonce vector v1''))"

abbreviation SESSION_DOMAIN_HEX :: string where
  "SESSION_DOMAIN_HEX \<equiv> ''4449474e45542d53455353494f4e2d7631''"

abbreviation SIGN_DOMAIN_HEX :: string where
  "SIGN_DOMAIN_HEX \<equiv> ''4449474e45542d5349474e2d7631''"

abbreviation USER_DOMAIN_HEX :: string where
  "USER_DOMAIN_HEX \<equiv> ''4449474e45542d555345522d5349474e2d7631''"

abbreviation NONCE_HEX :: string where
  "NONCE_HEX \<equiv> ''5de26a7911315eb9c036bea7fb8bc14d31a7f6e32857adf411ece95171f98736''"

definition app_signer :: "'sk bls_keys \<Rightarrow> 'sk test_signer" where
  "app_signer K = \<lparr>secret_key = secret_from_seed K (chacha_fill K 20260718)\<rparr>"

section \<open>The golden vectors\<close>

definition domain_tags_match_the_golden_hex :: "hex_crate \<Rightarrow> (u8 list \<Rightarrow> 32 bytes) \<Rightarrow> bool" where
  "domain_tags_match_the_golden_hex H sha256 \<longleftrightarrow>
     hex_encode H SESSION_CHALLENGE_DOMAIN = SESSION_DOMAIN_HEX
     \<and> hex_encode H SIGN_CALLBACK_DOMAIN = SIGN_DOMAIN_HEX
     \<and> hex_encode H USER_SIGN_DOMAIN = USER_DOMAIN_HEX
     \<and> hex_encode H (conformance_nonce sha256) = NONCE_HEX"

definition challenge_message_golden_vector :: "hex_crate \<Rightarrow> (u8 list \<Rightarrow> 32 bytes) \<Rightarrow> bool" where
  "challenge_message_golden_vector H sha256 \<longleftrightarrow>
     hex_encode H (challenge_message (conformance_nonce sha256) conformance_did)
       = ''4449474e45542d53455353494f4e2d7631''
         @ ''5de26a7911315eb9c036bea7fb8bc14d31a7f6e32857adf411ece95171f98736''
         @ ''6469643a636869613a636f6e666f726d616e6365''"

definition sign_callback_message_golden_vector :: "hex_crate \<Rightarrow> bool" where
  "sign_callback_message_golden_vector H \<longleftrightarrow>
     (case sign_callback_message ''spend'' (str_bytes ''bundle-bytes'') of
        None \<Rightarrow> False
      | Some m \<Rightarrow> hex_encode H m = ''4449474e45542d5349474e2d763100057370656e6462756e646c652d6279746573'')"

definition user_sign_message_golden_vector :: "hex_crate \<Rightarrow> bool" where
  "user_sign_message_golden_vector H \<longleftrightarrow>
     hex_encode H (user_sign_message (str_bytes ''attest this''))
       = ''4449474e45542d555345522d5349474e2d76316174746573742074686973''"

section \<open>The negatives of the oracle\<close>

definition callback_signature_is_not_an_attach_signature ::
  "('pk, 'sg) chia_bls \<Rightarrow> 'sk bls_keys \<Rightarrow> (u8 list \<Rightarrow> 32 bytes) \<Rightarrow> bool" where
  "callback_signature_is_not_an_attach_signature L K sha256 =
     (let key = app_signer K;
          forged = challenge_message (conformance_nonce sha256) conformance_did in
      case sign_callback_message ''spend'' forged of
        None \<Rightarrow> False
      | Some m \<Rightarrow> \<not> verify_signature L (test_signer_public K key) forged (test_signer_sign K key m))"

definition user_sign_is_not_an_attach_or_callback_signature ::
  "('pk, 'sg) chia_bls \<Rightarrow> 'sk bls_keys \<Rightarrow> (u8 list \<Rightarrow> 32 bytes) \<Rightarrow> bool" where
  "user_sign_is_not_an_attach_or_callback_signature L K sha256 =
     (let key = app_signer K;
          forged_attach = challenge_message (conformance_nonce sha256) conformance_did;
          sig_a = test_signer_sign K key (user_sign_message forged_attach) in
      \<not> verify_signature L (test_signer_public K key) forged_attach sig_a
      \<and> (case sign_callback_message ''spend'' (str_bytes ''bundle'') of
           None \<Rightarrow> False
         | Some forged_cb \<Rightarrow>
             \<not> verify_signature L (test_signer_public K key) forged_cb
                 (test_signer_sign K key (user_sign_message forged_cb))))"

definition callback_message_never_starts_with_the_session_domain :: "(u8 list \<Rightarrow> 32 bytes) \<Rightarrow> bool" where
  "callback_message_never_starts_with_the_session_domain sha256 =
     (case sign_callback_message ''t'' (str_bytes ''p'') of
        None \<Rightarrow> False
      | Some cb \<Rightarrow>
          let us = user_sign_message (str_bytes ''m'');
              attach = challenge_message (conformance_nonce sha256) conformance_did in
          \<not> prefix SESSION_CHALLENGE_DOMAIN cb \<and> \<not> prefix SESSION_CHALLENGE_DOMAIN us
          \<and> \<not> prefix SIGN_CALLBACK_DOMAIN us
          \<and> \<not> prefix SIGN_CALLBACK_DOMAIN attach \<and> \<not> prefix USER_SIGN_DOMAIN attach)"

definition signature_length_is_the_contract_constant :: "'sk bls_keys \<Rightarrow> bool" where
  "signature_length_is_the_contract_constant K \<longleftrightarrow>
     length (array_bytes (sig_as_bytes (test_signer_sign K (app_signer K) (str_bytes ''anything'')))) = SIGNATURE_LEN"

section \<open>What they rely on\<close>

text \<open>
  The digest of the nonce's seed is the constant the suite pins, and a signature of one of the suite's
  messages does not verify over another.
\<close>

definition suite_messages :: "(u8 list \<Rightarrow> 32 bytes) \<Rightarrow> u8 list list" where
  "suite_messages sha256 =
     (let challenge = challenge_message (conformance_nonce sha256) conformance_did;
          callback = callback_bytes (''spend'', str_bytes ''bundle'') in
      [challenge, callback, callback_bytes (''spend'', challenge), user_sign_message challenge,
       user_sign_message callback])"

definition conformance_contract ::
  "hex_crate \<Rightarrow> (u8 list \<Rightarrow> 32 bytes) \<Rightarrow> ('pk, 'sg) chia_bls \<Rightarrow> 'sk bls_keys \<Rightarrow> bool" where
  "conformance_contract H sha256 L K \<longleftrightarrow>
     (\<forall>bs. hex_encode H bs = lower_hex bs)
     \<and> lower_hex (conformance_nonce sha256) = NONCE_HEX
     \<and> (\<forall>m \<in> set (suite_messages sha256). \<forall>m' \<in> set (suite_messages sha256). m \<noteq> m' \<longrightarrow>
          \<not> verify_signature L (test_signer_public K (app_signer K)) m' (test_signer_sign K (app_signer K) m))"

section \<open>Property\<close>

lemma golden_tags:
  "lower_hex SESSION_CHALLENGE_DOMAIN = SESSION_DOMAIN_HEX" "lower_hex SIGN_CALLBACK_DOMAIN = SIGN_DOMAIN_HEX"
  "lower_hex USER_SIGN_DOMAIN = USER_DOMAIN_HEX"
  by (simp_all add: domain_tags str_bytes_def byte_of_char_def nibble_def)

lemma golden_strings:
  "lower_hex (str_bytes conformance_did) = ''6469643a636869613a636f6e666f726d616e6365''"
  "lower_hex (callback_bytes (''spend'', str_bytes ''bundle-bytes''))
     = SIGN_DOMAIN_HEX @ ''00057370656e6462756e646c652d6279746573''"
  "lower_hex (user_sign_message (str_bytes ''attest this'')) = USER_DOMAIN_HEX @ ''6174746573742074686973''"
  by (simp_all add: callback_bytes_def user_sign_message_def golden_tags u16_to_be_bytes_def str_bytes_def
      byte_of_char_def nibble_def)

text \<open>
  C38. The model reproduces the golden vectors of the conformance suite, byte for byte in hex, and
  defeats the three oracle attacks it tries.
\<close>

theorem conformance_suite_passes:
  assumes "conformance_contract H sha256 L K"
  shows "domain_tags_match_the_golden_hex H sha256 \<and> challenge_message_golden_vector H sha256
    \<and> sign_callback_message_golden_vector H \<and> user_sign_message_golden_vector H
    \<and> callback_signature_is_not_an_attach_signature L K sha256
    \<and> user_sign_is_not_an_attach_or_callback_signature L K sha256
    \<and> callback_message_never_starts_with_the_session_domain sha256
    \<and> signature_length_is_the_contract_constant K"
proof -
  have hex: "\<forall>bs. hex_encode H bs = lower_hex bs"
    and nonce: "lower_hex (conformance_nonce sha256) = NONCE_HEX"
    and apart: "\<forall>m \<in> set (suite_messages sha256). \<forall>m' \<in> set (suite_messages sha256). m \<noteq> m' \<longrightarrow>
          \<not> verify_signature L (test_signer_public K (app_signer K)) m' (test_signer_sign K (app_signer K) m)"
    using assms by (simp_all add: conformance_contract_def)
  have callback: "sign_callback_message ''spend'' p = Some (callback_bytes (''spend'', p))"
    "sign_callback_message ''t'' p = Some (callback_bytes (''t'', p))" for p
    by (simp_all add: sign_callback_message_bytes)
  have vectors: "domain_tags_match_the_golden_hex H sha256" "challenge_message_golden_vector H sha256"
    "sign_callback_message_golden_vector H" "user_sign_message_golden_vector H"
    by (simp_all add: domain_tags_match_the_golden_hex_def challenge_message_golden_vector_def
        sign_callback_message_golden_vector_def user_sign_message_golden_vector_def hex nonce golden_tags
        golden_strings callback challenge_message_def)
  let ?c = "challenge_message (conformance_nonce sha256) conformance_did"
  let ?cb = "callback_bytes (''spend'', str_bytes ''bundle'')"
  have separated: "?c \<noteq> callback_bytes x" "?c \<noteq> user_sign_message m" "callback_bytes x \<noteq> user_sign_message m" for x m
    using attach_callback.separated [of "(conformance_nonce sha256, conformance_did)" x]
      attach_user.separated [of "(conformance_nonce sha256, conformance_did)" m] callback_user.separated [of x m]
    by simp_all
  have mem: "?c \<in> set (suite_messages sha256)" "callback_bytes (''spend'', ?c) \<in> set (suite_messages sha256)"
    "?cb \<in> set (suite_messages sha256)" "user_sign_message ?c \<in> set (suite_messages sha256)"
    "user_sign_message ?cb \<in> set (suite_messages sha256)"
    unfolding suite_messages_def Let_def by simp_all
  have negatives: "callback_signature_is_not_an_attach_signature L K sha256"
    "user_sign_is_not_an_attach_or_callback_signature L K sha256"
    unfolding callback_signature_is_not_an_attach_signature_def callback Let_def option.case
      user_sign_is_not_an_attach_or_callback_signature_def
    using apart [rule_format, OF mem(2,1) separated(1) [symmetric]]
      apart [rule_format, OF mem(4,1) separated(2) [symmetric]]
      apart [rule_format, OF mem(5,3) separated(3) [symmetric]]
    by blast+
  have "callback_message_never_starts_with_the_session_domain sha256"
    using attach_callback.not_tagged_as_other attach_user.not_tagged_as_other callback_user.not_tagged_as_other
    by (auto simp: callback_message_never_starts_with_the_session_domain_def callback Let_def)
  with vectors negatives show ?thesis
    by (simp add: signature_length_is_the_contract_constant_def SIGNATURE_LEN_def)
qed

text \<open>Parameters that meet the contract.\<close>

definition lower_hex_crate :: hex_crate where
  "lower_hex_crate = \<lparr>hex_encode = lower_hex, hex_decode = (\<lambda>_. None)\<rparr>"

definition pinned_digest :: "u8 list \<Rightarrow> 32 bytes" where
  "pinned_digest _ = Array
     [0x5d, 0xe2, 0x6a, 0x79, 0x11, 0x31, 0x5e, 0xb9, 0xc0, 0x36, 0xbe, 0xa7, 0xfb, 0x8b, 0xc1, 0x4d,
      0x31, 0xa7, 0xf6, 0xe3, 0x28, 0x57, 0xad, 0xf4, 0x11, 0xec, 0xe9, 0x51, 0x71, 0xf9, 0x87, 0x36]"

theorem conformance_suite_passes_witness:
  "challenge_message_golden_vector lower_hex_crate pinned_digest
   \<and> callback_signature_is_not_an_attach_signature length_bls length_keys pinned_digest"
proof -
  have "lower_hex (conformance_nonce pinned_digest) = NONCE_HEX"
    by (simp add: conformance_nonce_def pinned_digest_def array_bytes_Array nibble_def)
  moreover have "length (conformance_nonce pinned_digest) = 32"
    by (simp add: conformance_nonce_def)
  ultimately have "conformance_contract lower_hex_crate pinned_digest length_bls length_keys"
    by (auto simp: conformance_contract_def lower_hex_crate_def suite_messages_def Let_def length_keys_verify
        challenge_message_def callback_bytes_def user_sign_message_def domain_tags)
  from conformance_suite_passes [OF this] show ?thesis by simp
qed

end
