(* ===== verification/BLS_Vectors.thy ===== *)
theory BLS_Vectors
  imports Conformance
begin

text \<open>
  The vectors of \<open>tests/bls_vectors.rs\<close>: signatures over the message of each builder, pinned across
  versions of the BLS library.  The library is a parameter, so the tests are predicates of it; what is
  proved is which bytes they pin the signatures of.
\<close>

section \<open>Fixtures\<close>

definition kat_signing_key :: "'sk bls_keys \<Rightarrow> (u8 list \<Rightarrow> 32 bytes) \<Rightarrow> 'sk" where
  "kat_signing_key K sha256 = secret_from_seed K (sha256 (str_bytes ''dig-ipc-protocol bls vector key v1''))"

definition kat_nonce :: "(u8 list \<Rightarrow> 32 bytes) \<Rightarrow> u8 list" where
  "kat_nonce sha256 = array_bytes (sha256 (str_bytes ''dig-ipc-protocol conformance nonce vector v1''))"

definition KAT_DID :: string where
  "KAT_DID = ''did:chia:conformance''"

definition PUBKEY_HEX :: string where
  "PUBKEY_HEX =
     ''80d950bbdd153fe665fb11d29696b0ed44501bd2d77c83ac342a68d97f81f7a1efd7a9123e3c5ef5cc48f3edfcce864b''"

definition CHALLENGE_SIG_HEX :: string where
  "CHALLENGE_SIG_HEX =
     ''9563571105f7de288e0c5878434250dc30625fe5eba0c581483beafb46986dec97d99a0a71920dc5588894834cc5e20716701cc3c4764cbad06f11ef3dab62e7dfb909caab95f0ff1f519584f5790d0439cc95d77a798afd4c92f68b32536c88''"

definition CALLBACK_SIG_HEX :: string where
  "CALLBACK_SIG_HEX =
     ''91aecb0e6823b8ff48d6d19d79e09d7e20fae3ef221f8846bbace5dfbbc8a54d31f507c2de89193937697a523297209e08e60490b505a305cd931bc55f046e1550b80529defeaa643b7386609fb12e075cae5d168930a3ecdf4d559532db97e1''"

definition USER_SIG_HEX :: string where
  "USER_SIG_HEX =
     ''858c6ff11517cefa07478a8c8aba0429d5b5762f8113bf4949b0a20100578a7da9f10111df29eafcdb970cd90f058f7f0052810b71cea52274e68a5775edffdb4b970ab1e330e88c3f75b830d489278d8c400031cd25ce2bb6c11f51cd95699b''"

section \<open>The tests\<close>

definition kat_public_key_is_stable :: "hex_crate \<Rightarrow> (u8 list \<Rightarrow> 32 bytes) \<Rightarrow> 'sk bls_keys \<Rightarrow> bool" where
  "kat_public_key_is_stable H sha256 K \<longleftrightarrow>
     hex_encode H (array_bytes (public_key_bytes K (kat_signing_key K sha256))) = PUBKEY_HEX"

definition augscheme_signatures_match_the_golden_vectors ::
  "hex_crate \<Rightarrow> (u8 list \<Rightarrow> 32 bytes) \<Rightarrow> ('pk, 'sg) chia_bls \<Rightarrow> 'sk bls_keys \<Rightarrow> bool" where
  "augscheme_signatures_match_the_golden_vectors H sha256 L K =
     (let sk = kat_signing_key K sha256;
          pk = SigningPublicKey (public_key_bytes K sk) in
      case sign_callback_message ''spend'' (str_bytes ''bundle-bytes'') of
        None \<Rightarrow> False
      | Some callback \<Rightarrow>
          let cases = [(challenge_message (kat_nonce sha256) KAT_DID, CHALLENGE_SIG_HEX),
                       (callback, CALLBACK_SIG_HEX),
                       (user_sign_message (str_bytes ''attest this''), USER_SIG_HEX)] in
          list_all (\<lambda>(message, expected_hex).
            let signature = sign_bytes K sk message in
            hex_encode H (array_bytes signature) = expected_hex
            \<and> verify_signature L pk message (Signature signature)) cases)"

definition signature_does_not_verify_against_a_different_builders_message ::
  "(u8 list \<Rightarrow> 32 bytes) \<Rightarrow> ('pk, 'sg) chia_bls \<Rightarrow> 'sk bls_keys \<Rightarrow> bool" where
  "signature_does_not_verify_against_a_different_builders_message sha256 L K =
     (let sk = kat_signing_key K sha256;
          pk = SigningPublicKey (public_key_bytes K sk);
          challenge = challenge_message (kat_nonce sha256) KAT_DID;
          user = user_sign_message (str_bytes ''attest this'');
          over_challenge = Signature (sign_bytes K sk challenge) in
      verify_signature L pk challenge over_challenge \<and> \<not> verify_signature L pk user over_challenge)"

section \<open>What they pin\<close>

text \<open>
  The bytes the library signs in the vector test, written out: the three messages of the builders for
  the nonce whose digest the conformance suite pins.  A builder that changes its layout moves a vector.
\<close>

definition golden_cases :: "(string \<times> string) list" where
  "golden_cases =
     [(SESSION_DOMAIN_HEX @ NONCE_HEX @ ''6469643a636869613a636f6e666f726d616e6365'', CHALLENGE_SIG_HEX),
      (SIGN_DOMAIN_HEX @ ''00057370656e6462756e646c652d6279746573'', CALLBACK_SIG_HEX),
      (USER_DOMAIN_HEX @ ''6174746573742074686973'', USER_SIG_HEX)]"

lemma kat_callback:
  "sign_callback_message ''spend'' (str_bytes ''bundle-bytes'')
     = Some (callback_bytes (''spend'', str_bytes ''bundle-bytes''))"
  by (simp add: sign_callback_message_bytes)

lemma golden_messages:
  assumes "lower_hex (kat_nonce sha256) = NONCE_HEX"
  shows "map (unhex \<circ> fst) golden_cases =
    [challenge_message (kat_nonce sha256) KAT_DID, callback_bytes (''spend'', str_bytes ''bundle-bytes''),
     user_sign_message (str_bytes ''attest this'')]"
proof -
  have "map fst golden_cases = map lower_hex
    [challenge_message (kat_nonce sha256) KAT_DID, callback_bytes (''spend'', str_bytes ''bundle-bytes''),
     user_sign_message (str_bytes ''attest this'')]"
    using assms by (simp add: golden_cases_def challenge_message_def KAT_DID_def golden_tags golden_strings)
  then have "map unhex (map fst golden_cases) = map unhex (map lower_hex
    [challenge_message (kat_nonce sha256) KAT_DID, callback_bytes (''spend'', str_bytes ''bundle-bytes''),
     user_sign_message (str_bytes ''attest this'')])"
    by (rule arg_cong)
  then show ?thesis by (simp only: map_map comp_def unhex_lower_hex list.map)
qed

lemma list_all_unhex:
  "list_all (\<lambda>(h, e). P (unhex h) e) xs = list_all (\<lambda>(m, e). P m e) (zip (map (unhex \<circ> fst) xs) (map snd xs))"
  by (induction xs) auto

lemma vectors_pin_signatures_of_golden_bytes:
  assumes "lower_hex (kat_nonce sha256) = NONCE_HEX"
  shows "augscheme_signatures_match_the_golden_vectors H sha256 L K \<longleftrightarrow>
    list_all (\<lambda>(message_hex, expected_hex).
      let sk = kat_signing_key K sha256; signature = sign_bytes K sk (unhex message_hex) in
      hex_encode H (array_bytes signature) = expected_hex
      \<and> verify_signature L (SigningPublicKey (public_key_bytes K sk)) (unhex message_hex) (Signature signature))
    golden_cases"
proof -
  let ?P = "\<lambda>m e. let sk = kat_signing_key K sha256; signature = sign_bytes K sk m in
    hex_encode H (array_bytes signature) = e
    \<and> verify_signature L (SigningPublicKey (public_key_bytes K sk)) m (Signature signature)"
  have "map snd golden_cases = [CHALLENGE_SIG_HEX, CALLBACK_SIG_HEX, USER_SIG_HEX]"
    by (simp add: golden_cases_def)
  then have "list_all (\<lambda>(h, e). ?P (unhex h) e) golden_cases \<longleftrightarrow>
      augscheme_signatures_match_the_golden_vectors H sha256 L K"
    unfolding list_all_unhex [of ?P] golden_messages [OF assms]
    by (simp add: augscheme_signatures_match_the_golden_vectors_def kat_callback Let_def)
  then show ?thesis by simp
qed

end
