(* ===== verification/Spec2Isabelle.thy ===== *)
theory Spec2Isabelle
  imports Prelude Bounds Domain Hex_Codec Wire Wire_Json Signer Transport Test_Support
    Engine Engine_Samples Engine_Trace Engine_Queue Engine_Spec Engine_Errors
    Engine_Sessions Engine_Fresh
    Samples Client Client_Callbacks Client_Invariants Client_Custody Client_Simulation
    Client_Protocol Client_Liveness Client_Json Client_Registry Client_Panics Handshake Connected Lifecycle Agreement
    Engine_Tests Unit_Tests Client_Tests Conformance BLS_Vectors
begin

text \<open>
  \<^bold>\<open>The program.\<close>  The crate \<open>dig-ipc-protocol\<close> is the IPC contract between a DIG app, which
  holds the identity key of a profile, and a DIG engine, which works for it.  The app attaches a
  profile by a handshake: \<open>begin\<close> names a DID and the key the app will sign with and is answered with
  a nonce and a candidate token; \<open>attach\<close> echoes the candidate with a signature over the nonce and
  the DID, and is answered with a session.  While it waits for a response the app serves the engine's
  \<open>sign\<close> callbacks, each subject to a policy.  \<open>detach\<close> ends a session.  The key never leaves the
  app, and every message it signs starts with the tag of its purpose.

  \<^bold>\<open>Theories and sources.\<close>  Sources are under \<open>src/src\<close>.
  \<^item> \<open>Prelude\<close>: bytes and strings, fixed-size arrays, results with panics, Rust's hash maps and
    double-ended queues, and the locales \<open>keyed_store\<close>, \<open>trace_invariant\<close> and
    \<open>forward_simulation\<close> the components instantiate.
  \<^item> \<open>Bounds\<close> (\<open>bounds.rs\<close>): the limits.  \<open>Domain\<close> (\<open>domain.rs\<close>): the three message builders,
    keys, signatures and \<open>verify_signature\<close>; the locales \<open>purpose\<close> and \<open>separated_purposes\<close> state what
    a purpose promises and are interpreted on the builders.  \<open>Wire\<close> (\<open>wire.rs\<close>): methods, the shapes of
    the frames, and the error taxonomy; \<open>Wire_Json\<close>: the JSON values its \<open>derive\<close> attributes give the
    shapes.  \<open>Hex_Codec\<close>: a codec with the behaviour the \<open>hex\<close> crate documents.
  \<^item> \<open>Signer\<close> (\<open>signer.rs\<close>): the seams \<open>SessionSigner\<close>, \<open>SignPolicy\<close> and
    \<open>DidSigningKeyResolver\<close> as operations on the implementor's state, and the shipped policies.
    \<open>Transport\<close> (\<open>transport.rs\<close>): \<open>LineTransport\<close> over a buffered reader, \<open>OsEntropy\<close>.
    \<open>Test_Support\<close> (\<open>test_support.rs\<close>): the deterministic seams.
  \<^item> \<open>Engine\<close> (\<open>engine.rs\<close>): \<open>EngineSessionRegistry\<close> as the record \<open>engine\<close>, with
    \<open>engine_begin\<close>, \<open>engine_attach\<close>, \<open>engine_detach\<close> for the requests and \<open>take_candidate\<close>,
    \<open>evict_if_full\<close>, \<open>decode_signature\<close> for their helpers.  \<open>Engine_Trace\<close> makes the requests a step
    relation in which the entropy source and the resolver may change between requests;
    \<open>Engine_Queue\<close>, \<open>Engine_Spec\<close> and \<open>Engine_Errors\<close> hold the order queue, the abstract
    specification (with the directory of published keys) and its refinement, and the classification of refusals; \<open>Engine_Sessions\<close> the
    session table as its history, and \<open>Engine_Fresh\<close> a nonce source whose tokens do not repeat.
  \<^item> \<open>Client\<close> (\<open>client.rs\<close>): \<open>SessionClient\<close> as the record \<open>client\<close>, with one function per method
    (\<open>client_call\<close>, \<open>read_response\<close>, \<open>service_sign_callback\<close>, \<open>send_result\<close>, \<open>send_error\<close>,
    \<open>begin_and_attach\<close>, \<open>client_detach\<close>, \<open>reattach\<close>, \<open>handle_next_sign_callback\<close>), and the
    \<open>SessionRegistry\<close>.  \<open>Client_Callbacks\<close>, \<open>Client_Invariants\<close>, \<open>Client_Custody\<close>,
    \<open>Client_Simulation\<close>, \<open>Client_Protocol\<close>, \<open>Client_Liveness\<close>, \<open>Client_Registry\<close> and
    \<open>Client_Panics\<close> hold its lemmas and properties; \<open>Client_Json\<close> shows that the shapes of
    \<open>Wire_Json\<close> meet what they assume of the JSON library.
  \<^item> \<open>Handshake\<close>, \<open>Connected\<close>, \<open>Lifecycle\<close> and \<open>Agreement\<close> put both halves together: what the
    client sends is accepted by the engine, a session lives from its handshake to its detach, and what
    the engine accepts was sent by the client, once.
  \<^item> \<open>Engine_Tests\<close>, \<open>Client_Tests\<close> and \<open>Unit_Tests\<close>: the unit tests of \<open>engine.rs\<close>, of
    \<open>client.rs\<close>, and of \<open>domain.rs\<close>, \<open>wire.rs\<close>, \<open>signer.rs\<close> and \<open>transport.rs\<close>, run on the model.
    \<open>Conformance\<close>: the golden vectors of \<open>tests/conformance.rs\<close>.  \<open>BLS_Vectors\<close>: the signature
    vectors of \<open>tests/bls_vectors.rs\<close> as predicates of the BLS library.
  \<^item> \<open>Engine_Samples\<close> and \<open>Samples\<close>: concrete codecs, keys, frames and states, at which the theorems
    are applied.

  \<^bold>\<open>How the model corresponds.\<close>  A method on \<open>&mut self\<close> is a function from the state to a result and
  the state after it; a method on \<open>&self\<close> of a seam also returns the implementor's state, since the
  implementor may use interior mutability.  \<open>Err\<close> is \<open>Inl (Err e)\<close>, a panic is \<open>Inl Panic\<close>, and
  both keep the state reached.  Strings are lists of characters below 256, one per UTF-8 byte; bytes
  and the request counter are words of 8 and 64 bits, and the overflow of the counter depends on the
  build (\<open>debug_build\<close>).  A \<open>HashMap\<close> is a finite map, as its order is never observed.

  \<^bold>\<open>What the lemmas show.\<close>
  \<^item> Custody of the key: what the client signs, for whom and how often, in any execution; locked and
    denied requests; separation of the three purposes.
  \<^item> Agreement of the halves: if no signature the engine saw is a forgery, every attach it accepted was
    made by the app, for that DID and nonce, and it opens no more sessions than the app ran handshakes.
    The challenge names neither the engine nor the candidate, so nothing is said of who relayed it.
  \<^item> The handshake: what a session and an accepted attach stand for, that each candidate is accepted at
    most once, that a refusal is classified correctly, and, in the other direction, that an honest
    handshake is accepted, that the client succeeds against a peer that answers, and that its
    detach closes the session it opened and no other.
  \<^item> Resources: the pending table, the frames read for one request, the bytes read for one frame.
  \<^item> Transport: framing round trip and independence of how the stream is chunked; everything proved of
    the client over the scripted transport is carried to the line transport by a simulation.
  \<^item> Data: round trips of keys and callback messages, the error taxonomy, the session registry;
    the shapes of the wire are read back as they were written, each envelope as the frame it is; the
    repository's unit tests pass.

  \<^bold>\<open>Bounds and termination.\<close>  No function uses fuel.  \<open>read_response\<close> recurses with the number of
  callbacks served, which \<open>MAX_INTERLEAVED_CALLBACKS\<close> bounds; \<open>evict_loop\<close> on the queue, which
  each round shortens; \<open>read_until\<close> on the list of chunks the reader will deliver, and a chunk list
  that ends is the end of the stream.  The order queue of the engine is bounded by the pending table
  as long as the entropy source does not repeat a token; a repeated token is pushed again while its
  map entry is overwritten, so the properties of the queue assume \<open>distinct (issued es)\<close>, which
  \<open>Engine_Fresh\<close> proves for the counter-based source.

  \<^bold>\<open>Not modelled.\<close>  The text form of JSON (\<open>serde_json\<close>), \<open>base64\<close>, \<open>hex\<close>,
  \<open>chia-bls\<close>, \<open>getrandom\<close>, \<open>sha2\<close> and \<open>rand_chacha\<close> are not part of the repository: they are fields
  of the environments (\<open>client_env\<close>, \<open>engine_env\<close>, \<open>bls_keys\<close>, \<open>json_text\<close>), and what a property
  needs of them is a hypothesis in its statement (\<open>hex_round_trip\<close>, \<open>b64_round_trip\<close>, \<open>bls_correct\<close>,
  \<open>serialises_replies\<close>, \<open>reads_json_syntax\<close>).  The client takes any JSON library; the one its own shapes
  give is \<open>derived_json\<close>.  A text that repeats a member of an object is not told from one that does
  not.  The test of \<open>OsEntropy\<close> and \<open>tests/bls_vectors.rs\<close> are statements about \<open>getrandom\<close> and
  \<open>chia-bls\<close>: they are predicates of these, and no theorem says that a given version satisfies them.
  \<open>lib.rs\<close> only re-exports.  Concurrency does not arise: each half takes
  \<open>&mut self\<close>.
\<close>

end
